(* ===== verification/Prelude.thy ===== *)
theory Prelude
  imports Main "HOL-Library.AList" "HOL-Library.Char_ord" "HOL-Library.List_Lexorder"
begin

section \<open>Prelude: Go errors, results and maps\<close>

text \<open>
  What every component shares: Go error values, the result of a fallible function, Go
  maps with string keys, and the generic lemmas about them.

  An error is the call that built it: \<open>fmt.Errorf(f, a, ...)\<close> is \<open>Errorf f [a, ...]\<close>,
  with the format string of the source kept verbatim, so two errors are equal only if the
  source would print the same text from the same operands. \<open>errors.New(s)\<close> is
  \<open>Errorf s []\<close>. \<open>ErrNotExist\<close> is the sentinel \<open>os.ErrNotExist\<close>; \<open>ErrOS\<close> is an error the
  operating system or the runtime library returned, with its text.

  A Go map is an association list with distinct keys. Go iterates over a map in an
  unspecified order, which here is the order of the list: a result that must not depend on
  it is shown to be the same for every list that represents the same map.
\<close>

named_theorems go_inv \<open>preservation of the components' invariants\<close>
named_theorems go_get \<open>lookups in Go maps after an update\<close>

subsection \<open>Errors and results\<close>

datatype fmtarg = FStr string | FInt int | FErr goerr
and goerr = Errorf string "fmtarg list" | ErrNotExist | ErrOS string

type_synonym 'a res = "goerr + 'a"

abbreviation err_new :: "string \<Rightarrow> goerr" where
  "err_new s \<equiv> Errorf s []"

fun is_ok :: "'a res \<Rightarrow> bool" where
  "is_ok (Inl _) = False"
| "is_ok (Inr _) = True"

lemma is_ok_iff: "is_ok r \<longleftrightarrow> (\<exists>v. r = Inr v)"
  by (cases r) auto

lemma not_is_ok_iff: "\<not> is_ok r \<longleftrightarrow> (\<exists>e. r = Inl e)"
  by (cases r) auto

subsection \<open>Go maps with string keys\<close>

type_synonym 'v gomap = "(string \<times> 'v) list"

definition gm_get :: "'v gomap \<Rightarrow> string \<Rightarrow> 'v option" where
  "gm_get m k = map_of m k"

definition gm_put :: "string \<Rightarrow> 'v \<Rightarrow> 'v gomap \<Rightarrow> 'v gomap" where
  "gm_put k v m = AList.update k v m"

definition gm_del :: "string \<Rightarrow> 'v gomap \<Rightarrow> 'v gomap" where
  "gm_del k m = AList.delete k m"

definition gm_ok :: "'v gomap \<Rightarrow> bool" where
  "gm_ok m \<longleftrightarrow> distinct (map fst m)"

text \<open>The two-valued lookup \<open>_, ok := m[k]\<close>, and the test for a nil value.\<close>

definition gm_has :: "'v gomap \<Rightarrow> string \<Rightarrow> bool" where
  "gm_has m k = (case gm_get m k of None \<Rightarrow> False | Some _ \<Rightarrow> True)"

fun is_nil :: "'a option \<Rightarrow> bool" where
  "is_nil None = True"
| "is_nil (Some _) = False"

text \<open>The map a JSON object or a list of assignments builds: the last entry of a key wins.\<close>

definition gm_of :: "(string \<times> 'v) list \<Rightarrow> 'v gomap" where
  "gm_of kvs = fold (\<lambda>(k, v). gm_put k v) kvs []"

text \<open>The entries of a map in increasing order of their keys.\<close>

definition gm_sorted :: "'v gomap \<Rightarrow> (string \<times> 'v) list" where
  "gm_sorted m = sort_key fst m"

lemma gm_ok_Nil [simp, go_inv]: "gm_ok []"
  by (simp add: gm_ok_def)

lemma gm_ok_put [simp, go_inv]: "gm_ok m \<Longrightarrow> gm_ok (gm_put k v m)"
  by (simp add: gm_ok_def gm_put_def distinct_update)

lemma gm_ok_del [simp, go_inv]: "gm_ok m \<Longrightarrow> gm_ok (gm_del k m)"
  by (simp add: gm_ok_def gm_del_def AList.distinct_delete)

lemma gm_ok_filter [simp, go_inv]: "gm_ok m \<Longrightarrow> gm_ok (filter P m)"
  by (induction m) (auto simp: gm_ok_def)

lemma gm_has_iff [simp]: "gm_has m k \<longleftrightarrow> gm_get m k \<noteq> None"
  by (simp add: gm_has_def split: option.split)

lemma is_nil_iff [simp]: "is_nil x \<longleftrightarrow> x = None"
  by (cases x) auto

lemma gm_get_Nil [simp, go_get]: "gm_get [] k = None"
  by (simp add: gm_get_def)

lemma gm_get_put [simp, go_get]:
  "gm_get (gm_put k v m) k' = (if k' = k then Some v else gm_get m k')"
  by (simp add: gm_get_def gm_put_def update_conv' fun_upd_def)

lemma gm_get_del [simp, go_get]: "gm_get (gm_del k m) k' = (if k' = k then None else gm_get m k')"
  by (simp add: gm_get_def gm_del_def delete_conv' fun_upd_def)

lemma gm_get_mem: "gm_get m k = Some v \<Longrightarrow> (k, v) \<in> set m"
  by (simp add: gm_get_def map_of_SomeD)

lemma gm_mem_get: "gm_ok m \<Longrightarrow> (k, v) \<in> set m \<longleftrightarrow> gm_get m k = Some v"
  by (simp add: gm_get_def gm_ok_def)

lemma gm_get_None: "gm_get m k = None \<longleftrightarrow> k \<notin> fst ` set m"
  by (simp add: gm_get_def map_of_eq_None_iff)

lemma gm_get_filter [go_get]:
  assumes "gm_ok m"
  shows "gm_get (filter (\<lambda>(k, v). P k v) m) k =
    (case gm_get m k of None \<Rightarrow> None | Some v \<Rightarrow> if P k v then Some v else None)"
  using assms
proof (induction m)
  case Nil
  then show ?case by simp
next
  case (Cons kv m)
  then show ?case
    by (cases kv) (auto simp: gm_get_def gm_ok_def split: option.splits dest: map_of_SomeD
        intro: rev_image_eqI)
qed

lemma gm_ok_fold_put: "gm_ok m \<Longrightarrow> gm_ok (fold (\<lambda>(k, v). gm_put k v) kvs m)"
  by (induction kvs arbitrary: m) auto

lemma gm_ok_of [simp, go_inv]: "gm_ok (gm_of kvs)"
  by (simp add: gm_of_def gm_ok_fold_put)

lemma map_of_rev_gm: "gm_ok m \<Longrightarrow> map_of (rev m) k = gm_get m k"
proof -
  assume "gm_ok m"
  then have "map_of (rev m) = map_of m"
    by (subst map_of_inject_set) (simp_all add: gm_ok_def rev_map [symmetric])
  then show ?thesis by (simp add: gm_get_def)
qed

lemma gm_get_fold_put:
  "gm_get (fold (\<lambda>(k, v). gm_put k v) kvs m) k =
    (case map_of (rev kvs) k of None \<Rightarrow> gm_get m k | Some v \<Rightarrow> Some v)"
  by (induction kvs arbitrary: m) (auto simp: map_add_def split: option.splits)

lemma gm_get_of [go_get]: "gm_get (gm_of kvs) k = map_of (rev kvs) k"
  by (simp add: gm_of_def gm_get_fold_put split: option.splits)

lemma gm_of_Nil [simp]: "gm_of [] = []"
  by (simp add: gm_of_def)

lemma gm_sorted_keys: "sorted (map fst (gm_sorted m))"
  by (simp add: gm_sorted_def)

lemma gm_sorted_set [simp]: "set (gm_sorted m) = set m"
  by (simp add: gm_sorted_def)

lemma gm_ok_sorted [simp, go_inv]: "gm_ok m \<Longrightarrow> gm_ok (gm_sorted m)"
  by (simp add: gm_ok_def gm_sorted_def distinct_map)

lemma gm_get_sorted [simp, go_get]: "gm_ok m \<Longrightarrow> gm_get (gm_sorted m) k = gm_get m k"
  using gm_mem_get [of m k] gm_mem_get [of "gm_sorted m" k]
  by (cases "gm_get m k"; cases "gm_get (gm_sorted m) k") auto

text \<open>Two lists that represent the same map list the same entries in the same order.\<close>

lemma gm_sorted_unique:
  assumes "gm_ok m" and "gm_ok m'" and "\<And>k. gm_get m k = gm_get m' k"
  shows "gm_sorted m = gm_sorted m'"
proof -
  have "set m = set m'"
    using gm_mem_get [OF assms(1)] gm_mem_get [OF assms(2)] assms(3) by auto
  then have same: "set (gm_sorted m) = set (gm_sorted m')" by simp
  have dist: "distinct (map fst (gm_sorted m))" "distinct (map fst (gm_sorted m'))"
    using assms(1,2) gm_ok_sorted by (simp_all add: gm_ok_def)
  have inj: "inj_on fst (set (gm_sorted m) \<union> set (gm_sorted m'))"
    using dist(1) same by (simp add: distinct_map)
  show ?thesis
    using map_sorted_distinct_set_unique [OF inj gm_sorted_keys dist(1) gm_sorted_keys dist(2) same] .
qed

lemma gm_sorted_strict: "gm_ok m \<Longrightarrow> sorted_wrt (<) (map fst (gm_sorted m))"
  using gm_ok_sorted [of m] gm_sorted_keys [of m] by (simp add: gm_ok_def strict_sorted_iff)

subsection \<open>The map interface the components rely on\<close>

text \<open>
  A component that keeps a table reads it with \<open>get\<close>, stores with \<open>put\<close>, removes with
  \<open>del\<close>, and promises its own property \<open>good\<close> of every entry. The lemmas below say that
  these operations keep such a property; they are proved from the laws of the operations
  alone.
\<close>

locale table =
  fixes get :: "'m \<Rightarrow> 'k \<Rightarrow> 'v option"
    and put :: "'k \<Rightarrow> 'v \<Rightarrow> 'm \<Rightarrow> 'm"
    and del :: "'k \<Rightarrow> 'm \<Rightarrow> 'm"
    and inv :: "'m \<Rightarrow> bool"
  assumes get_put: "inv m \<Longrightarrow> get (put k v m) k' = (if k' = k then Some v else get m k')"
    and get_del: "inv m \<Longrightarrow> get (del k m) k' = (if k' = k then None else get m k')"
    and inv_put: "inv m \<Longrightarrow> inv (put k v m)"
    and inv_del: "inv m \<Longrightarrow> inv (del k m)"
begin

lemma all_put:
  assumes "inv m" and "\<And>k v. get m k = Some v \<Longrightarrow> good k v" and "good k0 v0"
    and "get (put k0 v0 m) k = Some v"
  shows "good k v"
  using assms by (auto simp: get_put split: if_splits)

lemma all_del:
  assumes "inv m" and "\<And>k v. get m k = Some v \<Longrightarrow> good k v" and "get (del k0 m) k = Some v"
  shows "good k v"
  using assms by (auto simp: get_del split: if_splits)

lemma put_absorb: "inv m \<Longrightarrow> get (put k v (put k u m)) = get (put k v m)"
  by (rule ext) (simp add: get_put inv_put)

lemma put_comm: "inv m \<Longrightarrow> k \<noteq> k' \<Longrightarrow> get (put k v (put k' u m)) = get (put k' u (put k v m))"
  by (rule ext) (simp add: get_put inv_put)

lemma del_put: "inv m \<Longrightarrow> get m k = None \<Longrightarrow> get (del k (put k v m)) = get m"
  by (rule ext) (auto simp: get_put get_del inv_put)

end

interpretation gm: table gm_get gm_put gm_del gm_ok
  by unfold_locales simp_all

text \<open>Every entry of a Go map has a property: the form in which component invariants use it.\<close>

definition gm_all :: "(string \<Rightarrow> 'v \<Rightarrow> bool) \<Rightarrow> 'v gomap \<Rightarrow> bool" where
  "gm_all P m \<longleftrightarrow> gm_ok m \<and> (\<forall>(k, v) \<in> set m. P k v)"

lemma gm_all_get: "gm_all P m \<longleftrightarrow> gm_ok m \<and> (\<forall>k v. gm_get m k = Some v \<longrightarrow> P k v)"
  by (auto simp: gm_all_def gm_mem_get)

lemma gm_all_Nil [simp, go_inv]: "gm_all P []"
  by (simp add: gm_all_def)

lemma gm_all_put [go_inv]: "gm_all P m \<Longrightarrow> P k v \<Longrightarrow> gm_all P (gm_put k v m)"
  unfolding gm_all_get using gm.all_put [of m P k v] by auto

lemma gm_all_del [go_inv]: "gm_all P m \<Longrightarrow> gm_all P (gm_del k m)"
  unfolding gm_all_get using gm.all_del [of m P] by auto

lemma gm_all_filter [go_inv]: "gm_all P m \<Longrightarrow> gm_all P (filter Q m)"
  by (auto simp: gm_all_def)

lemma gm_allD: "gm_all P m \<Longrightarrow> gm_get m k = Some v \<Longrightarrow> P k v"
  by (simp add: gm_all_get)

lemma gm_all_mono: "gm_all P m \<Longrightarrow> (\<And>k v. P k v \<Longrightarrow> Q k v) \<Longrightarrow> gm_all Q m"
  by (auto simp: gm_all_def)

subsection \<open>Machine integers\<close>

text \<open>The value of a 64-bit signed Go integer after wrap-around.\<close>

definition wrap64 :: "int \<Rightarrow> int" where
  "wrap64 x = (x + 2 ^ 63) mod 2 ^ 64 - 2 ^ 63"

lemma wrap64_range: "- (2 ^ 63) \<le> wrap64 x" "wrap64 x < 2 ^ 63"
  by (simp_all add: wrap64_def)

lemma wrap64_id: "- (2 ^ 63) \<le> x \<Longrightarrow> x < 2 ^ 63 \<Longrightarrow> wrap64 x = x"
  by (simp add: wrap64_def)

text \<open>Durations are in nanoseconds.\<close>

definition hour :: int where
  "hour = 3600000000000"

subsection \<open>Grouping a list that is sorted by a key\<close>

lemma concat_groups:
  assumes "sorted (map f xs)" and "sorted_wrt (<) ks" and "f ` set xs \<subseteq> set ks"
  shows "concat (map (\<lambda>k. filter (\<lambda>x. f x = k) xs) ks) = (xs :: 'a list)"
  using assms
proof (induction ks arbitrary: xs)
  case Nil
  then show ?case by simp
next
  case (Cons k ks)
  define ys where "ys = filter (\<lambda>x. f x = k) xs"
  define zs where "zs = filter (\<lambda>x. f x \<noteq> k) xs"
  have ge: "k \<le> f x" if "x \<in> set xs" for x
    using Cons.prems(2,3) that by force
  have split: "xs = ys @ zs"
    unfolding ys_def zs_def using Cons.prems(1) ge
  proof (induction xs)
    case (Cons x xs)
    show ?case
    proof (cases "f x = k")
      case False
      then have "k < f x" using Cons.prems(2) [of x] by simp
      then have "\<forall>y \<in> set xs. k < f y" using Cons.prems(1) by auto
      then have "filter (\<lambda>x. f x = k) xs = []" "filter (\<lambda>x. f x \<noteq> k) xs = xs"
        by (auto simp: filter_empty_conv filter_id_conv)
      with False show ?thesis by simp
    qed (use Cons in auto)
  qed simp
  have "concat (map (\<lambda>j. filter (\<lambda>x. f x = j) zs) ks) = zs"
  proof (rule Cons.IH)
    show "sorted (map f zs)"
      unfolding zs_def by (rule sorted_filter [OF Cons.prems(1)])
    show "sorted_wrt (<) ks" using Cons.prems(2) by simp
    show "f ` set zs \<subseteq> set ks" using Cons.prems(3) by (auto simp: zs_def)
  qed
  moreover have "filter (\<lambda>x. f x = j) zs = filter (\<lambda>x. f x = j) xs" if "j \<in> set ks" for j
  proof -
    have "j \<noteq> k" using Cons.prems(2) that by auto
    then show ?thesis by (auto simp: zs_def intro: filter_cong)
  qed
  ultimately have "concat (map (\<lambda>j. filter (\<lambda>x. f x = j) xs) ks) = zs"
    by (simp cong: map_cong)
  then have "concat (map (\<lambda>j. filter (\<lambda>x. f x = j) xs) (k # ks)) = ys @ zs"
    by (simp add: ys_def)
  then show ?case by (simp only: split [symmetric])
qed

subsection \<open>Adapters tried in turn\<close>

text \<open>
  Several tools have a list of adapters and take the first one that works, with what was said by the
  ones before it. \<open>tried attempt cs w\<close> is what a list that fails altogether leaves: the texts of the
  failures and the state. \<open>adapter_loop\<close> is such a loop: it answers with \<open>won\<close> at the first success and
  with \<open>lost\<close> at the end.
\<close>

fun tried :: "('c \<Rightarrow> 'w \<Rightarrow> (string + 'r) \<times> 'w) \<Rightarrow> 'c list \<Rightarrow> 'w \<Rightarrow> (string list \<times> 'w) option" where
  "tried attempt [] w = Some ([], w)"
| "tried attempt (c # cs) w =
     (case attempt c w of
        (Inl t, w1) \<Rightarrow> map_option (\<lambda>(ts, w2). (t # ts, w2)) (tried attempt cs w1)
      | (Inr r, w1) \<Rightarrow> None)"

locale adapter_loop =
  fixes attempt :: "'c \<Rightarrow> 'w \<Rightarrow> (string + 'r) \<times> 'w"
    and won :: "string list \<Rightarrow> 'r \<Rightarrow> 'o"
    and lost :: "string list \<Rightarrow> 'o"
    and loop :: "'c list \<Rightarrow> string list \<Rightarrow> 'w \<Rightarrow> 'o \<times> 'w"
  assumes loop_Nil: "loop [] ts w = (lost ts, w)"
    and loop_Cons: "loop (c # cs) ts w =
      (case attempt c w of (Inr r, w1) \<Rightarrow> (won ts r, w1) | (Inl t, w1) \<Rightarrow> loop cs (ts @ [t]) w1)"
begin

lemma loop_outcome:
  "(\<exists>pre c post ts' w1 r w2. cs = pre @ c # post \<and> tried attempt pre w = Some (ts', w1) \<and>
      attempt c w1 = (Inr r, w2) \<and> loop cs ts w = (won (ts @ ts') r, w2)) \<or>
   (\<exists>ts' w1. tried attempt cs w = Some (ts', w1) \<and> loop cs ts w = (lost (ts @ ts'), w1))"
proof (induction cs arbitrary: ts w)
  case Nil
  then show ?case by (simp add: loop_Nil)
next
  case (Cons c cs)
  obtain a w1 where a: "attempt c w = (a, w1)" by (cases "attempt c w")
  show ?case
  proof (cases a)
    case (Inr r)
    have "c # cs = [] @ c # cs" "tried attempt [] w = Some ([], w)" by simp_all
    moreover have "loop (c # cs) ts w = (won (ts @ []) r, w1)" by (simp add: loop_Cons a Inr)
    ultimately show ?thesis using a Inr by blast
  next
    case (Inl t)
    have step: "loop (c # cs) ts w = loop cs (ts @ [t]) w1" by (simp add: loop_Cons a Inl)
    have pre: "tried attempt (c # pre) w = map_option (\<lambda>(ts, w2). (t # ts, w2)) (tried attempt pre w1)" for pre
      by (simp add: a Inl)
    from Cons.IH [where ts = "ts @ [t]" and w = w1] show ?thesis
    proof (elim disjE exE conjE)
      fix p d q ts' w2 r w3
      assume "cs = p @ d # q" "tried attempt p w1 = Some (ts', w2)" "attempt d w2 = (Inr r, w3)"
        "loop cs (ts @ [t]) w1 = (won ((ts @ [t]) @ ts') r, w3)"
      then have "c # cs = (c # p) @ d # q" "tried attempt (c # p) w = Some (t # ts', w2)" "attempt d w2 = (Inr r, w3)"
        "loop (c # cs) ts w = (won (ts @ t # ts') r, w3)" by (simp_all add: loop_Cons a Inl)
      then show ?thesis by blast
    next
      fix ts' w2
      assume "tried attempt cs w1 = Some (ts', w2)" "loop cs (ts @ [t]) w1 = (lost ((ts @ [t]) @ ts'), w2)"
      then have "tried attempt (c # cs) w = Some (t # ts', w2)" "loop (c # cs) ts w = (lost (ts @ t # ts'), w2)"
        by (simp_all add: loop_Cons a Inl)
      then show ?thesis by blast
    qed
  qed
qed

lemma loop_won:
  assumes "tried attempt pre w = Some (ts', w1)" and "attempt c w1 = (Inr r, w2)"
  shows "loop (pre @ c # post) ts w = (won (ts @ ts') r, w2)"
  using assms
proof (induction pre arbitrary: ts w ts')
  case (Cons d pre)
  then show ?case by (auto simp: loop_Cons split: sum.splits prod.splits)
qed (simp add: loop_Cons)

end

end
