(* ===== verification/GoStrings.thy ===== *)
theory GoStrings
  imports Prelude
begin

section \<open>Go strings\<close>

text \<open>
  The functions of the packages \<open>strings\<close>, \<open>strconv\<close> and \<open>path\<close> the program calls, over
  byte strings: a Go string is a sequence of bytes and so is a value of type \<open>string\<close>.

  \<open>TrimSpace\<close> removes the UTF-8 encodings of Unicode white space. \<open>ToLower\<close>/\<open>ToUpper\<close> and the
  field-name folding of \<open>encoding/json\<close> map the ASCII letters and the four other characters
  whose case mapping is an ASCII letter (U+212A, U+0130, U+0131, U+017F); they leave every other
  byte alone. The program only compares their results with ASCII constants, and no other
  character maps to an ASCII one.
\<close>

subsection \<open>Prefixes, suffixes, substrings\<close>

fun has_prefix :: "string \<Rightarrow> string \<Rightarrow> bool" where
  "has_prefix s [] = True"
| "has_prefix [] (c # p) = False"
| "has_prefix (x # s) (c # p) = (x = c \<and> has_prefix s p)"

definition has_suffix :: "string \<Rightarrow> string \<Rightarrow> bool" where
  "has_suffix s p = has_prefix (rev s) (rev p)"

definition trim_prefix :: "string \<Rightarrow> string \<Rightarrow> string" where
  "trim_prefix s p = (if has_prefix s p then drop (length p) s else s)"

definition trim_suffix :: "string \<Rightarrow> string \<Rightarrow> string" where
  "trim_suffix s p = (if has_suffix s p then take (length s - length p) s else s)"

fun contains :: "string \<Rightarrow> string \<Rightarrow> bool" where
  "contains [] p = (p = [])"
| "contains (c # s) p = (has_prefix (c # s) p \<or> contains s p)"

text \<open>\<open>strings.ContainsAny\<close> for a set of ASCII characters.\<close>

definition contains_any :: "string \<Rightarrow> string \<Rightarrow> bool" where
  "contains_any s cs = list_ex (\<lambda>c. c \<in> set cs) s"

lemma has_prefix_iff: "has_prefix s p \<longleftrightarrow> (\<exists>t. s = p @ t)"
  by (induction s p rule: has_prefix.induct) auto

lemma has_prefix_append [simp]: "has_prefix (p @ t) p"
  by (auto simp: has_prefix_iff)

lemma has_prefix_refl [simp]: "has_prefix s s"
  using has_prefix_append [of s "[]"] by simp

lemma has_prefix_trans: "has_prefix s p \<Longrightarrow> has_prefix p q \<Longrightarrow> has_prefix s q"
  by (auto simp: has_prefix_iff)

lemma has_suffix_iff: "has_suffix s p \<longleftrightarrow> (\<exists>t. s = t @ p)"
  unfolding has_suffix_def has_prefix_iff by (metis rev_append rev_rev_ident)

lemma trim_prefix_append [simp]: "trim_prefix (p @ t) p = t"
  by (simp add: trim_prefix_def)

lemma contains_prefix: "has_prefix s p \<Longrightarrow> contains s p"
  by (cases s; cases p) auto

lemma contains_iff: "contains s p \<longleftrightarrow> (\<exists>a b. s = a @ p @ b)"
proof (induction s)
  case Nil
  then show ?case by auto
next
  case (Cons c s)
  show ?case
  proof
    assume "contains (c # s) p"
    then consider t where "c # s = p @ t" | a b where "s = a @ p @ b"
      using Cons by (auto simp: has_prefix_iff)
    then show "\<exists>a b. c # s = a @ p @ b"
      by cases (metis append_Nil, metis append_Cons)
  next
    assume "\<exists>a b. c # s = a @ p @ b"
    then obtain a b where ab: "c # s = a @ p @ b" by blast
    show "contains (c # s) p"
    proof (cases a)
      case Nil
      with ab have "has_prefix (c # s) p" by simp
      then show ?thesis by (rule contains_prefix)
    next
      case (Cons x a')
      with ab \<open>contains s p \<longleftrightarrow> (\<exists>a b. s = a @ p @ b)\<close> show ?thesis by auto
    qed
  qed
qed

lemma contains_any_iff: "contains_any s cs \<longleftrightarrow> (\<exists>c \<in> set s. c \<in> set cs)"
  by (simp add: contains_any_def list_ex_iff)

subsection \<open>White space\<close>

text \<open>The UTF-8 encodings of the characters for which \<open>unicode.IsSpace\<close> holds.\<close>

definition space_seqs :: "string list" where
  "space_seqs =
     map (\<lambda>c. [c]) [CHR '' '', CHR 0x09, CHR 0x0A, CHR 0x0B, CHR 0x0C, CHR 0x0D] @
     map (\<lambda>c. [CHR 0xC2, c]) [CHR 0x85, CHR 0xA0] @
     [CHR 0xE1, CHR 0x9A, CHR 0x80] #
     map (\<lambda>c. [CHR 0xE2, CHR 0x80, c])
       [CHR 0x80, CHR 0x81, CHR 0x82, CHR 0x83, CHR 0x84, CHR 0x85, CHR 0x86, CHR 0x87, CHR 0x88,
        CHR 0x89, CHR 0x8A, CHR 0xA8, CHR 0xA9, CHR 0xAF] @
     [[CHR 0xE2, CHR 0x81, CHR 0x9F], [CHR 0xE3, CHR 0x80, CHR 0x80]]"

text \<open>Removes leading elements of \<open>ws\<close>; every one of them is consumed by at least one byte.\<close>

function strip_seqs :: "string list \<Rightarrow> string \<Rightarrow> string" where
  "strip_seqs ws s =
     (case find (\<lambda>w. w \<noteq> [] \<and> has_prefix s w) ws of
        None \<Rightarrow> s
      | Some w \<Rightarrow> strip_seqs ws (drop (length w) s))"
  by pat_completeness auto
termination
proof (relation "measure (\<lambda>(ws, s). length s)", goal_cases)
  case 1
  show ?case by simp
next
  case (2 ws s w)
  then have "w \<noteq> []" "has_prefix s w"
    by (auto simp: find_Some_iff)
  then show ?case by (cases w; cases s) auto
qed

declare strip_seqs.simps [simp del]

definition trim_left :: "string \<Rightarrow> string" where
  "trim_left s = strip_seqs space_seqs s"

definition trim_right :: "string \<Rightarrow> string" where
  "trim_right s = rev (strip_seqs (map rev space_seqs) (rev s))"

definition trim_space :: "string \<Rightarrow> string" where
  "trim_space s = trim_right (trim_left s)"

lemma strip_seqs_none: "find (\<lambda>w. w \<noteq> [] \<and> has_prefix s w) ws = None \<Longrightarrow> strip_seqs ws s = s"
  by (subst strip_seqs.simps) simp

lemma strip_seqs_some:
  "find (\<lambda>w. w \<noteq> [] \<and> has_prefix s w) ws = Some w \<Longrightarrow>
   strip_seqs ws s = strip_seqs ws (drop (length w) s)"
  by (subst strip_seqs.simps) simp

lemma strip_seqs_Nil [simp]: "strip_seqs ws [] = []"
  by (rule strip_seqs_none) (auto simp: find_None_iff has_prefix_iff)

lemma strip_seqs_suffix: "\<exists>t. s = t @ strip_seqs ws s"
proof (induction ws s rule: strip_seqs.induct)
  case (1 ws s)
  show ?case
  proof (cases "find (\<lambda>w. w \<noteq> [] \<and> has_prefix s w) ws")
    case None
    then show ?thesis by (simp add: strip_seqs_none)
  next
    case (Some w)
    then have "has_prefix s w" by (auto simp: find_Some_iff)
    then obtain u where u: "s = w @ u" by (auto simp: has_prefix_iff)
    from "1.IH" [OF Some] obtain t where "drop (length w) s = t @ strip_seqs ws (drop (length w) s)"
      by blast
    then have "s = (w @ t) @ strip_seqs ws (drop (length w) s)"
      using u by simp
    then show ?thesis
      unfolding strip_seqs_some [OF Some] by blast
  qed
qed

lemma strip_seqs_stop: "w \<in> set ws \<Longrightarrow> w \<noteq> [] \<Longrightarrow> \<not> has_prefix (strip_seqs ws s) w"
proof (induction ws s rule: strip_seqs.induct)
  case (1 ws s)
  show ?case
  proof (cases "find (\<lambda>w. w \<noteq> [] \<and> has_prefix s w) ws")
    case None
    with "1.prems" show ?thesis by (auto simp: strip_seqs_none find_None_iff)
  next
    case (Some v)
    with 1 show ?thesis by (simp add: strip_seqs_some)
  qed
qed

text \<open>A string that starts and ends with visible ASCII characters is unchanged.\<close>

lemma strip_seqs_id:
  assumes "\<And>w. w \<in> set ws \<Longrightarrow> w \<noteq> [] \<Longrightarrow> \<not> has_prefix s w"
  shows "strip_seqs ws s = s"
  using assms by (intro strip_seqs_none) (auto simp: find_None_iff)

lemma trim_space_Nil [simp]: "trim_space [] = []"
  by (simp add: trim_space_def trim_left_def trim_right_def)

lemma trim_space_subset: "set (trim_space s) \<subseteq> set s"
proof -
  obtain a where "s = a @ trim_left s"
    using strip_seqs_suffix [of s space_seqs] by (auto simp: trim_left_def)
  then have l: "set (trim_left s) \<subseteq> set s" by (metis set_append sup_ge2)
  obtain b where "rev (trim_left s) = b @ strip_seqs (map rev space_seqs) (rev (trim_left s))"
    using strip_seqs_suffix by blast
  then have "set (strip_seqs (map rev space_seqs) (rev (trim_left s))) \<subseteq> set (trim_left s)"
    by (metis set_append set_rev sup_ge2)
  with l show ?thesis by (auto simp: trim_space_def trim_right_def)
qed

subsection \<open>Case mapping\<close>

text \<open>The comparison of a byte with the ends of a range.\<close>

definition between :: "char \<Rightarrow> char \<Rightarrow> char \<Rightarrow> bool" where
  "between lo hi c \<longleftrightarrow> lo \<le> c \<and> c \<le> hi"

definition lower_char :: "char \<Rightarrow> char" where
  "lower_char c = (if CHR ''A'' \<le> c \<and> c \<le> CHR ''Z'' then char_of (of_char c + (32 :: nat)) else c)"

definition upper_char :: "char \<Rightarrow> char" where
  "upper_char c = (if CHR ''a'' \<le> c \<and> c \<le> CHR ''z'' then char_of (of_char c - (32 :: nat)) else c)"

text \<open>Both on the bits of a character, for evaluation.\<close>

lemma lower_char_bits [code]:
  "lower_char (Char b0 b1 b2 b3 b4 b5 b6 b7) =
     Char b0 b1 b2 b3 b4
       (b5 \<or> \<not> b7 \<and> b6 \<and> (b0 \<or> b1 \<or> b2 \<or> b3 \<or> b4) \<and> \<not> (b4 \<and> b3 \<and> (b2 \<or> b1 \<and> b0))) b6 b7"
  by (cases b0; cases b1; cases b2; cases b3; cases b4; cases b5; cases b6; cases b7)
    (simp_all add: lower_char_def less_eq_char_def char_of_def bit_0)

lemma upper_char_bits [code]:
  "upper_char (Char b0 b1 b2 b3 b4 b5 b6 b7) =
     Char b0 b1 b2 b3 b4
       (b5 \<and> (b7 \<or> \<not> b6 \<or> \<not> (b0 \<or> b1 \<or> b2 \<or> b3 \<or> b4) \<or> b4 \<and> b3 \<and> (b2 \<or> b1 \<and> b0))) b6 b7"
  by (cases b0; cases b1; cases b2; cases b3; cases b4; cases b5; cases b6; cases b7)
    (simp_all add: upper_char_def less_eq_char_def char_of_def bit_0)

text \<open>U+212A (Kelvin sign) and U+0130 are the only non-ASCII characters with an ASCII lower case.\<close>

fun to_lower :: "string \<Rightarrow> string" where
  "to_lower (a # b # c # s) =
     (if a = CHR 0xE2 \<and> b = CHR 0x84 \<and> c = CHR 0xAA then CHR ''k'' # to_lower s
      else if a = CHR 0xC4 \<and> b = CHR 0xB0 then CHR ''i'' # to_lower (c # s)
      else lower_char a # to_lower (b # c # s))"
| "to_lower [a, b] =
     (if a = CHR 0xC4 \<and> b = CHR 0xB0 then [CHR ''i''] else [lower_char a, lower_char b])"
| "to_lower [a] = [lower_char a]"
| "to_lower [] = []"

text \<open>U+0131 and U+017F (long s) are the only non-ASCII characters with an ASCII upper case.\<close>

fun to_upper :: "string \<Rightarrow> string" where
  "to_upper (a # b # s) =
     (if a = CHR 0xC4 \<and> b = CHR 0xB1 then CHR ''I'' # to_upper s
      else if a = CHR 0xC5 \<and> b = CHR 0xBF then CHR ''S'' # to_upper s
      else upper_char a # to_upper (b # s))"
| "to_upper [a] = [upper_char a]"
| "to_upper [] = []"

text \<open>
  The folding of \<open>encoding/json\<close> (\<open>foldName\<close>): simple case folding, in which U+212A folds to
  \<open>K\<close> and U+017F to \<open>S\<close>.
\<close>

fun fold_name :: "string \<Rightarrow> string" where
  "fold_name (a # b # c # s) =
     (if a = CHR 0xE2 \<and> b = CHR 0x84 \<and> c = CHR 0xAA then CHR ''K'' # fold_name s
      else if a = CHR 0xC5 \<and> b = CHR 0xBF then CHR ''S'' # fold_name (c # s)
      else upper_char a # fold_name (b # c # s))"
| "fold_name [a, b] =
     (if a = CHR 0xC5 \<and> b = CHR 0xBF then [CHR ''S''] else [upper_char a, upper_char b])"
| "fold_name [a] = [upper_char a]"
| "fold_name [] = []"

subsection \<open>Splitting, joining, quoting\<close>

text \<open>\<open>strings.Split(s, sep)\<close> for a one-byte separator.\<close>

fun split_on :: "char \<Rightarrow> string \<Rightarrow> string list" where
  "split_on c [] = [[]]"
| "split_on c (x # s) =
     (if x = c then [] # split_on c s
      else (case split_on c s of [] \<Rightarrow> [[x]] | w # ws \<Rightarrow> (x # w) # ws))"

text \<open>\<open>strings.Join(xs, sep)\<close>.\<close>

fun join :: "string \<Rightarrow> string list \<Rightarrow> string" where
  "join sep [] = []"
| "join sep [x] = x"
| "join sep (x # y # ys) = x @ sep @ join sep (y # ys)"

text \<open>\<open>strings.ReplaceAll(s, c, r)\<close> for a one-byte \<open>c\<close>.\<close>

definition replace_char :: "char \<Rightarrow> string \<Rightarrow> string \<Rightarrow> string" where
  "replace_char c r s = concat (map (\<lambda>x. if x = c then r else [x]) s)"

text \<open>\<open>strings.IndexByte(s, c)\<close>: the first position, \<open>None\<close> for -1.\<close>

fun index_byte :: "string \<Rightarrow> char \<Rightarrow> nat option" where
  "index_byte [] c = None"
| "index_byte (x # s) c = (if x = c then Some 0 else map_option Suc (index_byte s c))"

lemma split_on_ne [simp]: "split_on c s \<noteq> []"
  by (induction s) (auto split: list.splits)

lemma split_on_no_sep: "w \<in> set (split_on c s) \<Longrightarrow> c \<notin> set w"
proof (induction s arbitrary: w)
  case Nil
  then show ?case by simp
next
  case (Cons x s)
  then show ?case by (cases "split_on c s") (auto split: if_splits)
qed

lemma join_split: "join [c] (split_on c s) = s"
proof (induction s)
  case Nil
  then show ?case by simp
next
  case (Cons x s)
  then show ?case
    by (cases "split_on c s"; cases "tl (split_on c s)") (auto dest: split_on_ne [THEN notE])
qed

lemma split_on_free: "c \<notin> set s \<Longrightarrow> split_on c s = [s]"
  by (induction s) auto

lemma index_byte_Some:
  "index_byte s c = Some i \<Longrightarrow> i < length s \<and> s ! i = c \<and> c \<notin> set (take i s)"
  by (induction s arbitrary: i) (auto split: if_splits)

lemma index_byte_None: "index_byte s c = None \<longleftrightarrow> c \<notin> set s"
  by (induction s) auto

lemma index_byte_append: "c \<notin> set k \<Longrightarrow> index_byte (k @ c # v) c = Some (length k)"
  by (induction k) auto

subsection \<open>Numbers as text\<close>

definition digit_char :: "nat \<Rightarrow> char" where
  "digit_char n = char_of (48 + n)"

fun itoa_nat :: "nat \<Rightarrow> string" where
  "itoa_nat n = (if n < 10 then [digit_char n] else itoa_nat (n div 10) @ [digit_char (n mod 10)])"

declare itoa_nat.simps [simp del]

text \<open>\<open>strconv.Itoa\<close>.\<close>

definition itoa :: "int \<Rightarrow> string" where
  "itoa i = (if i < 0 then CHR ''-'' # itoa_nat (nat (- i)) else itoa_nat (nat i))"

definition is_digit :: "char \<Rightarrow> bool" where
  "is_digit c \<longleftrightarrow> between (CHR ''0'') (CHR ''9'') c"

fun digits_val :: "nat \<Rightarrow> string \<Rightarrow> nat option" where
  "digits_val acc [] = Some acc"
| "digits_val acc (c # s) =
     (if is_digit c then digits_val (acc * 10 + (of_char c - 48)) s else None)"

text \<open>\<open>strconv.Atoi\<close>: an optional sign, then decimal digits, within the 64-bit range.\<close>

definition atoi :: "string \<Rightarrow> int option" where
  "atoi s =
     (let (neg, ds) = (case s of
          [] \<Rightarrow> (False, [])
        | c # r \<Rightarrow> if c = CHR ''-'' then (True, r) else if c = CHR ''+'' then (False, r) else (False, s))
      in if ds = [] then None
         else case digits_val 0 ds of
             None \<Rightarrow> None
           | Some n \<Rightarrow>
               (let v = (if neg then - int n else int n)
                in if - (2 ^ 63) \<le> v \<and> v < 2 ^ 63 then Some v else None))"

lemma of_char_digit: "n < 10 \<Longrightarrow> of_char (digit_char n) = (48 + n :: nat)"
  by (simp add: digit_char_def of_char_of)

lemma is_digit_iff: "is_digit c \<longleftrightarrow> 48 \<le> (of_char c :: nat) \<and> (of_char c :: nat) \<le> 57"
  by (simp add: is_digit_def between_def less_eq_char_def)

lemma is_digit_digit_char: "n < 10 \<Longrightarrow> is_digit (digit_char n)"
  by (simp add: is_digit_iff of_char_digit)

lemma digits_val_append:
  "digits_val acc (s @ t) = (case digits_val acc s of None \<Rightarrow> None | Some n \<Rightarrow> digits_val n t)"
  by (induction s arbitrary: acc) auto

lemma itoa_nat_ne [simp]: "itoa_nat n \<noteq> []"
  by (subst itoa_nat.simps) simp

lemma itoa_nat_digits: "c \<in> set (itoa_nat n) \<Longrightarrow> is_digit c"
proof (induction n rule: itoa_nat.induct)
  case (1 n)
  then show ?case
    by (cases "n < 10") (auto simp: itoa_nat.simps [of n] is_digit_digit_char)
qed

lemma digits_val_itoa: "digits_val 0 (itoa_nat n) = Some n"
proof (induction n rule: itoa_nat.induct)
  case (1 n)
  show ?case
  proof (cases "n < 10")
    case True
    then show ?thesis
      by (simp add: itoa_nat.simps [of n] is_digit_digit_char of_char_digit)
  next
    case False
    with 1 have "digits_val 0 (itoa_nat (n div 10)) = Some (n div 10)" by simp
    with False show ?thesis
      by (simp add: itoa_nat.simps [of n] digits_val_append is_digit_digit_char of_char_digit)
  qed
qed

text \<open>Parsing what was printed gives the number back.\<close>

lemma atoi_itoa:
  assumes "- (2 ^ 63) \<le> i" and "i < 2 ^ 63"
  shows "atoi (itoa i) = Some i"
proof (cases "i < 0")
  case True
  then show ?thesis
    using assms by (simp add: atoi_def itoa_def digits_val_itoa Let_def)
next
  case False
  obtain c r where cr: "itoa_nat (nat i) = c # r" by (cases "itoa_nat (nat i)") auto
  then have "is_digit c" using itoa_nat_digits [of c "nat i"] by simp
  then have "c \<noteq> CHR ''-''" "c \<noteq> CHR ''+''" by (auto simp: is_digit_iff)
  with False cr assms digits_val_itoa [of "nat i"] show ?thesis
    by (simp add: atoi_def itoa_def Let_def)
qed

subsection \<open>Lines\<close>

text \<open>
  The lines a \<open>bufio.Scanner\<close> delivers: separated by newlines, without a final carriage return, the
  last one only when it is not empty. A line of \<open>limit\<close> bytes or more does not fit the buffer and
  ends the scan with an error.
\<close>

definition text_lines :: "string \<Rightarrow> string list" where
  "text_lines s = (let ls = split_on (CHR 0x0A) s in if last ls = [] then butlast ls else ls)"

definition drop_cr :: "string \<Rightarrow> string" where
  "drop_cr l = (if l \<noteq> [] \<and> last l = CHR 0x0D then butlast l else l)"

definition scan_lines :: "nat \<Rightarrow> string \<Rightarrow> string list res" where
  "scan_lines limit s =
     (if list_all (\<lambda>l. length l < limit) (text_lines s) then Inr (map drop_cr (text_lines s))
      else Inl (ErrOS ''bufio.Scanner: token too long''))"

end
