(* ===== verification/Json.thy ===== *)
theory Json
  imports GoStrings
begin

section \<open>JSON messages as the program reads them\<close>

text \<open>
  The program handles JSON as \<open>json.RawMessage\<close> and reads it through \<open>encoding/json\<close>. A
  message is its parsed document; an object keeps its members in the order of the text,
  duplicates included, because \<open>registry.validateReason\<close> looks at the token stream and the
  other readers let the last duplicate win.

  \<^item> \<open>RawEmpty\<close> is the empty message; \<open>RawDoc v\<close> a well-formed one; \<open>RawBad ms\<close> a text that
    \<open>encoding/json\<close> rejects, with the members the token stream delivers before the defect (none
    when the text does not start with an object).
  \<^item> \<open>unmarshal_map\<close> is \<open>json.Unmarshal\<close> into a \<open>map[string]...\<close>: exact keys, the last wins.
  \<^item> \<open>decode_members\<close> and \<open>dec_field\<close> are decoding into a struct: a member is assigned to the
    field whose name folds to the member's name, whatever its case (the fields of one struct of
    this program never fold together), members are assigned in order, \<open>null\<close> leaves the field
    alone, and a value of the wrong type is an error that leaves the field alone.

  Numbers keep their literal: \<open>JInt n\<close> has no fraction or exponent, \<open>JDec m e\<close> is \<open>m * 10^e\<close>.
  Decoding into a Go \<open>int\<close> accepts a \<open>JInt\<close> in the 64-bit range only; decoding into \<open>any\<close> gives a
  \<open>float64\<close>, which the policy engine then converts with \<open>int(n)\<close>.
  The texts of the errors of \<open>encoding/json\<close> and the nesting limit are not modelled.
\<close>

datatype jnum = JInt int | JDec int int

datatype json =
    JNull
  | JBool bool
  | JNum jnum
  | JStr string
  | JArr "json list"
  | JObj "(string \<times> json) list"

datatype raw = RawEmpty | RawDoc json | RawBad "(string \<times> json) list"

abbreviation json_err :: goerr where
  "json_err \<equiv> ErrOS ''json''"

subsection \<open>Unmarshalling into a map\<close>

text \<open>\<open>None\<close> is the nil map, which the JSON value \<open>null\<close> leaves.\<close>

fun unmarshal_map :: "raw \<Rightarrow> json gomap option res" where
  "unmarshal_map (RawDoc (JObj ms)) = Inr (Some (gm_of ms))"
| "unmarshal_map (RawDoc JNull) = Inr None"
| "unmarshal_map _ = Inl json_err"

text \<open>Marshalling a map prints its members in the order of their keys.\<close>

definition marshal_map :: "json gomap option \<Rightarrow> json" where
  "marshal_map m = (case m of None \<Rightarrow> JNull | Some kvs \<Rightarrow> JObj (gm_sorted kvs))"

text \<open>Looking a key up in a map that may be nil.\<close>

definition map_at :: "json gomap option \<Rightarrow> string \<Rightarrow> json option" where
  "map_at m k = (case m of None \<Rightarrow> None | Some kvs \<Rightarrow> gm_get kvs k)"

lemma unmarshal_marshal:
  assumes "gm_ok m"
  shows "\<exists>m'. unmarshal_map (RawDoc (marshal_map (Some m))) = Inr (Some m') \<and> gm_get m' = gm_get m"
proof -
  have "map_of (rev (gm_sorted m)) k = gm_get m k" for k
    using assms by (simp add: map_of_rev_gm)
  then show ?thesis
    by (auto simp: marshal_map_def gm_get_of)
qed

subsection \<open>Decoding into a struct\<close>

definition key_matches :: "string \<Rightarrow> string \<Rightarrow> bool" where
  "key_matches field key = (fold_name key = fold_name field)"

definition field_values :: "string \<Rightarrow> (string \<times> json) list \<Rightarrow> json list" where
  "field_values field ms = map snd (filter (\<lambda>(k, _). key_matches field k) ms)"

text \<open>The value a field ends with, and whether some member had the wrong type.\<close>

fun dec_steps :: "(json \<Rightarrow> 'a \<Rightarrow> 'a option) \<Rightarrow> 'a \<times> bool \<Rightarrow> json list \<Rightarrow> 'a \<times> bool" where
  "dec_steps set_v (a, e) [] = (a, e)"
| "dec_steps set_v (a, e) (v # vs) =
     (case set_v v a of None \<Rightarrow> dec_steps set_v (a, True) vs | Some a' \<Rightarrow> dec_steps set_v (a', e) vs)"

definition dec_field :: "(json \<Rightarrow> 'a \<Rightarrow> 'a option) \<Rightarrow> 'a \<Rightarrow> string \<Rightarrow> (string \<times> json) list \<Rightarrow> 'a \<times> bool" where
  "dec_field set_v zero field ms = dec_steps set_v (zero, False) (field_values field ms)"

fun set_str :: "json \<Rightarrow> string \<Rightarrow> string option" where
  "set_str (JStr s) _ = Some s"
| "set_str JNull old = Some old"
| "set_str _ _ = None"

fun set_bool :: "json \<Rightarrow> bool \<Rightarrow> bool option" where
  "set_bool (JBool b) _ = Some b"
| "set_bool JNull old = Some old"
| "set_bool _ _ = None"

fun set_int :: "json \<Rightarrow> int \<Rightarrow> int option" where
  "set_int (JNum (JInt n)) _ = (if - (2 ^ 63) \<le> n \<and> n < 2 ^ 63 then Some n else None)"
| "set_int JNull old = Some old"
| "set_int _ _ = None"

text \<open>A pointer to a bool: \<open>null\<close> sets it to nil.\<close>

fun set_bool_ptr :: "json \<Rightarrow> bool option \<Rightarrow> bool option option" where
  "set_bool_ptr (JBool b) _ = Some (Some b)"
| "set_bool_ptr JNull _ = Some None"
| "set_bool_ptr _ _ = None"

text \<open>Strings inside arrays and maps: \<open>null\<close> is the zero string.\<close>

fun str_of :: "json \<Rightarrow> string option" where
  "str_of (JStr s) = Some s"
| "str_of JNull = Some []"
| "str_of _ = None"

fun strs_of :: "json list \<Rightarrow> string list option" where
  "strs_of [] = Some []"
| "strs_of (v # vs) =
     (case str_of v of None \<Rightarrow> None
      | Some s \<Rightarrow> (case strs_of vs of None \<Rightarrow> None | Some ss \<Rightarrow> Some (s # ss)))"

fun set_strs :: "json \<Rightarrow> string list \<Rightarrow> string list option" where
  "set_strs (JArr vs) _ = strs_of vs"
| "set_strs JNull _ = Some []"
| "set_strs _ _ = None"

fun strmap_of :: "(string \<times> json) list \<Rightarrow> string gomap \<Rightarrow> string gomap option" where
  "strmap_of [] m = Some m"
| "strmap_of ((k, v) # ms) m =
     (case str_of v of None \<Rightarrow> None | Some s \<Rightarrow> strmap_of ms (gm_put k s m))"

fun set_strmap :: "json \<Rightarrow> string gomap \<Rightarrow> string gomap option" where
  "set_strmap (JObj ms) old = strmap_of ms old"
| "set_strmap JNull _ = Some []"
| "set_strmap _ _ = None"

text \<open>A field of type \<open>json.RawMessage\<close> keeps the value, \<open>null\<close> included.\<close>

fun set_raw :: "json \<Rightarrow> json option \<Rightarrow> json option option" where
  "set_raw v _ = Some (Some v)"

text \<open>
  The members of a strictly decoded document (\<open>DisallowUnknownFields\<close>): an empty or null
  message is \<open>{}\<close>, and every member must belong to a field.
\<close>

definition known_field :: "string list \<Rightarrow> string \<Rightarrow> bool" where
  "known_field fields key = list_ex (\<lambda>f. key_matches f key) fields"

definition invalid_arguments :: goerr where
  "invalid_arguments = Errorf ''invalid arguments: %w'' [FErr json_err]"

fun decode_members :: "string list \<Rightarrow> raw \<Rightarrow> (string \<times> json) list res" where
  "decode_members fields RawEmpty = Inr []"
| "decode_members fields (RawDoc JNull) = Inr []"
| "decode_members fields (RawDoc (JObj ms)) =
     (if list_all (\<lambda>(k, _). known_field fields k) ms then Inr ms else Inl invalid_arguments)"
| "decode_members fields _ = Inl invalid_arguments"

text \<open>A strictly decoded field: the value, or the error of the whole decoding.\<close>

definition strict :: "'a \<times> bool \<Rightarrow> 'a res" where
  "strict r = (if snd r then Inl invalid_arguments else Inr (fst r))"

lemma field_values_Nil [simp]: "field_values f [] = []"
  by (simp add: field_values_def)

lemma field_values_Cons:
  "field_values f ((k, v) # ms) = (if key_matches f k then v # field_values f ms else field_values f ms)"
  by (simp add: field_values_def)

lemma field_values_append: "field_values f (xs @ ys) = field_values f xs @ field_values f ys"
  by (simp add: field_values_def)

text \<open>Fields that do not fold together match themselves only.\<close>

lemma key_matches_fields:
  "distinct (map fold_name fields) \<Longrightarrow> f \<in> set fields \<Longrightarrow> g \<in> set fields \<Longrightarrow> key_matches f g = (f = g)"
  unfolding key_matches_def distinct_map by (metis inj_onD)

lemma dec_field_Nil [simp]: "dec_field set_v z f [] = (z, False)"
  by (simp add: dec_field_def)

subsection \<open>Numbers as float64\<close>

text \<open>
  \<open>float_trunc p q\<close> is the integer part of the \<open>float64\<close> nearest to \<open>p / q\<close> (ties to even):
  the quotient is scaled by the power of two that leaves 53 significant bits and rounded.
\<close>

fun bit_len :: "nat \<Rightarrow> nat" where
  "bit_len n = (if n = 0 then 0 else Suc (bit_len (n div 2)))"

declare bit_len.simps [simp del]

definition round_even :: "nat \<Rightarrow> nat \<Rightarrow> nat" where
  "round_even a b =
     (let q = a div b; r = a mod b
      in if 2 * r < b then q else if b < 2 * r then q + 1 else if even q then q else q + 1)"

definition float_scale :: "nat \<Rightarrow> nat \<Rightarrow> int \<Rightarrow> nat" where
  "float_scale p q k =
     (if 0 \<le> k then round_even p (q * 2 ^ nat k) * 2 ^ nat k
      else round_even (p * 2 ^ nat (- k)) q div 2 ^ nat (- k))"

definition float_trunc :: "nat \<Rightarrow> nat \<Rightarrow> nat" where
  "float_trunc p q =
     (let k0 = int (bit_len p) - int (bit_len q) - 53;
          big = (if 0 \<le> k0 then p \<ge> q * 2 ^ nat k0 * 2 ^ 53 else p * 2 ^ nat (- k0) \<ge> q * 2 ^ 53)
      in float_scale p q (if big then k0 + 1 else k0))"

text \<open>What \<open>int(f)\<close> gives for a \<open>float64\<close> outside the 64-bit range depends on the machine.\<close>

datatype arch = AMD64 | ARM64

definition int_of_trunc :: "arch \<Rightarrow> int \<Rightarrow> int" where
  "int_of_trunc a t =
     (if - (2 ^ 63) \<le> t \<and> t < 2 ^ 63 then t
      else case a of AMD64 \<Rightarrow> - (2 ^ 63) | ARM64 \<Rightarrow> if t < 0 then - (2 ^ 63) else 2 ^ 63 - 1)"

fun num_parts :: "jnum \<Rightarrow> int \<times> nat \<times> nat" where
  "num_parts (JInt n) = (sgn n, nat \<bar>n\<bar>, 1)"
| "num_parts (JDec m e) =
     (if 0 \<le> e then (sgn m, nat \<bar>m\<bar> * 10 ^ nat e, 1) else (sgn m, nat \<bar>m\<bar>, 10 ^ nat (- e)))"

text \<open>A literal at least as large as this one overflows \<open>float64\<close> and is an error.\<close>

definition float_overflows :: "jnum \<Rightarrow> bool" where
  "float_overflows n = (let (s, p, q) = num_parts n in p \<ge> (2 ^ 1024 - 2 ^ 970) * q)"

definition float_to_int :: "arch \<Rightarrow> jnum \<Rightarrow> int" where
  "float_to_int a n = (let (s, p, q) = num_parts n in int_of_trunc a (s * int (float_trunc p q)))"

lemma bit_len_zero [simp]: "bit_len 0 = 0"
  by (subst bit_len.simps) simp

lemma bit_len_one: "bit_len 1 = 1"
  by (subst bit_len.simps) simp

lemma bit_len_bound: "n < 2 ^ k \<Longrightarrow> bit_len n \<le> k"
proof (induction k arbitrary: n)
  case 0
  then show ?case by simp
next
  case (Suc k)
  then have "bit_len (n div 2) \<le> k" by (simp add: less_mult_imp_div_less mult.commute)
  then show ?case by (simp add: bit_len.simps [of n])
qed

lemma round_even_one: "round_even a 1 = a"
  by (simp add: round_even_def)

text \<open>Every integer below 2^53 is a \<open>float64\<close>.\<close>

lemma float_scale_exact: "k \<le> 0 \<Longrightarrow> float_scale n 1 k = n"
  by (simp add: float_scale_def round_even_one [unfolded One_nat_def])

lemma float_trunc_exact:
  assumes "n < 2 ^ 53"
  shows "float_trunc n 1 = n"
proof -
  have "int (bit_len n) - int (bit_len 1) - 53 + 1 \<le> 0"
    unfolding bit_len_one using bit_len_bound [OF assms] by simp
  then show ?thesis
    unfolding float_trunc_def Let_def by (intro float_scale_exact) (simp split: if_splits)
qed

lemma float_to_int_exact:
  assumes "\<bar>n\<bar> < 2 ^ 53"
  shows "float_to_int a (JInt n) = n"
proof -
  have "nat \<bar>n\<bar> < 2 ^ 53" using assms by simp
  then have "float_trunc (nat \<bar>n\<bar>) 1 = nat \<bar>n\<bar>" by (rule float_trunc_exact)
  then show ?thesis
    using assms by (auto simp: float_to_int_def Let_def int_of_trunc_def sgn_if)
qed

lemma float_overflows_exact: "\<bar>n\<bar> < 2 ^ 53 \<Longrightarrow> \<not> float_overflows (JInt n)"
  by (simp add: float_overflows_def)

end
