(* ===== verification/Registry.thy ===== *)
theory Registry
  imports Json
begin

section \<open>The tool registry (internal/registry/registry.go)\<close>

text \<open>
  Schemas are Go values (\<open>gv\<close>): the code tells \<open>[]string\<close> from \<open>[]any\<close>, so the model does. A
  tool's handler and the interceptors are functions over the state \<open>'w\<close> of the rest of the
  program, threaded explicitly; \<open>call\<close> is \<open>Registry.Call\<close> with every early return. The time a
  handler took is an argument of \<open>call\<close>. The registry's lock makes every operation on the table
  atomic, and \<open>Call\<close> takes a copy of the tool and of the interceptors before it runs anything,
  so the table it reads is the one at its start.
\<close>

subsection \<open>Schemas\<close>

datatype gv =
    GNil
  | GBool bool
  | GNum int
  | GFloat jnum
  | GStr string
  | GStrs "string list"
  | GArr "gv list"
  | GMap "(string \<times> gv) list"

type_synonym schema = "gv gomap"

definition errInvalidRequired :: goerr where
  "errInvalidRequired = err_new ''invalid tool input schema: required must be an array of strings''"

definition errDuplicateRequired :: goerr where
  "errDuplicateRequired = err_new ''invalid tool input schema: required entries must be unique''"

fun cloneSchemaValue :: "gv \<Rightarrow> gv"
and cloneMembers :: "(string \<times> gv) list \<Rightarrow> (string \<times> gv) list"
and cloneItems :: "gv list \<Rightarrow> gv list" where
  "cloneSchemaValue (GMap kvs) = GMap (cloneMembers kvs)"
| "cloneSchemaValue (GArr vs) = GArr (cloneItems vs)"
| "cloneSchemaValue v = v"
| "cloneMembers [] = []"
| "cloneMembers ((k, v) # kvs) = (k, cloneSchemaValue v) # cloneMembers kvs"
| "cloneItems [] = []"
| "cloneItems (v # vs) = cloneSchemaValue v # cloneItems vs"

definition cloneSchema :: "schema option \<Rightarrow> schema option" where
  "cloneSchema s = map_option cloneMembers s"

lemma clone_id: "cloneSchemaValue v = v" "cloneMembers kvs = kvs" "cloneItems vs = vs"
  by (induction v and kvs and vs rule: cloneSchemaValue_cloneMembers_cloneItems.induct) auto

definition String_schema :: "string \<Rightarrow> schema" where
  "String_schema description =
     [(''type'', GStr ''string''), (''description'', GStr description)]"

definition Boolean_schema :: "string \<Rightarrow> schema" where
  "Boolean_schema description =
     [(''type'', GStr ''boolean''), (''description'', GStr description)]"

definition Integer_schema :: "string \<Rightarrow> schema" where
  "Integer_schema description =
     [(''type'', GStr ''integer''), (''description'', GStr description)]"

definition StringArray_schema :: "string \<Rightarrow> schema" where
  "StringArray_schema description =
     [(''type'', GStr ''array''), (''description'', GStr description),
      (''items'', GMap [(''type'', GStr ''string'')])]"

definition ObjectSchema :: "schema option \<Rightarrow> string list \<Rightarrow> schema" where
  "ObjectSchema properties required =
     (let s = [(''type'', GStr ''object''),
               (''properties'', GMap (case properties of None \<Rightarrow> [] | Some p \<Rightarrow> p)),
               (''additionalProperties'', GBool False)]
      in if required \<noteq> [] then gm_put ''required'' (GStrs required) s else s)"

definition reasonDescription :: string where
  "reasonDescription =
     ''Required: concise user-visible reason why ChatGPT is invoking this tool now''"

text \<open>The loops over the required names, which collect the names seen so far.\<close>

fun check_unique :: "string list \<Rightarrow> string list \<Rightarrow> string list res" where
  "check_unique [] seen = Inr seen"
| "check_unique (v # vs) seen =
     (if v \<in> set seen then Inl errDuplicateRequired else check_unique vs (v # seen))"

fun check_unique_any :: "gv list \<Rightarrow> string list \<Rightarrow> string list res" where
  "check_unique_any [] seen = Inr seen"
| "check_unique_any (GStr v # vs) seen =
     (if v \<in> set seen then Inl errDuplicateRequired else check_unique_any vs (v # seen))"
| "check_unique_any (_ # vs) seen = Inl errInvalidRequired"

fun appendReasonRequired :: "gv \<Rightarrow> gv res" where
  "appendReasonRequired (GStrs values) =
     (case check_unique values [] of
        Inl e \<Rightarrow> Inl e
      | Inr seen \<Rightarrow> Inr (if ''reason'' \<in> set seen then GStrs values else GStrs (values @ [''reason''])))"
| "appendReasonRequired (GArr values) =
     (case check_unique_any values [] of
        Inl e \<Rightarrow> Inl e
      | Inr seen \<Rightarrow> Inr (if ''reason'' \<in> set seen then GArr values else GArr (values @ [GStr ''reason''])))"
| "appendReasonRequired _ = Inl errInvalidRequired"

definition schema_props :: "schema \<Rightarrow> schema" where
  "schema_props s = (case gm_get s ''properties'' of Some (GMap p) \<Rightarrow> p | _ \<Rightarrow> [])"

text \<open>The copy of the schema with the property added, before \<open>required\<close> is looked at.\<close>

definition with_reason_property :: "schema option \<Rightarrow> schema" where
  "with_reason_property s =
     (let out = (case cloneSchema s of None \<Rightarrow> ObjectSchema None [] | Some c \<Rightarrow> c);
          props = gm_put ''reason'' (GMap (String_schema reasonDescription)) (schema_props out)
      in gm_put ''properties'' (GMap props) out)"

definition requireReasonSchema :: "schema option \<Rightarrow> schema res" where
  "requireReasonSchema s =
     (let out = with_reason_property s
      in case gm_get out ''required'' of
           None \<Rightarrow> Inr (gm_put ''required'' (GStrs [''reason'']) out)
         | Some required \<Rightarrow>
             (case appendReasonRequired required of
                Inl e \<Rightarrow> Inl e
              | Inr normalized \<Rightarrow> Inr (gm_put ''required'' normalized out)))"

subsection \<open>The reason argument of a call\<close>

fun scan_reason :: "(string \<times> json) list \<Rightarrow> json option \<Rightarrow> json option res" where
  "scan_reason [] found = Inr found"
| "scan_reason ((key, v) # ms) found =
     (if key = ''reason''
      then (if \<not> is_nil found then Inl (err_new ''tool reason is duplicated'') else scan_reason ms (Some v))
      else scan_reason ms found)"

abbreviation reason_required :: goerr where
  "reason_required \<equiv> err_new ''tool reason is required''"

fun validateReason :: "raw \<Rightarrow> goerr option" where
  "validateReason (RawDoc (JObj ms)) =
     (case scan_reason ms None of
        Inl e \<Rightarrow> Some e
      | Inr (Some (JStr text)) \<Rightarrow> if trim_space text = [] then Some reason_required else None
      | Inr _ \<Rightarrow> Some reason_required)"
| "validateReason (RawBad ms) =
     (case scan_reason ms None of Inl e \<Rightarrow> Some e | Inr _ \<Rightarrow> Some reason_required)"
| "validateReason _ = Some reason_required"

definition stripReason :: "raw \<Rightarrow> raw" where
  "stripReason args =
     (case unmarshal_map args of
        Inl _ \<Rightarrow> args
      | Inr obj \<Rightarrow> RawDoc (marshal_map (map_option (gm_del ''reason'') obj)))"

subsection \<open>Tools, interceptors, the registry\<close>

record rich_result =
  rrStructured :: json
  rrContent :: "json list"
  rrIsError :: bool
  rrContentPresent :: bool
  rrStructuredPresent :: bool
  rrExtra :: "json gomap"

datatype tool_value = Plain json | Rich rich_result

type_synonym 'w handler = "raw \<Rightarrow> 'w \<Rightarrow> tool_value res \<times> 'w"

record 'w tool =
  tName :: string
  tTitle :: string
  tDescription :: string
  tInputSchema :: "schema option"
  tOutputSchema :: "schema option"
  tAnnotations :: schema
  tHandler :: "'w handler option"
  tSource :: string

record 'w interceptor =
  iBefore :: "string \<Rightarrow> raw \<Rightarrow> 'w \<Rightarrow> goerr option \<times> 'w"
  iAfter :: "string \<Rightarrow> raw \<Rightarrow> int \<Rightarrow> goerr option \<Rightarrow> 'w \<Rightarrow> 'w"

record 'w registry =
  rTools :: "'w tool gomap"
  rInterceptors :: "'w interceptor list"

definition New :: "'w registry" where
  "New = \<lparr>rTools = [], rInterceptors = []\<rparr>"

definition AddInterceptor :: "'w interceptor option \<Rightarrow> 'w registry \<Rightarrow> 'w registry" where
  "AddInterceptor i r =
     (case i of None \<Rightarrow> r | Some j \<Rightarrow> r\<lparr>rInterceptors := rInterceptors r @ [j]\<rparr>)"

text \<open>What \<open>Add\<close> and \<open>Upsert\<close> do to the tool before they store it.\<close>

definition default_input_schema :: "'w tool \<Rightarrow> 'w tool" where
  "default_input_schema t =
     (if is_nil (tInputSchema t) then t\<lparr>tInputSchema := Some (ObjectSchema None [])\<rparr> else t)"

definition clone_output_schema :: "'w tool \<Rightarrow> 'w tool" where
  "clone_output_schema t =
     (if \<not> is_nil (tOutputSchema t) then t\<lparr>tOutputSchema := cloneSchema (tOutputSchema t)\<rparr> else t)"

definition normalize_tool :: "'w tool \<Rightarrow> 'w tool res" where
  "normalize_tool t =
     (if tName t = [] \<or> is_nil (tHandler t) then Inl (err_new ''tool name and handler are required'')
      else
        let t = default_input_schema t
        in case requireReasonSchema (tInputSchema t) of
             Inl e \<Rightarrow> Inl e
           | Inr s \<Rightarrow> Inr (clone_output_schema (t\<lparr>tInputSchema := Some s\<rparr>)))"

definition Add :: "'w tool \<Rightarrow> 'w registry \<Rightarrow> 'w registry res" where
  "Add t r =
     (case normalize_tool t of
        Inl e \<Rightarrow> Inl e
      | Inr t' \<Rightarrow>
          if gm_has (rTools r) (tName t')
          then Inl (Errorf ''tool %q already registered'' [FStr (tName t')])
          else Inr (r\<lparr>rTools := gm_put (tName t') t' (rTools r)\<rparr>))"

definition Upsert :: "'w tool \<Rightarrow> 'w registry \<Rightarrow> 'w registry res" where
  "Upsert t r =
     (case normalize_tool t of
        Inl e \<Rightarrow> Inl e
      | Inr t' \<Rightarrow> Inr (r\<lparr>rTools := gm_put (tName t') t' (rTools r)\<rparr>))"

definition RemoveSource :: "string \<Rightarrow> 'w registry \<Rightarrow> 'w registry" where
  "RemoveSource source r = r\<lparr>rTools := filter (\<lambda>(_, t). \<not> tSource t = source) (rTools r)\<rparr>"

definition RemoveSourcePrefix :: "string \<Rightarrow> 'w registry \<Rightarrow> 'w registry" where
  "RemoveSourcePrefix prefix r =
     r\<lparr>rTools := filter (\<lambda>(_, t). \<not> has_prefix (tSource t) prefix) (rTools r)\<rparr>"

text \<open>\<open>List\<close> sorts by the name of the tool, which is its key in the table.\<close>

definition List_tools :: "'w registry \<Rightarrow> 'w tool list" where
  "List_tools r = sort_key tName (map (\<lambda>(_, t). t\<lparr>tHandler := None\<rparr>) (rTools r))"

definition Exists :: "'w registry \<Rightarrow> string \<Rightarrow> bool" where
  "Exists r name = gm_has (rTools r) name"

fun run_before :: "'w interceptor list \<Rightarrow> string \<Rightarrow> raw \<Rightarrow> 'w \<Rightarrow> goerr option \<times> 'w" where
  "run_before [] name args w = (None, w)"
| "run_before (i # is) name args w =
     (case iBefore i name args w of
        (Some e, w') \<Rightarrow> (Some e, w')
      | (None, w') \<Rightarrow> run_before is name args w')"

fun run_after ::
  "'w interceptor list \<Rightarrow> string \<Rightarrow> raw \<Rightarrow> int \<Rightarrow> goerr option \<Rightarrow> 'w \<Rightarrow> 'w" where
  "run_after [] name args d e w = w"
| "run_after (i # is) name args d e w = run_after is name args d e (iAfter i name args d e w)"

definition call_args :: "raw \<Rightarrow> raw" where
  "call_args args = (if args = RawEmpty \<or> args = RawDoc JNull then RawDoc (JObj []) else args)"

definition err_of :: "'a res \<Rightarrow> goerr option" where
  "err_of v = (case v of Inl e \<Rightarrow> Some e | Inr _ \<Rightarrow> None)"

definition call :: "'w registry \<Rightarrow> string \<Rightarrow> raw \<Rightarrow> int \<Rightarrow> 'w \<Rightarrow> tool_value res \<times> 'w" where
  "call r name args0 d w =
     (case gm_get (rTools r) name of
        None \<Rightarrow> (Inl (Errorf ''unknown tool: %s'' [FStr name]), w)
      | Some t \<Rightarrow>
          let is = rInterceptors r; args = call_args args0
          in case validateReason args of
               Some e \<Rightarrow> (Inl e, w)
             | None \<Rightarrow>
                 (case run_before is name args w of
                    (Some e, w1) \<Rightarrow> (Inl e, run_after is name args 0 (Some e) w1)
                  | (None, w1) \<Rightarrow>
                      (case tHandler t of
                         None \<Rightarrow> (Inl (ErrOS ''panic: nil handler''), w1)
                       | Some h \<Rightarrow>
                           let (v, w2) = h (stripReason args) w1
                           in (v, run_after is name args d (err_of v) w2))))"

subsection \<open>Required names\<close>

lemma check_unique_eq:
  "check_unique vs seen =
     (if distinct vs \<and> set vs \<inter> set seen = {} then Inr (rev vs @ seen) else Inl errDuplicateRequired)"
  by (induction vs arbitrary: seen) auto

fun names_of :: "gv list \<Rightarrow> string list option" where
  "names_of [] = Some []"
| "names_of (GStr v # vs) = map_option ((#) v) (names_of vs)"
| "names_of (_ # vs) = None"

lemma names_of_Some: "names_of vs = Some ns \<longleftrightarrow> vs = map GStr ns"
proof (induction vs arbitrary: ns rule: names_of.induct)
  case (2 v vs)
  then show ?case by (cases ns) auto
qed auto

lemma check_unique_any_eq:
  "names_of vs = Some ns \<Longrightarrow> check_unique_any vs seen = check_unique ns seen"
  by (induction vs arbitrary: ns seen rule: names_of.induct) auto

lemma check_unique_any_Inr: "check_unique_any vs seen = Inr out \<Longrightarrow> \<exists>ns. names_of vs = Some ns"
  by (induction vs seen rule: check_unique_any.induct) (auto split: if_splits)

text \<open>The names a normalised \<open>required\<close> entry lists.\<close>

fun required_names :: "gv \<Rightarrow> string list option" where
  "required_names (GStrs vs) = Some vs"
| "required_names (GArr vs) = names_of vs"
| "required_names _ = None"

definition with_reason :: "string list \<Rightarrow> string list" where
  "with_reason vs = (if ''reason'' \<in> set vs then vs else vs @ [''reason''])"

lemma with_reason_mem [simp]: "''reason'' \<in> set (with_reason vs)"
  by (simp add: with_reason_def)

lemma with_reason_idem [simp]: "with_reason (with_reason vs) = with_reason vs"
  by (simp add: with_reason_def)

lemma distinct_with_reason [simp]: "distinct (with_reason vs) = distinct vs"
  by (auto simp: with_reason_def)

lemma names_of_append: "names_of (vs @ [GStr x]) = map_option (\<lambda>ns. ns @ [x]) (names_of vs)"
  by (induction vs rule: names_of.induct) (auto simp: option.map_comp comp_def)

lemma appendReason_ok:
  assumes "appendReasonRequired r = Inr r'"
  shows "\<exists>ns. required_names r = Some ns \<and> distinct ns \<and> required_names r' = Some (with_reason ns)"
proof (cases r)
  case (GStrs vs)
  with assms show ?thesis
    by (auto simp: check_unique_eq with_reason_def split: if_splits)
next
  case (GArr vs)
  with assms obtain seen where seen: "check_unique_any vs [] = Inr seen"
    by (auto split: sum.splits)
  then obtain ns where ns: "names_of vs = Some ns" using check_unique_any_Inr by blast
  with seen have "distinct ns" "set seen = set ns"
    by (auto simp: check_unique_any_eq check_unique_eq split: if_splits)
  with assms GArr ns seen show ?thesis
    by (auto simp: with_reason_def names_of_append)
qed (use assms in auto)

subsection \<open>The invariant of the registry\<close>

text \<open>A schema that asks for the reason: it describes the property and requires it, once.\<close>

definition asks_reason :: "schema \<Rightarrow> bool" where
  "asks_reason s \<longleftrightarrow>
     gm_get (schema_props s) ''reason'' = Some (GMap (String_schema reasonDescription)) \<and>
     (case gm_get s ''required'' of
        None \<Rightarrow> False
      | Some r \<Rightarrow> (case required_names r of None \<Rightarrow> False | Some ns \<Rightarrow> distinct ns \<and> ''reason'' \<in> set ns))"

lemma schema_props_with_reason:
  "schema_props (gm_put ''required'' r (with_reason_property s)) = schema_props (with_reason_property s)"
  "gm_get (schema_props (with_reason_property s)) ''reason'' = Some (GMap (String_schema reasonDescription))"
  by (simp_all add: schema_props_def with_reason_property_def Let_def)

lemma requireReasonSchema_asks:
  assumes "requireReasonSchema s = Inr s'"
  shows "asks_reason s'"
proof (cases "gm_get (with_reason_property s) ''required''")
  case None
  with assms have "s' = gm_put ''required'' (GStrs [''reason'']) (with_reason_property s)"
    by (simp add: requireReasonSchema_def)
  then show ?thesis by (simp add: asks_reason_def schema_props_with_reason)
next
  case (Some required)
  with assms obtain n where n: "appendReasonRequired required = Inr n"
      "s' = gm_put ''required'' n (with_reason_property s)"
    by (auto simp: requireReasonSchema_def split: sum.splits)
  from appendReason_ok [OF n(1)] obtain ns where "distinct ns" "required_names n = Some (with_reason ns)"
    by blast
  with n(2) show ?thesis by (simp add: asks_reason_def schema_props_with_reason)
qed

definition tool_ok :: "string \<Rightarrow> 'w tool \<Rightarrow> bool" where
  "tool_ok name t \<longleftrightarrow> tName t = name \<and> name \<noteq> [] \<and> tHandler t \<noteq> None \<and>
     (case tInputSchema t of None \<Rightarrow> False | Some s \<Rightarrow> asks_reason s)"

definition registry_ok :: "'w registry \<Rightarrow> bool" where
  "registry_ok r \<longleftrightarrow> gm_all tool_ok (rTools r)"

lemma normalize_tool_ok:
  assumes "normalize_tool t = Inr t'"
  shows "tool_ok (tName t') t'" and "tName t' = tName t" and "tHandler t' = tHandler t"
    and "tSource t' = tSource t"
proof -
  define t0 where "t0 = default_input_schema t"
  from assms obtain s where ne: "tName t \<noteq> []" "tHandler t \<noteq> None"
    and s: "requireReasonSchema (tInputSchema t0) = Inr s"
    and t': "t' = clone_output_schema (t0\<lparr>tInputSchema := Some s\<rparr>)"
    by (auto simp: normalize_tool_def Let_def t0_def split: sum.splits if_splits)
  then show same: "tName t' = tName t" "tHandler t' = tHandler t" "tSource t' = tSource t"
    by (simp_all add: t0_def clone_output_schema_def default_input_schema_def)
  have "tInputSchema t' = Some s" by (simp add: t' clone_output_schema_def)
  with ne same requireReasonSchema_asks [OF s] show "tool_ok (tName t') t'"
    by (simp add: tool_ok_def)
qed

lemma registry_ok_New [go_inv]: "registry_ok New"
  by (simp add: registry_ok_def New_def)

lemma registry_ok_Add [go_inv]: "registry_ok r \<Longrightarrow> Add t r = Inr r' \<Longrightarrow> registry_ok r'"
  by (auto simp: Add_def registry_ok_def split: sum.splits if_splits
      intro!: gm_all_put normalize_tool_ok)

lemma registry_ok_Upsert [go_inv]: "registry_ok r \<Longrightarrow> Upsert t r = Inr r' \<Longrightarrow> registry_ok r'"
  by (auto simp: Upsert_def registry_ok_def split: sum.splits intro!: gm_all_put normalize_tool_ok)

lemma registry_ok_RemoveSource [go_inv]: "registry_ok r \<Longrightarrow> registry_ok (RemoveSource s r)"
  by (simp add: registry_ok_def RemoveSource_def gm_all_filter)

lemma registry_ok_RemoveSourcePrefix [go_inv]:
  "registry_ok r \<Longrightarrow> registry_ok (RemoveSourcePrefix p r)"
  by (simp add: registry_ok_def RemoveSourcePrefix_def gm_all_filter)

lemma registry_ok_AddInterceptor [go_inv]: "registry_ok r \<Longrightarrow> registry_ok (AddInterceptor i r)"
  by (cases i) (simp_all add: registry_ok_def AddInterceptor_def)

text \<open>A registry as the program builds and changes it; a failing operation changes nothing.\<close>

datatype 'w reg_op =
    OpAdd "'w tool"
  | OpUpsert "'w tool"
  | OpRemoveSource string
  | OpRemoveSourcePrefix string
  | OpAddInterceptor "'w interceptor option"

fun reg_step :: "'w reg_op \<Rightarrow> 'w registry \<Rightarrow> 'w registry" where
  "reg_step (OpAdd t) r = (case Add t r of Inl _ \<Rightarrow> r | Inr r' \<Rightarrow> r')"
| "reg_step (OpUpsert t) r = (case Upsert t r of Inl _ \<Rightarrow> r | Inr r' \<Rightarrow> r')"
| "reg_step (OpRemoveSource s) r = RemoveSource s r"
| "reg_step (OpRemoveSourcePrefix p) r = RemoveSourcePrefix p r"
| "reg_step (OpAddInterceptor i) r = AddInterceptor i r"

lemma reg_step_ok: "registry_ok r \<Longrightarrow> registry_ok (reg_step op r)"
  by (cases op) (auto intro: go_inv split: sum.splits)

lemma reg_steps_ok: "registry_ok r \<Longrightarrow> registry_ok (fold reg_step ops r)"
  by (induction ops arbitrary: r) (auto intro: reg_step_ok)

subsection \<open>Listing\<close>

lemma List_tools_eq:
  assumes "registry_ok r"
  shows "List_tools r = map (\<lambda>(_, t). t\<lparr>tHandler := None\<rparr>) (gm_sorted (rTools r))"
proof -
  let ?f = "\<lambda>(_, t). t\<lparr>tHandler := None\<rparr>"
  have names: "tName (?f kv) = fst kv" if "kv \<in> set (rTools r)" for kv
    using assms that by (cases kv) (auto simp: registry_ok_def gm_all_def tool_ok_def)
  have "sort_key tName (map ?f kvs) = map ?f (sort_key fst kvs)"
    if "\<forall>kv \<in> set kvs. tName (?f kv) = fst kv" for kvs :: "(string \<times> 'a tool) list"
    using that
  proof (induction kvs)
    case Nil
    then show ?case by simp
  next
    case (Cons kv kvs)
    have "insort_key tName (?f kv) (map ?f l) = map ?f (insort_key fst kv l)"
      if "\<forall>x \<in> set (kv # l). tName (?f x) = fst x" for l
      using that by (induction l) auto
    with Cons show ?case by simp
  qed
  then show ?thesis using names by (simp add: List_tools_def gm_sorted_def)
qed

lemma List_tools_names:
  assumes "registry_ok r"
  shows "map tName (List_tools r) = map fst (gm_sorted (rTools r))"
  using assms
  by (auto simp: List_tools_eq registry_ok_def gm_all_def tool_ok_def intro!: map_cong)

subsection \<open>The reason of a call\<close>

abbreviation reasons :: "(string \<times> json) list \<Rightarrow> json list" where
  "reasons ms \<equiv> map snd (filter (\<lambda>(k, _). k = ''reason'') ms)"

lemma scan_reason_eq:
  "scan_reason ms found =
     (case (case found of None \<Rightarrow> [] | Some v \<Rightarrow> [v]) @ reasons ms of
        [] \<Rightarrow> Inr None
      | [v] \<Rightarrow> Inr (Some v)
      | _ \<Rightarrow> Inl (err_new ''tool reason is duplicated''))"
  by (induction ms found rule: scan_reason.induct) (auto split: list.splits option.splits)

lemma validateReason_None:
  "validateReason args = None \<longleftrightarrow>
     (\<exists>ms text. args = RawDoc (JObj ms) \<and> reasons ms = [JStr text] \<and> trim_space text \<noteq> [])"
  by (cases args rule: validateReason.cases)
    (auto simp: scan_reason_eq split: list.splits json.splits if_splits)

lemma call_args_id: "validateReason (call_args args) = None \<Longrightarrow> call_args args = args"
  by (auto simp: call_args_def)

text \<open>The last member of a key, as a map lookup reads it.\<close>

definition last_member :: "(string \<times> json) list \<Rightarrow> string \<Rightarrow> json option" where
  "last_member ms k = map_of (rev ms) k"

lemma stripReason_obj:
  "stripReason (RawDoc (JObj ms)) = RawDoc (JObj (gm_sorted (gm_del ''reason'' (gm_of ms))))"
  by (simp add: stripReason_def marshal_map_def)

subsection \<open>Properties\<close>

text \<open>
  C10: whatever sequence of \<open>Add\<close>, \<open>Upsert\<close>, \<open>RemoveSource\<close>, \<open>RemoveSourcePrefix\<close> and
  \<open>AddInterceptor\<close> built the registry, every tool in it is stored under its own non-empty name,
  has a handler, and has an input schema that describes the \<open>reason\<close> property and requires it
  exactly once.
\<close>

theorem registry_tools_ask_reason:
  "registry_ok (fold reg_step ops New)"
  by (rule reg_steps_ok [OF registry_ok_New])

text \<open>
  C1: a call that succeeds, or that changes the state of the program in any way (an interceptor
  ran, a handler ran), carried a JSON object with exactly one \<open>reason\<close> member, a string that is
  not blank. Every other call is refused before any interceptor or handler sees it.
\<close>

theorem call_needs_reason:
  assumes "is_ok (fst (call r name args d w)) \<or> snd (call r name args d w) \<noteq> w"
  shows "\<exists>ms text. args = RawDoc (JObj ms) \<and> reasons ms = [JStr text] \<and> trim_space text \<noteq> []"
proof (cases "validateReason (call_args args)")
  case None
  then show ?thesis using call_args_id [OF None] validateReason_None [of args] by simp
next
  case (Some e)
  with assms show ?thesis
    by (cases "gm_get (rTools r) name") (simp_all add: call_def Let_def)
qed

text \<open>
  The arguments a handler receives for a valid call are the object without its \<open>reason\<close>
  member: its keys are strictly increasing, so no member is duplicated, and every other key has
  the value of its last occurrence in the message.
\<close>

theorem handler_args_stripped:
  assumes "validateReason args = None"
  shows "\<exists>ms out. args = RawDoc (JObj ms) \<and> stripReason args = RawDoc (JObj out) \<and>
    sorted_wrt (<) (map fst out) \<and>
    (\<forall>k. map_of out k = (if k = ''reason'' then None else last_member ms k))"
proof -
  from assms obtain ms where args: "args = RawDoc (JObj ms)"
    using validateReason_None by blast
  define m where "m = gm_del ''reason'' (gm_of ms)"
  have ok: "gm_ok m" by (simp add: m_def)
  have "gm_get (gm_sorted m) k = (if k = ''reason'' then None else last_member ms k)" for k
    using gm_get_sorted [OF ok, of k] by (simp add: m_def gm_get_of last_member_def)
  then have "map_of (gm_sorted m) k = (if k = ''reason'' then None else last_member ms k)" for k
    by (simp add: gm_get_def)
  then show ?thesis
    using args gm_sorted_strict [OF ok] by (simp add: stripReason_obj m_def)
qed

text \<open>
  The listing of the tools does not depend on the order in which Go iterates over the table:
  two well-formed registries that hold the same tools list them alike, in strictly increasing
  order of their names and without their handlers.
\<close>

theorem list_deterministic:
  assumes "registry_ok r" and "registry_ok r'"
    and "\<And>name. gm_get (rTools r) name = gm_get (rTools r') name"
  shows "List_tools r = List_tools r' \<and> sorted_wrt (<) (map tName (List_tools r)) \<and>
    (\<forall>t \<in> set (List_tools r). tHandler t = None)"
proof -
  have ok: "gm_ok (rTools r)" "gm_ok (rTools r')"
    using assms(1,2) by (simp_all add: registry_ok_def gm_all_def)
  have "gm_sorted (rTools r) = gm_sorted (rTools r')"
    by (rule gm_sorted_unique [OF ok assms(3)])
  then show ?thesis
    using gm_sorted_strict [OF ok(1)] List_tools_names [OF assms(1)]
    by (simp only: List_tools_eq [OF assms(1)] List_tools_eq [OF assms(2)]) auto
qed

text \<open>
  A native list of required names is accepted exactly when its names are distinct; the
  normalised list is the given one, in its order, with \<open>reason\<close> appended unless it was there,
  and normalising it again changes nothing.
\<close>

theorem required_names_normalised:
  "(appendReasonRequired (GStrs names) = Inr v \<longleftrightarrow> distinct names \<and> v = GStrs (with_reason names)) \<and>
   appendReasonRequired (GStrs (with_reason names)) =
     (if distinct names then Inr (GStrs (with_reason names)) else Inl errDuplicateRequired)"
  by (auto simp: check_unique_eq with_reason_def)

subsection \<open>Witnesses\<close>

definition sample_tool :: "string \<Rightarrow> nat tool" where
  "sample_tool name = \<lparr>tName = name, tTitle = [], tDescription = ''d'', tInputSchema = None,
     tOutputSchema = None, tAnnotations = [],
     tHandler = Some (\<lambda>args w. (Inr (Plain JNull), Suc w)), tSource = ''core''\<rparr>"

definition sample_registry :: "nat registry" where
  "sample_registry = fold reg_step [OpAdd (sample_tool ''b''), OpAdd (sample_tool ''a'')] New"

lemma sample_registry_ok: "registry_ok sample_registry"
  by (simp add: sample_registry_def reg_steps_ok registry_ok_New del: fold.simps)

theorem call_needs_reason_witness:
  "\<exists>ms text. RawDoc (JObj [(''reason'', JStr ''why'')]) = RawDoc (JObj ms) \<and>
     reasons ms = [JStr text] \<and> trim_space text \<noteq> []"
  by (rule call_needs_reason [of sample_registry "''a''" _ 0 0]) code_simp

theorem handler_args_stripped_witness:
  "\<exists>ms out. RawDoc (JObj [(''x'', JBool True), (''reason'', JStr ''why'')]) = RawDoc (JObj ms) \<and>
     stripReason (RawDoc (JObj [(''x'', JBool True), (''reason'', JStr ''why'')])) = RawDoc (JObj out) \<and>
     sorted_wrt (<) (map fst out) \<and>
     (\<forall>k. map_of out k = (if k = ''reason'' then None else last_member ms k))"
  by (rule handler_args_stripped) code_simp

theorem list_deterministic_witness:
  "sorted_wrt (<) (map tName (List_tools sample_registry))"
  using list_deterministic [OF sample_registry_ok sample_registry_ok refl] by simp

end
