(* ===== verification/Glob.thy ===== *)
theory Glob
  imports GoStrings
begin

section \<open>Shell patterns (path.Match)\<close>

text \<open>
  The policy lists name tools by the patterns of Go's \<open>path.Match\<close>: \<open>*\<close> stands for any
  sequence of characters other than \<open>/\<close>, \<open>?\<close> for one such character, \<open>[...]\<close> for a class
  (\<open>^\<close> negates it, \<open>-\<close> makes a range), and a backslash takes the next character literally. A
  character is a UTF-8 sequence as \<open>utf8.DecodeRune\<close> splits it, an invalid byte being one
  character. The functions follow \<open>scanChunk\<close>, \<open>matchChunk\<close> and \<open>Match\<close> of that package: the
  pattern is cut at its stars, and each piece is placed at the first position where it fits.
  \<open>path.Match\<close> reports a malformed pattern as an error, which the policy counts as no match; a
  piece is malformed whatever the name is, so here it fits nowhere.
\<close>

definition byte :: "char \<Rightarrow> nat" where
  "byte c = of_char c"

definition cont :: "nat \<Rightarrow> nat \<Rightarrow> nat \<Rightarrow> bool" where
  "cont lo hi b \<longleftrightarrow> lo \<le> b \<and> b \<le> hi"

text \<open>The first character of a string and its width; an invalid sequence is U+FFFD, one byte wide.\<close>

fun decode_rune :: "string \<Rightarrow> nat \<times> nat" where
  "decode_rune [] = (0xFFFD, 0)"
| "decode_rune (a # s) =
     (let x = byte a; bad = (0xFFFD, 1);
          b = map byte (take 3 s)
      in if x < 0x80 then (x, 1)
         else if cont 0xC2 0xDF x then
           (case b of b1 # _ \<Rightarrow> if cont 0x80 0xBF b1 then ((x - 0xC0) * 64 + (b1 - 0x80), 2) else bad
            | _ \<Rightarrow> bad)
         else if cont 0xE0 0xEF x then
           (case b of b1 # b2 # _ \<Rightarrow>
              if cont (if x = 0xE0 then 0xA0 else 0x80) (if x = 0xED then 0x9F else 0xBF) b1 \<and> cont 0x80 0xBF b2
              then ((x - 0xE0) * 4096 + (b1 - 0x80) * 64 + (b2 - 0x80), 3) else bad
            | _ \<Rightarrow> bad)
         else if cont 0xF0 0xF4 x then
           (case b of b1 # b2 # b3 # _ \<Rightarrow>
              if cont (if x = 0xF0 then 0x90 else 0x80) (if x = 0xF4 then 0x8F else 0xBF) b1
                 \<and> cont 0x80 0xBF b2 \<and> cont 0x80 0xBF b3
              then ((x - 0xF0) * 262144 + (b1 - 0x80) * 4096 + (b2 - 0x80) * 64 + (b3 - 0x80), 4) else bad
            | _ \<Rightarrow> bad)
         else bad)"

lemma decode_rune_width: "s \<noteq> [] \<Longrightarrow> 1 \<le> snd (decode_rune s)"
  by (cases s) (simp_all add: Let_def split: list.split)

text \<open>One end of a range inside a class: a possibly escaped character that something must follow.\<close>

definition get_esc :: "string \<Rightarrow> (nat \<times> string) option" where
  "get_esc chunk =
     (case chunk of
        [] \<Rightarrow> None
      | c # rest \<Rightarrow>
          if c = CHR ''-'' \<or> c = CHR '']'' then None
          else
            let ch = (if c = CHR 0x5C then rest else chunk)
            in if ch = [] then None
               else
                 let (r, n) = decode_rune ch
                 in if r = 0xFFFD \<and> n = 1 then None
                    else if drop n ch = [] then None else Some (r, drop n ch))"

lemma get_esc_shorter: "get_esc chunk = Some (r, rest) \<Longrightarrow> length rest < length chunk"
  using decode_rune_width
  by (fastforce simp: get_esc_def Let_def split: list.splits if_splits prod.splits)

text \<open>
  The ranges of a class after \<open>[\<close> or \<open>[^\<close>: whether the character is in one of them, and what
  follows the closing bracket; \<open>some\<close> says that a range was read, before which \<open>]\<close> does not close.
\<close>

function class_ranges :: "bool \<Rightarrow> nat \<Rightarrow> string \<Rightarrow> (bool \<times> string) option" where
  "class_ranges some r chunk =
     (if some \<and> has_prefix chunk '']'' then Some (False, tl chunk)
      else case get_esc chunk of
          None \<Rightarrow> None
        | Some (lo, c1) \<Rightarrow>
            (case (if has_prefix c1 ''-'' then get_esc (tl c1) else Some (lo, c1)) of
               None \<Rightarrow> None
             | Some (hi, c2) \<Rightarrow>
                 (case class_ranges True r c2 of
                    None \<Rightarrow> None
                  | Some (m, rest) \<Rightarrow> Some (lo \<le> r \<and> r \<le> hi \<or> m, rest))))"
  by pat_completeness auto
termination
proof (relation "measure (\<lambda>(some, r, chunk). length chunk)", goal_cases)
  case 1
  show ?case by simp
next
  case (2 some r chunk x lo c1 y hi c2)
  have c1: "length c1 < length chunk" using 2 by (auto intro: get_esc_shorter)
  have "length c2 \<le> length c1"
  proof (cases "has_prefix c1 ''-''")
    case True
    with 2 have "get_esc (tl c1) = Some (hi, c2)" by (auto split: if_splits)
    then have "length c2 < length (tl c1)" by (rule get_esc_shorter)
    then show ?thesis by simp
  next
    case False
    with 2 show ?thesis by (auto split: if_splits)
  qed
  with c1 show ?case by simp
qed

declare class_ranges.simps [simp del]

lemma class_ranges_shorter:
  "class_ranges some r chunk = Some (m, rest) \<Longrightarrow> length rest \<le> length chunk"
proof (induction some r chunk arbitrary: m rest rule: class_ranges.induct)
  case (1 some r chunk)
  show ?case
  proof (cases "some \<and> has_prefix chunk '']''")
    case True
    with "1.prems" have "rest = tl chunk" by (subst (asm) class_ranges.simps) simp
    then show ?thesis by simp
  next
    case False
    note unf = "1.prems" [unfolded class_ranges.simps [of some r chunk] if_not_P [OF False]]
    from unf obtain lo c1 hi c2 m' where
      lo: "get_esc chunk = Some (lo, c1)" and
      hi: "(if has_prefix c1 ''-'' then get_esc (tl c1) else Some (lo, c1)) = Some (hi, c2)" and
      rec: "class_ranges True r c2 = Some (m', rest)"
      by (simp only: split: option.splits prod.splits) blast+
    from "1.IH" [OF False lo refl hi refl rec] have "length rest \<le> length c2" .
    moreover have "length c2 \<le> length c1"
      using hi get_esc_shorter [of "tl c1" hi c2] by (auto split: if_splits)
    ultimately show ?thesis using get_esc_shorter [OF lo] by linarith
  qed
qed

definition match_class :: "nat \<Rightarrow> string \<Rightarrow> (bool \<times> string) option" where
  "match_class r chunk =
     (if has_prefix chunk ''^'' then
        map_option (\<lambda>(m, rest). (\<not> m, rest)) (class_ranges False r (tl chunk))
      else class_ranges False r chunk)"

lemma match_class_shorter: "match_class r chunk = Some (m, rest) \<Longrightarrow> length rest \<le> length chunk"
  using class_ranges_shorter [of False r "tl chunk"] class_ranges_shorter [of False r chunk]
  by (fastforce simp: match_class_def split: if_splits)

subsection \<open>Pieces of a pattern\<close>

text \<open>\<open>scanChunk\<close>: the leading stars, the piece up to the next star, and the rest.\<close>

fun split_chunk :: "bool \<Rightarrow> string \<Rightarrow> string \<times> string" where
  "split_chunk inrange [] = ([], [])"
| "split_chunk inrange (c # s) =
     (if c = CHR 0x5C then
        (case s of
           [] \<Rightarrow> ([c], [])
         | d # s' \<Rightarrow> (let (a, b) = split_chunk inrange s' in (c # d # a, b)))
      else if c = CHR ''*'' \<and> \<not> inrange then ([], c # s)
      else
        (let (a, b) = split_chunk (if c = CHR ''['' then True else if c = CHR '']'' then False else inrange) s
         in (c # a, b)))"

definition scan_chunk :: "string \<Rightarrow> bool \<times> string \<times> string" where
  "scan_chunk p = (let q = dropWhile (\<lambda>c. c = CHR ''*'') p in (p \<noteq> q, split_chunk False q))"

lemma split_chunk_append: "split_chunk inrange s = (a, b) \<Longrightarrow> s = a @ b"
  by (induction inrange s arbitrary: a b rule: split_chunk.induct)
    (auto simp: Let_def split: if_splits list.splits prod.splits)

lemma scan_chunk_shorter: "p \<noteq> [] \<Longrightarrow> scan_chunk p = (star, chunk, rest) \<Longrightarrow> length rest < length p"
proof -
  assume p: "p \<noteq> []" "scan_chunk p = (star, chunk, rest)"
  let ?q = "dropWhile (\<lambda>c. c = CHR ''*'') p"
  have split: "split_chunk False ?q = (chunk, rest)" and star: "star = (p \<noteq> ?q)"
    using p(2) by (auto simp: scan_chunk_def Let_def)
  have q: "?q = chunk @ rest" by (rule split_chunk_append [OF split])
  show ?thesis
  proof (cases star)
    case True
    obtain c p' where cp: "p = c # p'" using p(1) by (cases p) auto
    with True star have "?q = dropWhile (\<lambda>c. c = CHR ''*'') p'" by (auto split: if_splits)
    then have "length ?q \<le> length p'" by (simp add: length_dropWhile_le)
    with q cp show ?thesis by simp
  next
    case False
    then have pq: "p = ?q" using star by simp
    obtain c p' where cp: "p = c # p'" using p(1) by (cases p) auto
    have "c \<noteq> CHR ''*''" using pq cp hd_dropWhile [of "\<lambda>c. c = CHR ''*''" p] by auto
    then have "chunk \<noteq> []" using split pq cp by (auto simp: Let_def split: if_splits list.splits prod.splits)
    with q pq show ?thesis by (cases chunk) simp_all
  qed
qed

text \<open>\<open>matchChunk\<close>: what follows the piece in the name, when the name starts with the piece.\<close>

function match_chunk :: "string \<Rightarrow> string \<Rightarrow> string option" where
  "match_chunk chunk s =
     (case chunk of
        [] \<Rightarrow> Some s
      | c # chunk' \<Rightarrow>
          if s = [] then None
          else if c = CHR ''['' then
            (case match_class (fst (decode_rune s)) chunk' of
               None \<Rightarrow> None
             | Some (m, rest) \<Rightarrow> if m then match_chunk rest (drop (snd (decode_rune s)) s) else None)
          else if c = CHR ''?'' then
            (if hd s = CHR ''/'' then None else match_chunk chunk' (drop (snd (decode_rune s)) s))
          else if c = CHR 0x5C then
            (case chunk' of
               [] \<Rightarrow> None
             | e # chunk'' \<Rightarrow> if e = hd s then match_chunk chunk'' (tl s) else None)
          else if c = hd s then match_chunk chunk' (tl s)
          else None)"
  by pat_completeness auto
termination
  by (relation "measure (\<lambda>(chunk, s). length chunk)") (auto dest: match_class_shorter)

declare match_chunk.simps [simp del]

text \<open>
  The first position at which a piece fits; only after a star may the name be skipped, and never
  past a \<open>/\<close>. The last piece must use the name up.
\<close>

fun first_match :: "bool \<Rightarrow> string \<Rightarrow> bool \<Rightarrow> string \<Rightarrow> string option" where
  "first_match star chunk final n =
     (case match_chunk chunk n of
        Some t \<Rightarrow>
          if t = [] \<or> \<not> final then Some t
          else if \<not> star then None
          else (case n of [] \<Rightarrow> None | x # n' \<Rightarrow>
            if x = CHR ''/'' then None else first_match star chunk final n')
      | None \<Rightarrow>
          if \<not> star then None
          else (case n of [] \<Rightarrow> None | x # n' \<Rightarrow>
            if x = CHR ''/'' then None else first_match star chunk final n'))"

declare first_match.simps [simp del]

text \<open>\<open>Match\<close>.\<close>

function glob :: "string \<Rightarrow> string \<Rightarrow> bool" where
  "glob p n =
     (if p = [] then n = []
      else case scan_chunk p of
          (star, chunk, rest) \<Rightarrow>
            if star \<and> chunk = [] then CHR ''/'' \<notin> set n
            else (case first_match star chunk (rest = []) n of
                None \<Rightarrow> False
              | Some t \<Rightarrow> glob rest t))"
  by pat_completeness auto
termination
  by (relation "measure (\<lambda>(p, n). length p)") (auto dest: scan_chunk_shorter [OF _ sym])

declare glob.simps [simp del]

subsection \<open>Patterns without special characters\<close>

definition plain :: "string \<Rightarrow> bool" where
  "plain s \<longleftrightarrow> list_all (\<lambda>c. c \<notin> set [CHR ''*'', CHR ''?'', CHR ''['', CHR 0x5C]) s"

lemma plain_Nil [simp]: "plain []"
  by (simp add: plain_def)

lemma plain_Cons [simp]:
  "plain (c # p) \<longleftrightarrow> c \<noteq> CHR ''*'' \<and> c \<noteq> CHR ''?'' \<and> c \<noteq> CHR ''['' \<and> c \<noteq> CHR 0x5C \<and> plain p"
  by (simp add: plain_def)

lemma match_chunk_Nil: "match_chunk [] n = Some n"
  by (subst match_chunk.simps) simp

lemma match_chunk_step:
  "c \<noteq> CHR ''?'' \<Longrightarrow> c \<noteq> CHR ''['' \<Longrightarrow> c \<noteq> CHR 0x5C \<Longrightarrow>
   match_chunk (c # p) n = (if n \<noteq> [] \<and> c = hd n then match_chunk p (tl n) else None)"
  by (subst match_chunk.simps) simp

lemma match_chunk_plain: "plain p \<Longrightarrow> match_chunk p n = (if has_prefix n p then Some (drop (length p) n) else None)"
proof (induction p arbitrary: n)
  case Nil
  then show ?case by (simp add: match_chunk_Nil)
next
  case (Cons c p)
  then show ?case by (cases n) (auto simp: match_chunk_step)
qed

lemma split_chunk_stop: "q = [] \<or> hd q = CHR ''*'' \<Longrightarrow> split_chunk False q = ([], q)"
  by (cases q) auto

lemma split_chunk_step:
  "c \<noteq> CHR ''*'' \<Longrightarrow> c \<noteq> CHR ''['' \<Longrightarrow> c \<noteq> CHR 0x5C \<Longrightarrow>
   split_chunk False (c # s) = (c # fst (split_chunk False s), snd (split_chunk False s))"
  by (simp add: case_prod_beta)

lemma split_chunk_plain:
  "plain p \<Longrightarrow> q = [] \<or> hd q = CHR ''*'' \<Longrightarrow> split_chunk False (p @ q) = (p, q)"
proof (induction p)
  case Nil
  then show ?case by (simp only: append_Nil split_chunk_stop)
next
  case (Cons c p)
  then show ?case by (simp add: split_chunk_step del: split_chunk.simps)
qed

lemma scan_chunk_plain:
  assumes "plain p" and "p \<noteq> []" and "q = [] \<or> hd q = CHR ''*''"
  shows "scan_chunk (p @ q) = (False, p, q)"
proof -
  have "hd p \<noteq> CHR ''*''" using assms by (cases p) auto
  then have "dropWhile (\<lambda>c. c = CHR ''*'') (p @ q) = p @ q" using assms(2) by (cases p) auto
  then show ?thesis using assms by (simp add: scan_chunk_def split_chunk_plain)
qed

lemma first_match_here: "first_match False chunk final n =
    (case match_chunk chunk n of None \<Rightarrow> None | Some t \<Rightarrow> if t = [] \<or> \<not> final then Some t else None)"
  by (simp add: first_match.simps split: option.split)

lemma glob_Nil [simp]: "glob [] n \<longleftrightarrow> n = []"
  by (simp add: glob.simps [of "[]"])

lemma glob_star_end: "glob ''*'' n \<longleftrightarrow> CHR ''/'' \<notin> set n"
  by (simp add: glob.simps [of "''*''"] scan_chunk_def)

lemma glob_step: "scan_chunk p = (False, chunk, rest) \<Longrightarrow> p \<noteq> [] \<Longrightarrow>
    glob p n = (case first_match False chunk (rest = []) n of None \<Rightarrow> False | Some t \<Rightarrow> glob rest t)"
  by (simp add: glob.simps [of p n])

lemma glob_plain: "plain p \<Longrightarrow> glob p n \<longleftrightarrow> n = p"
proof (cases "p = []")
  case False
  assume p: "plain p"
  show ?thesis
    using glob_step [OF scan_chunk_plain [OF p False, of "[]", simplified] False, of n]
    by (auto simp: first_match_here match_chunk_plain [OF p] has_prefix_iff split: if_splits)
qed simp

lemma glob_prefix_star: "plain p \<Longrightarrow> glob (p @ ''*'') n \<longleftrightarrow> (\<exists>t. n = p @ t \<and> CHR ''/'' \<notin> set t)"
proof (cases "p = []")
  case False
  assume p: "plain p"
  show ?thesis
    using glob_step [OF scan_chunk_plain [OF p False, of "''*''", simplified], of n]
    by (auto simp: first_match_here match_chunk_plain [OF p] has_prefix_iff glob_star_end split: if_splits)
qed (simp add: glob_star_end)

end
