(* ===== verification/Policy.thy ===== *)
theory Policy
  imports Registry Glob
begin

section \<open>The policy engine (internal/policy/policy.go)\<close>

text \<open>
  The configuration, its file, and the check every tool call passes before its handler runs. The
  files of the state directory are a map from paths to JSON messages. \<open>save\<close> writes a temporary
  file and renames it, so it either stores the whole document or, when one of the calls to the
  operating system fails (its \<open>fail\<close> argument), leaves the file alone. The state directory is a
  cleaned path, so joining it with a name appends \<open>/\<close> and the name. The lock of the engine
  makes \<open>Snapshot\<close> and the assignment in \<open>Reload\<close> atomic.
\<close>

record config =
  cMode :: string
  cAllowTools :: "string list"
  cDenyTools :: "string list"
  cAllowPrivileged :: bool
  cAllowRemoteTargets :: bool
  cAllowExternalPlugins :: bool
  cAllowSensitiveAndroid :: bool
  cMaxExecTimeoutSeconds :: int

type_synonym files = "raw gomap"

record engine =
  eFile :: string
  eCfg :: config

definition Default :: config where
  "Default = \<lparr>cMode = ''full'', cAllowTools = [], cDenyTools = [], cAllowPrivileged = True,
     cAllowRemoteTargets = True, cAllowExternalPlugins = True, cAllowSensitiveAndroid = False,
     cMaxExecTimeoutSeconds = 3600\<rparr>"

definition zero_config :: config where
  "zero_config = \<lparr>cMode = [], cAllowTools = [], cDenyTools = [], cAllowPrivileged = False,
     cAllowRemoteTargets = False, cAllowExternalPlugins = False, cAllowSensitiveAndroid = False,
     cMaxExecTimeoutSeconds = 0\<rparr>"

subsection \<open>The file\<close>

text \<open>\<open>json.Unmarshal\<close> into the structure: unknown members are ignored.\<close>

definition decode_config_members :: "(string \<times> json) list \<Rightarrow> config \<times> bool" where
  "decode_config_members ms =
     (let (m, e1) = dec_field set_str [] ''mode'' ms;
          (a, e2) = dec_field set_strs [] ''allow_tools'' ms;
          (d, e3) = dec_field set_strs [] ''deny_tools'' ms;
          (p, e4) = dec_field set_bool False ''allow_privileged'' ms;
          (r, e5) = dec_field set_bool False ''allow_remote_targets'' ms;
          (x, e6) = dec_field set_bool False ''allow_external_plugins'' ms;
          (s, e7) = dec_field set_bool False ''allow_sensitive_android'' ms;
          (t, e8) = dec_field set_int 0 ''max_exec_timeout_seconds'' ms
      in (\<lparr>cMode = m, cAllowTools = a, cDenyTools = d, cAllowPrivileged = p,
           cAllowRemoteTargets = r, cAllowExternalPlugins = x, cAllowSensitiveAndroid = s,
           cMaxExecTimeoutSeconds = t\<rparr>, e1 \<or> e2 \<or> e3 \<or> e4 \<or> e5 \<or> e6 \<or> e7 \<or> e8))"

fun decode_config :: "raw \<Rightarrow> config res" where
  "decode_config (RawDoc (JObj ms)) =
     (let (c, bad) = decode_config_members ms in if bad then Inl json_err else Inr c)"
| "decode_config (RawDoc JNull) = Inr zero_config"
| "decode_config _ = Inl json_err"

text \<open>\<open>json.MarshalIndent\<close> of the structure, with the \<open>omitempty\<close> lists.\<close>

definition encode_strs :: "string \<Rightarrow> string list \<Rightarrow> (string \<times> json) list" where
  "encode_strs key xs = (if xs = [] then [] else [(key, JArr (map JStr xs))])"

definition encode_config :: "config \<Rightarrow> json" where
  "encode_config c = JObj ([(''mode'', JStr (cMode c))] @
     encode_strs ''allow_tools'' (cAllowTools c) @ encode_strs ''deny_tools'' (cDenyTools c) @
     [(''allow_privileged'', JBool (cAllowPrivileged c)),
      (''allow_remote_targets'', JBool (cAllowRemoteTargets c)),
      (''allow_external_plugins'', JBool (cAllowExternalPlugins c)),
      (''allow_sensitive_android'', JBool (cAllowSensitiveAndroid c)),
      (''max_exec_timeout_seconds'', JNum (JInt (cMaxExecTimeoutSeconds c)))])"

definition policy_modes :: "string list" where
  "policy_modes = [''full'', ''safe'', ''readonly'']"

text \<open>What \<open>Reload\<close> makes of the bytes of the file.\<close>

definition load_config :: "raw \<Rightarrow> config res" where
  "load_config doc =
     (case decode_config doc of
        Inl e \<Rightarrow> Inl (Errorf ''parse policy: %w'' [FErr e])
      | Inr c0 \<Rightarrow>
          let c1 = (if cMode c0 = [] then c0\<lparr>cMode := ''full''\<rparr> else c0)
          in if cMode c1 \<notin> set policy_modes
             then Inl (Errorf ''unknown policy mode %q'' [FStr (cMode c1)])
             else Inr (if cMaxExecTimeoutSeconds c1 \<le> 0
                       then c1\<lparr>cMaxExecTimeoutSeconds := 3600\<rparr> else c1))"

definition read_file :: "files \<Rightarrow> string \<Rightarrow> raw res" where
  "read_file fs path = (case gm_get fs path of None \<Rightarrow> Inl ErrNotExist | Some d \<Rightarrow> Inr d)"

definition Reload :: "files \<Rightarrow> engine \<Rightarrow> goerr option \<times> engine" where
  "Reload fs e =
     (case read_file fs (eFile e) of
        Inl err \<Rightarrow> (Some err, e)
      | Inr doc \<Rightarrow>
          (case load_config doc of
             Inl err \<Rightarrow> (Some err, e)
           | Inr c \<Rightarrow> (None, e\<lparr>eCfg := c\<rparr>)))"

definition save :: "goerr option \<Rightarrow> engine \<Rightarrow> config \<Rightarrow> files \<Rightarrow> goerr option \<times> files" where
  "save fail e c fs =
     (case fail of
        Some err \<Rightarrow> (Some err, fs)
      | None \<Rightarrow> (None, gm_put (eFile e) (RawDoc (encode_config c)) fs))"

definition policy_new :: "goerr option \<Rightarrow> string \<Rightarrow> files \<Rightarrow> engine res \<times> files" where
  "policy_new fail stateDir fs =
     (let e = \<lparr>eFile = stateDir @ ''/policy.json'', eCfg = Default\<rparr>;
          (err, fs1) = (if gm_has fs (eFile e) then (None, fs) else save fail e Default fs)
      in case err of
           Some x \<Rightarrow> (Inl x, fs1)
         | None \<Rightarrow>
             (case Reload fs1 e of
                (Some x, _) \<Rightarrow> (Inl x, fs1)
              | (None, e1) \<Rightarrow> (Inr e1, fs1)))"

definition Snapshot :: "engine \<Rightarrow> config" where
  "Snapshot e = eCfg e"

text \<open>The tools \<open>policy_get\<close> and \<open>policy_reload\<close> (internal/tools/governance.go), which take no arguments.\<close>

definition policy_get_tool :: "raw \<Rightarrow> engine \<Rightarrow> tool_value res" where
  "policy_get_tool args e =
     Inr (Plain (JObj [(''file'', JStr (eFile e)), (''policy'', encode_config (Snapshot e))]))"

definition policy_reload_tool :: "files \<Rightarrow> raw \<Rightarrow> engine \<Rightarrow> tool_value res \<times> engine" where
  "policy_reload_tool fs args e =
     (case Reload fs e of
        (Some err, e1) \<Rightarrow> (Inl err, e1)
      | (None, e1) \<Rightarrow>
          (Inr (Plain (JObj [(''file'', JStr (eFile e1)), (''policy'', encode_config (Snapshot e1)),
             (''reloaded'', JBool True)])), e1))"

subsection \<open>The check of a call\<close>

text \<open>\<open>match\<close> of the source.\<close>

definition match_tool :: "string \<Rightarrow> string \<Rightarrow> bool" where
  "match_tool pattern name \<longleftrightarrow> pattern = name \<or> glob pattern name"

definition readonly_safe :: "string list" where
  "readonly_safe = [''system_info'', ''system_env'', ''network_request'', ''network_tcp'',
     ''network_resolve'', ''capabilities_list'', ''process_inspect'', ''job_list'', ''job_get'',
     ''job_tail'', ''desktop_capture'', ''audit_tail'', ''policy_get'', ''target_list'', ''target_get'',
     ''target_probe'', ''assistant_device_status'', ''assistant_location'', ''assistant_clipboard_get'',
     ''assistant_contacts'', ''assistant_sms_list'', ''assistant_call_log'']"

definition isMutation :: "string \<Rightarrow> bool" where
  "isMutation tool =
     (if has_prefix tool ''fs_'' then
        tool \<noteq> ''fs_list'' \<and> tool \<noteq> ''fs_read'' \<and> tool \<noteq> ''fs_search'' \<and> tool \<noteq> ''fs_stat''
      else if has_prefix tool ''state_'' then tool \<noteq> ''state_get'' \<and> tool \<noteq> ''state_list''
      else tool \<notin> set readonly_safe)"

definition high_impact :: "string list" where
  "high_impact = [''fs_remove'', ''process_signal'', ''job_signal'', ''service_control'',
     ''target_remove'', ''target_exec'', ''target_copy'', ''desktop_input'', ''plugins_reload'',
     ''android_api_call'']"

definition isHighImpact :: "string \<Rightarrow> bool" where
  "isHighImpact tool \<longleftrightarrow> tool \<in> set high_impact"

definition sensitive_android :: "string list" where
  "sensitive_android = [''assistant_sms_send'', ''assistant_phone_call'', ''assistant_camera_photo'',
     ''assistant_microphone_record'', ''assistant_contacts'', ''assistant_sms_list'',
     ''assistant_call_log'']"

definition isSensitiveAndroid :: "string \<Rightarrow> bool" where
  "isSensitiveAndroid tool \<longleftrightarrow> tool \<in> set sensitive_android"

text \<open>A number too large for \<open>float64\<close> leaves the member nil.\<close>

fun numberAsInt :: "arch \<Rightarrow> json option \<Rightarrow> int option" where
  "numberAsInt a (Some (JNum n)) = (if float_overflows n then None else Some (float_to_int a n))"
| "numberAsInt a _ = None"

text \<open>The map the arguments are decoded into; the error is ignored, which leaves it nil.\<close>

definition policy_args :: "raw \<Rightarrow> json gomap option" where
  "policy_args args = (case unmarshal_map args of Inl _ \<Rightarrow> None | Inr m \<Rightarrow> m)"

definition policy_method :: "json gomap option \<Rightarrow> string" where
  "policy_method obj =
     (case map_at obj ''method'' of Some (JStr m) \<Rightarrow> to_upper (trim_space m) | _ \<Rightarrow> [])"

definition read_methods :: "string list" where
  "read_methods = [[], ''GET'', ''HEAD'', ''OPTIONS'']"

definition check_args :: "arch \<Rightarrow> config \<Rightarrow> string \<Rightarrow> json gomap option \<Rightarrow> goerr option" where
  "check_args a cfg tool obj =
     (if map_at obj ''privileged'' = Some (JBool True) \<and> \<not> cAllowPrivileged cfg
      then Some (err_new ''policy denied privileged execution'')
      else
        (case numberAsInt a (map_at obj ''timeout_seconds'') of
           Some seconds \<Rightarrow>
             if cMaxExecTimeoutSeconds cfg < seconds
             then Some (Errorf ''policy timeout limit exceeded: %d > %d seconds''
                          [FInt seconds, FInt (cMaxExecTimeoutSeconds cfg)])
             else None
         | None \<Rightarrow> None))"

definition check_method :: "config \<Rightarrow> string \<Rightarrow> json gomap option \<Rightarrow> goerr option" where
  "check_method cfg tool obj =
     (if cMode cfg = ''readonly'' \<and> tool = ''network_request'' \<and> policy_method obj \<notin> set read_methods
      then Some (Errorf ''policy readonly mode denied mutating HTTP method %s'' [FStr (policy_method obj)])
      else if has_prefix tool ''target_'' \<and> tool \<noteq> ''target_list'' \<and> tool \<noteq> ''target_get'' \<and>
              tool \<noteq> ''target_probe'' \<and> \<not> cAllowRemoteTargets cfg
      then Some (err_new ''policy denied remote target operations'')
      else None)"

definition BeforeCall :: "arch \<Rightarrow> config \<Rightarrow> string \<Rightarrow> raw \<Rightarrow> goerr option" where
  "BeforeCall a cfg tool args =
     (if list_ex (\<lambda>p. match_tool p tool) (cDenyTools cfg)
      then Some (Errorf ''policy denied tool %s'' [FStr tool])
      else if cAllowTools cfg \<noteq> [] \<and> \<not> list_ex (\<lambda>p. match_tool p tool) (cAllowTools cfg)
      then Some (Errorf ''policy did not allow tool %s'' [FStr tool])
      else if cMode cfg = ''readonly'' \<and> isMutation tool
      then Some (Errorf ''policy readonly mode denied mutating tool %s'' [FStr tool])
      else if cMode cfg = ''safe'' \<and> isHighImpact tool
      then Some (Errorf ''policy safe mode denied high-impact tool %s'' [FStr tool])
      else if isSensitiveAndroid tool \<and> \<not> cAllowSensitiveAndroid cfg
      then Some (Errorf ''policy denied sensitive Android capability %s; set allow_sensitive_android=true to opt in'' [FStr tool])
      else
        (let obj = policy_args args
         in case check_args a cfg tool obj of
              Some e \<Rightarrow> Some e
            | None \<Rightarrow> check_method cfg tool obj))"

text \<open>The engine as an interceptor; \<open>get\<close> finds it in the state of the program.\<close>

definition policy_interceptor :: "arch \<Rightarrow> ('w \<Rightarrow> engine) \<Rightarrow> 'w interceptor" where
  "policy_interceptor a get =
     \<lparr>iBefore = \<lambda>tool args w. (BeforeCall a (Snapshot (get w)) tool args, w),
      iAfter = \<lambda>tool args d e w. w\<rparr>"

subsection \<open>Lemmas on the check\<close>

text \<open>The tools readonly mode is meant to leave: what reads files, state, and the machine.\<close>

definition readonly_tools :: "string list" where
  "readonly_tools =
     [''fs_list'', ''fs_read'', ''fs_search'', ''fs_stat'', ''state_get'', ''state_list'',
      ''system_info'', ''system_env'', ''capabilities_list'', ''process_inspect'', ''policy_get'', ''audit_tail'',
      ''network_request'', ''network_tcp'', ''network_resolve'', ''job_list'', ''job_get'', ''job_tail'',
      ''desktop_capture'', ''target_list'', ''target_get'', ''target_probe'',
      ''assistant_device_status'', ''assistant_location'', ''assistant_clipboard_get'',
      ''assistant_contacts'', ''assistant_sms_list'', ''assistant_call_log'']"

lemma readonly_tools_no_mutation: "list_all (\<lambda>t. \<not> isMutation t) readonly_tools"
  by code_simp

lemma isMutation_iff: "isMutation tool \<longleftrightarrow> tool \<notin> set readonly_tools"
proof (cases "tool \<in> set readonly_tools")
  case True
  then show ?thesis using readonly_tools_no_mutation by (simp add: list_all_iff)
next
  case False
  then have "tool \<notin> set readonly_safe" by (simp add: readonly_tools_def readonly_safe_def)
  with False show ?thesis by (simp add: readonly_tools_def isMutation_def)
qed

lemma match_tool_plain: "plain p \<Longrightarrow> match_tool p n \<longleftrightarrow> n = p"
  by (auto simp: match_tool_def glob_plain)

lemma BeforeCall_None:
  "BeforeCall a cfg tool args = None \<longleftrightarrow>
     \<not> list_ex (\<lambda>p. match_tool p tool) (cDenyTools cfg) \<and>
     (cAllowTools cfg = [] \<or> list_ex (\<lambda>p. match_tool p tool) (cAllowTools cfg)) \<and>
     \<not> (cMode cfg = ''readonly'' \<and> isMutation tool) \<and>
     \<not> (cMode cfg = ''safe'' \<and> isHighImpact tool) \<and>
     \<not> (isSensitiveAndroid tool \<and> \<not> cAllowSensitiveAndroid cfg) \<and>
     check_args a cfg tool (policy_args args) = None \<and>
     check_method cfg tool (policy_args args) = None"
  by (auto simp: BeforeCall_def Let_def split: option.split)

lemma check_args_None:
  "check_args a cfg tool obj = None \<longleftrightarrow>
     (map_at obj ''privileged'' = Some (JBool True) \<longrightarrow> cAllowPrivileged cfg) \<and>
     (\<forall>s. numberAsInt a (map_at obj ''timeout_seconds'') = Some s \<longrightarrow> s \<le> cMaxExecTimeoutSeconds cfg)"
  by (auto simp: check_args_def split: option.split)

lemma check_method_None:
  "check_method cfg tool obj = None \<longleftrightarrow>
     \<not> (cMode cfg = ''readonly'' \<and> tool = ''network_request'' \<and> policy_method obj \<notin> set read_methods) \<and>
     \<not> (has_prefix tool ''target_'' \<and> tool \<noteq> ''target_list'' \<and> tool \<noteq> ''target_get'' \<and>
         tool \<noteq> ''target_probe'' \<and> \<not> cAllowRemoteTargets cfg)"
  by (simp add: check_method_def)

lemmas accepted_iff = BeforeCall_None check_args_None check_method_None list_ex_iff

lemma map_at_policy_args: "map_at (policy_args (RawDoc (JObj ms))) k = last_member ms k"
  by (simp add: policy_args_def map_at_def gm_get_of last_member_def)

text \<open>
  What a handler decodes against what the policy looked up. \<open>spelled f ms\<close>: no member of the message is
  another spelling of the field \<open>f\<close>, such as one with capitals, which decoding takes for \<open>f\<close>.
\<close>

definition spelled :: "string \<Rightarrow> (string \<times> json) list \<Rightarrow> bool" where
  "spelled f ms \<longleftrightarrow> list_all (\<lambda>(k, v). key_matches f k \<longrightarrow> k = f) ms"

lemma filter_key: "gm_ok m \<Longrightarrow> filter (\<lambda>(k', v). k' = k) m = (case gm_get m k of None \<Rightarrow> [] | Some v \<Rightarrow> [(k, v)])"
proof (induction m)
  case (Cons kv m)
  have "gm_get m k = None" if "k \<notin> fst ` set m" using that by (simp add: gm_get_None)
  with Cons show ?case by (cases kv) (auto simp: gm_ok_def gm_get_def split: option.splits)
qed simp

lemma spelled_values:
  assumes "spelled f ms" and "f \<noteq> ''reason''" and "stripReason (RawDoc (JObj ms)) = RawDoc (JObj out)"
  shows "field_values f out = (case last_member ms f of None \<Rightarrow> [] | Some v \<Rightarrow> [v])"
proof -
  let ?m = "gm_del ''reason'' (gm_of ms)"
  have out: "out = gm_sorted ?m" using assms(3) by (simp add: stripReason_obj)
  have ok: "gm_ok out" unfolding out by (rule gm_ok_sorted) simp
  have get: "gm_get out k = (if k = ''reason'' then None else last_member ms k)" for k
    using gm_get_sorted [of ?m k] by (simp add: out gm_get_of last_member_def)
  have "k = f" if "(k, v) \<in> set out" and "key_matches f k" for k v
  proof -
    have "gm_get out k = Some v" using ok that(1) by (simp add: gm_ok_def gm_get_def)
    then have "map_of (rev ms) k = Some v" by (simp add: get last_member_def split: if_splits)
    then have "(k, v) \<in> set ms" by (auto dest: map_of_SomeD)
    then show ?thesis using assms(1) that(2) by (auto simp: spelled_def list_all_iff)
  qed
  moreover have "key_matches f f" by (simp add: key_matches_def)
  ultimately have "filter (\<lambda>(k, v). key_matches f k) out = filter (\<lambda>(k, v). k = f) out"
    by (intro filter_cong refl) auto
  then show ?thesis using filter_key [OF ok, of f] get [of f] assms(2) by (simp add: field_values_def split: option.split)
qed

lemma readonly_method:
  assumes "BeforeCall a cfg ''network_request'' (RawDoc (JObj ms)) = None"
    and "stripReason (RawDoc (JObj ms)) = RawDoc (JObj out)"
    and "cMode cfg = ''readonly''" and "spelled ''method'' ms" and "dec_field set_str [] ''method'' out = (m, False)"
  shows "to_upper (trim_space m) \<in> {[], ''GET'', ''HEAD'', ''OPTIONS''}"
proof -
  have acc: "policy_method (policy_args (RawDoc (JObj ms))) \<in> set read_methods"
    using assms(1,3) by (simp add: accepted_iff)
  have blank: "trim_space [] = []" "to_upper [] = []" by code_simp+
  have vals: "field_values ''method'' out = (case last_member ms ''method'' of None \<Rightarrow> [] | Some v \<Rightarrow> [v])"
    using spelled_values [OF assms(4) _ assms(2)] by simp
  show ?thesis
  proof (cases "last_member ms ''method''")
    case None
    then show ?thesis using assms(5) vals blank by (simp add: dec_field_def)
  next
    case (Some v)
    then have "dec_steps set_str ([], False) [v] = (m, False)" using assms(5) vals by (simp add: dec_field_def)
    then have "m = [] \<or> v = JStr m" by (cases v) auto
    then show ?thesis
      using acc Some blank by (auto simp: policy_method_def map_at_policy_args read_methods_def)
  qed
qed

definition config_ok :: "config \<Rightarrow> bool" where
  "config_ok c \<longleftrightarrow> cMode c \<in> set policy_modes \<and> 0 < cMaxExecTimeoutSeconds c"

lemma load_config_ok: "load_config doc = Inr c \<Longrightarrow> config_ok c"
  by (auto simp: load_config_def Let_def config_ok_def split: sum.splits if_splits)

lemma Reload_ok: "config_ok (eCfg e) \<Longrightarrow> config_ok (eCfg (snd (Reload fs e)))"
  by (auto simp: Reload_def load_config_ok split: sum.split)

text \<open>Decoding an encoded configuration.\<close>

lemma strs_of_JStr [simp]: "strs_of (map JStr xs) = Some xs"
  by (induction xs) auto

abbreviation config_fields :: "string list" where
  "config_fields \<equiv> [''mode'', ''allow_tools'', ''deny_tools'', ''allow_privileged'',
     ''allow_remote_targets'', ''allow_external_plugins'', ''allow_sensitive_android'',
     ''max_exec_timeout_seconds'']"

lemma config_fields_distinct: "distinct (map fold_name config_fields)"
  by code_simp

lemmas key_matches_config = key_matches_fields [OF config_fields_distinct]

lemma field_values_strs:
  "f \<in> set config_fields \<Longrightarrow> g \<in> set config_fields \<Longrightarrow>
   field_values f (encode_strs g xs) = (if f = g \<and> xs \<noteq> [] then [JArr (map JStr xs)] else [])"
  using key_matches_config [of f g] by (auto simp: encode_strs_def field_values_Cons)

lemma decode_encode:
  assumes "- (2 ^ 63) \<le> cMaxExecTimeoutSeconds c" and "cMaxExecTimeoutSeconds c < 2 ^ 63"
  shows "decode_config (RawDoc (encode_config c)) = Inr c"
proof -
  show ?thesis
    unfolding encode_config_def decode_config.simps decode_config_members_def dec_field_def
    using assms
    by (cases c) (simp add: field_values_append field_values_strs field_values_Cons key_matches_config Let_def)
qed

lemma load_encode:
  assumes "config_ok c" and "cMaxExecTimeoutSeconds c < 2 ^ 63"
  shows "load_config (RawDoc (encode_config c)) = Inr c"
  using assms decode_encode [of c]
  by (auto simp: load_config_def Let_def config_ok_def policy_modes_def)

lemma Default_ok [simp]: "config_ok Default"
  by (simp add: config_ok_def Default_def policy_modes_def)

subsection \<open>The check inside a call\<close>

text \<open>The registry with another handler for one of its tools.\<close>

definition with_handler :: "string \<Rightarrow> 'w handler \<Rightarrow> 'w registry \<Rightarrow> 'w registry" where
  "with_handler name h r =
     r\<lparr>rTools := map (\<lambda>(k, t). (k, if k = name then t\<lparr>tHandler := Some h\<rparr> else t)) (rTools r)\<rparr>"

lemma with_handler_get:
  "gm_get (rTools (with_handler name h r)) name =
     map_option (\<lambda>t. t\<lparr>tHandler := Some h\<rparr>) (gm_get (rTools r) name)"
proof -
  have "map_of (map (\<lambda>(k, t). (k, if k = name then t\<lparr>tHandler := Some h\<rparr> else t)) m) name =
     map_option (\<lambda>t. t\<lparr>tHandler := Some h\<rparr>) (map_of m name)" for m :: "(string \<times> 'a tool) list"
    by (induction m) auto
  then show ?thesis by (simp add: with_handler_def gm_get_def)
qed

lemma with_handler_interceptors [simp]: "rInterceptors (with_handler name h r) = rInterceptors r"
  by (simp add: with_handler_def)

text \<open>Interceptors that do not touch what \<open>get\<close> reads.\<close>

definition keeps :: "('w \<Rightarrow> 'c) \<Rightarrow> 'w interceptor \<Rightarrow> bool" where
  "keeps get i \<longleftrightarrow> (\<forall>name args w. get (snd (iBefore i name args w)) = get w)"

lemma run_before_refuses:
  assumes "i \<in> set is" and "\<And>j. j \<in> set is \<Longrightarrow> keeps get j"
    and "\<And>w'. get w' = get w \<Longrightarrow> fst (iBefore i name args w') \<noteq> None"
  shows "fst (run_before is name args w) \<noteq> None"
  using assms
proof (induction "is" arbitrary: w)
  case Nil
  then show ?case by simp
next
  case (Cons j js)
  obtain e w' where b: "iBefore j name args w = (e, w')" by (cases "iBefore j name args w")
  then have w': "get w' = get w" using Cons.prems(2) [of j] unfolding keeps_def by (metis list.set_intros(1) snd_conv)
  show ?case
  proof (cases e)
    case (Some x)
    with b show ?thesis by simp
  next
    case None
    then have "i \<noteq> j" using Cons.prems(3) [of w] b by auto
    then have "fst (run_before js name args w') \<noteq> None"
      using Cons.prems w' by (intro Cons.IH) auto
    with b None show ?thesis by simp
  qed
qed

lemma call_refused:
  assumes "fst (run_before (rInterceptors r) name (call_args args) w) \<noteq> None"
  shows "(\<exists>e. fst (call r name args d w) = Inl e) \<and>
    call (with_handler name h r) name args d w = call r name args d w"
  using assms
  by (auto simp: call_def Let_def with_handler_get split: option.split prod.split)

subsection \<open>Properties\<close>

text \<open>
  C2: a call the policy refuses never reaches its handler. In a registry that has the policy
  interceptor among interceptors that leave the configuration alone, such a call returns an error
  and the state it returns is the same whatever the tool's handler is.
\<close>

theorem policy_refusal_stops_call:
  assumes "policy_interceptor a get \<in> set (rInterceptors r)"
    and "\<forall>i \<in> set (rInterceptors r). keeps get i"
    and "BeforeCall a (eCfg (get w)) name (call_args args) \<noteq> None"
  shows "(\<exists>e. fst (call r name args d w) = Inl e) \<and>
    call (with_handler name h r) name args d w = call r name args d w"
proof -
  have "fst (run_before (rInterceptors r) name (call_args args) w) \<noteq> None"
    using assms by (intro run_before_refuses [where get = get]) (auto simp: policy_interceptor_def Snapshot_def)
  then show ?thesis by (rule call_refused)
qed

text \<open>
  C4: an accepted call matches no deny pattern, and some allow pattern when there is one; it is in readonly
  mode one of the tools that read, in safe mode not a high-impact tool, and not a sensitive Android tool or
  a remote-target operation that the configuration forbids. Of its arguments, \<open>privileged\<close> under exactly that
  name is not true unless that is allowed, and an integer \<open>timeout_seconds\<close> is at most the limit (below 2^53,
  where the conversion to \<open>float64\<close> is exact). The same holds of what the handler decodes, and a request in
  readonly mode has a reading HTTP method, when no member of the message spells the field in another way;
  when one does, it does not (C9).
\<close>

theorem accepted_call_conforms:
  assumes "BeforeCall a cfg tool (RawDoc (JObj ms)) = None"
    and "stripReason (RawDoc (JObj ms)) = RawDoc (JObj out)"
  shows "(\<forall>p \<in> set (cDenyTools cfg). \<not> match_tool p tool) \<and>
    (cAllowTools cfg \<noteq> [] \<longrightarrow> (\<exists>p \<in> set (cAllowTools cfg). match_tool p tool)) \<and>
    (cMode cfg = ''readonly'' \<longrightarrow> tool \<in> set readonly_tools) \<and>
    (cMode cfg = ''safe'' \<longrightarrow> tool \<notin> set high_impact) \<and>
    (tool \<in> set sensitive_android \<longrightarrow> cAllowSensitiveAndroid cfg) \<and>
    (tool \<in> {''target_exec'', ''target_copy'', ''target_upsert'', ''target_remove''} \<longrightarrow> cAllowRemoteTargets cfg) \<and>
    (last_member ms ''privileged'' = Some (JBool True) \<longrightarrow> cAllowPrivileged cfg) \<and>
    (\<forall>n. last_member ms ''timeout_seconds'' = Some (JNum (JInt n)) \<and> \<bar>n\<bar> < 2 ^ 53 \<longrightarrow>
       n \<le> cMaxExecTimeoutSeconds cfg) \<and>
    (spelled ''privileged'' ms \<and> dec_field set_bool False ''privileged'' out = (True, False) \<longrightarrow> cAllowPrivileged cfg) \<and>
    (\<forall>n. spelled ''timeout_seconds'' ms \<and> dec_field set_int 0 ''timeout_seconds'' out = (n, False) \<and> 0 < n \<and> n < 2 ^ 53 \<longrightarrow>
       n \<le> cMaxExecTimeoutSeconds cfg) \<and>
    (\<forall>m. cMode cfg = ''readonly'' \<and> tool = ''network_request'' \<and> spelled ''method'' ms \<and>
         dec_field set_str [] ''method'' out = (m, False) \<longrightarrow>
       to_upper (trim_space m) \<in> {[], ''GET'', ''HEAD'', ''OPTIONS''})"
proof -
  note acc = assms(1) [unfolded accepted_iff map_at_policy_args]
  note vals = spelled_values [OF _ _ assms(2)]
  have time: "n \<le> cMaxExecTimeoutSeconds cfg"
    if "last_member ms ''timeout_seconds'' = Some (JNum (JInt n))" "\<bar>n\<bar> < 2 ^ 53" for n
    using acc that float_overflows_exact [OF that(2)] float_to_int_exact [OF that(2), of a] by simp
  have target: "has_prefix tool ''target_'' \<and> tool \<notin> set [''target_list'', ''target_get'', ''target_probe'']"
    if "tool \<in> {''target_exec'', ''target_copy'', ''target_upsert'', ''target_remove''}"
    using that by auto
  have remote: "tool \<in> {''target_exec'', ''target_copy'', ''target_upsert'', ''target_remove''} \<longrightarrow>
      cAllowRemoteTargets cfg"
  proof
    assume "tool \<in> {''target_exec'', ''target_copy'', ''target_upsert'', ''target_remove''}"
    from target [OF this] acc show "cAllowRemoteTargets cfg" by simp
  qed
  show ?thesis
  proof (intro conjI remote)
    show "\<forall>p \<in> set (cDenyTools cfg). \<not> match_tool p tool" using acc by simp
    show "cAllowTools cfg \<noteq> [] \<longrightarrow> (\<exists>p \<in> set (cAllowTools cfg). match_tool p tool)"
      using acc [THEN conjunct2, THEN conjunct1] by auto
    show "cMode cfg = ''safe'' \<longrightarrow> tool \<notin> set high_impact" using acc by (simp add: isHighImpact_def)
    show "tool \<in> set sensitive_android \<longrightarrow> cAllowSensitiveAndroid cfg"
      using acc by (simp add: isSensitiveAndroid_def)
    show "cMode cfg = ''readonly'' \<longrightarrow> tool \<in> set readonly_tools" using acc by (simp add: isMutation_iff)
    show priv: "last_member ms ''privileged'' = Some (JBool True) \<longrightarrow> cAllowPrivileged cfg" using acc by simp
    show "\<forall>n. last_member ms ''timeout_seconds'' = Some (JNum (JInt n)) \<and> \<bar>n\<bar> < 2 ^ 53 \<longrightarrow> n \<le> cMaxExecTimeoutSeconds cfg"
      using time by blast
    show "spelled ''privileged'' ms \<and> dec_field set_bool False ''privileged'' out = (True, False) \<longrightarrow> cAllowPrivileged cfg"
    proof
      assume p: "spelled ''privileged'' ms \<and> dec_field set_bool False ''privileged'' out = (True, False)"
      then have "last_member ms ''privileged'' = Some (JBool True)"
        using vals [of "''privileged''"] by (auto simp: dec_field_def split: option.splits elim: set_bool.elims)
      with priv show "cAllowPrivileged cfg" by blast
    qed
    show "\<forall>n. spelled ''timeout_seconds'' ms \<and> dec_field set_int 0 ''timeout_seconds'' out = (n, False) \<and> 0 < n \<and> n < 2 ^ 53 \<longrightarrow>
        n \<le> cMaxExecTimeoutSeconds cfg"
    proof (intro allI impI)
      fix n
      assume t: "spelled ''timeout_seconds'' ms \<and> dec_field set_int 0 ''timeout_seconds'' out = (n, False) \<and> 0 < n \<and> n < 2 ^ 53"
      then have "last_member ms ''timeout_seconds'' = Some (JNum (JInt n))"
        using vals [of "''timeout_seconds''"]
        by (auto simp: dec_field_def split: option.splits if_splits elim!: set_int.elims)
      with t time show "n \<le> cMaxExecTimeoutSeconds cfg" by simp
    qed
    show "\<forall>m. cMode cfg = ''readonly'' \<and> tool = ''network_request'' \<and> spelled ''method'' ms \<and>
          dec_field set_str [] ''method'' out = (m, False) \<longrightarrow> to_upper (trim_space m) \<in> {[], ''GET'', ''HEAD'', ''OPTIONS''}"
      using readonly_method [OF _ assms(2)] assms(1) by blast
  qed
qed

text \<open>
  Reloading keeps the configuration valid (a known mode and a positive limit) whatever the
  file holds, and a file that is missing, malformed or of an unknown mode leaves the configuration
  in force unchanged.
\<close>

theorem reload_keeps_valid:
  assumes "config_ok (eCfg e)"
  shows "config_ok (eCfg (snd (Reload fs e))) \<and> eFile (snd (Reload fs e)) = eFile e \<and>
    (fst (Reload fs e) \<noteq> None \<longrightarrow> snd (Reload fs e) = e)"
  using Reload_ok [OF assms, of fs] by (auto simp: Reload_def split: sum.split)

text \<open>
  A valid configuration that was saved is what the next reload reads back, and an engine
  started on a directory without a policy file writes the default configuration and runs with it.
\<close>

theorem policy_save_reload:
  assumes "config_ok c" and "cMaxExecTimeoutSeconds c < 2 ^ 63"
  shows "Reload (snd (save None e c fs)) e = (None, e\<lparr>eCfg := c\<rparr>) \<and>
    (gm_get fs (dir @ ''/policy.json'') = None \<longrightarrow>
       fst (policy_new None dir fs) = Inr \<lparr>eFile = dir @ ''/policy.json'', eCfg = Default\<rparr>)"
proof -
  have d: "load_config (RawDoc (encode_config Default)) = Inr Default"
    by (rule load_encode) (simp_all add: Default_def config_ok_def policy_modes_def)
  show ?thesis
    using load_encode [OF assms] d by (simp add: Reload_def save_def read_file_def policy_new_def Let_def)
qed

text \<open>
  C9: the policy looks \<open>privileged\<close> up under exactly that name, while the handlers decode their
  arguments without regard to case. With the member spelled \<open>Privileged\<close> the decision is the one a
  configuration that allows privileged execution takes, and the field the handler decodes after
  the \<open>reason\<close> member is stripped is true.
\<close>

theorem privileged_case_bypass:
  "BeforeCall a cfg tool (RawDoc (JObj [(''reason'', JStr why), (''Privileged'', JBool True)])) =
     BeforeCall a (cfg\<lparr>cAllowPrivileged := True\<rparr>) tool
       (RawDoc (JObj [(''reason'', JStr why), (''Privileged'', JBool True)])) \<and>
   (\<exists>out. stripReason (RawDoc (JObj [(''reason'', JStr why), (''Privileged'', JBool True)])) = RawDoc (JObj out) \<and>
      dec_field set_bool False ''privileged'' out = (True, False))"
proof -
  let ?ms = "[(''reason'', JStr why), (''Privileged'', JBool True)]"
  have k: "key_matches ''privileged'' ''Privileged''" by code_simp
  have "check_args a cfg tool (policy_args (RawDoc (JObj ?ms))) =
      check_args a (cfg\<lparr>cAllowPrivileged := True\<rparr>) tool (policy_args (RawDoc (JObj ?ms)))"
    by (simp add: check_args_def map_at_policy_args last_member_def)
  moreover have "check_method (cfg\<lparr>cAllowPrivileged := True\<rparr>) = check_method cfg"
    by (intro ext) (simp add: check_method_def)
  ultimately have "BeforeCall a cfg tool (RawDoc (JObj ?ms)) =
      BeforeCall a (cfg\<lparr>cAllowPrivileged := True\<rparr>) tool (RawDoc (JObj ?ms))"
    by (simp add: BeforeCall_def Let_def split: option.split)
  moreover have "stripReason (RawDoc (JObj ?ms)) = RawDoc (JObj [(''Privileged'', JBool True)])"
    by (simp add: stripReason_obj gm_of_def gm_put_def gm_del_def AList.delete_eq gm_sorted_def)
  ultimately show ?thesis
    using k by (simp add: dec_field_def field_values_Cons)
qed

subsection \<open>Witnesses\<close>

definition sample_policy :: config where
  "sample_policy = Default\<lparr>cMode := ''readonly'', cDenyTools := [''desktop_*'']\<rparr>"

definition sample_guarded :: "engine registry" where
  "sample_guarded = AddInterceptor (Some (policy_interceptor AMD64 id))
     \<lparr>rTools = [(''fs_write'', \<lparr>tName = ''fs_write'', tTitle = [], tDescription = [], tInputSchema = None,
        tOutputSchema = None, tAnnotations = [], tHandler = None, tSource = []\<rparr>)], rInterceptors = []\<rparr>"

theorem policy_refusal_stops_call_witness:
  "(\<exists>e. fst (call sample_guarded ''fs_write'' (RawDoc (JObj [(''reason'', JStr ''r'')])) 0
        \<lparr>eFile = [], eCfg = sample_policy\<rparr>) = Inl e) \<and>
   call (with_handler ''fs_write'' (\<lambda>x w. (Inr (Plain JNull), w\<lparr>eFile := ''gone''\<rparr>)) sample_guarded) ''fs_write''
      (RawDoc (JObj [(''reason'', JStr ''r'')])) 0 \<lparr>eFile = [], eCfg = sample_policy\<rparr> =
   call sample_guarded ''fs_write'' (RawDoc (JObj [(''reason'', JStr ''r'')])) 0 \<lparr>eFile = [], eCfg = sample_policy\<rparr>"
proof (rule policy_refusal_stops_call [where a = AMD64 and get = id])
  show "policy_interceptor AMD64 id \<in> set (rInterceptors sample_guarded)"
    by (simp add: sample_guarded_def AddInterceptor_def)
  show "\<forall>i \<in> set (rInterceptors sample_guarded). keeps id i"
    by (simp add: sample_guarded_def AddInterceptor_def policy_interceptor_def keeps_def)
  have "is_nil (BeforeCall AMD64 sample_policy ''fs_write'' (call_args (RawDoc (JObj [(''reason'', JStr ''r'')])))) = False"
    by code_simp
  then show "BeforeCall AMD64 (eCfg (id \<lparr>eFile = [], eCfg = sample_policy\<rparr>)) ''fs_write''
      (call_args (RawDoc (JObj [(''reason'', JStr ''r'')]))) \<noteq> None" by simp
qed

theorem accepted_call_conforms_witness:
  "match_tool ''desktop_*'' ''fs_read'' = False"
proof -
  have "is_nil (BeforeCall AMD64 sample_policy ''fs_read'' (RawDoc (JObj [(''privileged'', JBool True)])))"
    by code_simp
  then have "BeforeCall AMD64 sample_policy ''fs_read'' (RawDoc (JObj [(''privileged'', JBool True)])) = None"
    by simp
  from accepted_call_conforms [OF this stripReason_obj, THEN conjunct1] show ?thesis
    by (simp add: sample_policy_def)
qed

theorem reload_keeps_valid_witness:
  "config_ok (eCfg (snd (Reload [(''p'', RawEmpty)] \<lparr>eFile = ''p'', eCfg = Default\<rparr>)))"
  using reload_keeps_valid [of "\<lparr>eFile = ''p'', eCfg = Default\<rparr>" "[(''p'', RawEmpty)]"] by simp

theorem policy_save_reload_witness:
  "Reload (snd (save None \<lparr>eFile = ''p'', eCfg = Default\<rparr> sample_policy [])) \<lparr>eFile = ''p'', eCfg = Default\<rparr> =
     (None, \<lparr>eFile = ''p'', eCfg = Default\<rparr>\<lparr>eCfg := sample_policy\<rparr>)"
  using policy_save_reload [of sample_policy "\<lparr>eFile = ''p'', eCfg = Default\<rparr>" "[]" "''d''"]
  by (simp add: sample_policy_def Default_def config_ok_def policy_modes_def)

end
