(* ===== verification/StateStore.thy ===== *)
theory StateStore
  imports Policy
begin

section \<open>The persistent state store (internal/state/store.go, internal/tools/state.go)\<close>

text \<open>
  The store keeps one JSON file per key under \<open>dir/kv/namespace/\<close>. The files are the map of the
  policy engine: the two share the state directory. \<open>join\<close> is \<open>filepath.Join\<close> for a cleaned
  directory and an element without \<open>/\<close>; it resolves \<open>.\<close> and \<open>..\<close>. Directories are not entries of
  the map: a directory exists when a file lies below it, and creating one never fails unless the
  \<open>fail\<close> argument of the operation says so. \<open>atomicWrite\<close> writes a temporary file and renames it, so
  it stores all of the document or nothing. The lock makes every operation atomic.

  A value goes through \<open>any\<close>: objects become maps (the last duplicate wins, keys are printed in
  order) and numbers become \<open>float64\<close>; \<open>num\<close> says how such a number is printed again, \<open>None\<close> when
  the literal overflows.
\<close>

subsection \<open>Paths\<close>

definition safe_byte :: "char \<Rightarrow> bool" where
  "safe_byte c \<longleftrightarrow> between (CHR ''a'') (CHR ''z'') c \<or> between (CHR ''A'') (CHR ''Z'') c \<or>
     is_digit c \<or> c \<in> set ''-_.''"

definition safe :: "string \<Rightarrow> string" where
  "safe s = map (\<lambda>c. if safe_byte c then c else CHR ''_'') s"

definition parent_dir :: "string \<Rightarrow> string" where
  "parent_dir d = rev (drop 1 (dropWhile (\<lambda>c. c \<noteq> CHR ''/'') (rev d)))"

definition join :: "string \<Rightarrow> string \<Rightarrow> string" where
  "join d x = (if x = [] \<or> x = ''.'' then d else if x = ''..'' then parent_dir d else d @ ''/'' @ x)"

definition kv_dir :: "string \<Rightarrow> string \<Rightarrow> string" where
  "kv_dir dir ns = join (dir @ ''/kv'') (safe ns)"

definition kv_file :: "string \<Rightarrow> string \<Rightarrow> string \<Rightarrow> string" where
  "kv_file dir ns key = join (kv_dir dir ns) (safe key @ ''.json'')"

subsection \<open>Values\<close>

fun any_value :: "(jnum \<Rightarrow> jnum option) \<Rightarrow> json \<Rightarrow> json option"
and any_members :: "(jnum \<Rightarrow> jnum option) \<Rightarrow> (string \<times> json) list \<Rightarrow> (string \<times> json) list option"
and any_items :: "(jnum \<Rightarrow> jnum option) \<Rightarrow> json list \<Rightarrow> json list option" where
  "any_value num (JNum n) = map_option JNum (num n)"
| "any_value num (JObj ms) = map_option (\<lambda>kvs. JObj (gm_sorted (gm_of kvs))) (any_members num ms)"
| "any_value num (JArr vs) = map_option JArr (any_items num vs)"
| "any_value num v = Some v"
| "any_members num [] = Some []"
| "any_members num ((k, v) # ms) =
     (case any_value num v of None \<Rightarrow> None
      | Some v' \<Rightarrow> map_option ((#) (k, v')) (any_members num ms))"
| "any_items num [] = Some []"
| "any_items num (v # vs) =
     (case any_value num v of None \<Rightarrow> None | Some v' \<Rightarrow> map_option ((#) v') (any_items num vs))"

subsection \<open>Operations\<close>

abbreviation key_required :: goerr where
  "key_required \<equiv> err_new ''namespace and key are required''"

definition store_new :: "goerr option \<Rightarrow> string \<Rightarrow> string res" where
  "store_new fail dir =
     (if dir = [] then Inl (err_new ''state dir is required'')
      else (case fail of Some e \<Rightarrow> Inl e | None \<Rightarrow> Inr dir))"

definition atomicWrite :: "goerr option \<Rightarrow> string \<Rightarrow> raw \<Rightarrow> files \<Rightarrow> goerr option \<times> files" where
  "atomicWrite fail path doc fs =
     (case fail of Some e \<Rightarrow> (Some e, fs) | None \<Rightarrow> (None, gm_put path doc fs))"

definition Put :: "goerr option \<Rightarrow> string \<Rightarrow> string \<Rightarrow> string \<Rightarrow> json \<Rightarrow> files \<Rightarrow> goerr option \<times> files" where
  "Put fail dir ns key v fs =
     (if ns = [] \<or> key = [] then (Some key_required, fs)
      else atomicWrite fail (kv_file dir ns key) (RawDoc v) fs)"

definition Get :: "(jnum \<Rightarrow> jnum option) \<Rightarrow> string \<Rightarrow> string \<Rightarrow> string \<Rightarrow> files \<Rightarrow> json res" where
  "Get num dir ns key fs =
     (case read_file fs (kv_file dir ns key) of
        Inl e \<Rightarrow> Inl e
      | Inr (RawDoc v) \<Rightarrow> (case any_value num v of None \<Rightarrow> Inl json_err | Some v' \<Rightarrow> Inr v')
      | Inr _ \<Rightarrow> Inl json_err)"

definition Delete :: "string \<Rightarrow> string \<Rightarrow> string \<Rightarrow> files \<Rightarrow> goerr option \<times> files" where
  "Delete dir ns key fs =
     (if ns = [] \<or> key = [] then (Some key_required, fs)
      else if gm_has fs (kv_file dir ns key) then (None, gm_del (kv_file dir ns key) fs)
      else (Some ErrNotExist, fs))"

text \<open>The regular files of a directory, by name.\<close>

definition dir_entries :: "string \<Rightarrow> files \<Rightarrow> string list" where
  "dir_entries d fs =
     map (\<lambda>(p, _). drop (length d + 1) p)
       (filter (\<lambda>(p, _). has_prefix p (d @ ''/'') \<and> CHR ''/'' \<notin> set (drop (length d + 1) p)) fs)"

definition List_keys :: "string \<Rightarrow> string \<Rightarrow> files \<Rightarrow> string list res" where
  "List_keys dir ns fs =
     (if ns = [] then Inl (err_new ''namespace is required'')
      else Inr (sort (map (\<lambda>n. take (length n - 5) n)
             (filter (\<lambda>n. has_suffix n ''.json'') (dir_entries (kv_dir dir ns) fs)))))"

subsection \<open>The tools\<close>

definition decode_ns_key :: "string list \<Rightarrow> raw \<Rightarrow> (string \<times> string \<times> (string \<times> json) list) res" where
  "decode_ns_key names args =
     (case decode_members names args of
        Inl e \<Rightarrow> Inl e
      | Inr ms \<Rightarrow>
          let (ns, e1) = dec_field set_str [] ''namespace'' ms;
              (key, e2) = dec_field set_str [] ''key'' ms
          in if e1 \<or> e2 then Inl invalid_arguments else Inr (ns, key, ms))"

definition state_get_tool :: "(jnum \<Rightarrow> jnum option) \<Rightarrow> string \<Rightarrow> raw \<Rightarrow> files \<Rightarrow> tool_value res \<times> files" where
  "state_get_tool num dir args fs =
     (case decode_ns_key [''namespace'', ''key''] args of
        Inl e \<Rightarrow> (Inl e, fs)
      | Inr (ns, key, ms) \<Rightarrow>
          (case Get num dir ns key fs of
             Inl e \<Rightarrow> (Inl e, fs)
           | Inr v \<Rightarrow> (Inr (Plain (JObj [(''key'', JStr key), (''namespace'', JStr ns), (''value'', v)])), fs)))"

definition state_put_tool ::
  "(jnum \<Rightarrow> jnum option) \<Rightarrow> goerr option \<Rightarrow> string \<Rightarrow> raw \<Rightarrow> files \<Rightarrow> tool_value res \<times> files" where
  "state_put_tool num fail dir args fs =
     (case decode_ns_key [''namespace'', ''key'', ''value''] args of
        Inl e \<Rightarrow> (Inl e, fs)
      | Inr (ns, key, ms) \<Rightarrow>
          (case fst (dec_field set_raw None ''value'' ms) of
             None \<Rightarrow> (Inl (err_new ''value is required''), fs)
           | Some v \<Rightarrow>
               (case any_value num v of
                  None \<Rightarrow> (Inl json_err, fs)
                | Some v' \<Rightarrow>
                    (case Put fail dir ns key v' fs of
                       (Some e, fs1) \<Rightarrow> (Inl e, fs1)
                     | (None, fs1) \<Rightarrow>
                         (Inr (Plain (JObj [(''key'', JStr key), (''namespace'', JStr ns), (''stored'', JBool True)])), fs1)))))"

definition state_delete_tool :: "string \<Rightarrow> raw \<Rightarrow> files \<Rightarrow> tool_value res \<times> files" where
  "state_delete_tool dir args fs =
     (case decode_ns_key [''namespace'', ''key''] args of
        Inl e \<Rightarrow> (Inl e, fs)
      | Inr (ns, key, ms) \<Rightarrow>
          (case Delete dir ns key fs of
             (Some e, fs1) \<Rightarrow> (Inl e, fs1)
           | (None, fs1) \<Rightarrow>
               (Inr (Plain (JObj [(''deleted'', JBool True), (''key'', JStr key), (''namespace'', JStr ns)])), fs1)))"

definition state_list_tool :: "string \<Rightarrow> raw \<Rightarrow> files \<Rightarrow> tool_value res \<times> files" where
  "state_list_tool dir args fs =
     (case decode_members [''namespace''] args of
        Inl e \<Rightarrow> (Inl e, fs)
      | Inr ms \<Rightarrow>
          (case strict (dec_field set_str [] ''namespace'' ms) of
             Inl e \<Rightarrow> (Inl e, fs)
           | Inr ns \<Rightarrow>
               (case List_keys dir ns fs of
                  Inl e \<Rightarrow> (Inl e, fs)
                | Inr keys \<Rightarrow>
                    (Inr (Plain (JObj [(''keys'', JArr (map JStr keys)), (''namespace'', JStr ns)])), fs))))"

subsection \<open>Lemmas on paths\<close>

lemma safe_id: "list_all safe_byte s \<Longrightarrow> safe s = s"
  by (induction s) (simp_all add: safe_def)

lemma safe_no_slash: "CHR ''/'' \<notin> set (safe s)"
  by (auto simp: safe_def safe_byte_def between_def is_digit_def less_eq_char_def split: if_splits)

lemma safe_safe: "list_all safe_byte (safe s)"
  by (auto simp: safe_def list_all_iff safe_byte_def)

lemma safe_idem [simp]: "safe (safe s) = safe s"
  by (rule safe_id [OF safe_safe])

lemma safe_length [simp]: "length (safe s) = length s"
  by (simp add: safe_def)

lemma safe_Nil_iff [simp]: "safe s = [] \<longleftrightarrow> s = []"
  by (simp add: safe_def)

lemma kv_file_eq: "kv_file dir ns key = kv_dir dir ns @ ''/'' @ safe key @ ''.json''"
proof -
  have "safe key @ ''.json'' \<noteq> ''.''" "safe key @ ''.json'' \<noteq> ''..''"
    by (auto simp: append_eq_Cons_conv)
  then show ?thesis by (simp add: kv_file_def join_def)
qed

lemma kv_dir_plain:
  "safe ns \<noteq> ''.'' \<Longrightarrow> safe ns \<noteq> ''..'' \<Longrightarrow> ns \<noteq> [] \<Longrightarrow> kv_dir dir ns = dir @ ''/kv/'' @ safe ns"
  by (simp add: kv_dir_def join_def)

lemma last_element_unique:
  assumes "a @ ''/'' @ x = b @ ''/'' @ y" and "CHR ''/'' \<notin> set x" and "CHR ''/'' \<notin> set y"
  shows "a = b \<and> x = y"
proof -
  have rx: "takeWhile (\<lambda>c. c \<noteq> CHR ''/'') (rev (a @ ''/'' @ x)) = rev x"
    and ry: "takeWhile (\<lambda>c. c \<noteq> CHR ''/'') (rev (b @ ''/'' @ y)) = rev y"
    using assms(2,3) by (auto simp: takeWhile_append1 takeWhile_append2 takeWhile_append)
  have "x = y" using rx ry assms(1) by (metis rev_rev_ident)
  with assms(1) show ?thesis by simp
qed

lemma kv_file_inj:
  "kv_file dir ns key = kv_file dir ns' key' \<longleftrightarrow> kv_dir dir ns = kv_dir dir ns' \<and> safe key = safe key'"
proof
  assume eq: "kv_file dir ns key = kv_file dir ns' key'"
  have free: "CHR ''/'' \<notin> set (safe k @ ''.json'')" for k using safe_no_slash by simp
  from last_element_unique [OF eq [unfolded kv_file_eq] free free]
  show "kv_dir dir ns = kv_dir dir ns' \<and> safe key = safe key'" by simp
qed (simp add: kv_file_eq)

definition ordinary :: "string \<Rightarrow> bool" where
  "ordinary ns \<longleftrightarrow> ns \<noteq> [] \<and> safe ns \<noteq> ''.'' \<and> safe ns \<noteq> ''..''"

lemma kv_dir_inj: "ordinary ns \<Longrightarrow> ordinary ns' \<Longrightarrow> kv_dir dir ns = kv_dir dir ns' \<longleftrightarrow> safe ns = safe ns'"
  by (simp add: ordinary_def kv_dir_plain)

lemma parent_kv: "parent_dir (dir @ ''/kv'') = dir"
  by (simp add: parent_dir_def)

subsection \<open>Lemmas on values\<close>

lemma gm_of_distinct: "gm_ok kvs \<Longrightarrow> gm_get (gm_of kvs) k = gm_get kvs k"
  by (simp add: gm_get_of map_of_rev_gm)

lemma gm_sorted_idem: "gm_ok m \<Longrightarrow> gm_sorted (gm_of (gm_sorted m)) = gm_sorted m"
  by (rule gm_sorted_unique) (simp_all add: gm_of_distinct)

lemma any_members_fixed:
  "\<forall>(k, v) \<in> set ms. any_value num v = Some v \<Longrightarrow> any_members num ms = Some ms"
  by (induction ms) auto

lemma any_items_fixed: "\<forall>v \<in> set vs. any_value num v = Some v \<Longrightarrow> any_items num vs = Some vs"
  by (induction vs) auto

text \<open>What a value was stored as is read back unchanged.\<close>

definition idem_num :: "(jnum \<Rightarrow> jnum option) \<Rightarrow> bool" where
  "idem_num num \<longleftrightarrow> (\<forall>n m. num n = Some m \<longrightarrow> num m = Some m)"

lemma gm_of_subset: "set (gm_of kvs) \<subseteq> set kvs"
proof
  fix p assume "p \<in> set (gm_of kvs)"
  then have "gm_get (gm_of kvs) (fst p) = Some (snd p)"
    using gm_mem_get [of "gm_of kvs" "fst p" "snd p"] by simp
  then show "p \<in> set kvs" by (auto simp: gm_get_of dest: map_of_SomeD)
qed

lemma any_value_idem:
  shows "idem_num num \<Longrightarrow> any_value num v = Some v' \<Longrightarrow> any_value num v' = Some v'"
    and "idem_num num \<Longrightarrow> any_members num ms = Some ms' \<Longrightarrow> \<forall>(k, x) \<in> set ms'. any_value num x = Some x"
    and "idem_num num \<Longrightarrow> any_items num vs = Some vs' \<Longrightarrow> \<forall>x \<in> set vs'. any_value num x = Some x"
proof (induction num v and num ms and num vs arbitrary: v' and ms' and vs'
    rule: any_value_any_members_any_items.induct)
  case (1 num n)
  then show ?case by (auto simp: idem_num_def)
next
  case (2 num ms)
  then obtain kvs where kvs: "any_members num ms = Some kvs" "v' = JObj (gm_sorted (gm_of kvs))" by auto
  have "any_members num (gm_sorted (gm_of kvs)) = Some (gm_sorted (gm_of kvs))"
    using "2.IH" [OF "2.prems"(1) kvs(1)] gm_of_subset [of kvs] by (intro any_members_fixed) auto
  then show ?case using gm_sorted_idem [of "gm_of kvs"] by (simp add: kvs(2))
next
  case (3 num vs)
  then obtain vs' where "any_items num vs = Some vs'" "v' = JArr vs'" by auto
  with 3 show ?case by (simp add: any_items_fixed)
next
  case (6 num k v ms)
  from "6.prems" obtain v1 ms1 where 1: "any_value num v = Some v1" "any_members num ms = Some ms1"
    and 2: "ms' = (k, v1) # ms1"
    by (auto split: option.splits)
  show ?case
    unfolding 2 using "6.IH"(1) [OF "6.prems"(1) 1(1)] "6.IH"(2) [OF 1(1) "6.prems"(1) 1(2)] by simp
next
  case (8 num v vs)
  from "8.prems" obtain v1 vs1 where 1: "any_value num v = Some v1" "any_items num vs = Some vs1"
    and 2: "vs' = v1 # vs1"
    by (auto split: option.splits)
  show ?case
    unfolding 2 using "8.IH"(1) [OF "8.prems"(1) 1(1)] "8.IH"(2) [OF 1(1) "8.prems"(1) 1(2)] by simp
qed auto

lemma Put_ok: "ns \<noteq> [] \<Longrightarrow> key \<noteq> [] \<Longrightarrow>
    Put None dir ns key v fs = (None, gm_put (kv_file dir ns key) (RawDoc v) fs)"
  by (simp add: Put_def atomicWrite_def)

lemma dir_entries_mem:
  "x \<in> set (dir_entries d fs) \<longleftrightarrow> gm_has fs (d @ ''/'' @ x) \<and> CHR ''/'' \<notin> set x"
proof
  assume "x \<in> set (dir_entries d fs)"
  then obtain p v where pv: "(p, v) \<in> set fs" "has_prefix p (d @ ''/'')"
      "CHR ''/'' \<notin> set (drop (length d + 1) p)" "x = drop (length d + 1) p"
    unfolding dir_entries_def by auto
  then have "p = d @ ''/'' @ x" unfolding has_prefix_iff by auto
  then have "d @ ''/'' @ x \<in> fst ` set fs" using pv(1) by (metis fst_conv image_eqI)
  then have "gm_get fs (d @ ''/'' @ x) \<noteq> None" by (simp only: gm_get_None not_not)
  with pv show "gm_has fs (d @ ''/'' @ x) \<and> CHR ''/'' \<notin> set x" by (simp only: gm_has_iff) simp
next
  assume r: "gm_has fs (d @ ''/'' @ x) \<and> CHR ''/'' \<notin> set x"
  then obtain v where "gm_get fs (d @ ''/'' @ x) = Some v" by auto
  then have "(d @ ''/'' @ x, v) \<in> set fs" by (rule gm_get_mem)
  moreover have "has_prefix (d @ ''/'' @ x) (d @ ''/'')"
    using has_prefix_append [of "d @ ''/''" x] by simp
  ultimately have "(d @ ''/'' @ x, v) \<in>
      set (filter (\<lambda>(p, _). has_prefix p (d @ ''/'') \<and> CHR ''/'' \<notin> set (drop (length d + 1) p)) fs)"
    using r by simp
  then show "x \<in> set (dir_entries d fs)"
    unfolding dir_entries_def set_map by (rule rev_image_eqI) simp
qed

subsection \<open>Properties\<close>

text \<open>
  A value that was put is read back under its own names, as the value it had after the passage
  through \<open>any\<close>, and under any other names that \<open>safe\<close> maps to the same file; every other key of an
  ordinary namespace reads as before, and so does everything outside the \<open>kv\<close> directory.
\<close>

theorem state_put_get:
  assumes "ordinary ns" and "ordinary ns'" and "key \<noteq> []"
    and "idem_num num" and "any_value num v = Some v'"
  shows "fst (Put None dir ns key v' fs) = None \<and>
    Get num dir ns' key' (snd (Put None dir ns key v' fs)) =
      (if safe ns' = safe ns \<and> safe key' = safe key then Inr v' else Get num dir ns' key' fs) \<and>
    (\<forall>p. \<not> has_prefix p (dir @ ''/kv/'') \<longrightarrow> gm_get (snd (Put None dir ns key v' fs)) p = gm_get fs p)"
proof -
  have ns: "ns \<noteq> []" using assms(1) by (simp add: ordinary_def)
  have same: "kv_file dir ns' key' = kv_file dir ns key \<longleftrightarrow> safe ns' = safe ns \<and> safe key' = safe key"
    using kv_file_inj kv_dir_inj [OF assms(2,1)] by simp
  have "kv_file dir ns key = (dir @ ''/kv/'') @ safe ns @ ''/'' @ safe key @ ''.json''"
    using assms(1) by (simp add: kv_file_eq kv_dir_plain ordinary_def)
  then have inside: "has_prefix (kv_file dir ns key) (dir @ ''/kv/'')"
    by (simp only: has_prefix_append)
  have "any_value num v' = Some v'" using any_value_idem(1) [OF assms(4,5)] .
  then have "Get num dir ns' key' (gm_put (kv_file dir ns key) (RawDoc v') fs) =
      (if safe ns' = safe ns \<and> safe key' = safe key then Inr v' else Get num dir ns' key' fs)"
    by (simp add: Get_def read_file_def same)
  moreover have "gm_get (gm_put (kv_file dir ns key) (RawDoc v') fs) p = gm_get fs p"
    if "\<not> has_prefix p (dir @ ''/kv/'')" for p
    using inside that by auto
  ultimately show ?thesis by (simp add: Put_ok [OF ns assms(3)])
qed

text \<open>
  Listing a namespace succeeds when it has a name; the keys are sorted, and a key made of safe
  characters is listed exactly when it has a file, that is when \<open>Get\<close> does not report that it does
  not exist; deleting a key that exists takes it off the list.
\<close>

theorem state_list_exact:
  assumes "ns \<noteq> []" and "key \<noteq> []" and "list_all safe_byte key"
  shows "\<exists>ks. List_keys dir ns fs = Inr ks \<and> sorted ks \<and>
    (key \<in> set ks \<longleftrightarrow> gm_has fs (kv_file dir ns key)) \<and>
    (key \<in> set ks \<longrightarrow> fst (Delete dir ns key fs) = None) \<and>
    (\<exists>ks'. List_keys dir ns (snd (Delete dir ns key fs)) = Inr ks' \<and> key \<notin> set ks')"
proof -
  let ?keys = "\<lambda>fs. map (\<lambda>n. take (length n - 5) n)
    (filter (\<lambda>n. has_suffix n ''.json'') (dir_entries (kv_dir dir ns) fs))"
  have mem: "key \<in> set (?keys fs') \<longleftrightarrow> gm_has fs' (kv_file dir ns key)" for fs'
  proof -
    have "key \<in> set (?keys fs') \<longleftrightarrow> key @ ''.json'' \<in> set (dir_entries (kv_dir dir ns) fs')"
      by (force simp: has_suffix_iff)
    also have "\<dots> \<longleftrightarrow> gm_has fs' (kv_dir dir ns @ ''/'' @ key @ ''.json'')"
      using safe_no_slash [of key] safe_id [OF assms(3)] by (simp add: dir_entries_mem)
    finally show ?thesis by (simp add: kv_file_eq safe_id [OF assms(3)])
  qed
  have "\<not> gm_has (snd (Delete dir ns key fs)) (kv_file dir ns key)"
    using assms(1,2) by (simp add: Delete_def)
  then show ?thesis
    using mem [of fs] mem [of "snd (Delete dir ns key fs)"] assms(1,2)
    by (auto simp: List_keys_def Delete_def simp del: set_map)
qed

definition overwrite_policy :: "(string \<times> json) list" where
  "overwrite_policy = [(''key'', JStr ''policy''), (''namespace'', JStr ''..''),
     (''value'', JObj [(''allow_privileged'', JBool True), (''mode'', JStr ''full'')])]"

lemma overwrite_decodes:
  "decode_ns_key [''namespace'', ''key'', ''value''] (RawDoc (JObj overwrite_policy)) =
     Inr (''..'', ''policy'', overwrite_policy) \<and>
   fst (dec_field set_raw None ''value'' overwrite_policy) =
     Some (JObj [(''allow_privileged'', JBool True), (''mode'', JStr ''full'')])"
  by code_simp

lemma overwrite_loads:
  "load_config (RawDoc (JObj [(''allow_privileged'', JBool True), (''mode'', JStr ''full'')])) =
     Inr (zero_config\<lparr>cMode := ''full'', cAllowPrivileged := True, cMaxExecTimeoutSeconds := 3600\<rparr>)"
  by code_simp

lemma overwrite_value:
  "any_value num (JObj [(''allow_privileged'', JBool True), (''mode'', JStr ''full'')]) =
     Some (JObj [(''allow_privileged'', JBool True), (''mode'', JStr ''full'')])"
proof -
  have "gm_sorted (gm_of [(''allow_privileged'', JBool True), (''mode'', JStr ''full'')]) =
      [(''allow_privileged'', JBool True), (''mode'', JStr ''full'')]" by code_simp
  then show ?thesis by simp
qed

lemma policy_path: "kv_file dir ''..'' ''policy'' = dir @ ''/policy.json''"
proof -
  have "safe ''..'' = ''..''" "safe ''policy'' = ''policy''" by code_simp+
  then show ?thesis by (simp add: kv_file_eq kv_dir_def join_def parent_kv)
qed

text \<open>
  The namespace \<open>..\<close> leaves the \<open>kv\<close> directory. In safe mode, with no patterns configured, the
  policy lets \<open>state_put\<close> store a document of the caller's choice as the policy file and then lets
  \<open>policy_reload\<close> load it: two accepted calls turn safe mode into full mode with privileged
  execution allowed.
\<close>

theorem safe_mode_escalation:
  assumes "cMode (eCfg e) = ''safe''" and "cDenyTools (eCfg e) = []" and "cAllowTools (eCfg e) = []"
    and "eFile e = dir @ ''/policy.json''"
  shows "BeforeCall a (eCfg e) ''state_put'' (RawDoc (JObj ((''reason'', JStr why) # overwrite_policy))) = None \<and>
    BeforeCall a (eCfg e) ''policy_reload'' (RawDoc (JObj [(''reason'', JStr why)])) = None \<and>
    is_ok (fst (state_put_tool num None dir (RawDoc (JObj overwrite_policy)) fs)) \<and>
    (let fs' = snd (state_put_tool num None dir (RawDoc (JObj overwrite_policy)) fs); e' = snd (Reload fs' e)
     in cMode (eCfg e') = ''full'' \<and> cAllowPrivileged (eCfg e'))"
proof -
  have lm: "last_member ((''reason'', JStr why) # overwrite_policy) ''privileged'' = None"
    "last_member ((''reason'', JStr why) # overwrite_policy) ''timeout_seconds'' = None"
    "last_member [(''reason'', JStr why)] ''privileged'' = None"
    "last_member [(''reason'', JStr why)] ''timeout_seconds'' = None"
    by (simp_all add: last_member_def overwrite_policy_def)
  have tools: "\<not> isHighImpact ''state_put''" "\<not> isHighImpact ''policy_reload''"
    "\<not> isSensitiveAndroid ''state_put''" "\<not> isSensitiveAndroid ''policy_reload''" by code_simp+
  have put: "state_put_tool num None dir (RawDoc (JObj overwrite_policy)) fs =
      (Inr (Plain (JObj [(''key'', JStr ''policy''), (''namespace'', JStr ''..''), (''stored'', JBool True)])),
       gm_put (dir @ ''/policy.json'')
         (RawDoc (JObj [(''allow_privileged'', JBool True), (''mode'', JStr ''full'')])) fs)"
    using overwrite_decodes
    by (simp add: state_put_tool_def overwrite_value Put_ok policy_path del: any_value.simps)
  show ?thesis
    using assms tools
    by (simp add: accepted_iff map_at_policy_args lm put Reload_def read_file_def overwrite_loads)
qed

subsection \<open>Witnesses\<close>

lemma ordinary_ns: "ordinary ''ns''" "ordinary ''n s''"
  by (simp_all add: ordinary_def safe_def safe_byte_def between_def is_digit_def less_eq_char_def)

theorem state_put_get_witness:
  "Get Some ''d'' ''n s'' ''k'' (snd (Put None ''d'' ''n s'' ''k'' (JBool True) [])) = Inr (JBool True)"
  using state_put_get [OF ordinary_ns(2,2), of "''k''" Some "JBool True" "JBool True" "''d''" "[]" "''k''"]
  by (simp add: idem_num_def)

theorem state_list_exact_witness:
  "\<exists>ks. List_keys ''d'' ''ns'' [(''d/kv/ns/k.json'', RawDoc JNull)] = Inr ks \<and> ''k'' \<in> set ks"
proof -
  have "kv_file ''d'' ''ns'' ''k'' = ''d/kv/ns/k.json''" by code_simp
  moreover have "list_all safe_byte ''k''" by code_simp
  ultimately show ?thesis
    using state_list_exact [of "''ns''" "''k''" "''d''" "[(''d/kv/ns/k.json'', RawDoc JNull)]"]
    by (auto simp: gm_get_def)
qed

theorem safe_mode_escalation_witness:
  "let fs' = snd (state_put_tool Some None ''d'' (RawDoc (JObj overwrite_policy)) []);
       e' = snd (Reload fs' \<lparr>eFile = ''d/policy.json'', eCfg = Default\<lparr>cMode := ''safe'', cAllowPrivileged := False\<rparr>\<rparr>)
   in cMode (eCfg e') = ''full'' \<and> cAllowPrivileged (eCfg e')"
proof -
  let ?e = "\<lparr>eFile = ''d/policy.json'', eCfg = Default\<lparr>cMode := ''safe'', cAllowPrivileged := False\<rparr>\<rparr>"
  have h: "cMode (eCfg ?e) = ''safe''" "cDenyTools (eCfg ?e) = []" "cAllowTools (eCfg ?e) = []"
    "eFile ?e = ''d'' @ ''/policy.json''" by (simp_all add: Default_def)
  from safe_mode_escalation [OF h, of AMD64 "''r''" Some "[]"] show ?thesis by blast
qed

end
