(* ===== verification/AuditLog.thy ===== *)
theory AuditLog
  imports Policy
begin

section \<open>The audit log (internal/audit/logger.go)\<close>

text \<open>
  The logger keeps the calls in progress, keyed by a digest of tool and arguments, and a directory
  of JSONL files, one per UTC day. A file is the list of its lines with their lengths in bytes; a
  line is an event or something \<open>json.Unmarshal\<close> does not accept as one.

  What the operating system and the libraries contribute is an argument: the clock, the digest
  (\<open>vSha prefix args\<close> is the hex SHA-256 of the prefix followed by the message), the name of the
  day of a time, and the length of the encoded event. An event keeps the error value, whose text is
  what the source stores.
\<close>

subsection \<open>Events and state\<close>

record event =
  evTime :: int
  evTool :: string
  evArgsSHA256 :: string
  evDurationMS :: int
  evOK :: bool
  evError :: "goerr option"
  evReason :: string

record active_call =
  acID :: string
  acTime :: int
  acTool :: string
  acReason :: string

datatype log_line = EventLine nat event | OtherLine nat

record log_file =
  lfIsDir :: bool
  lfReadable :: bool
  lfModTime :: int
  lfLines :: "log_line list"

record logger =
  lActive :: "active_call gomap"
  lFiles :: "log_file gomap"

record log_env =
  vSha :: "string \<Rightarrow> raw \<Rightarrow> string"
  vDay :: "int \<Rightarrow> string"
  vLen :: "event \<Rightarrow> nat"

definition new_logger :: "log_file gomap \<Rightarrow> logger" where
  "new_logger fs = \<lparr>lActive = [], lFiles = fs\<rparr>"

subsection \<open>Recording a call\<close>

definition callID :: "log_env \<Rightarrow> string \<Rightarrow> raw \<Rightarrow> string" where
  "callID v tool args = vSha v (tool @ [CHR 0x00]) args"

definition callReason :: "raw \<Rightarrow> string" where
  "callReason args =
     (case map_at (policy_args args) ''reason'' of Some (JStr s) \<Rightarrow> s | _ \<Rightarrow> [])"

definition audit_before :: "log_env \<Rightarrow> int \<Rightarrow> string \<Rightarrow> raw \<Rightarrow> logger \<Rightarrow> goerr option \<times> logger" where
  "audit_before v now tool args l =
     (let c = \<lparr>acID = callID v tool args, acTime = now, acTool = tool, acReason = callReason args\<rparr>
      in (None, l\<lparr>lActive := gm_put (acID c) c (lActive l)\<rparr>))"

text \<open>\<open>append\<close>: the file of the event's day is created when there is none.\<close>

definition log_append :: "log_env \<Rightarrow> int \<Rightarrow> event \<Rightarrow> logger \<Rightarrow> goerr option \<times> logger" where
  "log_append v now ev l =
     (let name = vDay v (evTime ev) @ ''.jsonl'';
          line = EventLine (vLen v ev) ev
      in case gm_get (lFiles l) name of
           None \<Rightarrow> (None, l\<lparr>lFiles := gm_put name \<lparr>lfIsDir = False, lfReadable = True, lfModTime = now,
                                                 lfLines = [line]\<rparr> (lFiles l)\<rparr>)
         | Some f \<Rightarrow>
             if lfIsDir f \<or> \<not> lfReadable f then (Some (ErrOS ''open''), l)
             else (None, l\<lparr>lFiles := gm_put name (f\<lparr>lfModTime := now, lfLines := lfLines f @ [line]\<rparr>) (lFiles l)\<rparr>))"

definition call_event :: "log_env \<Rightarrow> int \<Rightarrow> string \<Rightarrow> raw \<Rightarrow> int \<Rightarrow> goerr option \<Rightarrow> event" where
  "call_event v now tool args d callErr =
     \<lparr>evTime = now, evTool = tool, evArgsSHA256 = vSha v [] args, evDurationMS = d div 1000000,
      evOK = is_nil callErr, evError = callErr, evReason = callReason args\<rparr>"

definition audit_after ::
  "log_env \<Rightarrow> int \<Rightarrow> string \<Rightarrow> raw \<Rightarrow> int \<Rightarrow> goerr option \<Rightarrow> logger \<Rightarrow> logger" where
  "audit_after v now tool args d callErr l =
     (let l1 = l\<lparr>lActive := gm_del (callID v tool args) (lActive l)\<rparr>
      in snd (log_append v now (call_event v now tool args d callErr) l1))"

definition Active :: "logger \<Rightarrow> active_call list" where
  "Active l = sort_key acTime (map snd (lActive l))"

subsection \<open>Reading and pruning\<close>

fun line_len :: "log_line \<Rightarrow> nat" where
  "line_len (EventLine n e) = n"
| "line_len (OtherLine n) = n"

text \<open>The scanner stops at the first line that does not fit its buffer of 2 MiB.\<close>

definition max_line :: nat where
  "max_line = 2097152"

fun scan_events :: "log_line list \<Rightarrow> event list" where
  "scan_events [] = []"
| "scan_events (ln # lns) =
     (if max_line \<le> line_len ln then []
      else (case ln of EventLine n e \<Rightarrow> e # scan_events lns | OtherLine n \<Rightarrow> scan_events lns))"

definition is_log :: "string \<Rightarrow> log_file \<Rightarrow> bool" where
  "is_log name f \<longleftrightarrow> \<not> lfIsDir f \<and> has_suffix name ''.jsonl''"

definition log_names :: "logger \<Rightarrow> string list" where
  "log_names l = rev (sort (map fst (filter (\<lambda>(n, f). is_log n f) (lFiles l))))"

fun tail_files :: "nat \<Rightarrow> log_file gomap \<Rightarrow> string list \<Rightarrow> event list \<Rightarrow> event list" where
  "tail_files limit fs [] out = out"
| "tail_files limit fs (name # names) out =
     (case gm_get fs name of
        None \<Rightarrow> tail_files limit fs names out
      | Some f \<Rightarrow>
          if \<not> lfReadable f then tail_files limit fs names out
          else
            let out1 = out @ take (limit - length out) (rev (scan_events (lfLines f)))
            in if limit \<le> length out1 then out1 else tail_files limit fs names out1)"

definition audit_limit :: "int \<Rightarrow> nat" where
  "audit_limit limit = (if limit \<le> 0 \<or> 1000 < limit then 100 else nat limit)"

definition Tail :: "int \<Rightarrow> logger \<Rightarrow> event list" where
  "Tail limit l = tail_files (audit_limit limit) (lFiles l) (log_names l) []"

text \<open>The loop of \<open>Prune\<close> over the directory; \<open>rm\<close> says which removals the system refuses.\<close>

fun prune_files ::
  "(string \<Rightarrow> goerr option) \<Rightarrow> int \<Rightarrow> (string \<times> log_file) list \<Rightarrow> log_file gomap \<Rightarrow> int \<Rightarrow>
   (int \<times> goerr option) \<times> log_file gomap" where
  "prune_files rm cutoff [] fs removed = ((removed, None), fs)"
| "prune_files rm cutoff ((n, f) # es) fs removed =
     (if \<not> is_log n f then prune_files rm cutoff es fs removed
      else if \<not> lfModTime f < cutoff then prune_files rm cutoff es fs removed
      else (case rm n of
              Some e \<Rightarrow> ((removed, Some (Errorf ''remove %s: %w'' [FStr n, FErr e])), fs)
            | None \<Rightarrow> prune_files rm cutoff es (gm_del n fs) (removed + 1)))"

definition audit_prune ::
  "(string \<Rightarrow> goerr option) \<Rightarrow> int \<Rightarrow> int \<Rightarrow> logger \<Rightarrow> (int \<times> goerr option) \<times> logger" where
  "audit_prune rm now olderThan0 l =
     (let olderThan = (if olderThan0 \<le> 0 then 30 * 24 * hour else olderThan0);
          (res, fs) = prune_files rm (now - olderThan) (gm_sorted (lFiles l)) (lFiles l) 0
      in (res, l\<lparr>lFiles := fs\<rparr>))"

subsection \<open>The tools (internal/tools/governance.go)\<close>

definition audit_tail_tool :: "raw \<Rightarrow> logger \<Rightarrow> event list res" where
  "audit_tail_tool args l =
     (case decode_members [''limit''] args of
        Inl e \<Rightarrow> Inl e
      | Inr ms \<Rightarrow>
          (case strict (dec_field set_int 0 ''limit'' ms) of
             Inl e \<Rightarrow> Inl e
           | Inr limit \<Rightarrow> Inr (Tail limit l)))"

text \<open>\<open>time.Duration(in.Days) * 24 * time.Hour\<close>, in 64 bits.\<close>

definition days_duration :: "int \<Rightarrow> int" where
  "days_duration days = wrap64 (wrap64 (days * 24) * hour)"

definition audit_prune_tool ::
  "(string \<Rightarrow> goerr option) \<Rightarrow> int \<Rightarrow> raw \<Rightarrow> logger \<Rightarrow> int res \<times> logger" where
  "audit_prune_tool rm now args l =
     (case decode_members [''older_than_days''] args of
        Inl e \<Rightarrow> (Inl e, l)
      | Inr ms \<Rightarrow>
          (case strict (dec_field set_int 0 ''older_than_days'' ms) of
             Inl e \<Rightarrow> (Inl e, l)
           | Inr days0 \<Rightarrow>
               let days = (if days0 \<le> 0 then 30 else days0);
                   ((n, err), l1) = audit_prune rm now (days_duration days) l
               in (case err of Some e \<Rightarrow> Inl e | None \<Rightarrow> Inr n, l1)))"

text \<open>The logger as an interceptor; \<open>put\<close> stores it in the state, \<open>now\<close> is the clock.\<close>

definition audit_interceptor ::
  "log_env \<Rightarrow> ('w \<Rightarrow> int) \<Rightarrow> ('w \<Rightarrow> logger) \<Rightarrow> (logger \<Rightarrow> 'w \<Rightarrow> 'w) \<Rightarrow> 'w interceptor" where
  "audit_interceptor v now get put =
     \<lparr>iBefore = \<lambda>tool args w. (let (e, l) = audit_before v (now w) tool args (get w) in (e, put l w)),
      iAfter = \<lambda>tool args d e w. put (audit_after v (now w) tool args d e (get w)) w\<rparr>"

text \<open>\<open>runtime.New\<close> installs the policy first and the audit log second.\<close>

definition runtime_interceptors ::
  "arch \<Rightarrow> ('w \<Rightarrow> engine) \<Rightarrow> log_env \<Rightarrow> ('w \<Rightarrow> int) \<Rightarrow> ('w \<Rightarrow> logger) \<Rightarrow> (logger \<Rightarrow> 'w \<Rightarrow> 'w) \<Rightarrow>
   'w registry \<Rightarrow> 'w registry" where
  "runtime_interceptors a eng v now get put r =
     AddInterceptor (Some (audit_interceptor v now get put))
       (AddInterceptor (Some (policy_interceptor a eng)) r)"

subsection \<open>Lemmas\<close>

lemma audit_limit_pos: "0 < audit_limit n"
  by (simp add: audit_limit_def)

text \<open>The events of one file as \<open>Tail\<close> adds them.\<close>

definition file_events :: "log_file gomap \<Rightarrow> string \<Rightarrow> event list" where
  "file_events fs name =
     (case gm_get fs name of
        None \<Rightarrow> []
      | Some f \<Rightarrow> if lfReadable f then rev (scan_events (lfLines f)) else [])"

lemma tail_files_eq:
  "length out < limit \<Longrightarrow>
   tail_files limit fs names out = take limit (out @ concat (map (file_events fs) names))"
proof (induction names arbitrary: out)
  case Nil
  then show ?case by simp
next
  case (Cons n ns)
  show ?case
  proof (cases "gm_get fs n")
    case None
    with Cons show ?thesis by (simp add: file_events_def)
  next
    case (Some f)
    show ?thesis
    proof (cases "lfReadable f")
      case False
      with Some Cons show ?thesis by (simp add: file_events_def)
    next
      case True
      let ?evs = "rev (scan_events (lfLines f))"
      let ?out = "out @ take (limit - length out) ?evs"
      have fe: "file_events fs n = ?evs" using Some True by (simp add: file_events_def)
      show ?thesis
      proof (cases "limit \<le> length ?out")
        case True
        then have "limit - length out \<le> length ?evs" using Cons.prems by simp
        then have "take limit (out @ ?evs @ concat (map (file_events fs) ns)) = ?out"
          using Cons.prems by simp
        with True Some \<open>lfReadable f\<close> show ?thesis
          by (simp only: tail_files.simps option.case list.map concat.simps fe Let_def if_True not_True_eq_False if_False)
      next
        case False
        then have "?out = out @ ?evs" by simp
        with False Cons.IH [of ?out] Some \<open>lfReadable f\<close> show ?thesis
          by (simp add: fe)
      qed
    qed
  qed
qed

lemma Tail_eq: "Tail limit l = take (audit_limit limit) (concat (map (file_events (lFiles l)) (log_names l)))"
  by (simp add: Tail_def tail_files_eq audit_limit_pos)

definition log_name :: "log_env \<Rightarrow> event \<Rightarrow> string" where
  "log_name v e = vDay v (evTime e) @ ''.jsonl''"

definition record_event :: "log_env \<Rightarrow> event \<Rightarrow> logger \<Rightarrow> logger" where
  "record_event v e l = snd (log_append v (evTime e) e l)"

lemma has_suffix_append [simp]: "has_suffix (s @ p) p"
  by (auto simp: has_suffix_iff)

text \<open>The directory a sequence of events leaves.\<close>

definition day_file :: "log_env \<Rightarrow> event list \<Rightarrow> log_file" where
  "day_file v es = \<lparr>lfIsDir = False, lfReadable = True, lfModTime = evTime (last es),
     lfLines = map (\<lambda>e. EventLine (vLen v e) e) es\<rparr>"

lemma record_events_files:
  "gm_ok (lFiles (fold (record_event v) evs (new_logger []))) \<and>
   (\<forall>n. gm_get (lFiles (fold (record_event v) evs (new_logger []))) n =
      (let es = filter (\<lambda>e. log_name v e = n) evs in if es = [] then None else Some (day_file v es)))"
proof (induction evs rule: rev_induct)
  case Nil
  then show ?case by (simp add: new_logger_def)
next
  case (snoc e evs)
  let ?l = "fold (record_event v) evs (new_logger [])"
  let ?es = "filter (\<lambda>x. log_name v x = log_name v e) evs"
  have get: "gm_get (lFiles ?l) (log_name v e) = (if ?es = [] then None else Some (day_file v ?es))"
    using snoc by (simp add: Let_def)
  have "lFiles (record_event v e ?l) = gm_put (log_name v e) (day_file v (?es @ [e])) (lFiles ?l)"
    using get unfolding record_event_def log_append_def log_name_def [symmetric] Let_def
    by (cases "?es = []") (simp_all add: day_file_def)
  then show ?case using snoc by (simp add: Let_def)
qed

lemma scan_events_all: "\<forall>e \<in> set es. vLen v e < max_line \<Longrightarrow>
    scan_events (map (\<lambda>e. EventLine (vLen v e) e) es) = es"
  by (induction es) auto

lemma strict_sort_keys: "gm_ok m \<Longrightarrow> sorted_wrt (<) (sort (map fst m))"
  by (simp add: gm_ok_def strict_sorted_iff)

lemma prune_files_eq:
  assumes "gm_ok es" and "\<And>n. rm n = None"
  shows "prune_files rm c es fs k =
    ((k + int (length (filter (\<lambda>(n, f). is_log n f \<and> lfModTime f < c) es)), None),
     fold (\<lambda>(n, f). gm_del n) (filter (\<lambda>(n, f). is_log n f \<and> lfModTime f < c) es) fs)"
  using assms(1)
proof (induction es arbitrary: fs k)
  case (Cons nf es)
  then show ?case by (cases nf) (auto simp: assms(2) gm_ok_def)
qed simp

lemma gm_get_fold_del:
  "gm_get (fold (\<lambda>(n, f). gm_del n) es m) k = (if k \<in> fst ` set es then None else gm_get m k)"
  by (induction es arbitrary: m) (auto simp: gm_get_del)

subsection \<open>A call and its event\<close>

text \<open>
  Where a call stands when the interceptors' \<open>AfterCall\<close> methods run: at once when the policy
  refused it, after the audit log's \<open>BeforeCall\<close> and the handler otherwise.
\<close>

definition call_end ::
  "arch \<Rightarrow> ('w \<Rightarrow> engine) \<Rightarrow> log_env \<Rightarrow> ('w \<Rightarrow> int) \<Rightarrow> ('w \<Rightarrow> logger) \<Rightarrow> (logger \<Rightarrow> 'w \<Rightarrow> 'w) \<Rightarrow>
   'w handler \<Rightarrow> string \<Rightarrow> raw \<Rightarrow> 'w \<Rightarrow> 'w" where
  "call_end a eng v now get put h name args w =
     (if BeforeCall a (eCfg (eng w)) name args \<noteq> None then w
      else snd (h (stripReason args) (put (snd (audit_before v (now w) name args (get w))) w)))"

definition file_lines :: "logger \<Rightarrow> string \<Rightarrow> log_line list" where
  "file_lines l n = (case gm_get (lFiles l) n of None \<Rightarrow> [] | Some f \<Rightarrow> lfLines f)"

definition can_append :: "logger \<Rightarrow> string \<Rightarrow> bool" where
  "can_append l n = (case gm_get (lFiles l) n of None \<Rightarrow> True | Some f \<Rightarrow> \<not> lfIsDir f \<and> lfReadable f)"

lemma audit_after_lines:
  assumes "can_append l (log_name v (call_event v now tool args d e))"
  shows "file_lines (audit_after v now tool args d e l) n =
    file_lines l n @
    (if n = log_name v (call_event v now tool args d e)
     then [EventLine (vLen v (call_event v now tool args d e)) (call_event v now tool args d e)] else [])"
  using assms
  unfolding audit_after_def log_append_def log_name_def [symmetric] Let_def
  by (auto simp: file_lines_def can_append_def split: option.splits)

lemma validated_args: "validateReason args = None \<Longrightarrow> call_args args = args"
  by (auto simp: validateReason_None call_args_def)

lemma single_member:
  "map snd (filter (\<lambda>(k, _). k = n) ms) = [x] \<Longrightarrow> map_of (rev ms) n = Some x"
proof (induction ms)
  case (Cons kv ms)
  obtain k u where kv: "kv = (k, u)" by (cases kv)
  show ?case
  proof (cases "k = n")
    case True
    with Cons.prems kv have "filter (\<lambda>(k, _). k = n) ms = []" and u: "u = x" by simp_all
    then have "map_of (rev ms) n = None" by (auto simp: map_of_eq_None_iff filter_empty_conv)
    with True kv u show ?thesis by (simp add: map_add_def)
  next
    case False
    with Cons kv show ?thesis by (simp add: map_add_def)
  qed
qed simp

lemma reason_of_validated:
  assumes "validateReason args = None"
  shows "\<exists>ms. args = RawDoc (JObj ms) \<and> reasons ms = [JStr (callReason args)]"
proof -
  from assms [unfolded validateReason_None]
  obtain ms s where ms: "args = RawDoc (JObj ms)" "reasons ms = [JStr s]" by (elim exE conjE)
  have "map_of (rev ms) ''reason'' = Some (JStr s)"
    by (rule single_member [OF ms(2)])
  then have "callReason args = s"
    by (simp add: callReason_def ms(1) map_at_policy_args last_member_def)
  with ms show ?thesis by simp
qed

lemma call_with_runtime_interceptors:
  assumes "rInterceptors r = [policy_interceptor a eng, audit_interceptor v now get put]"
    and "gm_get (rTools r) name = Some t" and "tHandler t = Some h"
    and "validateReason args = None"
  shows "\<exists>dd. snd (call r name args d w) =
    (let w1 = call_end a eng v now get put h name args w
     in put (audit_after v (now w1) name args dd (err_of (fst (call r name args d w))) (get w1)) w1)"
proof (cases "BeforeCall a (eCfg (eng w)) name args")
  case None
  then have before: "run_before (rInterceptors r) name args w =
      (None, put (snd (audit_before v (now w) name args (get w))) w)"
    using assms(1) by (simp add: policy_interceptor_def audit_interceptor_def audit_before_def Snapshot_def Let_def)
  let ?x = "h (stripReason args) (put (snd (audit_before v (now w) name args (get w))) w)"
  obtain res w2 where x: "?x = (res, w2)" by (cases ?x)
  have "call r name args d w = (res, run_after (rInterceptors r) name args d (err_of res) w2)"
    using assms(2-4) before validated_args [OF assms(4)] x by (simp add: call_def Let_def)
  then have c: "call r name args d w = (res, put (audit_after v (now w2) name args d (err_of res) (get w2)) w2)"
    unfolding assms(1) by (simp add: policy_interceptor_def audit_interceptor_def)
  have "call_end a eng v now get put h name args w = w2"
    using None x by (simp add: call_end_def)
  then show ?thesis by (intro exI [of _ d]) (simp add: c)
next
  case (Some e)
  then show ?thesis
    using assms validated_args [OF assms(4)]
    by (intro exI [of _ 0])
      (simp add: call_def Let_def policy_interceptor_def audit_interceptor_def Snapshot_def call_end_def err_of_def)
qed

subsection \<open>Properties\<close>

text \<open>
  C3: with the interceptors the runtime installs, a call of a known tool with a valid reason ends
  by appending exactly one event to the file of the day: it names the tool, the digest of the
  arguments and the reason the caller gave, and is marked ok exactly when the call succeeded,
  whether the policy refused it or the handler ran; no other file changes after the handler.
\<close>

theorem call_recorded_once:
  assumes "rInterceptors r = [policy_interceptor a eng, audit_interceptor v now get put]"
    and "gm_get (rTools r) name = Some t" and "tHandler t = Some h"
    and "validateReason args = None"
    and "\<And>l w. get (put l w) = l"
    and "w1 = call_end a eng v now get put h name args w"
    and "can_append (get w1) (vDay v (now w1) @ ''.jsonl'')"
  shows "\<exists>ev. evTool ev = name \<and> evArgsSHA256 ev = vSha v [] args \<and> evTime ev = now w1 \<and>
    (\<exists>ms. args = RawDoc (JObj ms) \<and> reasons ms = [JStr (evReason ev)]) \<and>
    evOK ev = is_ok (fst (call r name args d w)) \<and>
    (\<forall>n. file_lines (get (snd (call r name args d w))) n = file_lines (get w1) n @
       (if n = vDay v (now w1) @ ''.jsonl'' then [EventLine (vLen v ev) ev] else []))"
proof -
  obtain dd where dd: "snd (call r name args d w) =
      put (audit_after v (now w1) name args dd (err_of (fst (call r name args d w))) (get w1)) w1"
    using call_with_runtime_interceptors [OF assms(1-4), of d w] assms(6) by (auto simp: Let_def)
  let ?ev = "call_event v (now w1) name args dd (err_of (fst (call r name args d w)))"
  have name: "log_name v ?ev = vDay v (now w1) @ ''.jsonl''"
    by (simp add: log_name_def call_event_def)
  have lines: "file_lines (get (snd (call r name args d w))) n = file_lines (get w1) n @
       (if n = vDay v (now w1) @ ''.jsonl'' then [EventLine (vLen v ?ev) ?ev] else [])" for n
    using audit_after_lines [of "get w1" v "now w1" name args dd _ n, unfolded name] name assms(5,7) dd
    by (metis (no_types, lifting))
  have ok: "evOK ?ev = is_ok (fst (call r name args d w))"
    by (cases "fst (call r name args d w)") (simp_all add: call_event_def err_of_def)
  have "evReason ?ev = callReason args" by (simp add: call_event_def)
  with reason_of_validated [OF assms(4)] lines ok show ?thesis
    by (intro exI [of _ ?ev]) (simp add: call_event_def)
qed

text \<open>
  Reading back a log written from an empty directory with a clock that does not go back gives
  its events newest first, as many as asked for: the newest \<open>limit\<close> of them, or 100 when the limit
  is not between 1 and 1000. The names of the days must follow the clock, and no line may reach the
  scanner's 2 MiB.
\<close>

theorem tail_newest_first:
  assumes "sorted (map (log_name v) evs)" and "\<forall>e \<in> set evs. vLen v e < max_line"
  shows "Tail limit (fold (record_event v) evs (new_logger [])) = take (audit_limit limit) (rev evs)"
proof -
  define l where "l = fold (record_event v) evs (new_logger [])"
  define ks where "ks = sort (map fst (lFiles l))"
  have ok: "gm_ok (lFiles l)" and get: "\<And>n. gm_get (lFiles l) n =
      (let es = filter (\<lambda>e. log_name v e = n) evs in if es = [] then None else Some (day_file v es))"
    using record_events_files [of v evs] by (simp_all add: l_def)
  have mem: "is_log n f" if "(n, f) \<in> set (lFiles l)" for n f
  proof -
    have "gm_get (lFiles l) n = Some f" using gm_mem_get [OF ok] that by simp
    with get [of n] have ne: "filter (\<lambda>e. log_name v e = n) evs \<noteq> []"
      and f: "f = day_file v (filter (\<lambda>e. log_name v e = n) evs)"
      by (auto simp: Let_def split: if_splits)
    from ne obtain e where "n = log_name v e" by (auto simp: filter_empty_conv)
    with f show ?thesis by (simp add: is_log_def day_file_def log_name_def)
  qed
  then have "filter (\<lambda>(n, f). is_log n f) (lFiles l) = lFiles l"
    by (auto simp: filter_id_conv)
  then have names: "log_names l = rev ks" by (simp add: log_names_def ks_def)
  have keys: "log_name v ` set evs \<subseteq> set ks"
  proof
    fix n assume "n \<in> log_name v ` set evs"
    then have "filter (\<lambda>e. log_name v e = n) evs \<noteq> []" by (auto simp: filter_empty_conv)
    then have "gm_get (lFiles l) n \<noteq> None" by (simp add: get Let_def)
    then show "n \<in> set ks" unfolding gm_get_None ks_def by simp
  qed
  have fe: "file_events (lFiles l) = (\<lambda>n. rev (filter (\<lambda>e. log_name v e = n) evs))"
    using assms(2) by (intro ext) (simp add: file_events_def get Let_def day_file_def scan_events_all)
  have "concat (map (file_events (lFiles l)) (rev ks)) =
      rev (concat (map (\<lambda>n. filter (\<lambda>e. log_name v e = n) evs) ks))"
    by (simp add: fe rev_concat rev_map comp_def)
  also have "\<dots> = rev evs"
    using concat_groups [OF assms(1) _ keys] strict_sort_keys [OF ok] by (simp add: ks_def)
  finally show ?thesis by (simp add: Tail_eq names l_def [symmetric])
qed

text \<open>
  When the system refuses no removal, pruning removes exactly the log files last modified
  before the cutoff, which is 30 days ago when no positive age is given, and reports how many.
\<close>

theorem audit_prune_exact:
  assumes "gm_ok (lFiles l)" and "\<And>n. rm n = None"
    and "cutoff = now - (if age \<le> 0 then 30 * 24 * hour else age)"
  shows "fst (audit_prune rm now age l) =
      (int (length (filter (\<lambda>(n, f). is_log n f \<and> lfModTime f < cutoff) (gm_sorted (lFiles l)))), None) \<and>
    (\<forall>n. gm_get (lFiles (snd (audit_prune rm now age l))) n =
      (case gm_get (lFiles l) n of
         None \<Rightarrow> None
       | Some f \<Rightarrow> if is_log n f \<and> lfModTime f < cutoff then None else Some f))"
proof -
  let ?del = "filter (\<lambda>(n, f). is_log n f \<and> lfModTime f < cutoff) (gm_sorted (lFiles l))"
  have eq: "audit_prune rm now age l =
      ((int (length ?del), None), l\<lparr>lFiles := fold (\<lambda>(n, f). gm_del n) ?del (lFiles l)\<rparr>)"
    using prune_files_eq [OF gm_ok_sorted [OF assms(1)], of rm cutoff "lFiles l" 0] assms(2,3)
    by (simp add: audit_prune_def Let_def)
  have "n \<in> fst ` set ?del \<longleftrightarrow> (\<exists>f. gm_get (lFiles l) n = Some f \<and> is_log n f \<and> lfModTime f < cutoff)" for n
    using gm_mem_get [OF assms(1), of n] by force
  then show ?thesis
    unfolding eq by (auto simp: gm_get_fold_del split: option.split)
qed

text \<open>
  Two calls of the same tool with the same arguments share one entry of the calls in progress,
  so when the first of them ends, \<open>Active\<close> no longer shows the other one.
\<close>

theorem identical_calls_share_entry:
  "gm_get (lActive (audit_after v t3 tool args d e
     (snd (audit_before v t2 tool args (snd (audit_before v t1 tool args l)))))) (callID v tool args) = None"
proof -
  have "lActive (snd (log_append v t ev l')) = lActive l'" for t ev l'
    by (simp add: log_append_def Let_def split: option.split)
  then show ?thesis by (simp add: audit_after_def Let_def)
qed

text \<open>
  The retention period of \<open>audit_prune\<close> is computed in 64 bits: asked to remove what is older
  than 213504 days (about 585 years), the tool removes what is older than 1526 seconds.
\<close>

theorem audit_prune_wraps:
  "snd (audit_prune_tool rm now (RawDoc (JObj [(''older_than_days'', JNum (JInt 213504))])) l) =
     snd (audit_prune rm now 1526290448384 l)"
proof -
  have d: "days_duration 213504 = 1526290448384"
    by (simp add: days_duration_def wrap64_def hour_def)
  have k: "key_matches ''older_than_days'' ''older_than_days''" by (simp add: key_matches_def)
  show ?thesis
    using d k by (simp add: audit_prune_tool_def known_field_def strict_def dec_field_def field_values_Cons
        Let_def split: prod.split)
qed

subsection \<open>Witnesses\<close>

definition sample_env :: log_env where
  "sample_env = \<lparr>vSha = \<lambda>p args. p @ ''#'', vDay = \<lambda>t. if t < 10 then ''2026-01-01'' else ''2026-01-02'',
     vLen = \<lambda>e. 80\<rparr>"

definition sample_event :: "int \<Rightarrow> event" where
  "sample_event t = \<lparr>evTime = t, evTool = ''x'', evArgsSHA256 = [], evDurationMS = 0, evOK = True,
     evError = None, evReason = ''r''\<rparr>"

definition sample_audited_tool :: "logger tool" where
  "sample_audited_tool = \<lparr>tName = ''t'', tTitle = [], tDescription = [], tInputSchema = None,
     tOutputSchema = None, tAnnotations = [], tHandler = Some (\<lambda>x w. (Inr (Plain JNull), w)), tSource = []\<rparr>"

definition sample_audited :: "logger registry" where
  "sample_audited = runtime_interceptors AMD64 (\<lambda>w. \<lparr>eFile = [], eCfg = Default\<rparr>) sample_env (\<lambda>w. 5) id (\<lambda>l w. l)
     \<lparr>rTools = [(''t'', sample_audited_tool)], rInterceptors = []\<rparr>"

theorem call_recorded_once_witness:
  "\<exists>ev :: event. evTool ev = ''t'' \<and> evReason ev = ''why''"
proof -
  have v: "validateReason (RawDoc (JObj [(''reason'', JStr ''why'')])) = None"
  proof -
    have "is_nil (validateReason (RawDoc (JObj [(''reason'', JStr ''why'')])))" by code_simp
    then show ?thesis by simp
  qed
  have "\<exists>ev. evTool ev = ''t'' \<and> evArgsSHA256 ev = vSha sample_env [] (RawDoc (JObj [(''reason'', JStr ''why'')])) \<and>
    evTime ev = 5 \<and>
    (\<exists>ms. RawDoc (JObj [(''reason'', JStr ''why'')]) = RawDoc (JObj ms) \<and> reasons ms = [JStr (evReason ev)]) \<and>
    evOK ev = is_ok (fst (call sample_audited ''t'' (RawDoc (JObj [(''reason'', JStr ''why'')])) 0 (new_logger []))) \<and>
    (\<forall>n. file_lines (id (snd (call sample_audited ''t'' (RawDoc (JObj [(''reason'', JStr ''why'')])) 0 (new_logger [])))) n =
       file_lines (id (call_end AMD64 (\<lambda>w. \<lparr>eFile = [], eCfg = Default\<rparr>) sample_env (\<lambda>w. 5) id (\<lambda>l w. l)
         (\<lambda>x w. (Inr (Plain JNull), w)) ''t'' (RawDoc (JObj [(''reason'', JStr ''why'')])) (new_logger []))) n @
       (if n = vDay sample_env 5 @ ''.jsonl'' then [EventLine (vLen sample_env ev) ev] else []))"
    by (rule call_recorded_once [where a = AMD64 and eng = "\<lambda>w. \<lparr>eFile = [], eCfg = Default\<rparr>" and v = sample_env
          and now = "\<lambda>w. 5" and get = id and put = "\<lambda>l w. l" and r = sample_audited and name = "''t''" and t = sample_audited_tool, OF _ _ _ v])
      (simp_all add: sample_audited_def sample_audited_tool_def runtime_interceptors_def AddInterceptor_def gm_get_def call_end_def
        can_append_def new_logger_def audit_before_def Let_def)
  then obtain ev :: event and ms where "evTool ev = ''t''" and
    "RawDoc (JObj [(''reason'', JStr ''why'')]) = RawDoc (JObj ms)" and "reasons ms = [JStr (evReason ev)]"
    by (elim exE conjE)
  then show ?thesis by (intro exI [of _ ev]) auto
qed

theorem tail_newest_first_witness:
  "Tail 2 (fold (record_event sample_env) [sample_event 1, sample_event 7, sample_event 12] (new_logger [])) =
     take (audit_limit 2) (rev [sample_event 1, sample_event 7, sample_event 12])"
  by (rule tail_newest_first) (simp_all add: log_name_def sample_env_def sample_event_def max_line_def)

theorem audit_prune_exact_witness:
  "fst (audit_prune (\<lambda>n. None) (100 * 24 * hour) 0
      (new_logger [(''a.jsonl'', \<lparr>lfIsDir = False, lfReadable = True, lfModTime = 7, lfLines = []\<rparr>)])) =
   (int (length (filter (\<lambda>(n, f). is_log n f \<and> lfModTime f < 70 * 24 * hour)
      (gm_sorted (lFiles (new_logger [(''a.jsonl'', \<lparr>lfIsDir = False, lfReadable = True, lfModTime = 7, lfLines = []\<rparr>)]))))), None)"
  using audit_prune_exact [of "new_logger [(''a.jsonl'', \<lparr>lfIsDir = False, lfReadable = True, lfModTime = 7, lfLines = []\<rparr>)]"
      "\<lambda>n. None" "70 * 24 * hour" "100 * 24 * hour" 0]
  by (simp add: new_logger_def gm_ok_def)

end
