(* ===== verification/CapBuffer.thy ===== *)
theory CapBuffer
  imports GoStrings
begin

section \<open>The capped output buffers\<close>

text \<open>
  Five packages keep the output of a process in a buffer of their own that stops growing at a limit
  and remembers that something was dropped: targets, plugins, tools, sessionbridge and the root
  broker. Each \<open>Write\<close> is modelled from its own source. The contract is stated once, as a locale
  over a \<open>write\<close> operation, and interpreted for each of the five.

  \<open>Write\<close> reports the length of its argument and no error, so the process never sees a short write;
  the model returns the buffer only. The limit is a Go \<open>int\<close> and may be zero or negative.
\<close>

record cap_buffer =
  cbBuf :: string
  cbLimit :: int
  cbTruncated :: bool

definition cap_new :: "int \<Rightarrow> cap_buffer" where
  "cap_new limit = \<lparr>cbBuf = [], cbLimit = limit, cbTruncated = False\<rparr>"

text \<open>\<open>capBuffer.Write\<close> (internal/targets/manager.go).\<close>

definition capWrite_targets :: "string \<Rightarrow> cap_buffer \<Rightarrow> cap_buffer" where
  "capWrite_targets p b =
     (let remaining = cbLimit b - int (length (cbBuf b))
      in if remaining \<le> 0 then b\<lparr>cbTruncated := True\<rparr>
         else if int (length p) > remaining
         then b\<lparr>cbBuf := cbBuf b @ take (nat remaining) p, cbTruncated := True\<rparr>
         else b\<lparr>cbBuf := cbBuf b @ p\<rparr>)"

text \<open>\<open>cappedBuffer.Write\<close> (internal/plugins/loader.go).\<close>

definition capWrite_plugins :: "string \<Rightarrow> cap_buffer \<Rightarrow> cap_buffer" where
  "capWrite_plugins p b =
     (let remain = cbLimit b - int (length (cbBuf b))
      in if remain \<le> 0 then b\<lparr>cbTruncated := True\<rparr>
         else if int (length p) > remain
         then b\<lparr>cbBuf := cbBuf b @ take (nat remain) p, cbTruncated := True\<rparr>
         else b\<lparr>cbBuf := cbBuf b @ p\<rparr>)"

text \<open>\<open>cappedBuffer.Write\<close> (internal/tools/common.go).\<close>

definition capWrite_tools :: "string \<Rightarrow> cap_buffer \<Rightarrow> cap_buffer" where
  "capWrite_tools p b =
     (let remaining = cbLimit b - int (length (cbBuf b))
      in if remaining \<le> 0 then b\<lparr>cbTruncated := True\<rparr>
         else if int (length p) > remaining
         then b\<lparr>cbBuf := cbBuf b @ take (nat remaining) p, cbTruncated := True\<rparr>
         else b\<lparr>cbBuf := cbBuf b @ p\<rparr>)"

text \<open>\<open>limitBuffer.Write\<close> (internal/sessionbridge/bridge_linux.go).\<close>

definition capWrite_bridge :: "string \<Rightarrow> cap_buffer \<Rightarrow> cap_buffer" where
  "capWrite_bridge p b =
     (let remaining = cbLimit b - int (length (cbBuf b))
      in if remaining \<le> 0 then b\<lparr>cbTruncated := True\<rparr>
         else if int (length p) > remaining
         then b\<lparr>cbBuf := cbBuf b @ take (nat remaining) p, cbTruncated := True\<rparr>
         else b\<lparr>cbBuf := cbBuf b @ p\<rparr>)"

text \<open>\<open>cappedBuffer.Write\<close> (cmd/cycomagent-root/main_linux.go).\<close>

definition capWrite_root :: "string \<Rightarrow> cap_buffer \<Rightarrow> cap_buffer" where
  "capWrite_root p b =
     (let remaining = cbLimit b - int (length (cbBuf b))
      in if remaining \<le> 0 then b\<lparr>cbTruncated := True\<rparr>
         else if int (length p) > remaining
         then b\<lparr>cbBuf := cbBuf b @ take (nat remaining) p, cbTruncated := True\<rparr>
         else b\<lparr>cbBuf := cbBuf b @ p\<rparr>)"

subsection \<open>The contract\<close>

locale capped_writer =
  fixes wr :: "string \<Rightarrow> cap_buffer \<Rightarrow> cap_buffer"
  assumes write_buf: "cbBuf (wr p b) = cbBuf b @ take (nat (cbLimit b - int (length (cbBuf b)))) p"
    and write_limit: "cbLimit (wr p b) = cbLimit b"
    and write_truncated: "cbTruncated (wr p b) \<longleftrightarrow>
      cbTruncated b \<or> cbLimit b \<le> int (length (cbBuf b)) \<or> cbLimit b - int (length (cbBuf b)) < int (length p)"
begin

lemma nat_minus_int: "nat (a - int n) = nat a - n"
  by arith

text \<open>All that was written so far, cut at the limit, is in the buffer.\<close>

definition holds :: "string \<Rightarrow> cap_buffer \<Rightarrow> bool" where
  "holds s b \<longleftrightarrow> cbBuf b = take (nat (cbLimit b)) s \<and> (cbTruncated b \<longleftrightarrow> cbLimit b < int (length s))"

lemma holds_new: "0 \<le> limit \<Longrightarrow> holds [] (cap_new limit)"
  by (simp add: holds_def cap_new_def)

lemma holds_write: "holds s b \<Longrightarrow> p \<noteq> [] \<Longrightarrow> holds (s @ p) (wr p b)"
  by (cases "cbLimit b \<le> int (length s)") (auto simp: holds_def write_buf write_limit write_truncated min_def nat_minus_int)

lemma write_limits: "cbLimit (fold wr ps b) = cbLimit b"
  by (induction ps arbitrary: b) (simp_all add: write_limit)

lemma holds_writes: "holds s b \<Longrightarrow> [] \<notin> set ps \<Longrightarrow> holds (s @ concat ps) (fold wr ps b)"
proof (induction ps arbitrary: s b)
  case (Cons p ps)
  then show ?case using Cons.IH [OF holds_write [of s b p]] by auto
qed simp

lemma capture:
  assumes "0 \<le> limit" and "[] \<notin> set ps"
  shows "cbBuf (fold wr ps (cap_new limit)) = take (nat limit) (concat ps) \<and>
    (cbTruncated (fold wr ps (cap_new limit)) \<longleftrightarrow> limit < int (length (concat ps)))"
  using holds_writes [OF holds_new [OF assms(1)] assms(2)] write_limits [of ps "cap_new limit"]
  by (simp add: holds_def cap_new_def)

end

interpretation cap_targets: capped_writer capWrite_targets
  by unfold_locales (auto simp: capWrite_targets_def Let_def)

interpretation cap_plugins: capped_writer capWrite_plugins
  by unfold_locales (auto simp: capWrite_plugins_def Let_def)

interpretation cap_tools: capped_writer capWrite_tools
  by unfold_locales (auto simp: capWrite_tools_def Let_def)

interpretation cap_bridge: capped_writer capWrite_bridge
  by unfold_locales (auto simp: capWrite_bridge_def Let_def)

interpretation cap_root: capped_writer capWrite_root
  by unfold_locales (auto simp: capWrite_root_def Let_def)

subsection \<open>Properties\<close>

text \<open>
  C13: each of the five buffers, after any sequence of non-empty writes, holds exactly the first
  \<open>limit\<close> bytes of everything that was written, and says that it truncated exactly when there was
  more.
\<close>

theorem capped_output:
  assumes "0 \<le> limit" and "[] \<notin> set ps"
    and "write \<in> {capWrite_targets, capWrite_plugins, capWrite_tools, capWrite_bridge, capWrite_root}"
  shows "cbBuf (fold write ps (cap_new limit)) = take (nat limit) (concat ps) \<and>
    (cbTruncated (fold write ps (cap_new limit)) \<longleftrightarrow> limit < int (length (concat ps)))"
  using assms(3) cap_targets.capture [OF assms(1,2)] cap_plugins.capture [OF assms(1,2)]
    cap_tools.capture [OF assms(1,2)] cap_bridge.capture [OF assms(1,2)] cap_root.capture [OF assms(1,2)]
  by auto

text \<open>What a process that wrote the given chunks leaves in one of the buffers.\<close>

definition captured :: "(string \<Rightarrow> cap_buffer \<Rightarrow> cap_buffer) \<Rightarrow> int \<Rightarrow> string list \<Rightarrow> cap_buffer" where
  "captured write limit chunks = fold write chunks (cap_new limit)"

theorem capped_output_witness:
  "cbBuf (fold capWrite_tools [''ab'', ''cde'', ''f''] (cap_new 4)) = take (nat 4) (concat [''ab'', ''cde'', ''f'']) \<and>
    (cbTruncated (fold capWrite_tools [''ab'', ''cde'', ''f''] (cap_new 4)) \<longleftrightarrow>
      4 < int (length (concat [''ab'', ''cde'', ''f''])))"
  by (rule capped_output) simp_all

end
