(* ===== verification/Jobs.thy ===== *)
theory Jobs
  imports Json
begin

section \<open>Persistent jobs (internal/jobs/manager.go, internal/tools/jobs.go)\<close>

text \<open>
  The table of the jobs, the JSON files that make it durable, and the log files. Every method that
  changes a job does so under the manager's lock: each locked section is one operation here, and
  the goroutines that wait for or watch a process are the operations \<open>finishJob\<close>,
  \<open>monitorExternal\<close> and \<open>monitorRecovered\<close>, which happen when their process has ended.

  What the system does is an argument: the clock, the process a launch gives, whether a process is
  alive, the outcome of \<open>kill\<close>, and whether a file could be written (\<open>pf\<close> is true when
  \<open>persistLocked\<close> fails, whose error every caller ignores). A file holds the job it was written
  from, or \<open>None\<close> when it cannot be read as a job.
\<close>

record job =
  jID :: string
  jCommand :: string
  jCwd :: string
  jEnv :: "string gomap"
  jShell :: string
  jPID :: int
  jPGID :: int
  jStatus :: string
  jExitCode :: "int option"
  jLogFile :: string
  jCreatedAt :: int
  jUpdatedAt :: int
  jError :: "goerr option"
  jContext :: string

record manager =
  mDir :: string
  mJobs :: "job gomap"
  mSeq :: nat
  mDisk :: "job option gomap"
  mLogs :: "string gomap"

definition persistLocked :: "bool \<Rightarrow> job \<Rightarrow> manager \<Rightarrow> manager" where
  "persistLocked pf j m = (if pf then m else m\<lparr>mDisk := gm_put (jID j @ ''.json'') (Some j) (mDisk m)\<rparr>)"

text \<open>Storing a changed job and writing it out.\<close>

definition store_job :: "bool \<Rightarrow> string \<Rightarrow> job \<Rightarrow> manager \<Rightarrow> manager" where
  "store_job pf k j m = persistLocked pf j (m\<lparr>mJobs := gm_put k j (mJobs m)\<rparr>)"

subsection \<open>Starting\<close>

definition default_to :: "string \<Rightarrow> string \<Rightarrow> string" where
  "default_to d s = (if s = [] then d else s)"

definition job_id :: "int \<Rightarrow> nat \<Rightarrow> string" where
  "job_id ms n = ''job-'' @ itoa ms @ ''-'' @ itoa (int n)"

definition recordStartedJob ::
  "bool \<Rightarrow> int \<Rightarrow> string \<Rightarrow> string \<Rightarrow> string \<Rightarrow> string \<Rightarrow> string gomap \<Rightarrow> string \<Rightarrow> string \<Rightarrow> int \<Rightarrow> int \<Rightarrow>
   manager \<Rightarrow> job \<times> manager" where
  "recordStartedJob pf now id' command cwd shell env ctx logFile pid pgid m =
     (let j = \<lparr>jID = id', jCommand = command, jCwd = cwd, jEnv = env, jShell = shell, jPID = pid,
               jPGID = pgid, jStatus = ''running'', jExitCode = None, jLogFile = logFile,
               jCreatedAt = now, jUpdatedAt = now, jError = None, jContext = ctx\<rparr>
      in (j, store_job pf id' j m))"

text \<open>\<open>opened\<close> is the outcome of opening the log file; opening creates it when it does not exist.\<close>

definition open_log :: "string \<Rightarrow> manager \<Rightarrow> manager" where
  "open_log path m = (if gm_has (mLogs m) path then m else m\<lparr>mLogs := gm_put path [] (mLogs m)\<rparr>)"

definition StartWithContext ::
  "string \<Rightarrow> int \<Rightarrow> int \<Rightarrow> goerr option \<Rightarrow> (int \<times> int) res \<Rightarrow> bool \<Rightarrow>
   string \<Rightarrow> string \<Rightarrow> string \<Rightarrow> string gomap \<Rightarrow> string \<Rightarrow> manager \<Rightarrow> job res \<times> manager" where
  "StartWithContext defShell ms now opened started pf command cwd shell0 env ctx0 m =
     (if trim_space command = [] then (Inl (err_new ''command is required''), m)
      else
        let shell = default_to defShell shell0;
            ctx = (if trim_space ctx0 = [] then ''service'' else ctx0);
            m1 = m\<lparr>mSeq := Suc (mSeq m)\<rparr>;
            id' = job_id ms (mSeq m1);
            logFile = mDir m @ ''/'' @ id' @ ''.log''
        in case opened of
             Some e \<Rightarrow> (Inl e, m1)
           | None \<Rightarrow>
               let m2 = open_log logFile m1
               in (case started of
                     Inl e \<Rightarrow> (Inl e, m2)
                   | Inr (pid, pgid) \<Rightarrow>
                       let (j, m3) = recordStartedJob pf now id' command cwd shell env ctx logFile pid pgid m2
                       in (Inr j, m3)))"

definition Start ::
  "string \<Rightarrow> int \<Rightarrow> int \<Rightarrow> goerr option \<Rightarrow> (int \<times> int) res \<Rightarrow> bool \<Rightarrow>
   string \<Rightarrow> string \<Rightarrow> string \<Rightarrow> string gomap \<Rightarrow> manager \<Rightarrow> job res \<times> manager" where
  "Start defShell ms now opened started pf command cwd shell env m =
     StartWithContext defShell ms now opened started pf command cwd shell env ''service'' m"

text \<open>The launcher of an external job is a function of the log file's path; it may be missing.\<close>

definition StartExternal ::
  "string \<Rightarrow> int \<Rightarrow> int \<Rightarrow> goerr option \<Rightarrow> (string \<Rightarrow> (int \<times> int) res) option \<Rightarrow> bool \<Rightarrow>
   string \<Rightarrow> string \<Rightarrow> string \<Rightarrow> string gomap \<Rightarrow> string \<Rightarrow> manager \<Rightarrow> job res \<times> manager" where
  "StartExternal defShell ms now opened launch pf command cwd shell0 env ctx0 m =
     (if trim_space command = [] then (Inl (err_new ''command is required''), m)
      else (case launch of
        None \<Rightarrow> (Inl (err_new ''external job launcher is required''), m)
      | Some run \<Rightarrow>
          let shell = default_to defShell shell0;
              ctx = (if trim_space ctx0 = [] then ''user'' else ctx0);
              m1 = m\<lparr>mSeq := Suc (mSeq m)\<rparr>;
              id' = job_id ms (mSeq m1);
              logFile = mDir m @ ''/'' @ id' @ ''.log''
          in case opened of
               Some e \<Rightarrow> (Inl e, m1)
             | None \<Rightarrow>
                 let m2 = open_log logFile m1;
                     gone = m2\<lparr>mLogs := gm_del logFile (mLogs m2)\<rparr>
                 in (case run logFile of
                       Inl e \<Rightarrow> (Inl e, gone)
                     | Inr (pid, pgid) \<Rightarrow>
                         if pid \<le> 0
                         then (Inl (Errorf ''external launcher returned invalid pid %d'' [FInt pid]), gone)
                         else
                           let (j, m3) = recordStartedJob pf now id' command cwd shell env ctx logFile pid pgid m2
                           in (Inr j, m3))))"

subsection \<open>Ending\<close>

text \<open>What \<open>Wait\<close> returned.\<close>

datatype wait_result = WaitOK | WaitExit int | WaitErr goerr

fun exit_code :: "wait_result \<Rightarrow> int" where
  "exit_code WaitOK = 0"
| "exit_code (WaitExit c) = c"
| "exit_code (WaitErr _) = -1"

fun wait_error :: "wait_result \<Rightarrow> goerr option \<Rightarrow> goerr option" where
  "wait_error (WaitErr e) _ = Some e"
| "wait_error _ old = old"

definition finishJob :: "bool \<Rightarrow> int \<Rightarrow> string \<Rightarrow> wait_result \<Rightarrow> manager \<Rightarrow> manager" where
  "finishJob pf now id' r m =
     (case gm_get (mJobs m) id' of
        None \<Rightarrow> m
      | Some j \<Rightarrow>
          store_job pf id'
            (j\<lparr>jUpdatedAt := now, jExitCode := Some (exit_code r), jError := wait_error r (jError j),
               jStatus := (if jStatus j = ''terminating'' then ''terminated'' else ''exited'')\<rparr>) m)"

text \<open>The watchers of external and of recovered processes, when the process is no longer alive.\<close>

definition monitorExternal :: "bool \<Rightarrow> int \<Rightarrow> string \<Rightarrow> manager \<Rightarrow> manager" where
  "monitorExternal pf now id' m =
     (case gm_get (mJobs m) id' of
        None \<Rightarrow> m
      | Some j \<Rightarrow>
          if jStatus j \<in> set [''running'', ''running-recovered'', ''terminating'']
          then store_job pf id'
            (j\<lparr>jExitCode := Some (-1),
               jStatus := (if jStatus j = ''terminating'' then ''terminated'' else ''exited-external''),
               jUpdatedAt := now\<rparr>) m
          else m)"

definition monitorRecovered :: "bool \<Rightarrow> int \<Rightarrow> string \<Rightarrow> manager \<Rightarrow> manager" where
  "monitorRecovered pf now id' m =
     (case gm_get (mJobs m) id' of
        None \<Rightarrow> m
      | Some j \<Rightarrow>
          if jStatus j = ''running-recovered''
          then store_job pf id'
            (j\<lparr>jExitCode := Some (-1), jStatus := ''exited-after-recovery'', jUpdatedAt := now\<rparr>) m
          else m)"

subsection \<open>Reading\<close>

definition List_jobs :: "manager \<Rightarrow> job list" where
  "List_jobs m = sort_key (\<lambda>j. - jCreatedAt j) (map snd (mJobs m))"

definition Get_job :: "string \<Rightarrow> manager \<Rightarrow> job res" where
  "Get_job id' m = (case gm_get (mJobs m) id' of None \<Rightarrow> Inl ErrNotExist | Some j \<Rightarrow> Inr j)"

text \<open>The ring of the last \<open>lines\<close> lines.\<close>

fun ring_lines :: "nat \<Rightarrow> string list \<Rightarrow> string list \<Rightarrow> string list" where
  "ring_lines n ring [] = ring"
| "ring_lines n ring (x # xs) =
     (if length ring = n then ring_lines n (tl ring @ [x]) xs else ring_lines n (ring @ [x]) xs)"

definition tail_lines :: "int \<Rightarrow> int" where
  "tail_lines lines = (if lines \<le> 0 then 200 else lines)"

definition tail_bytes :: "int \<Rightarrow> int" where
  "tail_bytes maxBytes = (if maxBytes \<le> 0 \<or> 2097152 < maxBytes then 262144 else maxBytes)"

text \<open>
  \<open>make([]string, 0, lines)\<close> panics when the capacity exceeds the address space (2^48 bytes on the
  64-bit platforms the program is built for, at 16 bytes a string).
\<close>

definition Tail_job :: "string \<Rightarrow> int \<Rightarrow> int \<Rightarrow> manager \<Rightarrow> (string \<times> bool) res" where
  "Tail_job id' lines0 max0 m =
     (case Get_job id' m of
        Inl e \<Rightarrow> Inl e
      | Inr j \<Rightarrow>
          let lines = tail_lines lines0; maxBytes = tail_bytes max0
          in case gm_get (mLogs m) (jLogFile j) of
               None \<Rightarrow> Inl ErrNotExist
             | Some log \<Rightarrow>
                 let start = int (length log) - maxBytes; truncated = (0 < start)
                 in if 2 ^ 48 < lines * 16 then Inl (ErrOS ''panic: makeslice: cap out of range'')
                    else (case scan_lines 2097152 (drop (nat start) log) of
                            Inl e \<Rightarrow> Inl e
                          | Inr ls \<Rightarrow> Inr (GoStrings.join [CHR 0x0A] (ring_lines (nat lines) [] ls), truncated)))"

subsection \<open>Signals\<close>

datatype sig = SIGTERM | SIGINT | SIGHUP | SIGKILL | SIGUSR1 | SIGUSR2

definition parseSignal :: "string \<Rightarrow> sig res" where
  "parseSignal s =
     (let n = to_upper (trim_prefix (trim_space s) ''SIG'')
      in if n = [] \<or> n = ''TERM'' then Inr SIGTERM
         else if n = ''INT'' then Inr SIGINT
         else if n = ''HUP'' then Inr SIGHUP
         else if n = ''KILL'' then Inr SIGKILL
         else if n = ''USR1'' then Inr SIGUSR1
         else if n = ''USR2'' then Inr SIGUSR2
         else Inl (Errorf ''unsupported signal %q'' [FStr s]))"

fun terminates :: "sig \<Rightarrow> bool" where
  "terminates SIGTERM = True"
| "terminates SIGKILL = True"
| "terminates SIGINT = True"
| "terminates _ = False"

text \<open>The locked section of \<open>Signal\<close>: the job marked and written out, and the process to signal.\<close>

definition mark_signal :: "bool \<Rightarrow> int \<Rightarrow> string \<Rightarrow> sig \<Rightarrow> job \<Rightarrow> manager \<Rightarrow> manager" where
  "mark_signal pf now id' s j m =
     store_job pf id'
       (j\<lparr>jStatus := (if terminates s then ''terminating'' else jStatus j), jUpdatedAt := now\<rparr>) m"

definition signal_target :: "job \<Rightarrow> int" where
  "signal_target j = (if 0 < jPGID j then - jPGID j else jPID j)"

text \<open>
  Signalling; the final \<open>Get\<close>, after the lock is given up, is taken at the same moment, so that a \<open>Prune\<close> in
  between counts as one that comes later.
\<close>

definition Signal ::
  "bool \<Rightarrow> int \<Rightarrow> (int \<Rightarrow> sig \<Rightarrow> goerr option) \<Rightarrow> string \<Rightarrow> string \<Rightarrow> manager \<Rightarrow> job res \<times> manager" where
  "Signal pf now kill id' signal m =
     (case parseSignal signal of
        Inl e \<Rightarrow> (Inl e, m)
      | Inr s \<Rightarrow>
          (case gm_get (mJobs m) id' of
             None \<Rightarrow> (Inl ErrNotExist, m)
           | Some j \<Rightarrow>
               let m1 = mark_signal pf now id' s j m
               in (case kill (signal_target j) s of
                     Some e \<Rightarrow> (Inl e, m1)
                   | None \<Rightarrow> (Get_job id' m1, m1))))"

subsection \<open>Pruning and recovery\<close>

definition live_status :: "string \<Rightarrow> bool" where
  "live_status s \<longleftrightarrow> has_prefix s ''running'' \<or> s = ''terminating''"

definition keep_job :: "int \<Rightarrow> job \<Rightarrow> bool" where
  "keep_job cutoff j \<longleftrightarrow> live_status (jStatus j) \<or> cutoff < jUpdatedAt j"

fun prune_jobs :: "int \<Rightarrow> (string \<times> job) list \<Rightarrow> manager \<Rightarrow> int \<Rightarrow> int \<times> manager" where
  "prune_jobs cutoff [] m removed = (removed, m)"
| "prune_jobs cutoff ((k, j) # js) m removed =
     (if keep_job cutoff j then prune_jobs cutoff js m removed
      else prune_jobs cutoff js
             (m\<lparr>mLogs := gm_del (jLogFile j) (mLogs m), mDisk := gm_del (k @ ''.json'') (mDisk m),
                mJobs := gm_del k (mJobs m)\<rparr>) (removed + 1))"

definition Prune :: "int \<Rightarrow> int \<Rightarrow> manager \<Rightarrow> int \<times> manager" where
  "Prune now olderThan0 m =
     (let olderThan = (if olderThan0 \<le> 0 then 7 * 24 * hour else olderThan0)
      in prune_jobs (now - olderThan) (mJobs m) m 0)"

definition recover_job :: "(int \<Rightarrow> bool) \<Rightarrow> int \<Rightarrow> job \<Rightarrow> job" where
  "recover_job alive now j =
     (if jStatus j \<in> set [''running'', ''terminating'', ''running-recovered'']
      then (if alive (jPID j) then j\<lparr>jStatus := ''running-recovered''\<rparr>
            else j\<lparr>jStatus := ''exited-while-runtime-offline'', jExitCode := Some (-1)\<rparr>)\<lparr>jUpdatedAt := now\<rparr>
      else j)"

fun recover_files :: "(int \<Rightarrow> bool) \<Rightarrow> int \<Rightarrow> bool \<Rightarrow> (string \<times> job option) list \<Rightarrow> manager \<Rightarrow> manager" where
  "recover_files alive now pf [] m = m"
| "recover_files alive now pf ((name, f) # es) m =
     (if \<not> has_suffix name ''.json'' then recover_files alive now pf es m
      else (case f of
              None \<Rightarrow> recover_files alive now pf es m
            | Some j \<Rightarrow>
                if jID j = [] then recover_files alive now pf es m
                else
                  let c = recover_job alive now j
                  in recover_files alive now pf es (store_job pf (jID j) c m)))"

text \<open>\<open>New\<close>: the table is rebuilt from the directory, and the sequence starts again.\<close>

definition jobs_new :: "(int \<Rightarrow> bool) \<Rightarrow> int \<Rightarrow> bool \<Rightarrow> string \<Rightarrow> job option gomap \<Rightarrow> string gomap \<Rightarrow> manager" where
  "jobs_new alive now pf dir disk logs =
     recover_files alive now pf (gm_sorted disk)
       \<lparr>mDir = dir, mJobs = [], mSeq = 0, mDisk = disk, mLogs = logs\<rparr>"

definition processAlive :: "(int \<Rightarrow> bool) \<Rightarrow> int \<Rightarrow> bool" where
  "processAlive signalable pid = (if pid \<le> 0 then False else signalable pid)"

definition restart :: "(int \<Rightarrow> bool) \<Rightarrow> int \<Rightarrow> bool \<Rightarrow> manager \<Rightarrow> manager" where
  "restart signalable now pf m = jobs_new (processAlive signalable) now pf (mDir m) (mDisk m) (mLogs m)"

subsection \<open>The tools\<close>

definition job_get_tool :: "raw \<Rightarrow> manager \<Rightarrow> job res" where
  "job_get_tool args m =
     (case decode_members [''id''] args of
        Inl e \<Rightarrow> Inl e
      | Inr ms \<Rightarrow>
          (case strict (dec_field set_str [] ''id'' ms) of Inl e \<Rightarrow> Inl e | Inr i \<Rightarrow> Get_job i m))"

definition job_tail_tool :: "raw \<Rightarrow> manager \<Rightarrow> (string \<times> string \<times> bool) res" where
  "job_tail_tool args m =
     (case decode_members [''id'', ''lines'', ''max_bytes''] args of
        Inl e \<Rightarrow> Inl e
      | Inr ms \<Rightarrow>
          let (i, e1) = dec_field set_str [] ''id'' ms;
              (lines, e2) = dec_field set_int 0 ''lines'' ms;
              (mb, e3) = dec_field set_int 0 ''max_bytes'' ms
          in if e1 \<or> e2 \<or> e3 then Inl invalid_arguments
             else (case Tail_job i lines mb m of Inl e \<Rightarrow> Inl e | Inr (log, tr) \<Rightarrow> Inr (i, log, tr)))"

definition job_signal_tool ::
  "bool \<Rightarrow> int \<Rightarrow> (int \<Rightarrow> sig \<Rightarrow> goerr option) \<Rightarrow> raw \<Rightarrow> manager \<Rightarrow> job res \<times> manager" where
  "job_signal_tool pf now kill args m =
     (case decode_members [''id'', ''signal''] args of
        Inl e \<Rightarrow> (Inl e, m)
      | Inr ms \<Rightarrow>
          let (i, e1) = dec_field set_str [] ''id'' ms;
              (s, e2) = dec_field set_str [] ''signal'' ms
          in if e1 \<or> e2 then (Inl invalid_arguments, m)
             else if i = [] then (Inl (err_new ''id is required''), m)
             else Signal pf now kill i s m)"

definition job_prune_tool :: "int \<Rightarrow> raw \<Rightarrow> manager \<Rightarrow> int res \<times> manager" where
  "job_prune_tool now args m =
     (case decode_members [''older_than_hours''] args of
        Inl e \<Rightarrow> (Inl e, m)
      | Inr ms \<Rightarrow>
          (case strict (dec_field set_int 0 ''older_than_hours'' ms) of
             Inl e \<Rightarrow> (Inl e, m)
           | Inr h0 \<Rightarrow>
               let h = (if h0 \<le> 0 then 168 else h0);
                   (n, m1) = Prune now (wrap64 (h * hour)) m
               in (Inr n, m1)))"

subsection \<open>The life of a job\<close>

definition ended_statuses :: "string list" where
  "ended_statuses = [''exited'', ''terminated'', ''exited-external'', ''exited-after-recovery'',
     ''exited-while-runtime-offline'']"

definition job_statuses :: "string list" where
  "job_statuses = [''running'', ''running-recovered'', ''terminating''] @ ended_statuses"

definition job_ok :: "job \<Rightarrow> bool" where
  "job_ok j \<longleftrightarrow> jID j \<noteq> [] \<and> jStatus j \<in> set job_statuses \<and>
     (jStatus j \<in> set ended_statuses \<longrightarrow> jExitCode j \<noteq> None) \<and>
     (jStatus j = ''running'' \<longrightarrow> jExitCode j = None)"

definition jobs_inv :: "manager \<Rightarrow> bool" where
  "jobs_inv m \<longleftrightarrow> gm_all (\<lambda>k j. jID j = k \<and> job_ok j) (mJobs m) \<and>
     gm_all (\<lambda>n f. \<forall>j. f = Some j \<longrightarrow> n = jID j @ ''.json'' \<and> job_ok j) (mDisk m)"

text \<open>The files say what the table says.\<close>

definition synced :: "manager \<Rightarrow> bool" where
  "synced m \<longleftrightarrow> (\<forall>k. gm_get (mDisk m) (k @ ''.json'') = map_option Some (gm_get (mJobs m) k))"

text \<open>
  The steps of the manager: the methods of the API, the goroutines, and a restart of the runtime.
  A launched process has a positive process id. \<open>fails\<close> says whether files may fail to be written.
\<close>

inductive job_step :: "bool \<Rightarrow> manager \<Rightarrow> manager \<Rightarrow> bool" for fails :: bool where
  start: "(pf \<longrightarrow> fails) \<Longrightarrow>
    job_step fails m (snd (StartWithContext defShell ms now opened started pf command cwd shell env ctx m))"
| external: "(pf \<longrightarrow> fails) \<Longrightarrow>
    job_step fails m (snd (StartExternal defShell ms now opened launch pf command cwd shell env ctx m))"
| finish: "(pf \<longrightarrow> fails) \<Longrightarrow> job_step fails m (finishJob pf now i r m)"
| watch: "(pf \<longrightarrow> fails) \<Longrightarrow> job_step fails m (monitorExternal pf now i m)"
| watch_recovered: "(pf \<longrightarrow> fails) \<Longrightarrow> job_step fails m (monitorRecovered pf now i m)"
| signal: "(pf \<longrightarrow> fails) \<Longrightarrow> job_step fails m (snd (Signal pf now kill i s m))"
| prune: "job_step fails m (snd (Prune now age m))"
| restarted: "(pf \<longrightarrow> fails) \<Longrightarrow> job_step fails m (restart alive now pf m)"

inductive_cases job_stepE: "job_step fails m m'"

inductive job_reach :: "bool \<Rightarrow> string \<Rightarrow> manager \<Rightarrow> bool" for fails :: bool and dir :: string where
  fresh: "job_reach fails dir \<lparr>mDir = dir, mJobs = [], mSeq = 0, mDisk = [], mLogs = []\<rparr>"
| step: "job_reach fails dir m \<Longrightarrow> job_step fails m m' \<Longrightarrow> job_reach fails dir m'"

subsection \<open>Every operation keeps the invariant\<close>

lemma json_name_inj [simp]: "k @ ''.json'' = k' @ ''.json'' \<longleftrightarrow> k = k'"
  by simp

lemma store_job_inv [go_inv]:
  "jobs_inv m \<Longrightarrow> job_ok j \<Longrightarrow> jID j = k \<Longrightarrow> jobs_inv (store_job pf k j m)"
  by (auto simp: jobs_inv_def store_job_def persistLocked_def intro!: gm_all_put)

lemma store_job_synced [go_inv]: "synced m \<Longrightarrow> jID j = k \<Longrightarrow> synced (store_job False k j m)"
  by (simp add: synced_def store_job_def persistLocked_def)

lemma jobs_inv_frame [simp]:
  "jobs_inv (m\<lparr>mSeq := n\<rparr>) = jobs_inv m" "jobs_inv (m\<lparr>mLogs := l\<rparr>) = jobs_inv m"
  "synced (m\<lparr>mSeq := n\<rparr>) = synced m" "synced (m\<lparr>mLogs := l\<rparr>) = synced m"
  by (simp_all add: jobs_inv_def synced_def)

lemma open_log_frame [simp]: "jobs_inv (open_log p m) = jobs_inv m" "synced (open_log p m) = synced m"
  by (simp_all add: open_log_def)

lemma job_id_ne [simp]: "job_id ms n \<noteq> []"
  by (simp add: job_id_def)

lemma record_inv [go_inv]:
  "jobs_inv m \<Longrightarrow> i \<noteq> [] \<Longrightarrow> jobs_inv (snd (recordStartedJob pf now i c d s e x l p g m))"
  by (auto simp: recordStartedJob_def Let_def job_ok_def job_statuses_def ended_statuses_def intro!: store_job_inv)

lemma record_synced [go_inv]: "synced m \<Longrightarrow> synced (snd (recordStartedJob False now i c d s e x l p g m))"
  by (auto simp: recordStartedJob_def Let_def intro!: store_job_synced)

lemma jobs_inv_get: "jobs_inv m \<Longrightarrow> gm_get (mJobs m) k = Some j \<Longrightarrow> jID j = k \<and> job_ok j"
  using gm_allD [of "\<lambda>k j. jID j = k \<and> job_ok j" "mJobs m" k j] by (simp add: jobs_inv_def)

lemma start_keeps:
  "jobs_inv m \<Longrightarrow> jobs_inv (snd (StartWithContext ds ms now op st pf c d s e x m))"
  "synced m \<Longrightarrow> synced (snd (StartWithContext ds ms now op st False c d s e x m))"
  by (auto simp: StartWithContext_def Let_def case_prod_beta record_inv record_synced
      split: option.split sum.split)

lemma external_keeps:
  "jobs_inv m \<Longrightarrow> jobs_inv (snd (StartExternal ds ms now op la pf c d s e x m))"
  "synced m \<Longrightarrow> synced (snd (StartExternal ds ms now op la False c d s e x m))"
  by (auto simp: StartExternal_def Let_def case_prod_beta record_inv record_synced
      split: option.split sum.split)

lemmas job_ok_simps = job_ok_def job_statuses_def ended_statuses_def

text \<open>A stored job that keeps its name and its status discipline.\<close>

lemma update_keeps:
  assumes "jobs_inv m" and "gm_get (mJobs m) k = Some j" and "jID j' = jID j" and "job_ok j \<Longrightarrow> job_ok j'"
  shows "jobs_inv (store_job pf k j' m)"
  using assms jobs_inv_get [OF assms(1,2)] by (intro store_job_inv) auto

lemma update_synced:
  assumes "jobs_inv m" and "gm_get (mJobs m) k = Some j" and "jID j' = jID j" and "synced m"
  shows "synced (store_job False k j' m)"
  using assms jobs_inv_get [OF assms(1,2)] by (intro store_job_synced) auto

lemmas updates = update_keeps update_synced

lemma finish_ok: "job_ok j \<Longrightarrow> job_ok (j\<lparr>jUpdatedAt := t, jExitCode := Some c, jError := e,
    jStatus := (if jStatus j = ''terminating'' then ''terminated'' else ''exited'')\<rparr>)"
  by (simp add: job_ok_simps)

lemma finish_keeps:
  assumes "jobs_inv m"
  shows "jobs_inv (finishJob pf now i r m)" and "synced m \<Longrightarrow> synced (finishJob False now i r m)"
  unfolding finishJob_def using assms
proof -
  show "jobs_inv (case gm_get (mJobs m) i of None \<Rightarrow> m
      | Some j \<Rightarrow> store_job pf i (j\<lparr>jUpdatedAt := now, jExitCode := Some (exit_code r), jError := wait_error r (jError j),
               jStatus := (if jStatus j = ''terminating'' then ''terminated'' else ''exited'')\<rparr>) m)"
  proof (cases "gm_get (mJobs m) i")
    case (Some j)
    show ?thesis unfolding Some option.case
      by (rule update_keeps [OF assms Some _ finish_ok]) simp_all
  qed (simp add: assms)
  assume "synced m"
  then show "synced (case gm_get (mJobs m) i of None \<Rightarrow> m
      | Some j \<Rightarrow> store_job False i (j\<lparr>jUpdatedAt := now, jExitCode := Some (exit_code r), jError := wait_error r (jError j),
               jStatus := (if jStatus j = ''terminating'' then ''terminated'' else ''exited'')\<rparr>) m)"
  proof (cases "gm_get (mJobs m) i")
    case (Some j)
    show ?thesis unfolding Some option.case
      by (rule update_synced [OF assms Some _ \<open>synced m\<close>]) simp
  qed simp
qed

lemma watch_ok: "job_ok j \<Longrightarrow> job_ok (j\<lparr>jExitCode := Some c,
    jStatus := (if jStatus j = ''terminating'' then ''terminated'' else ''exited-external''), jUpdatedAt := t\<rparr>)"
  by (simp add: job_ok_simps)

lemma watch_keeps:
  "jobs_inv m \<Longrightarrow> jobs_inv (monitorExternal pf now i m)"
  "jobs_inv m \<Longrightarrow> synced m \<Longrightarrow> synced (monitorExternal False now i m)"
proof -
  have "jobs_inv (monitorExternal pf now i m) \<and> (synced m \<longrightarrow> synced (monitorExternal False now i m))"
    if inv: "jobs_inv m" for pf
  proof (cases "gm_get (mJobs m) i")
    case (Some j)
    note ok = watch_ok [where j = j and c = "-1" and t = now] and keep = updates [OF inv Some]
    show ?thesis
      unfolding monitorExternal_def Some option.case
      by (intro conjI impI; split if_split; intro conjI impI; (rule inv | assumption | rule keep)?)
        (simp_all add: ok split del: if_split)
  qed (simp add: monitorExternal_def inv)
  then show "jobs_inv m \<Longrightarrow> jobs_inv (monitorExternal pf now i m)"
    "jobs_inv m \<Longrightarrow> synced m \<Longrightarrow> synced (monitorExternal False now i m)" by blast+
qed

lemma watch_recovered_keeps:
  "jobs_inv m \<Longrightarrow> jobs_inv (monitorRecovered pf now i m)"
  "jobs_inv m \<Longrightarrow> synced m \<Longrightarrow> synced (monitorRecovered False now i m)"
proof -
  have "jobs_inv (monitorRecovered pf now i m) \<and> (synced m \<longrightarrow> synced (monitorRecovered False now i m))"
    if inv: "jobs_inv m" for pf
  proof (cases "gm_get (mJobs m) i")
    case (Some j)
    have ok: "job_ok j \<Longrightarrow> job_ok (j\<lparr>jExitCode := Some (-1), jStatus := ''exited-after-recovery'', jUpdatedAt := now\<rparr>)"
      by (simp add: job_ok_simps)
    note keep = updates [OF inv Some]
    show ?thesis
      unfolding monitorRecovered_def Some option.case
      by (intro conjI impI; split if_split; intro conjI impI; (rule inv | assumption | rule keep)?)
        (simp_all add: ok)
  qed (simp add: monitorRecovered_def inv)
  then show "jobs_inv m \<Longrightarrow> jobs_inv (monitorRecovered pf now i m)"
    "jobs_inv m \<Longrightarrow> synced m \<Longrightarrow> synced (monitorRecovered False now i m)" by blast+
qed

lemma mark_ok: "job_ok j \<Longrightarrow> job_ok (j\<lparr>jStatus := (if terminates s then ''terminating'' else jStatus j), jUpdatedAt := t\<rparr>)"
  by (auto simp: job_ok_simps)

lemma signal_state:
  "snd (Signal pf now kill i s m) =
     (case parseSignal s of
        Inl _ \<Rightarrow> m
      | Inr g \<Rightarrow> (case gm_get (mJobs m) i of None \<Rightarrow> m | Some j \<Rightarrow> mark_signal pf now i g j m))"
  by (simp add: Signal_def Let_def split: sum.split option.split)

lemma mark_keeps:
  assumes "jobs_inv m" and "gm_get (mJobs m) i = Some j"
  shows "jobs_inv (mark_signal pf now i g j m)" and "synced m \<Longrightarrow> synced (mark_signal False now i g j m)"
  unfolding mark_signal_def
  by (rule update_keeps [OF assms _ mark_ok]; simp) (rule update_synced [OF assms]; simp)

lemma signal_keeps:
  assumes "jobs_inv m"
  shows "jobs_inv (snd (Signal pf now kill i s m))" and "synced m \<Longrightarrow> synced (snd (Signal False now kill i s m))"
  using assms mark_keeps [OF assms] by (simp_all add: signal_state split: sum.split option.split)

lemma prune_jobs_inv: "jobs_inv m \<Longrightarrow> jobs_inv (snd (prune_jobs c js m r))"
  by (induction c js m r rule: prune_jobs.induct) (auto simp: jobs_inv_def intro!: gm_all_del)

lemma prune_jobs_synced: "synced m \<Longrightarrow> synced (snd (prune_jobs c js m r))"
  by (induction c js m r rule: prune_jobs.induct) (auto simp: synced_def)

lemma recover_job_ok: "job_ok j \<Longrightarrow> job_ok (recover_job alive now j)"
  by (auto simp: recover_job_def job_ok_simps)

lemma recover_job_id [simp]: "jID (recover_job alive now j) = jID j"
  by (simp add: recover_job_def)

definition disk_ok :: "(string \<times> job option) list \<Rightarrow> bool" where
  "disk_ok es \<longleftrightarrow> gm_all (\<lambda>n f. \<forall>j. f = Some j \<longrightarrow> n = jID j @ ''.json'' \<and> job_ok j) es"

lemma disk_ok_Cons: "disk_ok ((n, f) # es) \<Longrightarrow> disk_ok es"
  by (simp add: disk_ok_def gm_all_def gm_ok_def)

lemma has_suffix_json [simp]: "has_suffix (k @ ''.json'') ''.json''"
  by (auto simp: has_suffix_iff)

lemma recover_files_inv: "disk_ok es \<Longrightarrow> jobs_inv m \<Longrightarrow> jobs_inv (recover_files alive now pf es m)"
proof (induction es arbitrary: m)
  case (Cons e es)
  obtain name f where e: "e = (name, f)" by (cases e)
  have tl: "disk_ok es" using Cons.prems(1) e disk_ok_Cons by blast
  show ?case
  proof (cases f)
    case None
    then show ?thesis using Cons.IH [OF tl Cons.prems(2)] e by simp
  next
    case (Some j)
    then have "job_ok j" using Cons.prems(1) e by (simp add: disk_ok_def gm_all_def)
    then have "jobs_inv (store_job pf (jID j) (recover_job alive now j) m)"
      by (intro store_job_inv Cons.prems(2) recover_job_ok) simp_all
    then show ?thesis using Cons.IH [OF tl] Cons.prems(2) e Some by (simp add: Let_def)
  qed
qed simp

lemma recover_files_get:
  "disk_ok es \<Longrightarrow>
   gm_get (mJobs (recover_files alive now pf es m)) k =
     (case map_of es (k @ ''.json'') of
        Some (Some j) \<Rightarrow> Some (recover_job alive now j)
      | _ \<Rightarrow> gm_get (mJobs m) k) \<and>
   gm_get (mDisk (recover_files alive now False es m)) (k @ ''.json'') =
     (case map_of es (k @ ''.json'') of
        Some (Some j) \<Rightarrow> Some (Some (recover_job alive now j))
      | _ \<Rightarrow> gm_get (mDisk m) (k @ ''.json''))"
proof (induction es arbitrary: m)
  case (Cons e es)
  obtain name f where e: "e = (name, f)" by (cases e)
  have tl: "disk_ok es" using Cons.prems e disk_ok_Cons by blast
  show ?case
  proof (cases f)
    case None
    have "map_of es name = None"
      using Cons.prems e by (simp add: disk_ok_def gm_all_def gm_ok_def map_of_eq_None_iff)
    with e None Cons.IH [OF tl, of m] show ?thesis by (cases "name = k @ ''.json''") simp_all
  next
    case (Some j)
    then have name: "name = jID j @ ''.json''" and ok: "job_ok j"
      using Cons.prems e by (simp_all add: disk_ok_def gm_all_def)
    have fresh: "map_of es (jID j @ ''.json'') = None"
      using Cons.prems e name by (simp add: disk_ok_def gm_all_def gm_ok_def map_of_eq_None_iff)
    have "jID j \<noteq> []" using ok by (simp add: job_ok_def)
    with Cons.IH [OF tl] fresh show ?thesis
      by (auto simp: e Some name Let_def store_job_def persistLocked_def split: option.split)
  qed
qed simp

lemma restart_keeps: "jobs_inv m \<Longrightarrow> jobs_inv (restart alive now pf m)"
  unfolding restart_def jobs_new_def
  by (rule recover_files_inv)
    (auto simp: jobs_inv_def disk_ok_def gm_all_def)

lemma disk_ok_sorted: "jobs_inv m \<Longrightarrow> disk_ok (gm_sorted (mDisk m))"
  by (auto simp: jobs_inv_def disk_ok_def gm_all_def)

lemma restart_get:
  assumes "jobs_inv m" and "synced m"
  shows "gm_get (mJobs (restart alive now pf m)) k =
      map_option (recover_job (processAlive alive) now) (gm_get (mJobs m) k)"
    and "synced (restart alive now False m)"
proof -
  have ok: "gm_ok (mDisk m)" using assms(1) by (simp add: jobs_inv_def gm_all_def)
  have look: "map_of (gm_sorted (mDisk m)) n = gm_get (mDisk m) n" for n
    using gm_get_sorted [OF ok, of n] by (simp add: gm_get_def)
  have get: "gm_get (mJobs (restart alive now pf' m)) k =
      map_option (recover_job (processAlive alive) now) (gm_get (mJobs m) k)" for pf' k
    using recover_files_get [OF disk_ok_sorted [OF assms(1)]] assms(2)
    by (auto simp: restart_def jobs_new_def look synced_def split: option.split)
  then show "gm_get (mJobs (restart alive now pf m)) k =
      map_option (recover_job (processAlive alive) now) (gm_get (mJobs m) k)" .
  have "gm_get (mDisk (restart alive now False m)) (k @ ''.json'') =
      map_option (\<lambda>j. Some (recover_job (processAlive alive) now j)) (gm_get (mJobs m) k)" for k
    using recover_files_get [OF disk_ok_sorted [OF assms(1)]] assms(2)
    by (auto simp: restart_def jobs_new_def look synced_def split: option.split)
  then show "synced (restart alive now False m)"
    by (simp add: synced_def get option.map_comp comp_def)
qed

lemma job_step_inv: "job_step fails m m' \<Longrightarrow> jobs_inv m \<Longrightarrow> jobs_inv m'"
  by (induction rule: job_step.induct)
    (auto simp: start_keeps external_keeps finish_keeps watch_keeps watch_recovered_keeps signal_keeps
      Prune_def Let_def prune_jobs_inv restart_keeps)

lemma job_step_synced: "job_step False m m' \<Longrightarrow> jobs_inv m \<Longrightarrow> synced m \<Longrightarrow> synced m'"
  by (induction rule: job_step.induct)
    (auto simp: start_keeps external_keeps finish_keeps watch_keeps watch_recovered_keeps signal_keeps
      Prune_def Let_def prune_jobs_synced restart_get)

lemma job_reach_inv: "job_reach fails dir m \<Longrightarrow> jobs_inv m"
proof (induction rule: job_reach.induct)
  case fresh
  then show ?case by (simp add: jobs_inv_def)
next
  case (step m m')
  then show ?case using job_step_inv by blast
qed

lemma job_reach_synced: "job_reach False dir m \<Longrightarrow> synced m"
proof (induction rule: job_reach.induct)
  case fresh
  then show ?case by (simp add: synced_def)
next
  case (step m m')
  then show ?case using job_step_synced job_reach_inv by blast
qed

subsection \<open>Tail, prune, signal\<close>

lemma ring_lines_eq:
  "0 < n \<Longrightarrow> length ring \<le> n \<Longrightarrow> ring_lines n ring xs = drop (length (ring @ xs) - n) (ring @ xs)"
proof (induction xs arbitrary: ring)
  case (Cons x xs)
  show ?case
  proof (cases "length ring = n")
    case True
    then have "drop (Suc (length xs)) (ring @ x # xs) = drop (length xs) (tl ring @ x # xs)"
      using Cons.prems by (cases ring) auto
    with True Cons show ?thesis by (cases "length xs < n") (simp_all add: Suc_diff_le)
  next
    case False
    with Cons show ?thesis by (cases "length xs < n") (simp_all add: Suc_diff_le)
  qed
qed simp

lemma tail_lines_pos: "0 < tail_lines n"
  by (simp add: tail_lines_def)

lemma tail_bytes_range: "0 < tail_bytes n" "tail_bytes n \<le> 2097152"
  by (simp_all add: tail_bytes_def)

lemma prune_jobs_eq:
  "prune_jobs c js m r =
     (let dead = filter (\<lambda>(k, j). \<not> keep_job c j) js
      in (r + int (length dead),
          m\<lparr>mLogs := fold (\<lambda>(k, j). gm_del (jLogFile j)) dead (mLogs m),
            mDisk := fold (\<lambda>(k, j). gm_del (k @ ''.json'')) dead (mDisk m),
            mJobs := fold (\<lambda>(k, j). gm_del k) dead (mJobs m)\<rparr>))"
  by (induction c js m r rule: prune_jobs.induct) (simp_all add: Let_def)

lemma fold_del_get:
  "gm_get (fold (\<lambda>(k, j). gm_del (f k j)) es m) n = (if \<exists>(k, j) \<in> set es. f k j = n then None else gm_get m n)"
  by (induction es arbitrary: m) auto

lemma Prune_jobs:
  assumes "jobs_inv m"
  shows "gm_get (mJobs (snd (Prune now age m))) k =
     (case gm_get (mJobs m) k of
        None \<Rightarrow> None
      | Some j \<Rightarrow> if keep_job (now - (if age \<le> 0 then 7 * 24 * hour else age)) j then Some j else None)"
proof -
  have ok: "gm_ok (mJobs m)" using assms by (simp add: jobs_inv_def gm_all_def)
  let ?c = "now - (if age \<le> 0 then 7 * 24 * hour else age)"
  have "(\<exists>(k', j) \<in> set (filter (\<lambda>(k, j). \<not> keep_job ?c j) (mJobs m)). k' = k) \<longleftrightarrow>
      (\<exists>j. gm_get (mJobs m) k = Some j \<and> \<not> keep_job ?c j)"
    using gm_mem_get [OF ok, of k] by force
  then show ?thesis
    by (auto simp: Prune_def prune_jobs_eq Let_def fold_del_get [of "\<lambda>k j. k"] split: option.split)
qed

lemma store_job_get: "gm_get (mJobs (store_job pf k j m)) k' = (if k' = k then Some j else gm_get (mJobs m) k')"
  by (simp add: store_job_def persistLocked_def)

lemmas job_gets = store_job_get mark_signal_def signal_state

subsection \<open>Properties\<close>

text \<open>
  C39: in every state the manager can reach, by any sequence of starts, exits, signals, watchers,
  prunes and restarts and even when files cannot be written, every job stands under its own
  identifier, has one of the eight statuses of the program, has an exit code once it has ended, and
  has none while it is \<open>running\<close>.
\<close>

theorem job_table_consistent:
  assumes "job_reach fails dir m" and "gm_get (mJobs m) k = Some j"
  shows "jID j = k \<and> jStatus j \<in> set job_statuses \<and>
    (jStatus j \<in> set ended_statuses \<longrightarrow> jExitCode j \<noteq> None) \<and>
    (jStatus j = ''running'' \<longrightarrow> jExitCode j = None)"
  using jobs_inv_get [OF job_reach_inv [OF assms(1)] assms(2)] by (simp add: job_ok_def)

text \<open>
  C40: a restart of the runtime loses no job when every file could be written: the new table has
  exactly the jobs of the old one, each unchanged if it had ended; a job that had not ended is
  \<open>running-recovered\<close> when its process is alive and ended with exit code -1 otherwise.
\<close>

theorem restart_recovers_jobs:
  assumes "job_reach False dir m"
  shows "gm_get (mJobs (restart alive now pf m)) k =
    (case gm_get (mJobs m) k of
       None \<Rightarrow> None
     | Some j \<Rightarrow>
         Some (if jStatus j \<in> set ended_statuses then j
               else if 0 < jPID j \<and> alive (jPID j) then j\<lparr>jStatus := ''running-recovered'', jUpdatedAt := now\<rparr>
               else j\<lparr>jStatus := ''exited-while-runtime-offline'', jExitCode := Some (-1), jUpdatedAt := now\<rparr>))"
proof (cases "gm_get (mJobs m) k")
  case None
  then show ?thesis
    using restart_get(1) [OF job_reach_inv [OF assms] job_reach_synced [OF assms]] by simp
next
  case (Some j)
  have "jStatus j \<in> set job_statuses"
    using jobs_inv_get [OF job_reach_inv [OF assms] Some] by (simp add: job_ok_def)
  then have "jStatus j \<in> set ended_statuses \<longleftrightarrow>
      jStatus j \<notin> set [''running'', ''terminating'', ''running-recovered'']"
    by (auto simp: job_statuses_def ended_statuses_def)
  then show ?thesis
    using restart_get(1) [OF job_reach_inv [OF assms] job_reach_synced [OF assms], of alive now pf k]
    by (auto simp: Some recover_job_def processAlive_def)
qed

text \<open>
  A log tail is the last \<open>lines\<close> lines (200 by default) of the last \<open>max_bytes\<close> bytes of the
  job's log, and is marked truncated exactly when the log is longer than those bytes.
\<close>

theorem job_tail_last_lines:
  assumes "Tail_job i lines mb m = Inr (tail, truncated)"
  shows "\<exists>j log ls. gm_get (mJobs m) i = Some j \<and> gm_get (mLogs m) (jLogFile j) = Some log \<and>
    scan_lines 2097152 (drop (length log - nat (tail_bytes mb)) log) = Inr ls \<and>
    tail = GoStrings.join [CHR 0x0A] (drop (length ls - nat (tail_lines lines)) ls) \<and>
    (truncated \<longleftrightarrow> tail_bytes mb < int (length log))"
proof -
  from assms obtain j log ls where j: "gm_get (mJobs m) i = Some j"
    and log: "gm_get (mLogs m) (jLogFile j) = Some log"
    and ls: "scan_lines 2097152 (drop (nat (int (length log) - tail_bytes mb)) log) = Inr ls"
    and out: "tail = GoStrings.join [CHR 0x0A] (ring_lines (nat (tail_lines lines)) [] ls)"
      "truncated = (0 < int (length log) - tail_bytes mb)"
    by (auto simp: Tail_job_def Get_job_def Let_def split: option.splits sum.splits if_splits)
  have "nat (int (length log) - tail_bytes mb) = length log - nat (tail_bytes mb)"
    using tail_bytes_range [of mb] by arith
  with j log ls out show ?thesis
    using tail_lines_pos [of lines] by (auto simp: ring_lines_eq)
qed

text \<open>
  Pruning removes exactly the jobs that have ended and were last updated at or before the
  cutoff (seven days ago when no positive age is given): every job that is running, recovered or
  terminating stays, whatever its age.
\<close>

theorem job_prune_exact:
  assumes "job_reach fails dir m"
  shows "gm_get (mJobs (snd (Prune now age m))) k =
    (case gm_get (mJobs m) k of
       None \<Rightarrow> None
     | Some j \<Rightarrow>
         if jStatus j \<in> set ended_statuses \<and> jUpdatedAt j \<le> now - (if age \<le> 0 then 7 * 24 * hour else age)
         then None else Some j)"
proof (cases "gm_get (mJobs m) k")
  case None
  then show ?thesis using Prune_jobs [OF job_reach_inv [OF assms]] by simp
next
  case (Some j)
  have "jStatus j \<in> set job_statuses"
    using jobs_inv_get [OF job_reach_inv [OF assms] Some] by (simp add: job_ok_def)
  then have "live_status (jStatus j) \<longleftrightarrow> jStatus j \<notin> set ended_statuses"
    by (auto simp: job_statuses_def ended_statuses_def live_status_def)
  then show ?thesis
    using Prune_jobs [OF job_reach_inv [OF assms], of now age k] Some by (auto simp: keep_job_def)
qed

text \<open>
  A terminating signal to a job of this runtime marks it \<open>terminating\<close> and is sent to the whole
  process group; when the process then ends, the job becomes \<open>terminated\<close> with its exit code, for
  the runtime's own processes and for external ones.
\<close>

theorem signalled_job_terminates:
  assumes "gm_get (mJobs m) i = Some j" and "parseSignal s = Inr g" and "terminates g"
    and "kill (if 0 < jPGID j then - jPGID j else jPID j) g = None"
  shows "\<exists>j'. fst (Signal pf now kill i s m) = Inr j' \<and> jStatus j' = ''terminating'' \<and>
    (\<exists>j1. gm_get (mJobs (finishJob pf t i r (snd (Signal pf now kill i s m)))) i = Some j1 \<and>
       jStatus j1 = ''terminated'' \<and> jExitCode j1 = Some (exit_code r)) \<and>
    (\<exists>j2. gm_get (mJobs (monitorExternal pf t i (snd (Signal pf now kill i s m)))) i = Some j2 \<and>
       jStatus j2 = ''terminated'' \<and> jExitCode j2 = Some (-1))"
  using assms
  by (simp add: Signal_def Let_def signal_target_def mark_signal_def Get_job_def finishJob_def
      monitorExternal_def store_job_get)

text \<open>
  A terminating signal to a job that has already ended fails, because its process is gone, but
  marks the job \<open>terminating\<close> all the same; nothing in this runtime ends it again, so no prune ever
  removes it.
\<close>

theorem signalled_ended_job_stuck:
  assumes "jobs_inv m" and "gm_get (mJobs m) i = Some j" and "jStatus j \<in> set ended_statuses"
    and "\<And>g. kill (signal_target j) g = Some e"
  shows "fst (Signal pf now kill i ''TERM'' m) = Inl e \<and>
    (\<exists>j'. gm_get (mJobs (snd (Signal pf now kill i ''TERM'' m))) i = Some j' \<and> jStatus j' = ''terminating'' \<and>
       (\<forall>t age. gm_get (mJobs (snd (Prune t age (snd (Signal pf now kill i ''TERM'' m))))) i = Some j'))"
proof -
  have p: "parseSignal ''TERM'' = Inr SIGTERM" by code_simp
  let ?j = "j\<lparr>jStatus := ''terminating'', jUpdatedAt := now\<rparr>"
  have get: "gm_get (mJobs (snd (Signal pf now kill i ''TERM'' m))) i = Some ?j"
    by (simp add: job_gets p assms(2))
  have "keep_job c ?j" for c by (simp add: keep_job_def live_status_def)
  then have "gm_get (mJobs (snd (Prune t age (snd (Signal pf now kill i ''TERM'' m))))) i = Some ?j" for t age
    using Prune_jobs [OF signal_keeps(1) [OF assms(1)], of t age pf now kill i "''TERM''" i] get by simp
  moreover have "fst (Signal pf now kill i ''TERM'' m) = Inl e"
    using assms(2,4) by (simp add: Signal_def p Let_def)
  ultimately show ?thesis using get by simp
qed

text \<open>
  After a restart, a recovered job that is told to terminate never leaves the status
  \<open>terminating\<close>: its watcher only reacts to \<open>running-recovered\<close>, so when the process ends nothing
  is recorded, while the watcher of external jobs records \<open>terminated\<close>.
\<close>

theorem recovered_job_never_terminated:
  assumes "gm_get (mJobs m) i = Some j" and "parseSignal s = Inr g" and "terminates g"
  shows "monitorRecovered pf t i (snd (Signal pf now kill i s m)) = snd (Signal pf now kill i s m) \<and>
    (\<exists>j'. gm_get (mJobs (snd (Signal pf now kill i s m))) i = Some j' \<and> jStatus j' = ''terminating'')"
  using assms by (simp add: job_gets monitorRecovered_def)

text \<open>The prefix SIG is recognised in upper case only, the name after it in any case.\<close>

lemma signal_prefix_case:
  "parseSignal ''term'' = Inr SIGTERM" "parseSignal ''SIGterm'' = Inr SIGTERM"
  "parseSignal ''sigterm'' = Inl (Errorf ''unsupported signal %q'' [FStr ''sigterm''])"
  by code_simp+

subsection \<open>Witnesses\<close>

definition sample_manager :: manager where
  "sample_manager = snd (Start ''/bin/sh'' 5 5 None (Inr (41, 41)) False ''sleep 1'' [] [] []
     \<lparr>mDir = ''d'', mJobs = [], mSeq = 0, mDisk = [], mLogs = []\<rparr>)"

lemma sample_manager_reach: "job_reach False ''d'' sample_manager"
  unfolding sample_manager_def Start_def
  by (rule job_reach.step [OF job_reach.fresh job_step.start]) simp

definition sample_job :: job where
  "sample_job = \<lparr>jID = ''job-5-1'', jCommand = ''sleep 1'', jCwd = [], jEnv = [], jShell = ''/bin/sh'', jPID = 41,
     jPGID = 41, jStatus = ''running'', jExitCode = None, jLogFile = ''d/job-5-1.log'',
     jCreatedAt = 5, jUpdatedAt = 5, jError = None, jContext = ''service''\<rparr>"

lemma sample_jobs: "mJobs sample_manager = [(''job-5-1'', sample_job)]" "mLogs sample_manager = [(''d/job-5-1.log'', [])]"
  by code_simp+

lemma sample_get: "gm_get (mJobs sample_manager) ''job-5-1'' = Some sample_job"
  by (simp add: sample_jobs gm_get_def)

theorem job_table_consistent_witness: "jID sample_job = ''job-5-1'' \<and> jStatus sample_job \<in> set job_statuses"
  using job_table_consistent [OF sample_manager_reach sample_get] by simp

theorem restart_recovers_jobs_witness:
  "gm_get (mJobs (restart (\<lambda>p. False) 9 False sample_manager)) ''job-5-1'' =
     Some (sample_job\<lparr>jStatus := ''exited-while-runtime-offline'', jExitCode := Some (-1), jUpdatedAt := 9\<rparr>)"
  using restart_recovers_jobs [OF sample_manager_reach, of "\<lambda>p. False" 9 False "''job-5-1''"]
  by (simp add: sample_get sample_job_def ended_statuses_def)

theorem job_tail_last_lines_witness:
  "\<exists>j log ls. gm_get (mJobs sample_manager) ''job-5-1'' = Some j \<and> gm_get (mLogs sample_manager) (jLogFile j) = Some log \<and>
    scan_lines 2097152 (drop (length log - nat (tail_bytes 0)) log) = Inr ls \<and>
    [] = GoStrings.join [CHR 0x0A] (drop (length ls - nat (tail_lines 0)) ls) \<and>
    (False \<longleftrightarrow> tail_bytes 0 < int (length log))"
  by (rule job_tail_last_lines)
    (simp add: Tail_job_def Get_job_def sample_get sample_jobs sample_job_def gm_get_def Let_def tail_bytes_def
      tail_lines_def scan_lines_def text_lines_def)

theorem job_prune_exact_witness:
  "gm_get (mJobs (snd (Prune (100 * 24 * hour) 0 sample_manager))) ''job-5-1'' = Some sample_job"
  using job_prune_exact [OF sample_manager_reach, of "100 * 24 * hour" 0 "''job-5-1''"]
  by (simp add: sample_get sample_job_def ended_statuses_def)

theorem signalled_job_terminates_witness:
  "\<exists>j'. fst (Signal False 6 (\<lambda>p g. if p = -41 then None else Some ErrNotExist) ''job-5-1'' ''int'' sample_manager) = Inr j'"
proof -
  have p: "parseSignal ''int'' = Inr SIGINT" by code_simp
  have "\<exists>j'. fst (Signal False 6 (\<lambda>p g. if p = -41 then None else Some ErrNotExist) ''job-5-1'' ''int'' sample_manager) = Inr j' \<and>
      jStatus j' = ''terminating''"
    using signalled_job_terminates [OF sample_get p, of "\<lambda>p g. if p = -41 then None else Some ErrNotExist" False 6 7 WaitOK]
    by (auto simp: sample_job_def)
  then show ?thesis by blast
qed

theorem signalled_ended_job_stuck_witness:
  "fst (Signal False 9 (\<lambda>p g. Some ErrNotExist) ''job-5-1'' ''TERM''
     (finishJob False 8 ''job-5-1'' WaitOK sample_manager)) = Inl ErrNotExist"
proof -
  let ?m = "finishJob False 8 ''job-5-1'' WaitOK sample_manager"
  let ?j = "sample_job\<lparr>jUpdatedAt := 8, jExitCode := Some 0, jStatus := ''exited''\<rparr>"
  have inv: "jobs_inv ?m"
    by (rule finish_keeps(1) [OF job_reach_inv [OF sample_manager_reach]])
  have get: "gm_get (mJobs ?m) ''job-5-1'' = Some ?j"
    by (simp add: finishJob_def sample_get store_job_get) (simp add: sample_job_def)
  have "jStatus ?j \<in> set ended_statuses" by (simp add: ended_statuses_def)
  from signalled_ended_job_stuck [OF inv get this, of "\<lambda>p g. Some ErrNotExist" ErrNotExist False 9] show ?thesis
    by simp
qed

theorem recovered_job_never_terminated_witness:
  "monitorRecovered False 9 ''job-5-1'' (snd (Signal False 8 (\<lambda>p g. None) ''job-5-1'' ''KILL''
     (restart (\<lambda>p. True) 7 False sample_manager))) =
   snd (Signal False 8 (\<lambda>p g. None) ''job-5-1'' ''KILL'' (restart (\<lambda>p. True) 7 False sample_manager))"
proof -
  have p: "parseSignal ''KILL'' = Inr SIGKILL" by code_simp
  obtain j where "gm_get (mJobs (restart (\<lambda>p. True) 7 False sample_manager)) ''job-5-1'' = Some j"
    using restart_get(1) [OF job_reach_inv [OF sample_manager_reach] job_reach_synced [OF sample_manager_reach],
        of "\<lambda>p. True" 7 False "''job-5-1''"] by (simp add: sample_get)
  from recovered_job_never_terminated [OF this p] show ?thesis by simp
qed

end
