(* ===== verification/Exec.thy ===== *)
theory Exec
  imports Json CapBuffer
begin

section \<open>Processes, their environment and the requests to run them\<close>

text \<open>
  What the packages that run commands share: how a process is described and what becomes of it, the
  environment a child sees, the text \<open>encoding/json\<close> writes for a Go string, the path functions of
  \<open>path/filepath\<close>, and the request to run a command, which the root broker and the session bridge
  declare with the same fields.
\<close>

subsection \<open>Processes\<close>

text \<open>
  A command: program and arguments, directory, environment, standard input (empty for none) and time
  limit in nanoseconds.
\<close>

record command =
  cmArgv :: "string list"
  cmDir :: string
  cmEnv :: "string list"
  cmStdin :: string
  cmTimeout :: int

text \<open>
  What became of it: it did not start, or it ran, writing its two outputs in chunks; \<open>d\<close> is the time
  in milliseconds, the flag says that the time limit ended it; \<open>None\<close> is a successful exit,
  \<open>Some (Inr c)\<close> a failing one, \<open>Some (Inl e)\<close> an error of waiting.
\<close>

datatype outcome =
    NotStarted goerr
  | Ended "string list" "string list" int bool "(goerr + int) option"

text \<open>\<open>time.Duration(n) * time.Second\<close>, in 64 bits.\<close>

definition seconds :: "int \<Rightarrow> int" where
  "seconds n = wrap64 (n * 1000000000)"

lemma seconds_exact: "0 \<le> n \<Longrightarrow> n \<le> 9223372036 \<Longrightarrow> seconds n = n * 1000000000"
  by (simp add: seconds_def wrap64_id)

lemma seconds_wraps: "seconds 9223372037 < 0"
  by code_simp

subsection \<open>The environment of a child\<close>

text \<open>
  \<open>exec.Cmd\<close> keeps the last entry of each name, so a child reads the last one. \<open>env_list\<close> prints a
  map; the order of the entries is the order in which Go happens to walk the map.
\<close>

definition env_list :: "string gomap \<Rightarrow> string list" where
  "env_list m = map (\<lambda>(k, v). k @ ''='' @ v) m"

lemma env_list_Nil [simp]: "env_list [] = []"
  by (simp add: env_list_def)

fun env_value :: "string list \<Rightarrow> string \<Rightarrow> string option" where
  "env_value [] k = None"
| "env_value (e # es) k =
     (case env_value es k of
        Some v \<Rightarrow> Some v
      | None \<Rightarrow> if has_prefix e (k @ ''='') then Some (drop (length k + 1) e) else None)"

text \<open>A name that can be the name of a variable.\<close>

definition env_key :: "string \<Rightarrow> bool" where
  "env_key k \<longleftrightarrow> k \<noteq> [] \<and> CHR ''='' \<notin> set k"

abbreviation env_keys :: "string gomap \<Rightarrow> bool" where
  "env_keys m \<equiv> gm_all (\<lambda>k v. env_key k) m"

text \<open>
  What every package promises of its function that puts extra variables over the inherited ones: the
  child sees the extra value where there is one and the inherited one elsewhere.
\<close>

locale env_merger =
  fixes merge :: "string list \<Rightarrow> string gomap \<Rightarrow> string list"
  assumes env_value_merge:
    "env_keys extra \<Longrightarrow> env_key k \<Longrightarrow>
     env_value (merge environ extra) k =
       (case gm_get extra k of Some v \<Rightarrow> Some v | None \<Rightarrow> env_value environ k)"
begin

lemma override: "env_keys extra \<Longrightarrow> gm_get extra k = Some v \<Longrightarrow> env_value (merge environ extra) k = Some v"
  using gm_allD [of "\<lambda>k v. env_key k" extra k v] by (simp add: env_value_merge)

lemma inherited:
  "env_keys extra \<Longrightarrow> env_key k \<Longrightarrow> gm_get extra k = None \<Longrightarrow>
   env_value (merge environ extra) k = env_value environ k"
  by (simp add: env_value_merge)

text \<open>The order in which the extra variables are walked does not matter.\<close>

lemma order_irrelevant:
  assumes "env_keys extra" and "env_key k"
  shows "env_value (merge environ (gm_sorted extra)) k = env_value (merge environ extra) k"
proof -
  have "env_keys (gm_sorted extra)" using assms(1) by (simp add: gm_all_get)
  with assms show ?thesis by (simp add: env_value_merge gm_all_get)
qed

end

lemma env_value_append:
  "env_value (xs @ ys) k = (case env_value ys k of Some v \<Rightarrow> Some v | None \<Rightarrow> env_value xs k)"
  by (induction xs) (auto split: option.split)

lemma entry_prefix:
  assumes "CHR ''='' \<notin> set k" and "CHR ''='' \<notin> set k'"
  shows "has_prefix (k' @ ''='' @ v) (k @ ''='') \<longleftrightarrow> k = k'"
proof
  assume "has_prefix (k' @ ''='' @ v) (k @ ''='')"
  then obtain t where "k' @ CHR ''='' # v = k @ CHR ''='' # t" by (auto simp: has_prefix_iff)
  then show "k = k'"
    using index_byte_append [OF assms(1), of t] index_byte_append [OF assms(2), of v] by (metis append_eq_conv_conj option.inject)
qed (simp add: has_prefix_iff)

lemma env_value_entry:
  "CHR ''='' \<notin> set k \<Longrightarrow> CHR ''='' \<notin> set k' \<Longrightarrow>
   env_value [k' @ ''='' @ v] k = (if k = k' then Some v else None)"
  using entry_prefix [of k k' v] by simp

lemma env_value_list:
  assumes "env_keys m" and "env_key k"
  shows "env_value (env_list m) k = gm_get m k"
  using assms(1)
proof (induction m)
  case Nil
  then show ?case by (simp add: env_list_def)
next
  case (Cons kv m)
  obtain k' v where kv: "kv = (k', v)" by (cases kv)
  have get: "gm_get (kv # m) x = (if x = k' then Some v else gm_get m x)" for x
    by (simp add: gm_get_def kv)
  have fresh: "gm_get m k' = None" and ok: "gm_ok m"
    using Cons.prems by (auto simp: gm_all_get gm_ok_def kv gm_get_None)
  have k': "env_key k'" and keys: "env_keys m"
    using Cons.prems ok fresh by (auto simp: gm_all_get get)
  have "env_value (env_list (kv # m)) k =
      (case env_value (env_list m) k of Some u \<Rightarrow> Some u | None \<Rightarrow> if k = k' then Some v else None)"
    using entry_prefix [of k k' v] assms(2) k' by (auto simp: env_list_def kv env_key_def split: option.split)
  also have "\<dots> = gm_get (kv # m) k"
    using Cons.IH [OF keys] fresh by (auto simp: get split: option.split)
  finally show ?case .
qed

subsection \<open>Strings that JSON can carry\<close>

text \<open>
  The length of the UTF-8 sequence a non-empty string starts with, 0 when it starts with none
  (\<open>utf8.DecodeRuneInString\<close>).
\<close>

definition cont_byte :: "char \<Rightarrow> bool" where
  "cont_byte c = between (CHR 0x80) (CHR 0xBF) c"

text \<open>The bounds of the second byte, which exclude overlong forms, surrogates and large values.\<close>

definition second_byte :: "char \<Rightarrow> char \<Rightarrow> bool" where
  "second_byte a b =
     (if a = CHR 0xE0 then between (CHR 0xA0) (CHR 0xBF) b
      else if a = CHR 0xED then between (CHR 0x80) (CHR 0x9F) b
      else if a = CHR 0xF0 then between (CHR 0x90) (CHR 0xBF) b
      else if a = CHR 0xF4 then between (CHR 0x80) (CHR 0x8F) b
      else cont_byte b)"

fun rune_len :: "string \<Rightarrow> nat" where
  "rune_len [] = 0"
| "rune_len (a # s) =
     (if between (CHR 0x00) (CHR 0x7F) a then 1
      else if between (CHR 0xC2) (CHR 0xDF) a
      then (case s of b # _ \<Rightarrow> if second_byte a b then 2 else 0 | _ \<Rightarrow> 0)
      else if between (CHR 0xE0) (CHR 0xEF) a
      then (case s of b # c # _ \<Rightarrow> if second_byte a b \<and> cont_byte c then 3 else 0 | _ \<Rightarrow> 0)
      else if between (CHR 0xF0) (CHR 0xF4) a
      then (case s of b # c # d # _ \<Rightarrow> if second_byte a b \<and> cont_byte c \<and> cont_byte d then 4 else 0 | _ \<Rightarrow> 0)
      else 0)"

text \<open>What is read back from a string that was written as JSON: every byte that belongs to no UTF-8
  sequence has become U+FFFD.\<close>

function json_text :: "string \<Rightarrow> string" where
  "json_text s =
     (if s = [] then []
      else if rune_len s = 0 then [CHR 0xEF, CHR 0xBF, CHR 0xBD] @ json_text (tl s)
      else take (rune_len s) s @ json_text (drop (rune_len s) s))"
  by pat_completeness auto
termination by (relation "measure length") auto

declare json_text.simps [simp del]

lemma json_text_Nil [simp]: "json_text [] = []"
  by (simp add: json_text.simps)

lemma rune_len_le: "rune_len s \<le> length s"
  by (cases s) (auto split: list.split)

text \<open>A sequence is read by its own bytes, whatever follows.\<close>

lemma rune_len_prefix: "rune_len s \<noteq> 0 \<Longrightarrow> rune_len (take (rune_len s) s @ t) = rune_len s"
  by (cases s) (auto split: list.splits if_splits)

lemma json_text_sequence:
  assumes "rune_len s \<noteq> 0"
  shows "json_text (take (rune_len s) s @ t) = take (rune_len s) s @ json_text t"
proof -
  have n: "rune_len (take (rune_len s) s @ t) = rune_len s" by (rule rune_len_prefix [OF assms])
  have l: "length (take (rune_len s) s) = rune_len s" using rune_len_le [of s] by simp
  have "take (rune_len s) s @ t \<noteq> []" using assms l by auto
  then show ?thesis
    using assms l by (subst json_text.simps) (simp add: n)
qed

lemma json_text_idem: "json_text (json_text s) = json_text s"
proof (induction s rule: json_text.induct)
  case (1 s)
  consider "s = []" | "s \<noteq> []" "rune_len s = 0" | "s \<noteq> []" "rune_len s \<noteq> 0" by blast
  then show ?case
  proof cases
    case 1
    then show ?thesis by simp
  next
    case 2
    have "json_text ([CHR 0xEF, CHR 0xBF, CHR 0xBD] @ t) = [CHR 0xEF, CHR 0xBF, CHR 0xBD] @ json_text t" for t
    proof -
      have "rune_len [CHR 0xEF, CHR 0xBF, CHR 0xBD] = 3" by code_simp
      with json_text_sequence [of "[CHR 0xEF, CHR 0xBF, CHR 0xBD]" t] show ?thesis by simp
    qed
    with 2 "1.IH"(1) show ?thesis by (simp add: json_text.simps [of s])
  next
    case 3
    with json_text_sequence [OF 3(2)] "1.IH"(2) show ?thesis by (simp add: json_text.simps [of s])
  qed
qed

lemma json_text_empty [simp]: "json_text s = [] \<longleftrightarrow> s = []"
proof
  assume "json_text s = []"
  then show "s = []" by (subst (asm) json_text.simps) (auto split: if_splits)
qed simp

definition utf8_ok :: "string \<Rightarrow> bool" where
  "utf8_ok s \<longleftrightarrow> json_text s = s"

lemma utf8_ok_Nil [simp]: "utf8_ok []"
  by (simp add: utf8_ok_def)

lemma utf8_ok_json_text [simp]: "utf8_ok (json_text s)"
  by (simp add: utf8_ok_def json_text_idem)

subsection \<open>The request to run a command\<close>

text \<open>
  \<open>ExecRequest\<close> of internal/broker/client.go; internal/sessionbridge/types.go declares the same
  fields. Encoding leaves out the fields that are empty; a map is written in the order of its keys.
\<close>

record exec_request =
  xrCommand :: string
  xrStdin :: string
  xrCwd :: string
  xrEnv :: "string gomap"
  xrShell :: string
  xrTimeoutSeconds :: int
  xrMaxOutputBytes :: int

definition zero_request :: exec_request where
  "zero_request = \<lparr>xrCommand = [], xrStdin = [], xrCwd = [], xrEnv = [], xrShell = [], xrTimeoutSeconds = 0,
     xrMaxOutputBytes = 0\<rparr>"

definition omit_str :: "string \<Rightarrow> string \<Rightarrow> (string \<times> json) list" where
  "omit_str name v = (if v = [] then [] else [(name, JStr (json_text v))])"

definition omit_int :: "string \<Rightarrow> int \<Rightarrow> (string \<times> json) list" where
  "omit_int name n = (if n = 0 then [] else [(name, JNum (JInt n))])"

definition strmap_json :: "string gomap \<Rightarrow> json" where
  "strmap_json m = JObj (map (\<lambda>(k, v). (json_text k, JStr (json_text v))) (gm_sorted m))"

definition omit_map :: "string \<Rightarrow> string gomap \<Rightarrow> (string \<times> json) list" where
  "omit_map name m = (if m = [] then [] else [(name, strmap_json m)])"

definition encode_exec :: "exec_request \<Rightarrow> (string \<times> json) list" where
  "encode_exec r = [(''command'', JStr (json_text (xrCommand r)))] @ omit_str ''stdin'' (xrStdin r) @
     omit_str ''cwd'' (xrCwd r) @ omit_map ''env'' (xrEnv r) @ omit_str ''shell'' (xrShell r) @
     omit_int ''timeout_seconds'' (xrTimeoutSeconds r) @ omit_int ''max_output_bytes'' (xrMaxOutputBytes r)"

definition exec_fields :: "string list" where
  "exec_fields = [''command'', ''stdin'', ''cwd'', ''env'', ''shell'', ''timeout_seconds'', ''max_output_bytes'']"

text \<open>Decoding members over a request; the flag says that some member had the wrong type.\<close>

definition decode_exec :: "exec_request \<Rightarrow> (string \<times> json) list \<Rightarrow> exec_request \<times> bool" where
  "decode_exec r0 ms =
     (let (c, e1) = dec_field set_str (xrCommand r0) ''command'' ms;
          (i, e2) = dec_field set_str (xrStdin r0) ''stdin'' ms;
          (w, e3) = dec_field set_str (xrCwd r0) ''cwd'' ms;
          (env, e4) = dec_field set_strmap (xrEnv r0) ''env'' ms;
          (sh, e5) = dec_field set_str (xrShell r0) ''shell'' ms;
          (t, e6) = dec_field set_int (xrTimeoutSeconds r0) ''timeout_seconds'' ms;
          (mx, e7) = dec_field set_int (xrMaxOutputBytes r0) ''max_output_bytes'' ms
      in (\<lparr>xrCommand = c, xrStdin = i, xrCwd = w, xrEnv = env, xrShell = sh, xrTimeoutSeconds = t,
           xrMaxOutputBytes = mx\<rparr>, e1 \<or> e2 \<or> e3 \<or> e4 \<or> e5 \<or> e6 \<or> e7))"

text \<open>The members \<open>json.Decoder\<close> assigns to a struct from a connection; \<open>null\<close> assigns nothing.\<close>

fun stream_members :: "raw \<Rightarrow> (string \<times> json) list res" where
  "stream_members (RawDoc (JObj ms)) = Inr ms"
| "stream_members (RawDoc JNull) = Inr []"
| "stream_members RawEmpty = Inl (ErrOS ''EOF'')"
| "stream_members _ = Inl json_err"

text \<open>Texts that came out of JSON, and numbers that fit a Go \<open>int\<close>.\<close>

definition go_int :: "int \<Rightarrow> bool" where
  "go_int n \<longleftrightarrow> - (2 ^ 63) \<le> n \<and> n < 2 ^ 63"

definition request_ok :: "exec_request \<Rightarrow> bool" where
  "request_ok r \<longleftrightarrow> utf8_ok (xrCommand r) \<and> utf8_ok (xrStdin r) \<and> utf8_ok (xrCwd r) \<and> utf8_ok (xrShell r) \<and>
     gm_all (\<lambda>k v. utf8_ok k \<and> utf8_ok v) (xrEnv r) \<and> go_int (xrTimeoutSeconds r) \<and> go_int (xrMaxOutputBytes r)"

lemma exec_keys: "f \<in> set exec_fields \<Longrightarrow> g \<in> set exec_fields \<Longrightarrow> key_matches f g = (f = g)"
proof (rule key_matches_fields)
  show "distinct (map fold_name exec_fields)" by code_simp
qed

lemma field_omit:
  "field_values f (omit_str g v) = (if key_matches f g \<and> v \<noteq> [] then [JStr (json_text v)] else [])"
  "field_values f (omit_int g n) = (if key_matches f g \<and> n \<noteq> 0 then [JNum (JInt n)] else [])"
  "field_values f (omit_map g m) = (if key_matches f g \<and> m \<noteq> [] then [strmap_json m] else [])"
  by (simp_all add: omit_str_def omit_int_def omit_map_def field_values_Cons)

lemma strmap_of_entries:
  "gm_ok (m @ kvs) \<Longrightarrow> strmap_of (map (\<lambda>(k, v). (k, JStr v)) kvs) m = Some (m @ kvs)"
proof (induction kvs arbitrary: m)
  case Nil
  then show ?case by simp
next
  case (Cons kv kvs)
  obtain k v where kv: "kv = (k, v)" by (cases kv)
  have "k \<notin> fst ` set m" using Cons.prems by (auto simp: gm_ok_def kv)
  then have "gm_put k v m = m @ [(k, v)]"
    by (induction m) (auto simp: gm_put_def)
  then show ?case using Cons.IH [of "m @ [(k, v)]"] Cons.prems by (simp add: kv)
qed

lemma strmap_json_back:
  assumes "gm_all (\<lambda>k v. utf8_ok k \<and> utf8_ok v) m"
  shows "set_strmap (strmap_json m) [] = Some (gm_sorted m)"
proof -
  have "map (\<lambda>(k, v). (json_text k, JStr (json_text v))) (gm_sorted m) = map (\<lambda>(k, v). (k, JStr v)) (gm_sorted m)"
    using assms by (auto simp: gm_all_def utf8_ok_def)
  then have "strmap_json m = JObj (map (\<lambda>(k, v). (k, JStr v)) (gm_sorted m))"
    by (simp only: strmap_json_def)
  moreover have "gm_ok ([] @ gm_sorted m)" using assms by (simp add: gm_all_get)
  ultimately show ?thesis using strmap_of_entries [of "[]" "gm_sorted m"] by simp
qed

lemma gm_sorted_Nil [simp]: "gm_sorted [] = []"
  by (simp add: gm_sorted_def)

lemma exec_fields_mem:
  "''command'' \<in> set exec_fields" "''stdin'' \<in> set exec_fields" "''cwd'' \<in> set exec_fields" "''env'' \<in> set exec_fields"
  "''shell'' \<in> set exec_fields" "''timeout_seconds'' \<in> set exec_fields" "''max_output_bytes'' \<in> set exec_fields"
  by (simp_all add: exec_fields_def)

lemma encode_decode_exec:
  assumes "request_ok r"
  shows "decode_exec zero_request (encode_exec r) = (r\<lparr>xrEnv := gm_sorted (xrEnv r)\<rparr>, False)"
proof -
  have env: "set_strmap (strmap_json (xrEnv r)) [] = Some (gm_sorted (xrEnv r))"
    using assms by (intro strmap_json_back) (simp add: request_ok_def)
  show ?thesis
    using assms env
    by (simp add: decode_exec_def encode_exec_def Let_def dec_field_def zero_request_def field_values_append
        field_values_Cons field_omit exec_keys exec_fields_mem request_ok_def utf8_ok_def go_int_def
        del: set_strmap.simps)
qed

subsection \<open>Paths\<close>

text \<open>\<open>filepath.Clean\<close>, \<open>Dir\<close> and \<open>Join\<close>: \<open>out\<close> holds the components kept so far, the last first.\<close>

fun clean_parts :: "bool \<Rightarrow> string list \<Rightarrow> string list \<Rightarrow> string list" where
  "clean_parts rooted out [] = rev out"
| "clean_parts rooted out (p # ps) =
     (if p = [] \<or> p = ''.'' then clean_parts rooted out ps
      else if p = ''..'' then
        (case out of
           [] \<Rightarrow> clean_parts rooted (if rooted then [] else [p]) ps
         | x # xs \<Rightarrow> clean_parts rooted (if x = ''..'' then p # out else xs) ps)
      else clean_parts rooted (p # out) ps)"

definition is_abs :: "string \<Rightarrow> bool" where
  "is_abs path \<longleftrightarrow> has_prefix path ''/''"

definition clean :: "string \<Rightarrow> string" where
  "clean path =
     (if path = [] then ''.''
      else let s = GoStrings.join ''/'' (clean_parts (is_abs path) [] (split_on (CHR ''/'') path))
           in if is_abs path then CHR ''/'' # s else if s = [] then ''.'' else s)"

definition path_dir :: "string \<Rightarrow> string" where
  "path_dir path = clean (rev (dropWhile (\<lambda>c. c \<noteq> CHR ''/'') (rev path)))"

definition path_join :: "string list \<Rightarrow> string" where
  "path_join parts =
     (case filter (\<lambda>p. p \<noteq> []) parts of [] \<Rightarrow> [] | ps \<Rightarrow> clean (GoStrings.join ''/'' ps))"

definition path_base :: "string \<Rightarrow> string" where
  "path_base path =
     (if path = [] then ''.''
      else let s = rev (dropWhile (\<lambda>c. c = CHR ''/'') (rev path))
           in if s = [] then ''/'' else last (split_on (CHR ''/'') s))"

text \<open>A rooted path never climbs above the root, whatever it contains.\<close>

lemma clean_parts_rooted: "''..'' \<notin> set out \<Longrightarrow> ''..'' \<notin> set (clean_parts True out ps)"
  by (induction True out ps rule: clean_parts.induct) (auto split: list.splits)

end
