(* ===== verification/Targets.thy ===== *)
theory Targets
  imports Exec
begin

section \<open>Machine targets (internal/targets/manager.go, internal/tools/targets.go)\<close>

text \<open>
  Durable SSH targets and the commands that reach them. The table is a map by name; its file is what
  \<open>load\<close> makes of it: missing, unreadable, not a list of targets, or the list. The lock makes
  \<open>Upsert\<close>, \<open>Remove\<close>, \<open>Get\<close> and \<open>List\<close> atomic. The processes the manager runs (ssh, scp, the local
  shell) are described by a \<open>command\<close> and answered by a \<open>run\<close> function of the environment.
\<close>

record target =
  tgName :: string
  tgTransport :: string
  tgHost :: string
  tgPort :: int
  tgUser :: string
  tgIdentityFile :: string
  tgWorkDir :: string
  tgEnv :: "string gomap"
  tgSSHOptions :: "string list"
  tgTags :: "string list"
  tgEnabled :: bool

record exec_options =
  eoCommand :: string
  eoCwd :: string
  eoEnv :: "string gomap"
  eoTimeoutSeconds :: int
  eoMaxOutputBytes :: int
  eoPrivileged :: bool

record exec_result =
  erTarget :: string
  erTransport :: string
  erExitCode :: int
  erStdout :: string
  erStderr :: string
  erDurationMS :: int
  erTimedOut :: bool
  erTruncated :: bool

datatype targets_file = FileMissing | FileError goerr | FileBad goerr | FileTargets "target list"

record tmanager =
  tmTargets :: "target gomap"
  tmFile :: targets_file

subsection \<open>Normalisation and the table\<close>

definition normalize :: "target \<Rightarrow> target" where
  "normalize t0 =
     (let t1 = t0\<lparr>tgName := trim_space (tgName t0)\<rparr>;
          t2 = (if tgTransport t1 = [] then t1\<lparr>tgTransport := ''ssh''\<rparr> else t1);
          t3 = t2\<lparr>tgTransport := to_lower (trim_space (tgTransport t2))\<rparr>;
          t4 = (if tgPort t3 = 0 \<and> tgTransport t3 = ''ssh'' then t3\<lparr>tgPort := 22\<rparr> else t3)
      in if tgTransport t4 = ''local'' then t4\<lparr>tgEnabled := True\<rparr> else t4)"

definition load_targets :: "targets_file \<Rightarrow> target gomap \<Rightarrow> target gomap res" where
  "load_targets f ts =
     (case f of
        FileMissing \<Rightarrow> Inr ts
      | FileError e \<Rightarrow> Inl e
      | FileBad e \<Rightarrow> Inl (Errorf ''parse targets: %w'' [FErr e])
      | FileTargets l \<Rightarrow>
          Inr (fold (\<lambda>t m. if tgName t \<noteq> [] then gm_put (tgName t) (normalize t) m else m) l ts))"

definition targets_new :: "targets_file \<Rightarrow> tmanager res" where
  "targets_new f =
     (case load_targets f [] of Inl e \<Rightarrow> Inl e | Inr ts \<Rightarrow> Inr \<lparr>tmTargets = ts, tmFile = f\<rparr>)"

definition sorted_targets :: "target list \<Rightarrow> target list" where
  "sorted_targets ts = sort_key tgName ts"

definition persist_targets :: "goerr option \<Rightarrow> tmanager \<Rightarrow> goerr option \<times> tmanager" where
  "persist_targets fail m =
     (case fail of
        Some e \<Rightarrow> (Some e, m)
      | None \<Rightarrow> (None, m\<lparr>tmFile := FileTargets (sorted_targets (map snd (tmTargets m)))\<rparr>))"

definition check_target :: "target \<Rightarrow> goerr option" where
  "check_target t =
     (if tgName t = [] then Some (err_new ''target name is required'')
      else if tgName t = ''local'' then Some (err_new ''target name local is reserved'')
      else if tgTransport t \<noteq> ''ssh''
      then Some (Errorf ''unsupported target transport %q'' [FStr (tgTransport t)])
      else if tgHost t = [] then Some (err_new ''ssh host is required'')
      else if has_prefix (tgHost t) ''-'' \<or> contains_any (tgHost t) [CHR '' '', CHR 0x09, CHR 0x0D, CHR 0x0A]
      then Some (err_new ''invalid ssh host'')
      else if has_prefix (tgUser t) ''-'' \<or> contains_any (tgUser t) [CHR '' '', CHR 0x09, CHR 0x0D, CHR 0x0A, CHR ''@'']
      then Some (err_new ''invalid ssh user'')
      else if tgPort t \<le> 0 \<or> 65535 < tgPort t then Some (err_new ''invalid ssh port'')
      else None)"

definition target_upsert :: "goerr option \<Rightarrow> target \<Rightarrow> tmanager \<Rightarrow> target res \<times> tmanager" where
  "target_upsert fail t0 m =
     (let t = normalize t0
      in case check_target t of
           Some e \<Rightarrow> (Inl e, m)
         | None \<Rightarrow>
             let m1 = m\<lparr>tmTargets := gm_put (tgName t) t (tmTargets m)\<rparr>
             in (case persist_targets fail m1 of
                   (Some e, m2) \<Rightarrow> (Inl e, m2)
                 | (None, m2) \<Rightarrow> (Inr t, m2)))"

definition target_remove :: "goerr option \<Rightarrow> string \<Rightarrow> tmanager \<Rightarrow> goerr option \<times> tmanager" where
  "target_remove fail name m =
     (if name = ''local'' then (Some (err_new ''local target is implicit and cannot be removed''), m)
      else if \<not> gm_has (tmTargets m) name then (Some ErrNotExist, m)
      else persist_targets fail (m\<lparr>tmTargets := gm_del name (tmTargets m)\<rparr>))"

definition local_target :: target where
  "local_target = \<lparr>tgName = ''local'', tgTransport = ''local'', tgHost = [], tgPort = 0, tgUser = [],
     tgIdentityFile = [], tgWorkDir = [], tgEnv = [], tgSSHOptions = [], tgTags = [], tgEnabled = True\<rparr>"

definition target_get :: "string \<Rightarrow> tmanager \<Rightarrow> target res" where
  "target_get name m =
     (if name = [] \<or> name = ''local'' then Inr local_target
      else (case gm_get (tmTargets m) name of None \<Rightarrow> Inl ErrNotExist | Some t \<Rightarrow> Inr t))"

definition target_list :: "tmanager \<Rightarrow> target list" where
  "target_list m = sorted_targets (local_target # map snd (tmTargets m))"

definition target_count :: "tmanager \<Rightarrow> nat" where
  "target_count m = length (target_list m)"

subsection \<open>The remote command\<close>

definition shellQuote :: "string \<Rightarrow> string" where
  "shellQuote s = [CHR 0x27] @
     replace_char (CHR 0x27) [CHR 0x27, CHR 0x22, CHR 0x27, CHR 0x22, CHR 0x27] s @ [CHR 0x27]"

definition env_char :: "bool \<Rightarrow> char \<Rightarrow> bool" where
  "env_char first c \<longleftrightarrow> c = CHR ''_'' \<or> between (CHR ''A'') (CHR ''Z'') c \<or> between (CHR ''a'') (CHR ''z'') c \<or>
     \<not> first \<and> is_digit c"

text \<open>The loop over the runes: a byte of a longer rune is none of the accepted characters.\<close>

definition validEnvName :: "string \<Rightarrow> bool" where
  "validEnvName s = (case s of [] \<Rightarrow> False | c # r \<Rightarrow> env_char True c \<and> list_all (env_char False) r)"

definition merge_maps :: "string gomap \<Rightarrow> string gomap \<Rightarrow> string gomap" where
  "merge_maps a b = fold (\<lambda>(k, v). gm_put k v) b (fold (\<lambda>(k, v). gm_put k v) a [])"

fun export_parts :: "(string \<times> string) list \<Rightarrow> string list res" where
  "export_parts [] = Inr []"
| "export_parts ((k, v) # kvs) =
     (if \<not> validEnvName k then Inl (Errorf ''invalid environment variable name %q'' [FStr k])
      else (case export_parts kvs of
              Inl e \<Rightarrow> Inl e
            | Inr ps \<Rightarrow> Inr ((''export '' @ k @ ''='' @ shellQuote v) # ps)))"

definition work_dir :: "target \<Rightarrow> exec_options \<Rightarrow> string" where
  "work_dir t i = (if eoCwd i = [] then tgWorkDir t else eoCwd i)"

definition buildRemoteCommand :: "target \<Rightarrow> exec_options \<Rightarrow> string res" where
  "buildRemoteCommand t i =
     (let cwd = work_dir t i;
          cd = (if cwd \<noteq> [] then [''cd '' @ shellQuote cwd] else []);
          env = merge_maps (tgEnv t) (eoEnv i)
      in case export_parts (gm_sorted env) of
           Inl e \<Rightarrow> Inl e
         | Inr exports \<Rightarrow>
             let cmd = (if eoPrivileged i then ''sudo -n -- /bin/sh -lc '' @ shellQuote (eoCommand i)
                        else ''/bin/sh -lc '' @ shellQuote (eoCommand i))
             in Inr (GoStrings.join '' && '' (cd @ exports @ [cmd])))"

definition destination :: "target \<Rightarrow> string" where
  "destination t = (if tgUser t \<noteq> [] then tgUser t @ ''@'' @ tgHost t else tgHost t)"

definition option_args :: "target \<Rightarrow> string list" where
  "option_args t =
     (if tgIdentityFile t \<noteq> [] then [''-i'', tgIdentityFile t] else []) @
     concat (map (\<lambda>o'. [''-o'', o']) (tgSSHOptions t))"

definition sshArgs :: "target \<Rightarrow> int \<Rightarrow> string list" where
  "sshArgs t connectTimeout0 =
     (let connectTimeout = (if connectTimeout0 \<le> 0 then 10 else connectTimeout0)
      in [''-o'', ''BatchMode=yes'', ''-o'', ''ServerAliveInterval=15'', ''-o'', ''ServerAliveCountMax=2'',
          ''-o'', ''StrictHostKeyChecking=accept-new'', ''-o'', ''ConnectTimeout='' @ itoa connectTimeout,
          ''-p'', itoa (tgPort t)] @ option_args t)"

subsection \<open>Running\<close>

definition min_int :: "int \<Rightarrow> int \<Rightarrow> int" where
  "min_int a b = (if a < b then a else b)"

definition mergedEnv :: "string list \<Rightarrow> string gomap \<Rightarrow> string gomap \<Rightarrow> string list" where
  "mergedEnv environ a b = environ @ env_list a @ env_list b"

interpretation env_targets: env_merger "\<lambda>environ. mergedEnv environ []"
  by unfold_locales (simp add: mergedEnv_def env_value_append env_value_list)

definition exec_command :: "string \<Rightarrow> string list \<Rightarrow> target \<Rightarrow> exec_options \<Rightarrow> command res" where
  "exec_command defShell environ t i =
     (let timeout = (if eoTimeoutSeconds i \<le> 0 then 120 else eoTimeoutSeconds i)
      in if tgTransport t = ''local'' then
           (if eoPrivileged i
            then Inl (err_new ''privileged local execution must be routed through the root broker'')
            else Inr \<lparr>cmArgv = [defShell, ''-lc'', eoCommand i], cmDir = work_dir t i,
                      cmEnv = mergedEnv environ (tgEnv t) (eoEnv i), cmStdin = [], cmTimeout = seconds timeout\<rparr>)
         else (case buildRemoteCommand t i of
                 Inl e \<Rightarrow> Inl e
               | Inr remote \<Rightarrow>
                   Inr \<lparr>cmArgv = ''ssh'' # sshArgs t (min_int timeout 30) @ [destination t, remote],
                        cmDir = [], cmEnv = environ, cmStdin = [], cmTimeout = seconds timeout\<rparr>))"

definition exec_limit :: "exec_options \<Rightarrow> int" where
  "exec_limit i =
     (if eoMaxOutputBytes i \<le> 0 \<or> 20 * 1048576 < eoMaxOutputBytes i then 2 * 1048576 else eoMaxOutputBytes i)"

definition target_exec ::
  "string \<Rightarrow> string list \<Rightarrow> (command \<Rightarrow> outcome) \<Rightarrow> string \<Rightarrow> exec_options \<Rightarrow> tmanager \<Rightarrow> exec_result res" where
  "target_exec defShell environ run name i m =
     (case target_get name m of
        Inl e \<Rightarrow> Inl e
      | Inr t \<Rightarrow>
          if \<not> tgEnabled t then Inl (Errorf ''target %s is disabled'' [FStr (tgName t)])
          else if trim_space (eoCommand i) = [] then Inl (err_new ''command is required'')
          else (case exec_command defShell environ t i of
                  Inl e \<Rightarrow> Inl e
                | Inr cmd \<Rightarrow>
                    (case run cmd of
                       NotStarted e \<Rightarrow> Inl e
                     | Ended outs errs d timedOut st \<Rightarrow>
                         let o' = captured capWrite_targets (exec_limit i) outs;
                             e' = captured capWrite_targets (exec_limit i) errs;
                             res = \<lparr>erTarget = tgName t, erTransport = tgTransport t, erExitCode = 0,
                                    erStdout = cbBuf o', erStderr = cbBuf e', erDurationMS = d,
                                    erTimedOut = timedOut, erTruncated = cbTruncated o' \<or> cbTruncated e'\<rparr>
                         in if timedOut then Inr (res\<lparr>erExitCode := -1\<rparr>)
                            else (case st of
                                    None \<Rightarrow> Inr res
                                  | Some (Inr c) \<Rightarrow> Inr (res\<lparr>erExitCode := c\<rparr>)
                                  | Some (Inl e) \<Rightarrow> Inl e))))"

text \<open>A probe: whether the target answers, with the output of ssh.\<close>

definition target_probe ::
  "string list \<Rightarrow> (command \<Rightarrow> bool \<times> string) \<Rightarrow> string \<Rightarrow> int \<Rightarrow> tmanager \<Rightarrow> (string \<times> string \<times> bool \<times> string) res" where
  "target_probe environ run name timeout0 m =
     (case target_get name m of
        Inl e \<Rightarrow> Inl e
      | Inr t \<Rightarrow>
          if \<not> tgEnabled t then Inl (Errorf ''target %s is disabled'' [FStr (tgName t)])
          else if tgTransport t = ''local'' then Inr (tgName t, ''local'', True, [])
          else
            let timeout = (if timeout0 \<le> 0 then 8 else timeout0);
                (ok, out) = run \<lparr>cmArgv = ''ssh'' # sshArgs t timeout @ [destination t, ''true''], cmDir = [],
                                 cmEnv = environ, cmStdin = [], cmTimeout = seconds timeout\<rparr>
            in Inr (tgName t, tgTransport t, ok, trim_space out))"

definition scp_args :: "target \<Rightarrow> string \<Rightarrow> string \<Rightarrow> string \<Rightarrow> bool \<Rightarrow> int \<Rightarrow> string list" where
  "scp_args t direction source dest recursive timeout =
     [''-q'', ''-P'', itoa (tgPort t), ''-o'', ''BatchMode=yes'', ''-o'', ''StrictHostKeyChecking=accept-new'',
      ''-o'', ''ConnectTimeout='' @ itoa (min_int timeout 30)] @
     (if recursive then [''-r''] else []) @ option_args t @
     (if direction = ''push'' then [source, destination t @ '':'' @ dest]
      else [destination t @ '':'' @ source, dest])"

definition target_copy ::
  "string list \<Rightarrow> (command \<Rightarrow> goerr option \<times> string) \<Rightarrow> string \<Rightarrow> string \<Rightarrow> string \<Rightarrow> string \<Rightarrow> bool \<Rightarrow> int \<Rightarrow>
   tmanager \<Rightarrow> string res" where
  "target_copy environ run name direction source dest recursive timeout0 m =
     (case target_get name m of
        Inl e \<Rightarrow> Inl e
      | Inr t \<Rightarrow>
          if tgTransport t \<noteq> ''ssh'' then Inl (err_new ''target_copy requires an ssh target'')
          else if \<not> tgEnabled t then Inl (Errorf ''target %s is disabled'' [FStr (tgName t)])
          else if source = [] \<or> dest = [] then Inl (err_new ''source and dest are required'')
          else if direction \<noteq> ''push'' \<and> direction \<noteq> ''pull''
          then Inl (err_new ''direction must be push or pull'')
          else
            let timeout = (if timeout0 \<le> 0 then 300 else timeout0);
                (err, out) = run \<lparr>cmArgv = ''scp'' # scp_args t direction source dest recursive timeout,
                                  cmDir = [], cmEnv = environ, cmStdin = [], cmTimeout = seconds timeout\<rparr>
            in (case err of Some e \<Rightarrow> Inl e | None \<Rightarrow> Inr out))"

subsection \<open>The tools\<close>

definition upsert_fields :: "string list" where
  "upsert_fields = [''name'', ''transport'', ''host'', ''port'', ''user'', ''identity_file'', ''work_dir'', ''env'',
     ''ssh_options'', ''tags'', ''enabled'']"

definition target_upsert_tool :: "goerr option \<Rightarrow> raw \<Rightarrow> tmanager \<Rightarrow> target res \<times> tmanager" where
  "target_upsert_tool fail args m =
     (case decode_members upsert_fields args of
        Inl e \<Rightarrow> (Inl e, m)
      | Inr ms \<Rightarrow>
          let (n, e1) = dec_field set_str [] ''name'' ms;
              (tr, e2) = dec_field set_str [] ''transport'' ms;
              (h, e3) = dec_field set_str [] ''host'' ms;
              (p, e4) = dec_field set_int 0 ''port'' ms;
              (u, e5) = dec_field set_str [] ''user'' ms;
              (f, e6) = dec_field set_str [] ''identity_file'' ms;
              (w, e7) = dec_field set_str [] ''work_dir'' ms;
              (env, e8) = dec_field set_strmap [] ''env'' ms;
              (opts, e9) = dec_field set_strs [] ''ssh_options'' ms;
              (tags, e10) = dec_field set_strs [] ''tags'' ms;
              (en, e11) = dec_field set_bool_ptr None ''enabled'' ms
          in if e1 \<or> e2 \<or> e3 \<or> e4 \<or> e5 \<or> e6 \<or> e7 \<or> e8 \<or> e9 \<or> e10 \<or> e11 then (Inl invalid_arguments, m)
             else target_upsert fail
               \<lparr>tgName = n, tgTransport = tr, tgHost = h, tgPort = p, tgUser = u, tgIdentityFile = f,
                tgWorkDir = w, tgEnv = env, tgSSHOptions = opts, tgTags = tags,
                tgEnabled = (case en of None \<Rightarrow> True | Some b \<Rightarrow> b)\<rparr> m)"

definition target_exec_fields :: "string list" where
  "target_exec_fields = [''name'', ''command'', ''cwd'', ''env'', ''timeout_seconds'', ''max_output_bytes'', ''privileged'']"

text \<open>
  \<open>target_exec\<close>: privileged execution on the local machine goes to the root broker, where the
  platform has one; \<open>root_exec\<close> is the client of the broker.
\<close>

datatype 'b exec_answer = FromTarget exec_result | FromBroker 'b

definition target_exec_tool ::
  "bool \<Rightarrow> (exec_options \<Rightarrow> 'b res) \<Rightarrow> string \<Rightarrow> string list \<Rightarrow> (command \<Rightarrow> outcome) \<Rightarrow> raw \<Rightarrow>
   tmanager \<Rightarrow> 'b exec_answer res" where
  "target_exec_tool localPrivilege root_exec defShell environ run args m =
     (case decode_members target_exec_fields args of
        Inl e \<Rightarrow> Inl e
      | Inr ms \<Rightarrow>
          let (n, e1) = dec_field set_str [] ''name'' ms;
              (c, e2) = dec_field set_str [] ''command'' ms;
              (w, e3) = dec_field set_str [] ''cwd'' ms;
              (env, e4) = dec_field set_strmap [] ''env'' ms;
              (t, e5) = dec_field set_int 0 ''timeout_seconds'' ms;
              (mx, e6) = dec_field set_int 0 ''max_output_bytes'' ms;
              (priv, e7) = dec_field set_bool False ''privileged'' ms;
              opts = \<lparr>eoCommand = c, eoCwd = w, eoEnv = env, eoTimeoutSeconds = t, eoMaxOutputBytes = mx,
                      eoPrivileged = priv\<rparr>;
              here = (n = [] \<or> n = ''local'')
          in if e1 \<or> e2 \<or> e3 \<or> e4 \<or> e5 \<or> e6 \<or> e7 then Inl invalid_arguments
             else if here \<and> priv \<and> \<not> localPrivilege
             then Inl (err_new ''Android device-root escalation is not supported on Termux and is not planned; remote SSH sudo remains supported'')
             else if here \<and> priv
             then (case root_exec opts of Inl e \<Rightarrow> Inl e | Inr r \<Rightarrow> Inr (FromBroker r))
             else (case target_exec defShell environ run n opts m of Inl e \<Rightarrow> Inl e | Inr r \<Rightarrow> Inr (FromTarget r)))"

text \<open>
  The tools that only pass their arguments on. \<open>target_list\<close> takes none and does not look at them;
  \<open>target_copy\<close> refuses the name \<open>local\<close>, and leaves the empty name, which also stands for the
  local machine, to \<open>Copy\<close>.
\<close>

definition target_list_tool :: "raw \<Rightarrow> tmanager \<Rightarrow> target list" where
  "target_list_tool args m = target_list m"

definition decode_target_name :: "raw \<Rightarrow> string res" where
  "decode_target_name args =
     (case decode_members [''name''] args of
        Inl e \<Rightarrow> Inl e
      | Inr ms \<Rightarrow> strict (dec_field set_str [] ''name'' ms))"

definition target_get_tool :: "raw \<Rightarrow> tmanager \<Rightarrow> target res" where
  "target_get_tool args m =
     (case decode_target_name args of Inl e \<Rightarrow> Inl e | Inr n \<Rightarrow> target_get n m)"

definition target_remove_tool :: "goerr option \<Rightarrow> raw \<Rightarrow> tmanager \<Rightarrow> string res \<times> tmanager" where
  "target_remove_tool fail args m =
     (case decode_target_name args of
        Inl e \<Rightarrow> (Inl e, m)
      | Inr n \<Rightarrow>
          (case target_remove fail n m of
             (Some e, m1) \<Rightarrow> (Inl e, m1)
           | (None, m1) \<Rightarrow> (Inr n, m1)))"

definition target_probe_tool ::
  "string list \<Rightarrow> (command \<Rightarrow> bool \<times> string) \<Rightarrow> raw \<Rightarrow> tmanager \<Rightarrow> (string \<times> string \<times> bool \<times> string) res" where
  "target_probe_tool environ run args m =
     (case decode_members [''name'', ''timeout_seconds''] args of
        Inl e \<Rightarrow> Inl e
      | Inr ms \<Rightarrow>
          let (n, e1) = dec_field set_str [] ''name'' ms;
              (t, e2) = dec_field set_int 0 ''timeout_seconds'' ms
          in if e1 \<or> e2 then Inl invalid_arguments else target_probe environ run n t m)"

definition target_copy_fields :: "string list" where
  "target_copy_fields = [''name'', ''direction'', ''source'', ''dest'', ''recursive'', ''timeout_seconds'']"

definition target_copy_tool ::
  "string list \<Rightarrow> (command \<Rightarrow> goerr option \<times> string) \<Rightarrow> raw \<Rightarrow> tmanager \<Rightarrow> string res" where
  "target_copy_tool environ run args m =
     (case decode_members target_copy_fields args of
        Inl e \<Rightarrow> Inl e
      | Inr ms \<Rightarrow>
          let (n, e1) = dec_field set_str [] ''name'' ms;
              (dir, e2) = dec_field set_str [] ''direction'' ms;
              (src, e3) = dec_field set_str [] ''source'' ms;
              (dst, e4) = dec_field set_str [] ''dest'' ms;
              (rc, e5) = dec_field set_bool False ''recursive'' ms;
              (t, e6) = dec_field set_int 0 ''timeout_seconds'' ms
          in if e1 \<or> e2 \<or> e3 \<or> e4 \<or> e5 \<or> e6 then Inl invalid_arguments
             else if n = ''local'' then Inl (err_new ''target_copy is for ssh targets; use fs_* locally'')
             else target_copy environ run n dir src dst rc t m)"

subsection \<open>How a POSIX shell reads a command line\<close>

text \<open>
  The part of the shell's grammar that a list of simple commands joined by \<open>&&\<close> needs: words built
  from plain characters, characters after a backslash, single-quoted and double-quoted text. Anything that would make the shell do
  more (an expansion, a redirection, another operator, a comment, a pattern, an unfinished quote) is
  refused, so a line that is read says exactly what the shell runs.
\<close>

datatype sh_token = ShWord string | ShAnd

datatype sh_mode = ShPlain | ShSingle | ShDouble

definition sh_word :: "string option \<Rightarrow> sh_token list" where
  "sh_word cur = (case cur of None \<Rightarrow> [] | Some w \<Rightarrow> [ShWord w])"

definition sh_add :: "char \<Rightarrow> string option \<Rightarrow> string option" where
  "sh_add c cur = Some ((case cur of None \<Rightarrow> [] | Some w \<Rightarrow> w) @ [c])"

definition sh_open :: "string option \<Rightarrow> string option" where
  "sh_open cur = Some (case cur of None \<Rightarrow> [] | Some w \<Rightarrow> w)"

definition sh_literal :: "char \<Rightarrow> bool" where
  "sh_literal c \<longleftrightarrow> env_char False c \<or> c \<in> set ''/=-.:,@%+''"

fun sh_tokens :: "sh_mode \<Rightarrow> string option \<Rightarrow> string \<Rightarrow> sh_token list option" where
  "sh_tokens ShPlain cur [] = Some (sh_word cur)"
| "sh_tokens ShSingle cur [] = None"
| "sh_tokens ShDouble cur [] = None"
| "sh_tokens ShPlain cur (c # s) =
     (if c = CHR '' '' then map_option (\<lambda>ts. sh_word cur @ ts) (sh_tokens ShPlain None s)
      else if c = CHR 0x27 then sh_tokens ShSingle (sh_open cur) s
      else if c = CHR 0x22 then sh_tokens ShDouble (sh_open cur) s
      else if c = CHR ''&'' then
        (case s of
           d # s' \<Rightarrow> if d = CHR ''&'' then map_option (\<lambda>ts. sh_word cur @ ShAnd # ts) (sh_tokens ShPlain None s') else None
         | [] \<Rightarrow> None)
      else if c = CHR 0x5C then
        (case s of
           d # s' \<Rightarrow> if d = CHR 0x0A then None else sh_tokens ShPlain (sh_add d cur) s'
         | [] \<Rightarrow> None)
      else if sh_literal c then sh_tokens ShPlain (sh_add c cur) s
      else None)"
| "sh_tokens ShSingle cur (c # s) =
     (if c = CHR 0x27 then sh_tokens ShPlain cur s else sh_tokens ShSingle (sh_add c cur) s)"
| "sh_tokens ShDouble cur (c # s) =
     (if c = CHR 0x22 then sh_tokens ShPlain cur s
      else if c \<in> set [CHR ''$'', CHR 0x60, CHR 0x5C] then None
      else sh_tokens ShDouble (sh_add c cur) s)"

text \<open>The tokens grouped into commands.\<close>

fun sh_group :: "sh_token list \<Rightarrow> string list list" where
  "sh_group [] = [[]]"
| "sh_group (ShAnd # ts) = [] # sh_group ts"
| "sh_group (ShWord w # ts) = (case sh_group ts of [] \<Rightarrow> [[w]] | c # cs \<Rightarrow> (w # c) # cs)"

definition sh_commands :: "string \<Rightarrow> string list list option" where
  "sh_commands s = map_option sh_group (sh_tokens ShPlain None s)"

subsection \<open>Quoting\<close>

lemma replace_char_Cons: "replace_char c r (x # s) = (if x = c then r else [x]) @ replace_char c r s"
  by (simp add: replace_char_def)

lemma replace_char_Nil [simp]: "replace_char c r [] = []"
  by (simp add: replace_char_def)

lemma sh_single_body:
  "sh_tokens ShSingle (Some w)
     (replace_char (CHR 0x27) [CHR 0x27, CHR 0x22, CHR 0x27, CHR 0x22, CHR 0x27] s @ CHR 0x27 # rest) =
   sh_tokens ShPlain (Some (w @ s)) rest"
  by (induction s arbitrary: w) (simp_all add: replace_char_Cons sh_add_def sh_open_def)

lemma sh_tokens_quote: "sh_tokens ShPlain cur (shellQuote s @ rest) =
    sh_tokens ShPlain (Some ((case cur of None \<Rightarrow> [] | Some w \<Rightarrow> w) @ s)) rest"
  by (simp add: shellQuote_def sh_open_def sh_single_body)

lemma sh_tokens_literal:
  "list_all sh_literal (c # p) \<Longrightarrow>
   sh_tokens ShPlain cur ((c # p) @ rest) = sh_tokens ShPlain (Some ((case cur of None \<Rightarrow> [] | Some w \<Rightarrow> w) @ c # p)) rest"
proof (induction p arbitrary: c cur)
  case Nil
  have "c \<noteq> CHR '' ''" "c \<noteq> CHR 0x27" "c \<noteq> CHR 0x22" "c \<noteq> CHR ''&''" "c \<noteq> CHR 0x5C"
    using Nil by (auto simp: sh_literal_def env_char_def between_def is_digit_def less_eq_char_def)
  with Nil show ?case by (simp add: sh_add_def)
next
  case (Cons d p)
  have "c \<noteq> CHR '' ''" "c \<noteq> CHR 0x27" "c \<noteq> CHR 0x22" "c \<noteq> CHR ''&''" "c \<noteq> CHR 0x5C"
    using Cons.prems by (auto simp: sh_literal_def env_char_def between_def is_digit_def less_eq_char_def)
  with Cons.prems Cons.IH [of d "sh_add c cur"] show ?case by (simp add: sh_add_def)
qed

text \<open>A part of the line that is read as the given words wherever it stands before a blank or the end.\<close>

definition reads :: "string \<Rightarrow> string list \<Rightarrow> bool" where
  "reads p ws \<longleftrightarrow> (\<forall>rest. rest = [] \<or> hd rest = CHR '' '' \<longrightarrow>
     sh_tokens ShPlain None (p @ rest) = map_option (\<lambda>ts. map ShWord ws @ ts) (sh_tokens ShPlain None rest))"

lemma append_one [simp]: "(@) [x] = (#) x"
  by (rule ext) simp

lemma sh_flush: "rest = [] \<or> hd rest = CHR '' '' \<Longrightarrow>
    sh_tokens ShPlain (Some w) rest = map_option (\<lambda>ts. ShWord w # ts) (sh_tokens ShPlain None rest)"
  by (cases rest) (auto simp: sh_word_def option.map_comp comp_def)

lemma sh_blank: "sh_tokens ShPlain (Some w) (CHR '' '' # rest) = map_option (\<lambda>ts. ShWord w # ts) (sh_tokens ShPlain None rest)"
  by (simp add: sh_word_def)

lemma reads_quote: "reads (shellQuote s) [s]"
  by (simp add: reads_def sh_tokens_quote sh_flush)

lemma reads_literal_blank:
  assumes "list_all sh_literal p" and "p \<noteq> []" and "reads q ws"
  shows "reads (p @ CHR '' '' # q) (p # ws)"
proof -
  obtain c p' where p: "p = c # p'" using assms(2) by (cases p) auto
  have "sh_tokens ShPlain None (p @ CHR '' '' # q @ rest) =
      map_option (\<lambda>ts. ShWord p # ts) (sh_tokens ShPlain None (q @ rest))" for rest
    using sh_tokens_literal [of c p' None "CHR '' '' # q @ rest"] assms(1) by (simp add: p sh_blank del: sh_tokens.simps)
  then show ?thesis using assms(3) by (simp add: reads_def option.map_comp comp_def)
qed

lemma reads_literal_quote:
  assumes "list_all sh_literal p" and "p \<noteq> []"
  shows "reads (p @ shellQuote s) [p @ s]"
proof -
  obtain c p' where p: "p = c # p'" using assms(2) by (cases p) auto
  show ?thesis
    unfolding reads_def
    using sh_tokens_literal [of c p' None "shellQuote s @ _"] assms(1)
    by (simp add: p sh_tokens_quote sh_flush del: sh_tokens.simps)
qed

text \<open>Parts joined by \<open>&&\<close> are read one command each.\<close>

lemma group_words: "sh_group (map ShWord ws @ ts) = (ws @ hd (sh_group ts)) # tl (sh_group ts)"
proof (induction ws)
  case Nil
  then show ?case by (cases ts rule: sh_group.cases) (auto split: list.splits)
next
  case (Cons w ws)
  then show ?case by simp
qed

lemma sh_commands_join:
  "list_all2 reads ps wss \<Longrightarrow> ps \<noteq> [] \<Longrightarrow> sh_commands (GoStrings.join '' && '' ps) = Some wss"
proof (induction ps wss rule: list_all2_induct)
  case (Cons p ps ws wss)
  show ?case
  proof (cases ps)
    case Nil
    then have "wss = []" using Cons.hyps by simp
    moreover have "sh_tokens ShPlain None (p @ []) = map_option (\<lambda>ts. map ShWord ws @ ts) (sh_tokens ShPlain None [])"
      using Cons.hyps unfolding reads_def by blast
    ultimately show ?thesis
      using Nil group_words [of ws "[]"] by (simp add: sh_commands_def sh_word_def)
  next
    case (Cons q qs)
    let ?rest = "GoStrings.join '' && '' ps"
    have j: "GoStrings.join '' && '' (p # ps) = p @ '' && '' @ ?rest" by (simp add: Cons)
    have "sh_tokens ShPlain None (p @ '' && '' @ ?rest) =
        map_option (\<lambda>ts. map ShWord ws @ ts) (sh_tokens ShPlain None ('' && '' @ ?rest))"
      using Cons.hyps(1) unfolding reads_def by simp
    also have "sh_tokens ShPlain None ('' && '' @ ?rest) = map_option (\<lambda>ts. ShAnd # ts) (sh_tokens ShPlain None ?rest)"
      by (simp add: sh_word_def option.map_comp comp_def)
    finally have t: "sh_tokens ShPlain None (GoStrings.join '' && '' (p # ps)) =
        map_option (\<lambda>ts. map ShWord ws @ ShAnd # ts) (sh_tokens ShPlain None ?rest)"
      unfolding j by (simp add: option.map_comp comp_def)
    have "sh_commands ?rest = Some wss" using Cons.IH Cons by simp
    then obtain ts where ts: "sh_tokens ShPlain None ?rest = Some ts" "sh_group ts = wss"
      by (auto simp: sh_commands_def)
    show ?thesis
      unfolding sh_commands_def t ts(1) using group_words [of ws "ShAnd # ts"] ts(2) by simp
  qed
qed simp

subsection \<open>The remote command as the shell reads it\<close>

definition export_words :: "(string \<times> string) list \<Rightarrow> string list list" where
  "export_words kvs = map (\<lambda>(k, v). [''export'', k @ ''='' @ v]) kvs"

definition remote_words :: "target \<Rightarrow> exec_options \<Rightarrow> string list list" where
  "remote_words t i =
     (if work_dir t i \<noteq> [] then [[''cd'', work_dir t i]] else []) @
     export_words (gm_sorted (merge_maps (tgEnv t) (eoEnv i))) @
     [if eoPrivileged i then [''sudo'', ''-n'', ''--'', ''/bin/sh'', ''-lc'', eoCommand i]
      else [''/bin/sh'', ''-lc'', eoCommand i]]"

lemma literal_words:
  "list_all sh_literal ''cd''" "list_all sh_literal ''export''" "list_all sh_literal ''sudo''"
  "list_all sh_literal ''-n''" "list_all sh_literal ''--''" "list_all sh_literal ''/bin/sh''"
  "list_all sh_literal ''-lc''"
  by code_simp+

lemma env_name_literal: "validEnvName k \<Longrightarrow> list_all sh_literal (k @ ''='') \<and> k @ ''='' \<noteq> []"
  by (cases k) (auto simp: validEnvName_def sh_literal_def env_char_def list_all_iff)

lemma reads_cd: "reads (''cd '' @ shellQuote d) [''cd'', d]"
  using reads_literal_blank [OF literal_words(1) _ reads_quote, of d] by simp

lemma reads_export:
  assumes "validEnvName k"
  shows "reads (''export '' @ k @ ''='' @ shellQuote v) [''export'', k @ ''='' @ v]"
proof -
  have "reads ((k @ ''='') @ shellQuote v) [(k @ ''='') @ v]"
    using env_name_literal [OF assms] by (intro reads_literal_quote) simp_all
  then show ?thesis using reads_literal_blank [OF literal_words(2), of "(k @ ''='') @ shellQuote v"] by simp
qed

lemma reads_sh: "reads (''/bin/sh -lc '' @ shellQuote c) [''/bin/sh'', ''-lc'', c]"
  using reads_literal_blank [OF literal_words(6) _ reads_literal_blank [OF literal_words(7) _ reads_quote], of c] by simp

lemma reads_sudo:
  "reads (''sudo -n -- /bin/sh -lc '' @ shellQuote c) [''sudo'', ''-n'', ''--'', ''/bin/sh'', ''-lc'', c]"
  using reads_literal_blank [OF literal_words(3) _ reads_literal_blank [OF literal_words(4) _
      reads_literal_blank [OF literal_words(5) _ reads_sh]], of c] by simp

lemma export_parts_reads: "export_parts kvs = Inr ps \<Longrightarrow> list_all2 reads ps (export_words kvs)"
  by (induction kvs arbitrary: ps rule: export_parts.induct)
    (auto simp: export_words_def reads_export [simplified] split: if_splits sum.splits)

subsection \<open>The table\<close>

lemma trim_left_stop: "w \<in> set space_seqs \<Longrightarrow> w \<noteq> [] \<Longrightarrow> \<not> has_prefix (trim_left s) w"
  unfolding trim_left_def by (rule strip_seqs_stop)

lemma trim_right_prefix: "has_prefix s (trim_right s)"
proof -
  obtain t where "rev s = t @ strip_seqs (map rev space_seqs) (rev s)"
    using strip_seqs_suffix by blast
  then have "s = trim_right s @ rev t"
    unfolding trim_right_def by (metis rev_append rev_rev_ident)
  then show ?thesis by (auto simp: has_prefix_iff)
qed

lemma trim_space_idem: "trim_space (trim_space s) = trim_space s"
proof -
  let ?r = "trim_right (trim_left s)"
  have l: "trim_left ?r = ?r"
    unfolding trim_left_def
  proof (rule strip_seqs_id)
    fix w assume w: "w \<in> set space_seqs" "w \<noteq> []"
    show "\<not> has_prefix (trim_right (strip_seqs space_seqs s)) w"
      using has_prefix_trans [OF trim_right_prefix] trim_left_stop [OF w, of s]
      by (auto simp: trim_left_def)
  qed
  have "trim_right ?r = ?r"
    unfolding trim_right_def [of "trim_right _"]
  proof (subst strip_seqs_id)
    fix w assume w: "w \<in> set (map rev space_seqs)" "w \<noteq> []"
    show "\<not> has_prefix (rev (trim_right (trim_left s))) w"
      using strip_seqs_stop [OF w] by (simp add: trim_right_def)
  qed simp
  with l show ?thesis by (simp add: trim_space_def)
qed

definition target_ok :: "target \<Rightarrow> bool" where
  "target_ok t \<longleftrightarrow> check_target t = None \<and> trim_space (tgName t) = tgName t"

definition targets_ok :: "tmanager \<Rightarrow> bool" where
  "targets_ok m \<longleftrightarrow> gm_all (\<lambda>k t. tgName t = k \<and> target_ok t) (tmTargets m)"

lemma ssh_lower: "to_lower (trim_space ''ssh'') = ''ssh''"
  by code_simp

lemma normalize_name [simp]: "tgName (normalize t) = trim_space (tgName t)"
  by (simp add: normalize_def Let_def)

lemma normalize_ok: "target_ok t \<Longrightarrow> normalize t = t"
  by (cases t) (auto simp: target_ok_def check_target_def normalize_def Let_def ssh_lower split: if_splits)

lemma targets_ok_upsert:
  assumes "targets_ok m"
  shows "targets_ok (snd (target_upsert fail t m))"
proof (cases "check_target (normalize t)")
  case None
  then have "target_ok (normalize t)" by (simp add: target_ok_def trim_space_idem)
  then show ?thesis
    using assms None
    by (auto simp: target_upsert_def Let_def persist_targets_def targets_ok_def intro!: gm_all_put
        split: option.split)
qed (use assms in \<open>simp add: target_upsert_def Let_def\<close>)

lemma targets_ok_remove: "targets_ok m \<Longrightarrow> targets_ok (snd (target_remove fail n m))"
  by (auto simp: target_remove_def persist_targets_def targets_ok_def intro!: gm_all_del split: option.split)

datatype target_op = UpsertTarget "goerr option" target | RemoveTarget "goerr option" string

fun target_step :: "target_op \<Rightarrow> tmanager \<Rightarrow> tmanager" where
  "target_step (UpsertTarget fail t) m = snd (target_upsert fail t m)"
| "target_step (RemoveTarget fail n) m = snd (target_remove fail n m)"

definition empty_targets :: tmanager where
  "empty_targets = \<lparr>tmTargets = [], tmFile = FileMissing\<rparr>"

lemma targets_ok_steps: "targets_ok m \<Longrightarrow> targets_ok (fold target_step ops m)"
proof (induction ops arbitrary: m)
  case (Cons op ops)
  then show ?case by (cases op) (simp_all add: targets_ok_upsert targets_ok_remove)
qed simp

lemma targets_ok_empty [simp]: "targets_ok empty_targets"
  by (simp add: targets_ok_def empty_targets_def)

lemma load_ok_targets:
  assumes "\<forall>t \<in> set ts. target_ok t"
  shows "load_targets (FileTargets ts) [] = Inr (gm_of (map (\<lambda>t. (tgName t, t)) ts))"
proof -
  have "fold (\<lambda>t m. if tgName t \<noteq> [] then gm_put (tgName t) (normalize t) m else m) ts m =
      fold (\<lambda>(k, v). gm_put k v) (map (\<lambda>t. (tgName t, t)) ts) m" for m
    using assms
    by (induction ts arbitrary: m) (auto simp: normalize_ok target_ok_def check_target_def split: if_splits)
  then show ?thesis by (simp add: load_targets_def gm_of_def)
qed

lemma map_of_names:
  assumes "gm_all (\<lambda>k t. tgName t = k) m"
  shows "map_of (rev (map (\<lambda>t. (tgName t, t)) (sorted_targets (map snd m)))) k = gm_get m k"
proof -
  have ok: "gm_ok m" using assms by (simp add: gm_all_def)
  have "map (\<lambda>t. (tgName t, t)) (map snd m) = m"
    using assms by (induction m) (auto simp: gm_all_def gm_ok_def)
  then have img: "(\<lambda>t. (tgName t, t)) ` set (map snd m) = set m" by (metis set_map)
  have "map tgName (map snd m) = map fst m" using assms by (auto simp: gm_all_def)
  then have "distinct (map tgName (map snd m))" using ok unfolding gm_ok_def by (simp only:)
  then have "distinct (map tgName (sorted_targets (map snd m)))"
    by (simp only: sorted_targets_def distinct_map set_sort distinct_sort)
  then have d: "distinct (map fst (rev (map (\<lambda>t. (tgName t, t)) (sorted_targets (map snd m)))))"
    by (simp only: rev_map [symmetric] map_map comp_def fst_conv distinct_rev)
  have "map_of (rev (map (\<lambda>t. (tgName t, t)) (sorted_targets (map snd m)))) = map_of m"
    using d ok img by (intro map_of_inject_set [THEN iffD2]) (simp_all add: gm_ok_def sorted_targets_def)
  then show ?thesis by (simp add: gm_get_def)
qed

subsection \<open>Properties\<close>

text \<open>
  C38: a remote command that is built says to the remote shell exactly what was asked for, whatever
  characters the directory, the values and the command contain: a \<open>cd\<close> to the directory when there
  is one, one \<open>export\<close> of each variable in order of the names, and one shell (under sudo when
  privileged) whose script is the command. No part of the input is read as anything but one word.
\<close>

theorem remote_command_exact:
  assumes "buildRemoteCommand t i = Inr remote"
  shows "sh_commands remote = Some (remote_words t i)"
proof -
  from assms obtain exports where ex: "export_parts (gm_sorted (merge_maps (tgEnv t) (eoEnv i))) = Inr exports"
    and remote: "remote = GoStrings.join '' && ''
      ((if work_dir t i \<noteq> [] then [''cd '' @ shellQuote (work_dir t i)] else []) @ exports @
       [if eoPrivileged i then ''sudo -n -- /bin/sh -lc '' @ shellQuote (eoCommand i)
        else ''/bin/sh -lc '' @ shellQuote (eoCommand i)])"
    by (auto simp: buildRemoteCommand_def Let_def split: sum.splits)
  have "list_all2 reads
      ((if work_dir t i \<noteq> [] then [''cd '' @ shellQuote (work_dir t i)] else []) @ exports @
       [if eoPrivileged i then ''sudo -n -- /bin/sh -lc '' @ shellQuote (eoCommand i)
        else ''/bin/sh -lc '' @ shellQuote (eoCommand i)]) (remote_words t i)"
    unfolding remote_words_def
    by (intro list_all2_appendI export_parts_reads [OF ex])
      (simp_all add: reads_cd [simplified] reads_sh [simplified] reads_sudo [simplified])
  then show ?thesis unfolding remote by (rule sh_commands_join) simp
qed

text \<open>
  However the table was built by \<open>Upsert\<close> and \<open>Remove\<close>, with or without failures to write the
  file, a target stands under its trimmed name, is an SSH target with a port between 1 and 65535, and
  its destination is one argument of ssh that is not empty, is not read as an option and contains no
  white space.
\<close>

theorem target_destination_safe:
  assumes "gm_get (tmTargets (fold target_step ops empty_targets)) k = Some t"
  shows "tgName t = k \<and> k \<noteq> [] \<and> k \<noteq> ''local'' \<and> tgTransport t = ''ssh'' \<and>
    0 < tgPort t \<and> tgPort t \<le> 65535 \<and> destination t \<noteq> [] \<and> hd (destination t) \<noteq> CHR ''-'' \<and>
    set (destination t) \<inter> {CHR '' '', CHR 0x09, CHR 0x0A, CHR 0x0D} = {}"
proof -
  have "targets_ok (fold target_step ops empty_targets)" by (rule targets_ok_steps) simp
  then have "tgName t = k" and chk: "check_target t = None"
    using gm_allD [of "\<lambda>k t. tgName t = k \<and> target_ok t" _ k t] assms
    by (auto simp: targets_ok_def target_ok_def)
  moreover have host: "tgHost t \<noteq> []" "hd (tgHost t) \<noteq> CHR ''-''"
    and hc: "set (tgHost t) \<inter> {CHR '' '', CHR 0x09, CHR 0x0A, CHR 0x0D} = {}"
    using chk by (cases "tgHost t"; auto simp: check_target_def contains_any_iff split: if_splits)+
  moreover have user: "tgUser t \<noteq> [] \<Longrightarrow> hd (tgUser t) \<noteq> CHR ''-''"
    and uc: "set (tgUser t) \<inter> {CHR '' '', CHR 0x09, CHR 0x0A, CHR 0x0D} = {}"
    using chk by (cases "tgUser t"; auto simp: check_target_def contains_any_iff split: if_splits)+
  moreover have "tgName t \<noteq> []" "tgName t \<noteq> ''local''" "tgTransport t = ''ssh''" "0 < tgPort t" "tgPort t \<le> 65535"
    using chk by (auto simp: check_target_def split: if_splits)
  ultimately show ?thesis by (auto simp: destination_def hd_append)
qed

lemma load_saved:
  assumes "tmFile m = FileTargets (sorted_targets (map snd (tmTargets m)))" and "targets_ok m"
  shows "\<exists>m'. targets_new (tmFile m) = Inr m' \<and> gm_get (tmTargets m') = gm_get (tmTargets m)"
proof -
  let ?ts = "sorted_targets (map snd (tmTargets m))"
  have ok: "\<forall>t \<in> set ?ts. target_ok t"
    using assms(2) by (auto simp: targets_ok_def gm_all_def sorted_targets_def)
  have "gm_all (\<lambda>k t. tgName t = k) (tmTargets m)"
    using assms(2) by (auto simp: targets_ok_def gm_all_def)
  then have "gm_get (gm_of (map (\<lambda>t. (tgName t, t)) ?ts)) k = gm_get (tmTargets m) k" for k
    using map_of_names by (simp add: gm_get_of)
  then show ?thesis
    using load_ok_targets [OF ok] by (auto simp: targets_new_def assms(1))
qed

lemma upsert_saves:
  "fst (target_upsert None t m) = Inr t' \<Longrightarrow>
   tmFile (snd (target_upsert None t m)) =
     FileTargets (sorted_targets (map snd (tmTargets (snd (target_upsert None t m)))))"
  by (auto simp: target_upsert_def Let_def persist_targets_def split: option.splits)

text \<open>
  The file of the targets is faithful: after any sequence of \<open>Upsert\<close> and \<open>Remove\<close>, failures to
  write included, and one more \<open>Upsert\<close> that succeeds, starting again from the file gives the same
  table.
\<close>

theorem targets_survive_restart:
  assumes "m0 = fold target_step ops empty_targets" and "fst (target_upsert None t m0) = Inr t'"
  shows "\<exists>m'. targets_new (tmFile (snd (target_upsert None t m0))) = Inr m' \<and>
    gm_get (tmTargets m') = gm_get (tmTargets (snd (target_upsert None t m0)))"
  unfolding assms(1)
  by (rule load_saved [OF upsert_saves [OF assms(2) [unfolded assms(1)]]])
    (intro targets_ok_upsert targets_ok_steps targets_ok_empty)

text \<open>
  An \<open>Upsert\<close> whose file could not be written reports the error and keeps the target all the
  same: the target can be used until the runtime restarts, and is gone afterwards.
\<close>

theorem failed_upsert_kept:
  assumes "check_target (normalize t) = None"
  shows "fst (target_upsert (Some e) t m) = Inl e \<and>
    target_get (tgName (normalize t)) (snd (target_upsert (Some e) t m)) = Inr (normalize t) \<and>
    tmFile (snd (target_upsert (Some e) t m)) = tmFile m"
proof -
  have "tgName (normalize t) \<noteq> []" "tgName (normalize t) \<noteq> ''local''"
    using assms by (auto simp: check_target_def simp del: normalize_name split: if_splits)
  then show ?thesis
    using assms by (simp add: target_upsert_def Let_def persist_targets_def target_get_def del: normalize_name)
qed

text \<open>
  The tool never runs a privileged command on the local machine itself: such a call is answered
  by the root broker or refused, and no process is started, whatever the process starter would do.
\<close>

theorem local_privileged_uses_broker:
  assumes "target_exec_tool lp root_exec sh env run args m = Inr a"
    and "args = RawDoc (JObj ms)" and "fst (dec_field set_bool False ''privileged'' ms) = True"
    and "fst (dec_field set_str [] ''name'' ms) \<in> {[], ''local''}"
  shows "lp \<and> (\<exists>r. a = FromBroker r) \<and> target_exec_tool lp root_exec sh env run' args m = Inr a"
proof -
  obtain n e1 where 1: "dec_field set_str [] ''name'' ms = (n, e1)" by (rule prod.exhaust)
  obtain c e2 where 2: "dec_field set_str [] ''command'' ms = (c, e2)" by (rule prod.exhaust)
  obtain w e3 where 3: "dec_field set_str [] ''cwd'' ms = (w, e3)" by (rule prod.exhaust)
  obtain en e4 where 4: "dec_field set_strmap [] ''env'' ms = (en, e4)" by (rule prod.exhaust)
  obtain t e5 where 5: "dec_field set_int 0 ''timeout_seconds'' ms = (t, e5)" by (rule prod.exhaust)
  obtain mx e6 where 6: "dec_field set_int 0 ''max_output_bytes'' ms = (mx, e6)" by (rule prod.exhaust)
  obtain p e7 where 7: "dec_field set_bool False ''privileged'' ms = (p, e7)" by (rule prod.exhaust)
  let ?opts = "\<lparr>eoCommand = c, eoCwd = w, eoEnv = en, eoTimeoutSeconds = t, eoMaxOutputBytes = mx, eoPrivileged = True\<rparr>"
  have p: "p = True" and n: "n = [] \<or> n = ''local''" using assms(3,4) 1 7 by simp_all
  have ms: "decode_members target_exec_fields args = Inr ms"
    using assms(1,2) by (auto simp: target_exec_tool_def split: sum.splits if_splits)
  have tool: "target_exec_tool lp root_exec sh env rn args m =
      (if e1 \<or> e2 \<or> e3 \<or> e4 \<or> e5 \<or> e6 \<or> e7 then Inl invalid_arguments
       else if \<not> lp then Inl (err_new ''Android device-root escalation is not supported on Termux and is not planned; remote SSH sudo remains supported'')
       else (case root_exec ?opts of Inl e \<Rightarrow> Inl e | Inr r \<Rightarrow> Inr (FromBroker r)))" for rn
    unfolding target_exec_tool_def ms sum.case Let_def 1 2 3 4 5 6 7 prod.case p
    using n by (simp only: simp_thms if_True if_False if_cancel)
  show ?thesis
    using assms(1) unfolding tool by (cases "root_exec ?opts") (auto split: if_splits)
qed

subsection \<open>Witnesses\<close>

definition sample_target :: target where
  "sample_target = \<lparr>tgName = ''box'', tgTransport = ''ssh'', tgHost = ''h'', tgPort = 22, tgUser = ''u'',
     tgIdentityFile = [], tgWorkDir = [], tgEnv = [(''A'', ''x y'')], tgSSHOptions = [], tgTags = [], tgEnabled = True\<rparr>"

definition sample_options :: exec_options where
  "sample_options = \<lparr>eoCommand = [CHR 0x27] @ ''; rm -rf /'', eoCwd = ''/t'', eoEnv = [], eoTimeoutSeconds = 0,
     eoMaxOutputBytes = 0, eoPrivileged = True\<rparr>"

theorem remote_command_exact_witness:
  "\<exists>remote. buildRemoteCommand sample_target sample_options = Inr remote \<and>
     sh_commands remote = Some [[''cd'', ''/t''], [''export'', ''A=x y''],
       [''sudo'', ''-n'', ''--'', ''/bin/sh'', ''-lc'', [CHR 0x27] @ ''; rm -rf /'']]"
proof -
  have "is_ok (buildRemoteCommand sample_target sample_options)" by code_simp
  then obtain remote where r: "buildRemoteCommand sample_target sample_options = Inr remote"
    by (auto simp: is_ok_iff)
  have "remote_words sample_target sample_options = [[''cd'', ''/t''], [''export'', ''A=x y''],
       [''sudo'', ''-n'', ''--'', ''/bin/sh'', ''-lc'', [CHR 0x27] @ ''; rm -rf /'']]" by code_simp
  with remote_command_exact [OF r] r show ?thesis by simp
qed

lemma sample_upserted: "gm_get (tmTargets (fold target_step [UpsertTarget None sample_target] empty_targets)) ''box'' = Some sample_target"
  by code_simp

theorem target_destination_safe_witness: "tgName sample_target = ''box'' \<and> hd (destination sample_target) \<noteq> CHR ''-''"
  using target_destination_safe [OF sample_upserted] by blast

theorem targets_survive_restart_witness:
  "\<exists>m'. targets_new (tmFile (snd (target_upsert None sample_target (fold target_step [] empty_targets)))) = Inr m' \<and>
     gm_get (tmTargets m') = gm_get (tmTargets (snd (target_upsert None sample_target (fold target_step [] empty_targets))))"
proof (rule targets_survive_restart [OF refl])
  have "target_ok sample_target" by code_simp
  then show "fst (target_upsert None sample_target (fold target_step [] empty_targets)) = Inr sample_target"
    by (simp add: target_upsert_def normalize_ok Let_def persist_targets_def target_ok_def)
qed

theorem failed_upsert_kept_witness:
  "target_get ''box'' (snd (target_upsert (Some ErrNotExist) sample_target empty_targets)) = Inr sample_target"
proof -
  have n: "normalize sample_target = sample_target" by code_simp
  have "is_nil (check_target (normalize sample_target))" by code_simp
  then show ?thesis
    using failed_upsert_kept [of sample_target ErrNotExist empty_targets] unfolding n
    by (simp add: sample_target_def)
qed

theorem local_privileged_uses_broker_witness:
  "target_exec_tool True (\<lambda>o'. Inr (7 :: nat)) ''sh'' [] (\<lambda>c. NotStarted ErrNotExist)
     (RawDoc (JObj [(''command'', JStr ''id''), (''privileged'', JBool True)])) empty_targets = Inr (FromBroker 7)"
proof -
  let ?args = "RawDoc (JObj [(''command'', JStr ''id''), (''privileged'', JBool True)])"
  have run: "target_exec_tool True (\<lambda>o'. Inr (7 :: nat)) ''sh'' [] (\<lambda>c. Ended [] [] 0 False None) ?args empty_targets =
      Inr (FromBroker 7)" by code_simp
  have p: "fst (dec_field set_bool False ''privileged'' [(''command'', JStr ''id''), (''privileged'', JBool True)]) = True"
    by code_simp
  have n: "fst (dec_field set_str [] ''name'' [(''command'', JStr ''id''), (''privileged'', JBool True)]) \<in> {[], ''local''}"
    by code_simp
  from local_privileged_uses_broker [OF run refl p n] show ?thesis by blast
qed

end
