(* ===== verification/Mcp.thy ===== *)
theory Mcp
  imports Registry "HOL-Library.Word"
begin

section \<open>The MCP server (internal/mcp/server.go)\<close>

text \<open>
  The two transports and the methods. A request is its parsed body, its headers are a record; a
  reply is a value, not bytes. \<open>et\<close> and \<open>jt\<close> stand for the texts the library prints: of an error
  (\<open>err.Error()\<close>) and of a JSON value (\<open>json.Marshal\<close>). A tool call runs \<open>Registry.call\<close> on the
  state \<open>'w\<close> of the program; \<open>d\<close> is the time its handler took. The counters are 64-bit and atomic.

  \<open>origin\<close> stands for \<open>url.Parse\<close>: the scheme, the host and the host name of an origin that parses;
  \<open>loopback\<close> says which texts \<open>net.ParseIP\<close> reads as a loopback address. The body of a request is
  what \<open>io.ReadAll\<close> gave under the limit of 4 MiB: an error, or a message. The GET probe stream only
  writes fixed text and is the reply \<open>ProbeStream\<close>.
\<close>

definition ProtocolLatest :: string where "ProtocolLatest = ''2026-07-28''"
definition ProtocolLegacy :: string where "ProtocolLegacy = ''2025-11-25''"

definition compatibilityReason :: string where
  "compatibilityReason = ''compatibility fallback: MCP client omitted required reason''"

record server =
  svName :: string
  svVersion :: string
  svInstructions :: string
  svStrict :: bool
  svCompatMissingReason :: bool

record counters =
  cnRequests :: "64 word"
  cnToolCalls :: "64 word"
  cnToolErrs :: "64 word"

record rpc_request =
  rqJSONRPC :: string
  rqID :: "json option"
  rqMethod :: string
  rqParams :: raw

record rpc_error =
  reCode :: int
  reMessage :: string
  reData :: "string option"

type_synonym rpc_result = "rpc_error + json"

record tool_call_params =
  tpName :: string
  tpArguments :: raw
  tpReason :: "json option"
  tpMeta :: "json gomap"

definition bump :: "64 word \<Rightarrow> 64 word" where
  "bump n = n + 1"

definition Metrics :: "counters \<Rightarrow> (string \<times> 64 word) list" where
  "Metrics c = [(''mcp_requests_total'', cnRequests c), (''mcp_tool_calls_total'', cnToolCalls c),
     (''mcp_tool_errors_total'', cnToolErrs c)]"

subsection \<open>Decoding requests\<close>

text \<open>The members \<open>json.Unmarshal\<close> assigns to a struct; \<open>null\<close> assigns nothing.\<close>

fun struct_members :: "raw \<Rightarrow> (string \<times> json) list res" where
  "struct_members (RawDoc (JObj ms)) = Inr ms"
| "struct_members (RawDoc JNull) = Inr []"
| "struct_members _ = Inl json_err"

definition raw_of :: "json option \<Rightarrow> raw" where
  "raw_of v = (case v of None \<Rightarrow> RawEmpty | Some d \<Rightarrow> RawDoc d)"

fun set_rawmap :: "json \<Rightarrow> json gomap \<Rightarrow> json gomap option" where
  "set_rawmap (JObj ms) old = Some (fold (\<lambda>(k, v). gm_put k v) ms old)"
| "set_rawmap JNull _ = Some []"
| "set_rawmap _ _ = None"

definition decode_request :: "raw \<Rightarrow> rpc_request res" where
  "decode_request body =
     (case struct_members body of
        Inl e \<Rightarrow> Inl e
      | Inr ms \<Rightarrow>
          let (j, e1) = dec_field set_str [] ''jsonrpc'' ms;
              (m, e2) = dec_field set_str [] ''method'' ms
          in if e1 \<or> e2 then Inl json_err
             else Inr \<lparr>rqJSONRPC = j, rqID = fst (dec_field set_raw None ''id'' ms), rqMethod = m,
                       rqParams = raw_of (fst (dec_field set_raw None ''params'' ms))\<rparr>)"

text \<open>The members of \<open>params\<close> where the error of decoding is ignored.\<close>

definition params_members :: "raw \<Rightarrow> (string \<times> json) list" where
  "params_members p = (case struct_members p of Inl _ \<Rightarrow> [] | Inr ms \<Rightarrow> ms)"

definition protocol_key :: string where
  "protocol_key = ''io.modelcontextprotocol/protocolVersion''"

definition body_version :: "raw \<Rightarrow> string" where
  "body_version p =
     (case gm_get (fst (dec_field set_rawmap [] ''_meta'' (params_members p))) protocol_key of
        Some (JStr s) \<Rightarrow> s
      | _ \<Rightarrow> [])"

definition decode_tool_call :: "raw \<Rightarrow> tool_call_params res" where
  "decode_tool_call p =
     (case struct_members p of
        Inl e \<Rightarrow> Inl e
      | Inr ms \<Rightarrow>
          let (n, e1) = dec_field set_str [] ''name'' ms;
              (meta, e2) = dec_field set_rawmap [] ''_meta'' ms
          in if e1 \<or> e2 then Inl json_err
             else Inr \<lparr>tpName = n, tpArguments = raw_of (fst (dec_field set_raw None ''arguments'' ms)),
                       tpReason = fst (dec_field set_raw None ''reason'' ms), tpMeta = meta\<rparr>)"

subsection \<open>Protocol versions\<close>

definition supportedLegacy :: "string \<Rightarrow> bool" where
  "supportedLegacy v \<longleftrightarrow> v \<in> set [ProtocolLegacy, ''2025-06-18'', ''2025-03-26'']"

definition detectProtocol :: "server \<Rightarrow> string \<Rightarrow> rpc_request \<Rightarrow> bool \<times> string \<times> goerr option" where
  "detectProtocol s header0 req =
     (let body0 = body_version (rqParams req);
          modern = (header0 = ProtocolLatest \<or> body0 = ProtocolLatest)
      in if modern then
           (if header0 = [] \<and> svStrict s
            then (True, body0, Some (err_new ''missing MCP-Protocol-Version header''))
            else
              let header = (if header0 = [] then body0 else header0)
              in if body0 = [] \<and> svStrict s
                 then (True, header, Some (err_new ''missing request _meta protocol version''))
                 else
                   let body = (if body0 = [] then header else body0)
                   in if header \<noteq> body
                      then (True, header, Some (err_new ''MCP-Protocol-Version header does not match request _meta''))
                      else if header \<noteq> ProtocolLatest
                      then (True, header, Some (Errorf ''unsupported protocol version %s'' [FStr header]))
                      else (True, header, None))
         else if header0 \<noteq> [] \<and> \<not> supportedLegacy header0
         then (False, header0, Some (Errorf ''unsupported protocol version %s'' [FStr header0]))
         else (False, (if header0 = [] then ProtocolLegacy else header0), None))"

subsection \<open>The arguments of a tool call\<close>

text \<open>The arguments as a map, \<open>None\<close> when they are not an object: an omitted member is an empty one.\<close>

fun arguments_map :: "raw \<Rightarrow> json gomap option" where
  "arguments_map RawEmpty = Some []"
| "arguments_map (RawDoc (JObj ms)) = Some (gm_of ms)"
| "arguments_map _ = None"

text \<open>The reason beside the arguments, in the metadata, or the fallback.\<close>

definition supplied_reason :: "server \<Rightarrow> tool_call_params \<Rightarrow> json option" where
  "supplied_reason s p =
     (case (case tpReason p of Some r \<Rightarrow> Some r | None \<Rightarrow> gm_get (tpMeta p) ''reason'') of
        Some r \<Rightarrow> Some r
      | None \<Rightarrow>
          if \<not> svCompatMissingReason s \<or> svStrict s then None else Some (JStr compatibilityReason))"

definition compatibleArguments :: "server \<Rightarrow> tool_call_params \<Rightarrow> raw" where
  "compatibleArguments s p =
     (case arguments_map (tpArguments p) of
        None \<Rightarrow> tpArguments p
      | Some args \<Rightarrow>
          if gm_has args ''reason'' then tpArguments p
          else (case supplied_reason s p of
                  None \<Rightarrow> tpArguments p
                | Some r \<Rightarrow> RawDoc (marshal_map (Some (gm_put ''reason'' r args)))))"

subsection \<open>Methods\<close>

fun gv_json :: "gv \<Rightarrow> json"
and gv_members :: "(string \<times> gv) list \<Rightarrow> (string \<times> json) list"
and gv_items :: "gv list \<Rightarrow> json list" where
  "gv_json GNil = JNull"
| "gv_json (GBool b) = JBool b"
| "gv_json (GNum n) = JNum (JInt n)"
| "gv_json (GFloat n) = JNum n"
| "gv_json (GStr s) = JStr s"
| "gv_json (GStrs ss) = JArr (map JStr ss)"
| "gv_json (GArr vs) = JArr (gv_items vs)"
| "gv_json (GMap kvs) = JObj (gm_sorted (gv_members kvs))"
| "gv_members [] = []"
| "gv_members ((k, v) # kvs) = (k, gv_json v) # gv_members kvs"
| "gv_items [] = []"
| "gv_items (v # vs) = gv_json v # gv_items vs"

definition schema_json :: "schema option \<Rightarrow> json" where
  "schema_json s = (case s of None \<Rightarrow> JNull | Some m \<Rightarrow> gv_json (GMap m))"

definition withMeta :: "server \<Rightarrow> json gomap \<Rightarrow> json gomap" where
  "withMeta s result =
     gm_put ''_meta'' (JObj [(''io.modelcontextprotocol/serverInfo'',
       JObj [(''name'', JStr (svName s)), (''version'', JStr (svVersion s))])]) result"

definition finish :: "server \<Rightarrow> bool \<Rightarrow> json gomap \<Rightarrow> json gomap" where
  "finish s modern out = (if modern then withMeta s (gm_put ''resultType'' (JStr ''complete'') out) else out)"

definition tool_item :: "'w tool \<Rightarrow> json" where
  "tool_item t = marshal_map (Some (
     (if \<not> is_nil (tOutputSchema t) then [(''outputSchema'', schema_json (tOutputSchema t))] else []) @
     (if tTitle t \<noteq> [] then [(''title'', JStr (tTitle t))] else []) @
     (if tAnnotations t \<noteq> [] then [(''annotations'', gv_json (GMap (tAnnotations t)))] else []) @
     [(''name'', JStr (tName t)), (''description'', JStr (tDescription t)),
      (''inputSchema'', schema_json (tInputSchema t))]))"

definition text_block :: "string \<Rightarrow> json" where
  "text_block t = JObj [(''text'', JStr t), (''type'', JStr ''text'')]"

text \<open>The result of a call that returned a value.\<close>

definition call_result :: "(json \<Rightarrow> string) \<Rightarrow> tool_value \<Rightarrow> json gomap" where
  "call_result jt v =
     (let structured = (case v of Plain j \<Rightarrow> j | Rich r \<Rightarrow> rrStructured r);
          content0 = (case v of Plain j \<Rightarrow> [] | Rich r \<Rightarrow> rrContent r);
          content = (if content0 = [] then [text_block (jt structured)] else content0)
      in [(''content'', JArr content), (''structuredContent'', structured), (''isError'', JBool False)])"

definition error_result :: "(goerr \<Rightarrow> string) \<Rightarrow> goerr \<Rightarrow> json gomap" where
  "error_result et e = [(''content'', JArr [text_block (et e)]), (''isError'', JBool True)]"

definition rpc_fail :: "int \<Rightarrow> string \<Rightarrow> rpc_result" where
  "rpc_fail code msg = Inl \<lparr>reCode = code, reMessage = msg, reData = None\<rparr>"

definition rpc_ok :: "json gomap \<Rightarrow> rpc_result" where
  "rpc_ok m = Inr (marshal_map (Some m))"

definition call_tool ::
  "(goerr \<Rightarrow> string) \<Rightarrow> (json \<Rightarrow> string) \<Rightarrow> server \<Rightarrow> 'w registry \<Rightarrow> int \<Rightarrow> raw \<Rightarrow> bool \<Rightarrow> counters \<times> 'w \<Rightarrow>
   rpc_result \<times> counters \<times> 'w" where
  "call_tool et jt s r d params modern st =
     (let (c, w) = st
      in case decode_tool_call params of
           Inl _ \<Rightarrow> (rpc_fail (-32602) ''invalid tools/call parameters'', st)
         | Inr p \<Rightarrow>
             if tpName p = [] then (rpc_fail (-32602) ''invalid tools/call parameters'', st)
             else if \<not> Exists r (tpName p)
             then (rpc_fail (-32602) (''unknown tool: '' @ tpName p), st)
             else
               let c1 = c\<lparr>cnToolCalls := bump (cnToolCalls c)\<rparr>;
                   (v, w1) = call r (tpName p) (compatibleArguments s p) d w
               in (case v of
                     Inl e \<Rightarrow>
                       (rpc_ok (finish s modern (error_result et e)),
                        c1\<lparr>cnToolErrs := bump (cnToolErrs c1)\<rparr>, w1)
                   | Inr x \<Rightarrow> (rpc_ok (finish s modern (call_result jt x)), c1, w1)))"

definition tools_capability :: json where
  "tools_capability = JObj [(''tools'', JObj [])]"

definition dispatch ::
  "(goerr \<Rightarrow> string) \<Rightarrow> (json \<Rightarrow> string) \<Rightarrow> server \<Rightarrow> 'w registry \<Rightarrow> int \<Rightarrow> rpc_request \<Rightarrow> bool \<Rightarrow> counters \<times> 'w \<Rightarrow>
   rpc_result \<times> counters \<times> 'w" where
  "dispatch et jt s r d req modern st =
     (if rqMethod req = ''server/discover'' then
        (rpc_ok (withMeta s
           [(''resultType'', JStr ''complete''),
            (''supportedVersions'', JArr (map JStr [ProtocolLatest, ProtocolLegacy, ''2025-06-18'', ''2025-03-26''])),
            (''capabilities'', tools_capability), (''instructions'', JStr (svInstructions s)),
            (''ttlMs'', JNum (JInt 300000)), (''cacheScope'', JStr ''public'')]), st)
      else if rqMethod req = ''initialize'' then
        (let v0 = fst (dec_field set_str [] ''protocolVersion'' (params_members (rqParams req)));
             v = (if supportedLegacy v0 then v0 else ProtocolLegacy)
         in (rpc_ok [(''protocolVersion'', JStr v), (''capabilities'', tools_capability),
               (''serverInfo'', JObj [(''name'', JStr (svName s)), (''version'', JStr (svVersion s))]),
               (''instructions'', JStr (svInstructions s))], st))
      else if rqMethod req = ''tools/list'' then
        (let out = [(''tools'', JArr (map tool_item (List_tools r)))]
         in (rpc_ok (if modern then withMeta s
               (out @ [(''resultType'', JStr ''complete''), (''ttlMs'', JNum (JInt 30000)),
                       (''cacheScope'', JStr ''public'')]) else out), st))
      else if rqMethod req = ''tools/call'' then call_tool et jt s r d (rqParams req) modern st
      else if rqMethod req = ''ping'' then
        (if modern then (rpc_fail (-32601) ''method not found in protocol 2026-07-28'', st) else (rpc_ok [], st))
      else (rpc_fail (-32601) (''method not found: '' @ rqMethod req), st))"

subsection \<open>HTTP\<close>

record http_request =
  hqMethod :: string
  hqOrigin :: string
  hqToken :: string
  hqAuthorization :: string
  hqVersion :: string
  hqMcpMethod :: string
  hqMcpName :: string
  hqBody :: "raw res"

datatype http_reply =
    HttpError nat string
  | HttpRpc nat "json option" rpc_result
  | HttpAccepted
  | ProbeStream

definition validToken :: "http_request \<Rightarrow> string \<Rightarrow> bool" where
  "validToken q token =
     (let provided = (if hqToken q \<noteq> [] then hqToken q
                      else trim_space (trim_prefix (hqAuthorization q) ''Bearer ''))
      in if length provided \<noteq> length token then False else provided = token)"

definition validOrigin ::
  "(string \<Rightarrow> (string \<times> string \<times> string) res) \<Rightarrow> (string \<Rightarrow> bool) \<Rightarrow> http_request \<Rightarrow> bool" where
  "validOrigin origin loopback q =
     (let o' = trim_space (hqOrigin q)
      in if o' = [] then True
         else (case origin o' of
                 Inl _ \<Rightarrow> False
               | Inr (scheme, host, hostname) \<Rightarrow>
                   if scheme = [] \<or> host = [] then False
                   else if fold_name (trim_space hostname) = fold_name ''localhost'' then True
                   else loopback (trim_space hostname)))"

definition http_fail :: "json option \<Rightarrow> int \<Rightarrow> string \<Rightarrow> string option \<Rightarrow> http_reply" where
  "http_fail i code msg data = HttpRpc 400 i (Inl \<lparr>reCode = code, reMessage = msg, reData = data\<rparr>)"

text \<open>The checks of the routing headers in strict mode.\<close>

definition strict_headers :: "http_request \<Rightarrow> rpc_request \<Rightarrow> string option" where
  "strict_headers q req =
     (if hqMcpMethod q = [] \<or> hqMcpMethod q \<noteq> rqMethod req then Some ''Mcp-Method header mismatch''
      else if rqMethod req = ''tools/call'' \<and>
              (hqMcpName q = [] \<or> hqMcpName q \<noteq> fst (dec_field set_str [] ''name'' (params_members (rqParams req))))
      then Some ''Mcp-Name header mismatch''
      else None)"

definition no_id :: "rpc_request \<Rightarrow> bool" where
  "no_id req = (case rqID req of None \<Rightarrow> True | Some v \<Rightarrow> (case v of JNull \<Rightarrow> True | _ \<Rightarrow> False))"

definition handlePOST ::
  "(goerr \<Rightarrow> string) \<Rightarrow> (json \<Rightarrow> string) \<Rightarrow> server \<Rightarrow> 'w registry \<Rightarrow> int \<Rightarrow> http_request \<Rightarrow> counters \<times> 'w \<Rightarrow>
   http_reply \<times> counters \<times> 'w" where
  "handlePOST et jt s r d q st0 =
     (let st = ((fst st0)\<lparr>cnRequests := bump (cnRequests (fst st0))\<rparr>, snd st0)
      in case hqBody q of
           Inl e \<Rightarrow> (http_fail None (-32700) ''invalid request body'' (Some (et e)), st)
         | Inr body \<Rightarrow>
             (case decode_request body of
                Inl e \<Rightarrow> (http_fail None (-32700) ''parse error'' (Some (et e)), st)
              | Inr req \<Rightarrow>
                  if rqJSONRPC req \<noteq> ''2.0'' \<or> rqMethod req = []
                  then (http_fail (rqID req) (-32600) ''invalid request'' None, st)
                  else
                    (case detectProtocol s (hqVersion q) req of
                       (modern, version, Some e) \<Rightarrow> (http_fail (rqID req) (-32020) (et e) None, st)
                     | (modern, version, None) \<Rightarrow>
                         (case (if svStrict s \<and> modern then strict_headers q req else None) of
                            Some msg \<Rightarrow> (http_fail (rqID req) (-32020) msg None, st)
                          | None \<Rightarrow>
                              if no_id req then (HttpAccepted, st)
                              else
                                let (res, st1) = dispatch et jt s r d req modern st;
                                    status = (case res of Inl e \<Rightarrow> if modern \<and> reCode e = -32601 then 404 else 200
                                              | Inr _ \<Rightarrow> 200)
                                in (HttpRpc status (rqID req) res, st1)))))"

definition HTTPHandler ::
  "(string \<Rightarrow> (string \<times> string \<times> string) res) \<Rightarrow> (string \<Rightarrow> bool) \<Rightarrow> (goerr \<Rightarrow> string) \<Rightarrow> (json \<Rightarrow> string) \<Rightarrow>
   server \<Rightarrow> 'w registry \<Rightarrow> int \<Rightarrow> string \<Rightarrow> http_request \<Rightarrow> counters \<times> 'w \<Rightarrow> http_reply \<times> counters \<times> 'w" where
  "HTTPHandler origin loopback et jt s r d token q st =
     (if \<not> validOrigin origin loopback q then (HttpError 403 ''forbidden origin'', st)
      else if token \<noteq> [] \<and> \<not> validToken q token then (HttpError 401 ''unauthorized'', st)
      else if hqMethod q = ''POST'' then handlePOST et jt s r d q st
      else if hqMethod q = ''GET'' then (ProbeStream, st)
      else (HttpError 405 ''method not allowed'', st))"

subsection \<open>Standard input\<close>

text \<open>
  \<open>ServeStdio\<close> over the lines the scanner delivers, each with the time its call takes; a line too
  long for the buffer ends the loop with an error after the lines before it. A reply that could not
  be written ends it too, except for a parse error: \<open>wr n\<close> is the outcome of writing the reply to the
  line that \<open>n\<close> lines follow.
\<close>

datatype stdio_reply = StdioReply "json option" rpc_result

definition stdio_modern :: "rpc_request \<Rightarrow> bool" where
  "stdio_modern req \<longleftrightarrow> rqMethod req = ''server/discover'' \<or> body_version (rqParams req) = ProtocolLatest"

fun ServeStdio ::
  "(goerr \<Rightarrow> string) \<Rightarrow> (json \<Rightarrow> string) \<Rightarrow> server \<Rightarrow> 'w registry \<Rightarrow> (nat \<Rightarrow> goerr option) \<Rightarrow>
   (raw \<times> int) list \<Rightarrow> goerr option \<Rightarrow> stdio_reply list \<Rightarrow> counters \<times> 'w \<Rightarrow>
   (stdio_reply list \<times> goerr option) \<times> counters \<times> 'w" where
  "ServeStdio et jt s r wr [] scanErr out st = ((out, scanErr), st)"
| "ServeStdio et jt s r wr ((line, d) # ls) scanErr out st =
     (case decode_request line of
        Inl _ \<Rightarrow> ServeStdio et jt s r wr ls scanErr
          (if is_nil (wr (length ls)) then out @ [StdioReply None (rpc_fail (-32700) ''parse error'')] else out) st
      | Inr req \<Rightarrow>
          if no_id req then ServeStdio et jt s r wr ls scanErr out st
          else
            let (res, st1) = dispatch et jt s r d req (stdio_modern req) st
            in (case wr (length ls) of
                  Some e \<Rightarrow> ((out, Some e), st1)
                | None \<Rightarrow> ServeStdio et jt s r wr ls scanErr (out @ [StdioReply (rqID req) res]) st1))"

subsection \<open>Lemmas\<close>

lemma call_world:
  assumes "snd (call r name args d w) \<noteq> w"
  shows "validateReason args = None \<and> Exists r name"
proof -
  have "gm_get (rTools r) name \<noteq> None"
    using assms by (cases "gm_get (rTools r) name") (simp_all add: call_def)
  moreover have "validateReason (call_args args) = None"
  proof (rule ccontr)
    assume "validateReason (call_args args) \<noteq> None"
    then obtain e where "validateReason (call_args args) = Some e" by blast
    then have "snd (call r name args d w) = w"
      by (cases "gm_get (rTools r) name") (simp_all add: call_def Let_def)
    with assms show False by simp
  qed
  ultimately show ?thesis using call_args_id [of args] by (simp add: Exists_def)
qed

lemma call_tool_world:
  assumes "snd (snd (call_tool et jt s r d params modern (c, w))) \<noteq> w"
  shows "\<exists>p. decode_tool_call params = Inr p \<and> Exists r (tpName p) \<and>
    validateReason (compatibleArguments s p) = None"
proof (cases "decode_tool_call params")
  case (Inl e)
  with assms show ?thesis by (simp add: call_tool_def)
next
  case (Inr p)
  have "snd (call r (tpName p) (compatibleArguments s p) d w) \<noteq> w"
    using assms Inr
    by (auto simp: call_tool_def Let_def split: prod.splits sum.splits if_splits)
  from call_world [OF this] Inr show ?thesis by blast
qed

lemma dispatch_world:
  assumes "snd (snd (dispatch et jt s r d req modern (c, w))) \<noteq> w"
  shows "rqMethod req = ''tools/call'' \<and> (\<exists>p. decode_tool_call (rqParams req) = Inr p \<and>
    Exists r (tpName p) \<and> validateReason (compatibleArguments s p) = None)"
proof -
  have m: "rqMethod req = ''tools/call''"
    using assms by (simp add: dispatch_def Let_def split: if_splits)
  then have "snd (snd (call_tool et jt s r d (rqParams req) modern (c, w))) \<noteq> w"
    using assms by (simp add: dispatch_def)
  from call_tool_world [OF this] m show ?thesis by blast
qed

text \<open>Where \<open>handlePOST\<close> reaches \<open>dispatch\<close>.\<close>

definition accepted_request :: "server \<Rightarrow> http_request \<Rightarrow> rpc_request \<Rightarrow> bool \<Rightarrow> bool" where
  "accepted_request s q req modern \<longleftrightarrow>
     (\<exists>body v. hqBody q = Inr body \<and> decode_request body = Inr req \<and> rqJSONRPC req = ''2.0'' \<and>
       rqMethod req \<noteq> [] \<and> detectProtocol s (hqVersion q) req = (modern, v, None) \<and>
       (svStrict s \<and> modern \<longrightarrow> strict_headers q req = None) \<and> \<not> no_id req)"

lemma handlePOST_cases:
  "(\<exists>reply. handlePOST et jt s r d q (c, w) = (reply, c\<lparr>cnRequests := bump (cnRequests c)\<rparr>, w)) \<or>
   (\<exists>req modern. accepted_request s q req modern \<and>
      snd (handlePOST et jt s r d q (c, w)) =
        snd (dispatch et jt s r d req modern (c\<lparr>cnRequests := bump (cnRequests c)\<rparr>, w)))"
proof (cases "hqBody q")
  case (Inl e)
  then show ?thesis by (simp add: handlePOST_def)
next
  case (Inr body)
  show ?thesis
  proof (cases "decode_request body")
    case (Inl e)
    with Inr show ?thesis by (simp add: handlePOST_def)
  next
    case req: (Inr req)
    obtain modern v e where det: "detectProtocol s (hqVersion q) req = (modern, v, e)" by (rule prod_cases3)
    show ?thesis
    proof (cases "rqJSONRPC req = ''2.0'' \<and> rqMethod req \<noteq> [] \<and> e = None \<and>
        (svStrict s \<and> modern \<longrightarrow> strict_headers q req = None) \<and> \<not> no_id req")
      case True
      then have "accepted_request s q req modern"
        using Inr req det by (auto simp: accepted_request_def)
      moreover have "snd (handlePOST et jt s r d q (c, w)) =
          snd (dispatch et jt s r d req modern (c\<lparr>cnRequests := bump (cnRequests c)\<rparr>, w))"
        using True Inr req det by (auto simp: handlePOST_def Let_def split: prod.split)
      ultimately show ?thesis by blast
    next
      case False
      then show ?thesis
        using Inr req det by (auto simp: handlePOST_def Let_def split: option.split)
    qed
  qed
qed

lemma bump_mono: "unat n + 1 < 2 ^ 64 \<Longrightarrow> unat (bump n) = unat n + 1"
  by (simp add: bump_def unat_word_ariths)

definition counters_ok :: "nat \<Rightarrow> counters \<Rightarrow> bool" where
  "counters_ok n c \<longleftrightarrow> cnToolErrs c \<le> cnToolCalls c \<and> cnToolCalls c \<le> cnRequests c \<and> unat (cnRequests c) \<le> n"

lemma call_tool_counters:
  assumes "snd (call_tool et jt s r d params modern (c, w)) = (c', w')"
  shows "cnRequests c' = cnRequests c \<and>
    (cnToolCalls c' = cnToolCalls c \<and> cnToolErrs c' = cnToolErrs c \<or>
     cnToolCalls c' = bump (cnToolCalls c) \<and> (cnToolErrs c' = cnToolErrs c \<or> cnToolErrs c' = bump (cnToolErrs c)))"
  using assms by (auto simp: call_tool_def Let_def split: sum.splits if_splits prod.splits)

lemma dispatch_counters:
  assumes "snd (dispatch et jt s r d req modern (c, w)) = (c', w')"
  shows "cnRequests c' = cnRequests c \<and>
    (cnToolCalls c' = cnToolCalls c \<and> cnToolErrs c' = cnToolErrs c \<or>
     cnToolCalls c' = bump (cnToolCalls c) \<and> (cnToolErrs c' = cnToolErrs c \<or> cnToolErrs c' = bump (cnToolErrs c)))"
proof (cases "rqMethod req = ''tools/call''")
  case True
  then have "snd (call_tool et jt s r d (rqParams req) modern (c, w)) = (c', w')"
    using assms by (simp add: dispatch_def)
  then show ?thesis by (rule call_tool_counters)
next
  case False
  with assms have "c' = c" by (auto simp: dispatch_def Let_def split: if_splits)
  then show ?thesis by simp
qed

lemma HTTPHandler_counters:
  assumes "snd (HTTPHandler origin loopback et jt s r d token q (c, w)) = (c', w')"
    and "counters_ok n c" and "n + 1 < 2 ^ 64"
  shows "counters_ok (n + 1) c'"
proof -
  have lim: "unat (cnRequests c) + 1 < 2 ^ 64" "unat (cnToolCalls c) + 1 < 2 ^ 64" "unat (cnToolErrs c) + 1 < 2 ^ 64"
    using assms(2,3) by (simp_all add: counters_ok_def word_le_nat_alt)
  note bumps = bump_mono [OF lim(1)] bump_mono [OF lim(2)] bump_mono [OF lim(3)]
  show ?thesis
  proof (cases "snd (HTTPHandler origin loopback et jt s r d token q (c, w)) = (c, w)")
    case True
    with assms show ?thesis by (simp add: counters_ok_def)
  next
    case False
    then have post: "snd (handlePOST et jt s r d q (c, w)) = (c', w')"
      using assms(1) by (simp add: HTTPHandler_def split: if_splits)
    from handlePOST_cases [of et jt s r d q c w] show ?thesis
    proof
      assume "\<exists>reply. handlePOST et jt s r d q (c, w) = (reply, c\<lparr>cnRequests := bump (cnRequests c)\<rparr>, w)"
      with post have "c' = c\<lparr>cnRequests := bump (cnRequests c)\<rparr>" by auto
      with assms(2) bumps show ?thesis by (simp add: counters_ok_def word_le_nat_alt)
    next
      assume "\<exists>req modern. accepted_request s q req modern \<and>
        snd (handlePOST et jt s r d q (c, w)) =
          snd (dispatch et jt s r d req modern (c\<lparr>cnRequests := bump (cnRequests c)\<rparr>, w))"
      then obtain req modern where
        "snd (dispatch et jt s r d req modern (c\<lparr>cnRequests := bump (cnRequests c)\<rparr>, w)) = (c', w')"
        using post by auto
      from dispatch_counters [OF this] assms(2) bumps show ?thesis by (auto simp: counters_ok_def word_le_nat_alt)
    qed
  qed
qed

definition zero_counters :: counters where
  "zero_counters = \<lparr>cnRequests = 0, cnToolCalls = 0, cnToolErrs = 0\<rparr>"

text \<open>The state after a sequence of requests, each with the time its call takes.\<close>

definition serve_all ::
  "(string \<Rightarrow> (string \<times> string \<times> string) res) \<Rightarrow> (string \<Rightarrow> bool) \<Rightarrow> (goerr \<Rightarrow> string) \<Rightarrow> (json \<Rightarrow> string) \<Rightarrow>
   server \<Rightarrow> 'w registry \<Rightarrow> string \<Rightarrow> (http_request \<times> int) list \<Rightarrow> counters \<times> 'w \<Rightarrow> counters \<times> 'w" where
  "serve_all origin loopback et jt s r token qs st =
     fold (\<lambda>(q, d) st. snd (HTTPHandler origin loopback et jt s r d token q st)) qs st"

lemma serve_all_counters:
  "counters_ok n (fst st) \<Longrightarrow> n + length qs < 2 ^ 64 \<Longrightarrow>
   counters_ok (n + length qs) (fst (serve_all origin loopback et jt s r token qs st))"
proof (induction qs arbitrary: n st)
  case Nil
  then show ?case by (simp add: serve_all_def)
next
  case (Cons qd qs)
  obtain q d where qd: "qd = (q, d)" by (cases qd)
  obtain c w where st: "st = (c, w)" by (cases st)
  let ?st1 = "snd (HTTPHandler origin loopback et jt s r d token q st)"
  have "counters_ok (n + 1) (fst ?st1)"
    using HTTPHandler_counters [of origin loopback et jt s r d token q c w "fst ?st1" "snd ?st1" n] Cons.prems
    by (simp add: st)
  from Cons.IH [OF this] Cons.prems(2) show ?case
    by (simp add: serve_all_def qd)
qed

lemma arguments_map_keys: "arguments_map a = Some m \<Longrightarrow> gm_ok m"
  by (cases a rule: arguments_map.cases) auto

lemma reasons_single: "gm_ok kvs \<Longrightarrow> gm_get kvs ''reason'' = Some v \<Longrightarrow> reasons kvs = [v]"
proof -
  assume ok: "gm_ok kvs" and v: "gm_get kvs ''reason'' = Some v"
  have "filter (\<lambda>(k, _). k = ''reason'') kvs = [(''reason'', v)]"
    using ok v
  proof (induction kvs)
    case (Cons kv kvs)
    then show ?case
      by (cases kv) (force simp: gm_ok_def gm_get_def filter_empty_conv split: if_splits)
  qed (simp add: gm_get_def)
  then show ?thesis by simp
qed

text \<open>A rich result that says it is an error is still reported as a success.\<close>

lemma rich_error_ignored: "gm_get (call_result jt (Rich r)) ''isError'' = Some (JBool False)"
  by (simp add: call_result_def Let_def gm_get_def)

subsection \<open>Properties\<close>

text \<open>
  C14: over HTTP the state of the program changes only by a POST that passed every check: an origin
  that is absent or loopback, the configured token, a JSON-RPC 2.0 request with an id (never a
  notification) whose protocol version was accepted, the routing headers in strict mode, the method
  \<open>tools/call\<close>, a tool that exists, and arguments that carry a reason.
\<close>

theorem http_runs_only_checked_calls:
  assumes "snd (snd (HTTPHandler origin loopback et jt s r d token q (c, w))) \<noteq> w"
  shows "hqMethod q = ''POST'' \<and> validOrigin origin loopback q \<and> (token = [] \<or> validToken q token) \<and>
    (\<exists>req modern p. accepted_request s q req modern \<and> rqMethod req = ''tools/call'' \<and>
       decode_tool_call (rqParams req) = Inr p \<and> Exists r (tpName p) \<and>
       validateReason (compatibleArguments s p) = None)"
proof -
  have gate: "hqMethod q = ''POST''" "validOrigin origin loopback q" "token = [] \<or> validToken q token"
    and post: "snd (snd (handlePOST et jt s r d q (c, w))) \<noteq> w"
    using assms by (auto simp: HTTPHandler_def split: if_splits)
  from handlePOST_cases [of et jt s r d q c w] post obtain req modern where
    acc: "accepted_request s q req modern" and
    "snd (snd (dispatch et jt s r d req modern (c\<lparr>cnRequests := bump (cnRequests c)\<rparr>, w))) \<noteq> w"
    by auto
  from dispatch_world [OF this(2)] gate acc show ?thesis by blast
qed

text \<open>
  C15: with a token configured, a request is served (anything but an HTTP error) only if it presents
  exactly that token, in its own header or as a bearer token, and its origin is absent, \<open>localhost\<close>
  or a loopback address.
\<close>

theorem http_gate:
  assumes "token \<noteq> []"
    and "\<And>code msg. fst (HTTPHandler origin loopback et jt s r d token q st) \<noteq> HttpError code msg"
  shows "(hqToken q = token \<or>
      hqToken q = [] \<and> trim_space (trim_prefix (hqAuthorization q) ''Bearer '') = token) \<and>
    (trim_space (hqOrigin q) = [] \<or>
      (\<exists>scheme host name. origin (trim_space (hqOrigin q)) = Inr (scheme, host, name) \<and> scheme \<noteq> [] \<and> host \<noteq> [] \<and>
         (fold_name (trim_space name) = fold_name ''localhost'' \<or> loopback (trim_space name))))"
proof -
  have vo: "validOrigin origin loopback q"
    using assms(2) [of 403 "''forbidden origin''"] by (auto simp: HTTPHandler_def split: if_splits)
  have vt: "validToken q token"
    using vo assms(1) assms(2) [of 401 "''unauthorized''"] by (auto simp: HTTPHandler_def split: if_splits)
  have "hqToken q = token \<or> hqToken q = [] \<and> trim_space (trim_prefix (hqAuthorization q) ''Bearer '') = token"
    using vt by (auto simp: validToken_def Let_def split: if_splits)
  moreover have "trim_space (hqOrigin q) = [] \<or>
      (\<exists>scheme host name. origin (trim_space (hqOrigin q)) = Inr (scheme, host, name) \<and> scheme \<noteq> [] \<and> host \<noteq> [] \<and>
         (fold_name (trim_space name) = fold_name ''localhost'' \<or> loopback (trim_space name)))"
    using vo unfolding validOrigin_def Let_def by (auto split: if_splits sum.splits prod.splits)
  ultimately show ?thesis by blast
qed

text \<open>
  A call whose arguments are an object without a reason, and which carries none beside them or
  in its metadata, gets past the check of the reason exactly when the compatibility mode is on and
  strict mode is off; the arguments then keep all their members.
\<close>

theorem missing_reason_fallback:
  assumes "arguments_map (tpArguments p) = Some args" and "gm_get args ''reason'' = None"
    and "tpReason p = None" and "gm_get (tpMeta p) ''reason'' = None"
  shows "validateReason (compatibleArguments s p) = None \<longleftrightarrow> svCompatMissingReason s \<and> \<not> svStrict s"
proof (cases "svCompatMissingReason s \<and> \<not> svStrict s")
  case True
  let ?m = "gm_put ''reason'' (JStr compatibilityReason) args"
  have c: "compatibleArguments s p = RawDoc (JObj (gm_sorted ?m))"
    using assms True by (simp add: compatibleArguments_def supplied_reason_def marshal_map_def)
  have ok: "gm_ok ?m" using arguments_map_keys [OF assms(1)] by simp
  have r: "reasons (gm_sorted ?m) = [JStr compatibilityReason]"
    by (rule reasons_single) (simp_all add: ok)
  have t: "trim_space compatibilityReason \<noteq> []" by code_simp
  have "validateReason (compatibleArguments s p) = None"
    unfolding c validateReason_None by (rule exI, rule exI, intro conjI) (rule refl r t)+
  then show ?thesis using True by simp
next
  case False
  then have "compatibleArguments s p = tpArguments p"
    using assms by (auto simp: compatibleArguments_def supplied_reason_def)
  moreover have "validateReason (tpArguments p) \<noteq> None"
  proof
    assume "validateReason (tpArguments p) = None"
    then obtain ms why where ms: "tpArguments p = RawDoc (JObj ms)" "reasons ms = [JStr why]"
      by (auto simp: validateReason_None)
    then have "map_of (rev ms) ''reason'' = None" using assms(1,2) by (auto simp: gm_get_of)
    then have "reasons ms = []" by (force simp: map_of_eq_None_iff filter_empty_conv)
    with ms show False by simp
  qed
  ultimately show ?thesis using False by (metis)
qed

text \<open>
  A reason that is already among the arguments always wins, valid or not: the arguments are
  passed on as they are; otherwise the reason beside the arguments is preferred to the one in the
  metadata, and every other argument keeps its value.
\<close>

theorem reason_precedence:
  assumes "arguments_map (tpArguments p) = Some args"
  shows "(gm_get args ''reason'' \<noteq> None \<longrightarrow> compatibleArguments s p = tpArguments p) \<and>
    (gm_get args ''reason'' = None \<and> (tpReason p = Some r \<or> tpReason p = None \<and> gm_get (tpMeta p) ''reason'' = Some r) \<longrightarrow>
      (\<exists>out. compatibleArguments s p = RawDoc (JObj out) \<and>
         (\<forall>k. gm_get out k = (if k = ''reason'' then Some r else gm_get args k))))"
  using assms arguments_map_keys [OF assms]
  by (auto simp: compatibleArguments_def supplied_reason_def marshal_map_def)

text \<open>
  A request is treated as the latest protocol exactly when its accepted version is the latest;
  a legacy request has a supported legacy version; and in strict mode a request of the latest
  protocol names that version both in the header and in its metadata.
\<close>

theorem protocol_agreed:
  assumes "detectProtocol s header req = (modern, version, None)"
  shows "(modern \<longleftrightarrow> version = ProtocolLatest) \<and> (\<not> modern \<longrightarrow> supportedLegacy version) \<and>
    (modern \<and> svStrict s \<longrightarrow> header = ProtocolLatest \<and> body_version (rqParams req) = ProtocolLatest)"
  using assms
  by (auto simp: detectProtocol_def Let_def supportedLegacy_def ProtocolLatest_def ProtocolLegacy_def
      split: if_splits)

text \<open>
  The counters are consistent: after any sequence of fewer than 2^64 HTTP requests there are at
  most as many tool errors as tool calls, at most as many tool calls as requests, and at most as
  many requests as were sent.
\<close>

theorem metrics_consistent:
  assumes "length qs < 2 ^ 64"
  shows "counters_ok (length qs) (fst (serve_all origin loopback et jt s r token qs (zero_counters, w)))"
  using serve_all_counters [of 0 "(zero_counters, w)" qs] assms
  by (simp add: counters_ok_def zero_counters_def)

text \<open>
  Standard input does not check the JSON-RPC version: a request with an id but another version
  than 2.0 is refused over HTTP and dispatched over standard input.
\<close>

theorem stdio_skips_version_check:
  assumes "decode_request body = Inr req" and "rqJSONRPC req \<noteq> ''2.0''" and "\<not> no_id req"
    and "hqBody q = Inr body"
  shows "fst (handlePOST et jt s r d q st) =
      HttpRpc 400 (rqID req) (Inl \<lparr>reCode = -32600, reMessage = ''invalid request'', reData = None\<rparr>) \<and>
    ServeStdio et jt s r (\<lambda>n. None) [(body, d)] None [] st =
      (let (res, st1) = dispatch et jt s r d req (stdio_modern req) st
       in (([StdioReply (rqID req) res], None), st1))"
  using assms by (simp add: handlePOST_def http_fail_def Let_def split: prod.split)

subsection \<open>Witnesses\<close>

definition sample_server :: server where
  "sample_server = \<lparr>svName = ''s'', svVersion = ''1'', svInstructions = [], svStrict = False, svCompatMissingReason = True\<rparr>"

definition sample_call :: raw where
  "sample_call = RawDoc (JObj [(''jsonrpc'', JStr ''2.0''), (''id'', JNum (JInt 1)), (''method'', JStr ''tools/call''),
     (''params'', JObj [(''name'', JStr ''a'')])])"

definition sample_request :: http_request where
  "sample_request = \<lparr>hqMethod = ''POST'', hqOrigin = [], hqToken = ''t'', hqAuthorization = [], hqVersion = [],
     hqMcpMethod = [], hqMcpName = [], hqBody = Inr sample_call\<rparr>"

theorem http_runs_only_checked_calls_witness:
  "\<exists>(req :: rpc_request) p. rqMethod req = ''tools/call'' \<and> decode_tool_call (rqParams req) = Inr p \<and>
     validateReason (compatibleArguments sample_server p) = None"
proof -
  have "snd (snd (HTTPHandler (\<lambda>o'. Inl ErrNotExist) (\<lambda>h. False) (\<lambda>e. []) (\<lambda>j. []) sample_server sample_registry 0 ''t''
      sample_request (zero_counters, 0))) = 1" by code_simp
  then have "snd (snd (HTTPHandler (\<lambda>o'. Inl ErrNotExist) (\<lambda>h. False) (\<lambda>e. []) (\<lambda>j. []) sample_server sample_registry 0 ''t''
      sample_request (zero_counters, 0))) \<noteq> 0" by simp
  from http_runs_only_checked_calls [OF this] show ?thesis by blast
qed

theorem http_gate_witness: "hqToken sample_request = ''t''"
proof -
  have "fst (HTTPHandler (\<lambda>o'. Inl ErrNotExist) (\<lambda>h. False) (\<lambda>e. []) (\<lambda>j. []) sample_server sample_registry 0 ''t''
      (sample_request\<lparr>hqMethod := ''GET''\<rparr>) (zero_counters, 0)) = ProbeStream" by code_simp
  then have "\<And>code msg. fst (HTTPHandler (\<lambda>o'. Inl ErrNotExist) (\<lambda>h. False) (\<lambda>e. []) (\<lambda>j. []) sample_server sample_registry 0 ''t''
      (sample_request\<lparr>hqMethod := ''GET''\<rparr>) (zero_counters, 0)) \<noteq> HttpError code msg" by simp
  from http_gate [OF _ this] show ?thesis by (simp add: sample_request_def)
qed

definition sample_params :: tool_call_params where
  "sample_params = \<lparr>tpName = ''a'', tpArguments = RawDoc (JObj [(''x'', JNull)]), tpReason = None, tpMeta = []\<rparr>"

theorem missing_reason_fallback_witness:
  "validateReason (compatibleArguments sample_server sample_params) = None"
  using missing_reason_fallback [of sample_params "gm_of [(''x'', JNull)]" sample_server]
  by (simp add: sample_params_def sample_server_def gm_get_of)

theorem reason_precedence_witness:
  "\<exists>out. compatibleArguments sample_server (sample_params\<lparr>tpReason := Some (JStr ''r'')\<rparr>) = RawDoc (JObj out) \<and>
     (\<forall>k. gm_get out k = (if k = ''reason'' then Some (JStr ''r'') else gm_get (gm_of [(''x'', JNull)]) k))"
  using reason_precedence [of "sample_params\<lparr>tpReason := Some (JStr ''r'')\<rparr>" "gm_of [(''x'', JNull)]" sample_server "JStr ''r''"]
  by (simp add: sample_params_def gm_get_of)

theorem protocol_agreed_witness: "supportedLegacy ''2025-06-18''"
proof -
  have "detectProtocol sample_server ''2025-06-18'' \<lparr>rqJSONRPC = ''2.0'', rqID = None, rqMethod = ''ping'', rqParams = RawEmpty\<rparr> =
      (False, ''2025-06-18'', None)" by code_simp
  from protocol_agreed [OF this] show ?thesis by simp
qed

theorem metrics_consistent_witness:
  "counters_ok (length [(sample_request, 0 :: int)])
     (fst (serve_all (\<lambda>o'. Inl ErrNotExist) (\<lambda>h. False) (\<lambda>e. []) (\<lambda>j. []) sample_server sample_registry ''t''
       [(sample_request, 0)] (zero_counters, 0)))"
  by (rule metrics_consistent) simp

theorem stdio_skips_version_check_witness:
  "fst (handlePOST (\<lambda>e. []) (\<lambda>j. []) sample_server sample_registry 0
      (sample_request\<lparr>hqBody := Inr (RawDoc (JObj [(''id'', JBool True), (''method'', JStr ''ping'')]))\<rparr>) (zero_counters, 0)) =
    HttpRpc 400 (Some (JBool True)) (Inl \<lparr>reCode = -32600, reMessage = ''invalid request'', reData = None\<rparr>)"
proof -
  let ?req = "\<lparr>rqJSONRPC = [], rqID = Some (JBool True), rqMethod = ''ping'', rqParams = RawEmpty\<rparr>"
  have d: "decode_request (RawDoc (JObj [(''id'', JBool True), (''method'', JStr ''ping'')])) = Inr ?req"
    by code_simp
  have n: "\<not> no_id ?req" by (simp add: no_id_def)
  from stdio_skips_version_check [OF d _ n, of "sample_request\<lparr>hqBody := Inr (RawDoc (JObj [(''id'', JBool True), (''method'', JStr ''ping'')]))\<rparr>"
      "\<lambda>e. []" "\<lambda>j. []" sample_server sample_registry 0 "(zero_counters, 0)"]
  show ?thesis by (simp del: ServeStdio.simps)
qed

end
