(* ===== verification/RootBroker.thy ===== *)
theory RootBroker
  imports Exec "HOL-Library.Word"
begin

section \<open>The root broker and its client (cmd/cycomagent-root, internal/broker)\<close>

text \<open>
  A process that runs as root answers one request per connection of a Unix socket: it checks the
  credentials of the peer and, when it is configured to, the peer's executable, decodes the request
  strictly and runs the command. The client is the other end.

  \<open>run\<close> starts a command and waits for it, changing the state \<open>'w\<close> of the machine; \<open>readlink\<close> and
  \<open>evalSymlinks\<close> are the file system; \<open>et\<close> is the text of an error; \<open>peer\<close> is what the kernel says
  of the other end (\<open>SO_PEERCRED\<close>).
\<close>

record exec_response =
  xpExitCode :: int
  xpStdout :: string
  xpStderr :: string
  xpDurationMS :: int
  xpTimedOut :: bool
  xpTruncated :: bool
  xpError :: string

definition zero_response :: exec_response where
  "zero_response = \<lparr>xpExitCode = 0, xpStdout = [], xpStderr = [], xpDurationMS = 0, xpTimedOut = False,
     xpTruncated = False, xpError = []\<rparr>"

definition encode_response :: "exec_response \<Rightarrow> raw" where
  "encode_response o' = RawDoc (JObj (
     [(''exit_code'', JNum (JInt (xpExitCode o'))), (''stdout'', JStr (json_text (xpStdout o'))),
      (''stderr'', JStr (json_text (xpStderr o'))), (''duration_ms'', JNum (JInt (xpDurationMS o'))),
      (''timed_out'', JBool (xpTimedOut o')), (''truncated'', JBool (xpTruncated o'))] @
     omit_str ''error'' (xpError o')))"

definition response_fields :: "string list" where
  "response_fields = [''exit_code'', ''stdout'', ''stderr'', ''duration_ms'', ''timed_out'', ''truncated'', ''error'']"

definition decode_response :: "raw \<Rightarrow> exec_response res" where
  "decode_response reply =
     (case stream_members reply of
        Inl e \<Rightarrow> Inl e
      | Inr ms \<Rightarrow>
          let (c, e1) = dec_field set_int 0 ''exit_code'' ms;
              (so, e2) = dec_field set_str [] ''stdout'' ms;
              (se, e3) = dec_field set_str [] ''stderr'' ms;
              (d, e4) = dec_field set_int 0 ''duration_ms'' ms;
              (to, e5) = dec_field set_bool False ''timed_out'' ms;
              (tr, e6) = dec_field set_bool False ''truncated'' ms;
              (er, e7) = dec_field set_str [] ''error'' ms
          in if e1 \<or> e2 \<or> e3 \<or> e4 \<or> e5 \<or> e6 \<or> e7 then Inl json_err
             else Inr \<lparr>xpExitCode = c, xpStdout = so, xpStderr = se, xpDurationMS = d, xpTimedOut = to,
                       xpTruncated = tr, xpError = er\<rparr>)"

subsection \<open>Running a command\<close>

definition mergeEnv :: "string list \<Rightarrow> string gomap \<Rightarrow> string list" where
  "mergeEnv environ extra = environ @ env_list extra"

interpretation env_root: env_merger mergeEnv
  by unfold_locales (simp add: mergeEnv_def env_value_append env_value_list)

definition root_limit :: "int \<Rightarrow> int" where
  "root_limit n = (if n \<le> 0 \<or> 10 * 1048576 < n then 2 * 1048576 else n)"

definition root_command :: "string list \<Rightarrow> exec_request \<Rightarrow> command" where
  "root_command environ req =
     \<lparr>cmArgv = [if xrShell req = [] then ''/bin/sh'' else xrShell req, ''-lc'', xrCommand req],
      cmDir = xrCwd req, cmEnv = mergeEnv environ (xrEnv req), cmStdin = xrStdin req,
      cmTimeout = (if 0 < xrTimeoutSeconds req then seconds (xrTimeoutSeconds req) else 120 * 1000000000)\<rparr>"

definition execute ::
  "(goerr \<Rightarrow> string) \<Rightarrow> string list \<Rightarrow> (command \<Rightarrow> 'w \<Rightarrow> outcome \<times> 'w) \<Rightarrow> exec_request \<Rightarrow> 'w \<Rightarrow> exec_response \<times> 'w" where
  "execute et environ run req w =
     (if xrCommand req = [] then (zero_response\<lparr>xpError := ''command is required''\<rparr>, w)
      else case run (root_command environ req) w of
        (NotStarted e, w1) \<Rightarrow> (zero_response\<lparr>xpExitCode := -1, xpError := et e\<rparr>, w1)
      | (Ended outs errs d timedOut st, w1) \<Rightarrow>
          let o' = captured capWrite_root (root_limit (xrMaxOutputBytes req)) outs;
              e' = captured capWrite_root (root_limit (xrMaxOutputBytes req)) errs;
              res = \<lparr>xpExitCode = 0, xpStdout = cbBuf o', xpStderr = cbBuf e', xpDurationMS = d,
                     xpTimedOut = timedOut, xpTruncated = (cbTruncated o' \<or> cbTruncated e'), xpError = []\<rparr>
          in ((if timedOut then res\<lparr>xpExitCode := -1\<rparr>
               else (case st of
                       None \<Rightarrow> res
                     | Some (Inr c) \<Rightarrow> res\<lparr>xpExitCode := c\<rparr>
                     | Some (Inl e) \<Rightarrow> res\<lparr>xpExitCode := -1, xpError := et e\<rparr>)), w1))"

subsection \<open>A connection\<close>

definition normalizeProcExe :: "string \<Rightarrow> string" where
  "normalizeProcExe path = trim_suffix path '' (deleted)''"

definition resolved :: "(string \<Rightarrow> string res) \<Rightarrow> string \<Rightarrow> string" where
  "resolved evalSymlinks path = (case evalSymlinks path of Inl e \<Rightarrow> clean path | Inr p \<Rightarrow> p)"

definition peerExecutableAllowed ::
  "(string \<Rightarrow> string res) \<Rightarrow> (string \<Rightarrow> string res) \<Rightarrow> int \<Rightarrow> string \<Rightarrow> bool" where
  "peerExecutableAllowed readlink evalSymlinks pid allowed =
     (case readlink (''/proc/'' @ itoa pid @ ''/exe'') of
        Inl e \<Rightarrow> False
      | Inr actual \<Rightarrow> resolved evalSymlinks (normalizeProcExe actual) = resolved evalSymlinks allowed)"

definition decode_root :: "raw \<Rightarrow> exec_request res" where
  "decode_root body =
     (case stream_members body of
        Inl e \<Rightarrow> Inl e
      | Inr ms \<Rightarrow>
          if list_all (\<lambda>(k, _). known_field exec_fields k) ms
          then (case decode_exec zero_request ms of (req, bad) \<Rightarrow> if bad then Inl json_err else Inr req)
          else Inl json_err)"

record root_config =
  rcUID :: "32 word"
  rcExe :: string

text \<open>The checks of \<open>main\<close> before it listens; the flag is a Go \<open>int\<close>, the peer's identifier has 32 bits.\<close>

definition root_start :: "int \<Rightarrow> int \<Rightarrow> string \<Rightarrow> root_config res" where
  "root_start euid allowUID allowExe =
     (if euid \<noteq> 0 then Inl (err_new ''cycomagent-root must run as root'')
      else if allowUID < 0 then Inl (err_new ''--allow-uid or CYCOM_ROOT_ALLOW_UID is required'')
      else Inr \<lparr>rcUID = word_of_int allowUID, rcExe = allowExe\<rparr>)"

definition handle ::
  "(goerr \<Rightarrow> string) \<Rightarrow> string list \<Rightarrow> (command \<Rightarrow> 'w \<Rightarrow> outcome \<times> 'w) \<Rightarrow> (string \<Rightarrow> string res) \<Rightarrow>
   (string \<Rightarrow> string res) \<Rightarrow> root_config \<Rightarrow> (32 word \<times> int) res \<Rightarrow> raw \<Rightarrow> 'w \<Rightarrow> exec_response \<times> 'w" where
  "handle et environ run readlink evalSymlinks cfg peer body w =
     (case peer of
        Inl e \<Rightarrow> (zero_response\<lparr>xpError := ''peer uid is not authorized''\<rparr>, w)
      | Inr (uid, pid) \<Rightarrow>
          if uid \<noteq> rcUID cfg then (zero_response\<lparr>xpError := ''peer uid is not authorized''\<rparr>, w)
          else if rcExe cfg \<noteq> [] \<and> \<not> peerExecutableAllowed readlink evalSymlinks pid (rcExe cfg)
          then (zero_response\<lparr>xpError := ''peer executable is not authorized''\<rparr>, w)
          else (case decode_root body of
                  Inl e \<Rightarrow> (zero_response\<lparr>xpError := et e\<rparr>, w)
                | Inr req \<Rightarrow> execute et environ run req w))"

text \<open>\<open>dirOf\<close>, \<open>envOr\<close> and \<open>envInt\<close>; a variable that is not set is the empty text.\<close>

definition dirOf :: "string \<Rightarrow> string" where
  "dirOf path =
     (case dropWhile (\<lambda>c. c \<noteq> CHR ''/'') (rev path) of
        [] \<Rightarrow> ''.''
      | _ # r \<Rightarrow> if r = [] then ''/'' else rev r)"

definition envOr :: "(string \<Rightarrow> string) \<Rightarrow> string \<Rightarrow> string \<Rightarrow> string" where
  "envOr getenv name fallback = (if getenv name \<noteq> [] then getenv name else fallback)"

definition envInt :: "(string \<Rightarrow> string) \<Rightarrow> string \<Rightarrow> int \<Rightarrow> int" where
  "envInt getenv name fallback =
     (if getenv name \<noteq> [] then (case atoi (getenv name) of Some n \<Rightarrow> n | None \<Rightarrow> fallback) else fallback)"

subsection \<open>The client\<close>

text \<open>
  \<open>server\<close> is the other end of the connection: what it answers to a message, \<open>Inl\<close> when writing or
  reading failed; \<open>dial\<close> is the error of connecting.
\<close>

definition client_exec ::
  "goerr option \<Rightarrow> (raw \<Rightarrow> 'w \<Rightarrow> raw res \<times> 'w) \<Rightarrow> string \<Rightarrow> exec_request \<Rightarrow> 'w \<Rightarrow> exec_response res \<times> 'w" where
  "client_exec dial server socket req w =
     (if socket = [] then (Inl (err_new ''privilege broker is not configured''), w)
      else case dial of
        Some e \<Rightarrow> (Inl (Errorf ''connect privilege broker: %w'' [FErr e]), w)
      | None \<Rightarrow>
          (case server (RawDoc (JObj (encode_exec req))) w of
             (Inl e, w1) \<Rightarrow> (Inl e, w1)
           | (Inr reply, w1) \<Rightarrow>
               (case decode_response reply of
                  Inl e \<Rightarrow> (Inl e, w1)
                | Inr out \<Rightarrow>
                    if xpError out \<noteq> [] then (Inl (Errorf ''privilege broker: %s'' [FStr (xpError out)]), w1)
                    else (Inr out, w1))))"

definition client_available :: "goerr option \<Rightarrow> string \<Rightarrow> bool" where
  "client_available dial socket \<longleftrightarrow> socket \<noteq> [] \<and> is_nil dial"

subsection \<open>Lemmas\<close>

definition root_server ::
  "(goerr \<Rightarrow> string) \<Rightarrow> string list \<Rightarrow> (command \<Rightarrow> 'w \<Rightarrow> outcome \<times> 'w) \<Rightarrow> (string \<Rightarrow> string res) \<Rightarrow>
   (string \<Rightarrow> string res) \<Rightarrow> root_config \<Rightarrow> (32 word \<times> int) res \<Rightarrow> raw \<Rightarrow> 'w \<Rightarrow> raw res \<times> 'w" where
  "root_server et environ run readlink evalSymlinks cfg peer body w =
     (let (out, w1) = handle et environ run readlink evalSymlinks cfg peer body w
      in (Inr (encode_response out), w1))"

definition response_ok :: "exec_response \<Rightarrow> bool" where
  "response_ok o' \<longleftrightarrow> go_int (xpExitCode o') \<and> go_int (xpDurationMS o')"

text \<open>What the client reads of a response: bytes that are not UTF-8 have been replaced.\<close>

definition received :: "exec_response \<Rightarrow> exec_response" where
  "received o' = o'\<lparr>xpStdout := json_text (xpStdout o'), xpStderr := json_text (xpStderr o'),
     xpError := json_text (xpError o')\<rparr>"

lemma response_keys:
  "f \<in> set response_fields \<Longrightarrow> g \<in> set response_fields \<Longrightarrow> key_matches f g = (f = g)"
proof (rule key_matches_fields)
  show "distinct (map fold_name response_fields)" by code_simp
qed

lemma response_fields_mem:
  "''exit_code'' \<in> set response_fields" "''stdout'' \<in> set response_fields" "''stderr'' \<in> set response_fields"
  "''duration_ms'' \<in> set response_fields" "''timed_out'' \<in> set response_fields"
  "''truncated'' \<in> set response_fields" "''error'' \<in> set response_fields"
  by (simp_all add: response_fields_def)

lemma decode_encode_response:
  "response_ok o' \<Longrightarrow> decode_response (encode_response o') = Inr (received o')"
  by (simp add: decode_response_def encode_response_def Let_def dec_field_def field_values_append
      field_values_Cons field_omit response_keys response_fields_mem response_ok_def received_def go_int_def)

lemma known_encode: "list_all (\<lambda>(k, _). known_field exec_fields k) (encode_exec r)"
proof -
  have known: "f \<in> set exec_fields \<Longrightarrow> known_field exec_fields f" for f
    by (auto simp: known_field_def list_ex_iff key_matches_def)
  show ?thesis
    by (simp add: encode_exec_def omit_str_def omit_int_def omit_map_def known exec_fields_mem)
qed

lemma decode_root_encode:
  assumes "request_ok r"
  shows "decode_root (RawDoc (JObj (encode_exec r))) = Inr (r\<lparr>xrEnv := gm_sorted (xrEnv r)\<rparr>)"
  using encode_decode_exec [OF assms] known_encode [of r] by (simp add: decode_root_def)

lemma execute_ok:
  assumes "\<And>c w. case fst (run c w) of NotStarted e \<Rightarrow> True
      | Ended outs errs d timedOut st \<Rightarrow> go_int d \<and> (\<forall>c. st = Some (Inr c) \<longrightarrow> go_int c)"
  shows "response_ok (fst (execute et environ run req w))"
proof (cases "run (root_command environ req) w")
  case (Pair r w1)
  then show ?thesis
    using assms [of "root_command environ req" w]
    by (cases r) (auto simp: execute_def response_ok_def zero_response_def go_int_def Let_def split: option.splits sum.splits)
qed

text \<open>The identifier wraps around: 2^32 configures root itself.\<close>

lemma root_uid_wraps: "root_start 0 4294967296 e = Inr \<lparr>rcUID = 0, rcExe = e\<rparr>"
  by (simp add: root_start_def)

definition authorised ::
  "(string \<Rightarrow> string res) \<Rightarrow> (string \<Rightarrow> string res) \<Rightarrow> root_config \<Rightarrow> (32 word \<times> int) res \<Rightarrow> bool" where
  "authorised readlink evalSymlinks cfg peer \<longleftrightarrow>
     (\<exists>pid. peer = Inr (rcUID cfg, pid) \<and>
        (rcExe cfg = [] \<or> peerExecutableAllowed readlink evalSymlinks pid (rcExe cfg)))"

lemma exe_allowed:
  "peerExecutableAllowed readlink evalSymlinks pid allowed \<longleftrightarrow>
     (\<exists>actual. readlink (''/proc/'' @ itoa pid @ ''/exe'') = Inr actual \<and>
        resolved evalSymlinks (normalizeProcExe actual) = resolved evalSymlinks allowed)"
  by (cases "readlink (''/proc/'' @ itoa pid @ ''/exe'')") (simp_all add: peerExecutableAllowed_def)

lemma handle_authorised:
  "authorised readlink evalSymlinks cfg peer \<Longrightarrow>
   handle et environ run readlink evalSymlinks cfg peer body w =
     (case decode_root body of
        Inl e \<Rightarrow> (zero_response\<lparr>xpError := et e\<rparr>, w)
      | Inr req \<Rightarrow> execute et environ run req w)"
  by (auto simp: authorised_def handle_def)

lemma handle_refused:
  "\<not> authorised readlink evalSymlinks cfg peer \<Longrightarrow>
   \<exists>msg. msg \<noteq> [] \<and> handle et environ run readlink evalSymlinks cfg peer body w = (zero_response\<lparr>xpError := msg\<rparr>, w)"
  by (auto simp: authorised_def handle_def split: sum.splits)

lemma execute_world: "snd (execute et environ run req w) \<noteq> w \<Longrightarrow>
    xrCommand req \<noteq> [] \<and> snd (run (root_command environ req) w) \<noteq> w"
  by (auto simp: execute_def Let_def split: if_splits prod.splits outcome.splits)

subsection \<open>Properties\<close>

text \<open>
  C18: the root process runs a command only for its configured peer: when a connection changes
  anything, the kernel named exactly the configured user, the peer's executable is the configured
  one (where one is configured), the request decoded with no unknown field, and what ran was its
  non-empty command under the shell of the request.
\<close>

theorem root_runs_only_for_peer:
  assumes "snd (handle et environ run readlink evalSymlinks cfg peer body w) \<noteq> w"
  shows "(\<exists>pid. peer = Inr (rcUID cfg, pid) \<and>
      (rcExe cfg = [] \<or> (\<exists>actual. readlink (''/proc/'' @ itoa pid @ ''/exe'') = Inr actual \<and>
         resolved evalSymlinks (normalizeProcExe actual) = resolved evalSymlinks (rcExe cfg)))) \<and>
    (\<exists>req. decode_root body = Inr req \<and> xrCommand req \<noteq> [] \<and>
       snd (handle et environ run readlink evalSymlinks cfg peer body w) = snd (run (root_command environ req) w))"
proof (cases "authorised readlink evalSymlinks cfg peer")
  case False
  from handle_refused [OF this, of et environ run body w] assms show ?thesis by auto
next
  case True
  note h = handle_authorised [OF True, of et environ run body w]
  obtain req where req: "decode_root body = Inr req"
    using assms unfolding h by (cases "decode_root body") simp_all
  have w: "snd (execute et environ run req w) \<noteq> w" using assms unfolding h by (simp add: req)
  have "snd (execute et environ run req w) = snd (run (root_command environ req) w)"
    using execute_world [OF w] by (auto simp: execute_def Let_def split: prod.splits outcome.splits)
  then have "snd (handle et environ run readlink evalSymlinks cfg peer body w) = snd (run (root_command environ req) w)"
    unfolding h by (simp add: req)
  with req execute_world [OF w] True show ?thesis
    unfolding authorised_def exe_allowed by blast
qed

text \<open>
  C20: a client that talks to the root process it is authorised for gets exactly what executing its
  request gives: the request arrives as it was sent, the error becomes the client's error, and the
  outputs come back with the bytes that are not UTF-8 replaced.
\<close>

theorem broker_end_to_end:
  assumes "authorised readlink evalSymlinks cfg peer" and "request_ok req" and "socket \<noteq> []"
    and "\<And>c w. case fst (run c w) of NotStarted e \<Rightarrow> True
      | Ended outs errs d timedOut st \<Rightarrow> go_int d \<and> (\<forall>c. st = Some (Inr c) \<longrightarrow> go_int c)"
  shows "client_exec None (root_server et environ run readlink evalSymlinks cfg peer) socket req w =
    (let (out, w1) = execute et environ run (req\<lparr>xrEnv := gm_sorted (xrEnv req)\<rparr>) w
     in (if xpError out \<noteq> [] then Inl (Errorf ''privilege broker: %s'' [FStr (json_text (xpError out))])
         else Inr (received out), w1))"
proof -
  obtain out w1 where ex: "execute et environ run (req\<lparr>xrEnv := gm_sorted (xrEnv req)\<rparr>) w = (out, w1)"
    by (rule prod.exhaust)
  have "response_ok out"
    using execute_ok [of run et environ "req\<lparr>xrEnv := gm_sorted (xrEnv req)\<rparr>" w] assms(4) by (simp add: ex)
  then have "decode_response (encode_response out) = Inr (received out)" by (rule decode_encode_response)
  then show ?thesis
    using assms(1,3) decode_root_encode [OF assms(2)]
    by (simp add: client_exec_def root_server_def handle_authorised ex received_def)
qed

subsection \<open>Witnesses\<close>

definition sample_config :: root_config where
  "sample_config = \<lparr>rcUID = 1000, rcExe = ''/usr/bin/agent''\<rparr>"

definition sample_readlink :: "string \<Rightarrow> string res" where
  "sample_readlink p = (if p = ''/proc/7/exe'' then Inr ''/usr/bin/agent (deleted)'' else Inl ErrNotExist)"

definition sample_run :: "command \<Rightarrow> nat \<Rightarrow> outcome \<times> nat" where
  "sample_run c n = (Ended [''out''] [] 3 False (Some (Inr 2)), n + 1)"

definition sample_exec :: exec_request where
  "sample_exec = zero_request\<lparr>xrCommand := ''id'', xrEnv := [(''B'', ''2''), (''A'', ''1'')]\<rparr>"

lemma sample_authorised:
  "authorised sample_readlink (\<lambda>p. Inl ErrNotExist) sample_config (Inr (1000, 7))"
proof -
  have "peerExecutableAllowed sample_readlink (\<lambda>p. Inl ErrNotExist) 7 (rcExe sample_config)" by code_simp
  then show ?thesis by (simp add: authorised_def sample_config_def)
qed

theorem root_runs_only_for_peer_witness:
  "\<exists>req. decode_root (RawDoc (JObj [(''command'', JStr ''id'')])) = Inr req \<and> xrCommand req \<noteq> []"
proof -
  have "decode_root (RawDoc (JObj [(''command'', JStr ''id'')])) = Inr (zero_request\<lparr>xrCommand := ''id''\<rparr>)"
    by code_simp
  then have "snd (handle (\<lambda>e. []) [] sample_run sample_readlink (\<lambda>p. Inl ErrNotExist) sample_config (Inr (1000, 7))
      (RawDoc (JObj [(''command'', JStr ''id'')])) 0) \<noteq> 0"
    by (simp add: handle_authorised [OF sample_authorised] execute_def sample_run_def Let_def)
  from root_runs_only_for_peer [OF this] show ?thesis by blast
qed

theorem broker_end_to_end_witness:
  "fst (client_exec None (root_server (\<lambda>e. []) [] sample_run sample_readlink (\<lambda>p. Inl ErrNotExist) sample_config
      (Inr (1000, 7))) ''s'' sample_exec 0) =
    Inr (zero_response\<lparr>xpExitCode := 2, xpStdout := ''out'', xpDurationMS := 3\<rparr>)"
proof -
  have ok: "request_ok sample_exec"
  proof -
    have "utf8_ok ''id''" "utf8_ok ''A''" "utf8_ok ''B''" "utf8_ok ''1''" "utf8_ok ''2''"
      unfolding utf8_ok_def by code_simp+
    then show ?thesis
      by (simp add: request_ok_def sample_exec_def zero_request_def gm_all_def gm_ok_def go_int_def)
  qed
  have out: "json_text ''out'' = ''out''" by code_simp
  have cap: "captured capWrite_root 2097152 [''out''] = \<lparr>cbBuf = ''out'', cbLimit = 2097152, cbTruncated = False\<rparr>"
    "captured capWrite_root 2097152 [] = \<lparr>cbBuf = [], cbLimit = 2097152, cbTruncated = False\<rparr>"
    by (simp_all add: captured_def cap_new_def capWrite_root_def)
  show ?thesis
    by (subst broker_end_to_end [OF sample_authorised ok])
      (simp_all add: sample_run_def execute_def sample_exec_def zero_request_def root_limit_def cap go_int_def
        received_def zero_response_def out)
qed

end
