(* ===== verification/SessionBridge.thy ===== *)
theory SessionBridge
  imports Exec
begin

section \<open>The desktop session bridge (internal/sessionbridge)\<close>

text \<open>
  A helper started inside the graphical session serves one request per connection of a Unix socket:
  its status, a command run to its end, or a detached command. It serves only the same user running
  the same executable. The client is in the same package.

  \<open>'w host\<close> is the machine the bridge runs on, over a state \<open>'w\<close>. The reader of a message stops at a
  number of bytes: \<open>text_size\<close> is the length of the text of a message.
\<close>

record 'w host =
  hoEnviron :: "string list"
  hoGetenv :: "string \<Rightarrow> string"
  hoUid :: int
  hoPid :: int
  hoSelfExe :: "string res"
  hoReadlink :: "string \<Rightarrow> string res"
  hoEvalSymlinks :: "string \<Rightarrow> string res"
  hoReadFile :: "string \<Rightarrow> string res"
  hoBinSh :: bool
  hoLookSh :: "string res"
  hoMkdir :: "string \<Rightarrow> 'w \<Rightarrow> goerr option \<times> 'w"
  hoOpenLog :: "string \<Rightarrow> 'w \<Rightarrow> goerr option \<times> 'w"
  hoExec :: "command \<Rightarrow> 'w \<Rightarrow> (int \<times> outcome) \<times> 'w"
  hoStart :: "command \<Rightarrow> string \<Rightarrow> 'w \<Rightarrow> (goerr + int \<times> int) \<times> 'w"

subsection \<open>Requests and responses (types.go)\<close>

record bridge_result =
  brExitCode :: int
  brStdout :: string
  brStderr :: string
  brDurationMS :: int
  brTimedOut :: bool
  brTruncated :: bool
  brPID :: int
  brCgroup :: string
  brSession :: string

record spawn_request =
  srCommand :: string
  srCwd :: string
  srEnv :: "string gomap"
  srShell :: string
  srLogFile :: string

record spawn_result =
  spPID :: int
  spPGID :: int
  spCgroup :: string
  spSession :: string

record status =
  stAvailable :: bool
  stPID :: int
  stUID :: int
  stSocket :: string
  stCgroup :: string
  stSession :: string
  stDesktop :: string
  stSessionType :: string
  stWaylandDisplay :: string
  stDisplay :: string
  stEnvironment :: "string gomap"

record request =
  bqAction :: string
  bqExec :: "exec_request option"
  bqSpawn :: "spawn_request option"

record response =
  bpOK :: bool
  bpError :: string
  bpExec :: "bridge_result option"
  bpSpawn :: "spawn_result option"
  bpStatus :: "status option"

definition zero_result :: bridge_result where
  "zero_result = \<lparr>brExitCode = 0, brStdout = [], brStderr = [], brDurationMS = 0, brTimedOut = False,
     brTruncated = False, brPID = 0, brCgroup = [], brSession = []\<rparr>"

definition zero_spawn :: spawn_request where
  "zero_spawn = \<lparr>srCommand = [], srCwd = [], srEnv = [], srShell = [], srLogFile = []\<rparr>"

definition zero_spawned :: spawn_result where
  "zero_spawned = \<lparr>spPID = 0, spPGID = 0, spCgroup = [], spSession = []\<rparr>"

definition zero_status :: status where
  "zero_status = \<lparr>stAvailable = False, stPID = 0, stUID = 0, stSocket = [], stCgroup = [], stSession = [],
     stDesktop = [], stSessionType = [], stWaylandDisplay = [], stDisplay = [], stEnvironment = []\<rparr>"

definition ok_response :: response where
  "ok_response = \<lparr>bpOK = True, bpError = [], bpExec = None, bpSpawn = None, bpStatus = None\<rparr>"

definition fail_response :: "string \<Rightarrow> response" where
  "fail_response msg = ok_response\<lparr>bpOK := False, bpError := msg\<rparr>"

text \<open>A field that points to a struct: \<open>null\<close> clears it, an object is decoded over what it holds.\<close>

fun set_struct :: "('a \<Rightarrow> (string \<times> json) list \<Rightarrow> 'a \<times> bool) \<Rightarrow> 'a \<Rightarrow> json \<Rightarrow> 'a option \<Rightarrow> 'a option option" where
  "set_struct dec zero (JObj ms) old =
     (case dec (case old of None \<Rightarrow> zero | Some r \<Rightarrow> r) ms of (r, bad) \<Rightarrow> if bad then None else Some (Some r))"
| "set_struct dec zero JNull old = Some None"
| "set_struct dec zero _ old = None"

definition encode_spawn :: "spawn_request \<Rightarrow> (string \<times> json) list" where
  "encode_spawn r = [(''command'', JStr (json_text (srCommand r)))] @ omit_str ''cwd'' (srCwd r) @
     omit_map ''env'' (srEnv r) @ omit_str ''shell'' (srShell r) @ [(''log_file'', JStr (json_text (srLogFile r)))]"

definition decode_spawn :: "spawn_request \<Rightarrow> (string \<times> json) list \<Rightarrow> spawn_request \<times> bool" where
  "decode_spawn r0 ms =
     (let (c, e1) = dec_field set_str (srCommand r0) ''command'' ms;
          (w, e2) = dec_field set_str (srCwd r0) ''cwd'' ms;
          (env, e3) = dec_field set_strmap (srEnv r0) ''env'' ms;
          (sh, e4) = dec_field set_str (srShell r0) ''shell'' ms;
          (l, e5) = dec_field set_str (srLogFile r0) ''log_file'' ms
      in (\<lparr>srCommand = c, srCwd = w, srEnv = env, srShell = sh, srLogFile = l\<rparr>, e1 \<or> e2 \<or> e3 \<or> e4 \<or> e5))"

definition encode_request :: "request \<Rightarrow> json" where
  "encode_request q = JObj ([(''action'', JStr (json_text (bqAction q)))] @
     (case bqExec q of None \<Rightarrow> [] | Some r \<Rightarrow> [(''exec'', JObj (encode_exec r))]) @
     (case bqSpawn q of None \<Rightarrow> [] | Some r \<Rightarrow> [(''spawn'', JObj (encode_spawn r))]))"

definition decode_bridge_request :: "raw \<Rightarrow> request res" where
  "decode_bridge_request body =
     (case stream_members body of
        Inl e \<Rightarrow> Inl e
      | Inr ms \<Rightarrow>
          let (a, e1) = dec_field set_str [] ''action'' ms;
              (x, e2) = dec_field (set_struct decode_exec zero_request) None ''exec'' ms;
              (s, e3) = dec_field (set_struct decode_spawn zero_spawn) None ''spawn'' ms
          in if e1 \<or> e2 \<or> e3 then Inl json_err else Inr \<lparr>bqAction = a, bqExec = x, bqSpawn = s\<rparr>)"

definition encode_result :: "bridge_result \<Rightarrow> (string \<times> json) list" where
  "encode_result r = [(''exit_code'', JNum (JInt (brExitCode r))), (''stdout'', JStr (json_text (brStdout r))),
      (''stderr'', JStr (json_text (brStderr r))), (''duration_ms'', JNum (JInt (brDurationMS r))),
      (''timed_out'', JBool (brTimedOut r)), (''truncated'', JBool (brTruncated r))] @
     omit_int ''pid'' (brPID r) @ omit_str ''cgroup'' (brCgroup r) @ omit_str ''session'' (brSession r)"

definition decode_result :: "bridge_result \<Rightarrow> (string \<times> json) list \<Rightarrow> bridge_result \<times> bool" where
  "decode_result r0 ms =
     (let (c, e1) = dec_field set_int (brExitCode r0) ''exit_code'' ms;
          (so, e2) = dec_field set_str (brStdout r0) ''stdout'' ms;
          (se, e3) = dec_field set_str (brStderr r0) ''stderr'' ms;
          (d, e4) = dec_field set_int (brDurationMS r0) ''duration_ms'' ms;
          (to, e5) = dec_field set_bool (brTimedOut r0) ''timed_out'' ms;
          (tr, e6) = dec_field set_bool (brTruncated r0) ''truncated'' ms;
          (p, e7) = dec_field set_int (brPID r0) ''pid'' ms;
          (cg, e8) = dec_field set_str (brCgroup r0) ''cgroup'' ms;
          (s, e9) = dec_field set_str (brSession r0) ''session'' ms
      in (\<lparr>brExitCode = c, brStdout = so, brStderr = se, brDurationMS = d, brTimedOut = to, brTruncated = tr,
           brPID = p, brCgroup = cg, brSession = s\<rparr>, e1 \<or> e2 \<or> e3 \<or> e4 \<or> e5 \<or> e6 \<or> e7 \<or> e8 \<or> e9))"

definition encode_spawned :: "spawn_result \<Rightarrow> (string \<times> json) list" where
  "encode_spawned r = [(''pid'', JNum (JInt (spPID r)))] @ omit_int ''pgid'' (spPGID r) @
     omit_str ''cgroup'' (spCgroup r) @ omit_str ''session'' (spSession r)"

definition decode_spawned :: "spawn_result \<Rightarrow> (string \<times> json) list \<Rightarrow> spawn_result \<times> bool" where
  "decode_spawned r0 ms =
     (let (p, e1) = dec_field set_int (spPID r0) ''pid'' ms;
          (g, e2) = dec_field set_int (spPGID r0) ''pgid'' ms;
          (cg, e3) = dec_field set_str (spCgroup r0) ''cgroup'' ms;
          (s, e4) = dec_field set_str (spSession r0) ''session'' ms
      in (\<lparr>spPID = p, spPGID = g, spCgroup = cg, spSession = s\<rparr>, e1 \<or> e2 \<or> e3 \<or> e4))"

definition encode_status :: "status \<Rightarrow> (string \<times> json) list" where
  "encode_status s = [(''available'', JBool (stAvailable s))] @ omit_int ''pid'' (stPID s) @
     omit_int ''uid'' (stUID s) @ omit_str ''socket'' (stSocket s) @ omit_str ''cgroup'' (stCgroup s) @
     omit_str ''session'' (stSession s) @ omit_str ''desktop'' (stDesktop s) @
     omit_str ''session_type'' (stSessionType s) @ omit_str ''wayland_display'' (stWaylandDisplay s) @
     omit_str ''display'' (stDisplay s) @ omit_map ''environment'' (stEnvironment s)"

definition decode_status :: "status \<Rightarrow> (string \<times> json) list \<Rightarrow> status \<times> bool" where
  "decode_status s0 ms =
     (let (a, e1) = dec_field set_bool (stAvailable s0) ''available'' ms;
          (p, e2) = dec_field set_int (stPID s0) ''pid'' ms;
          (u, e3) = dec_field set_int (stUID s0) ''uid'' ms;
          (so, e4) = dec_field set_str (stSocket s0) ''socket'' ms;
          (cg, e5) = dec_field set_str (stCgroup s0) ''cgroup'' ms;
          (se, e6) = dec_field set_str (stSession s0) ''session'' ms;
          (d, e7) = dec_field set_str (stDesktop s0) ''desktop'' ms;
          (ty, e8) = dec_field set_str (stSessionType s0) ''session_type'' ms;
          (wd, e9) = dec_field set_str (stWaylandDisplay s0) ''wayland_display'' ms;
          (di, e10) = dec_field set_str (stDisplay s0) ''display'' ms;
          (env, e11) = dec_field set_strmap (stEnvironment s0) ''environment'' ms
      in (\<lparr>stAvailable = a, stPID = p, stUID = u, stSocket = so, stCgroup = cg, stSession = se, stDesktop = d,
           stSessionType = ty, stWaylandDisplay = wd, stDisplay = di, stEnvironment = env\<rparr>,
          e1 \<or> e2 \<or> e3 \<or> e4 \<or> e5 \<or> e6 \<or> e7 \<or> e8 \<or> e9 \<or> e10 \<or> e11))"

definition encode_bridge_response :: "response \<Rightarrow> json" where
  "encode_bridge_response p = JObj ([(''ok'', JBool (bpOK p))] @ omit_str ''error'' (bpError p) @
     (case bpExec p of None \<Rightarrow> [] | Some r \<Rightarrow> [(''exec'', JObj (encode_result r))]) @
     (case bpSpawn p of None \<Rightarrow> [] | Some r \<Rightarrow> [(''spawn'', JObj (encode_spawned r))]) @
     (case bpStatus p of None \<Rightarrow> [] | Some r \<Rightarrow> [(''status'', JObj (encode_status r))]))"

definition decode_bridge_response :: "raw \<Rightarrow> response res" where
  "decode_bridge_response reply =
     (case stream_members reply of
        Inl e \<Rightarrow> Inl e
      | Inr ms \<Rightarrow>
          let (ok, e1) = dec_field set_bool False ''ok'' ms;
              (er, e2) = dec_field set_str [] ''error'' ms;
              (x, e3) = dec_field (set_struct decode_result zero_result) None ''exec'' ms;
              (s, e4) = dec_field (set_struct decode_spawned zero_spawned) None ''spawn'' ms;
              (st, e5) = dec_field (set_struct decode_status zero_status) None ''status'' ms
          in if e1 \<or> e2 \<or> e3 \<or> e4 \<or> e5 then Inl json_err
             else Inr \<lparr>bpOK = ok, bpError = er, bpExec = x, bpSpawn = s, bpStatus = st\<rparr>)"

text \<open>What a reader that stops after \<open>n\<close> bytes delivers of a message.\<close>

definition limited :: "(json \<Rightarrow> nat) \<Rightarrow> nat \<Rightarrow> json \<Rightarrow> raw" where
  "limited text_size n doc = (if text_size doc \<le> n then RawDoc doc else RawBad [])"

subsection \<open>The session and the environment\<close>

definition mergeEnv_bridge :: "string list \<Rightarrow> string gomap \<Rightarrow> string list" where
  "mergeEnv_bridge environ extra =
     env_list (fold (\<lambda>(k, v). gm_put k v) extra
       (fold (\<lambda>e m. case index_byte e (CHR ''='') of
                 Some i \<Rightarrow> if 0 < i then gm_put (take i e) (drop (i + 1) e) m else m
               | None \<Rightarrow> m) environ []))"

definition defaultShell :: "'w host \<Rightarrow> string" where
  "defaultShell h =
     (if trim_space (hoGetenv h ''SHELL'') \<noteq> [] then trim_space (hoGetenv h ''SHELL'')
      else if hoBinSh h then ''/bin/sh''
      else (case hoLookSh h of Inr p \<Rightarrow> p | Inl e \<Rightarrow> ''sh''))"

text \<open>The third part of a line split at two colons.\<close>

definition cgroup_path :: "string \<Rightarrow> string" where
  "cgroup_path line = (case split_on (CHR '':'') line of a # b # c # cs \<Rightarrow> GoStrings.join '':'' (c # cs) | _ \<Rightarrow> [])"

definition processCgroup :: "'w host \<Rightarrow> int \<Rightarrow> string" where
  "processCgroup h pid =
     (case hoReadFile h (''/proc/'' @ itoa pid @ ''/cgroup'') of
        Inl e \<Rightarrow> []
      | Inr text' \<Rightarrow>
          (case find (\<lambda>p. p \<noteq> []) (map cgroup_path (split_on (CHR 0x0A) (trim_space text'))) of
             Some p \<Rightarrow> p
           | None \<Rightarrow> []))"

definition sessionFromCgroup :: "string \<Rightarrow> string" where
  "sessionFromCgroup cgroup =
     (case find (\<lambda>p. has_prefix p ''session-'' \<and> has_suffix p ''.scope'') (split_on (CHR ''/'') cgroup) of
        Some p \<Rightarrow> trim_suffix (trim_prefix p ''session-'') ''.scope''
      | None \<Rightarrow> [])"

definition firstNonEmpty :: "string list \<Rightarrow> string" where
  "firstNonEmpty vs = (case find (\<lambda>v. trim_space v \<noteq> []) vs of Some v \<Rightarrow> v | None \<Rightarrow> [])"

definition bridgeStatus :: "'w host \<Rightarrow> string \<Rightarrow> status" where
  "bridgeStatus h socket =
     (let cg = processCgroup h (hoPid h)
      in \<lparr>stAvailable = True, stPID = hoPid h, stUID = hoUid h, stSocket = socket, stCgroup = cg,
          stSession = sessionFromCgroup cg,
          stDesktop = firstNonEmpty [hoGetenv h ''XDG_CURRENT_DESKTOP'', hoGetenv h ''XDG_SESSION_DESKTOP'',
            hoGetenv h ''DESKTOP_SESSION''],
          stSessionType = hoGetenv h ''XDG_SESSION_TYPE'', stWaylandDisplay = hoGetenv h ''WAYLAND_DISPLAY'',
          stDisplay = hoGetenv h ''DISPLAY'',
          stEnvironment = [(''XDG_RUNTIME_DIR'', hoGetenv h ''XDG_RUNTIME_DIR''),
            (''DBUS_SESSION_BUS_ADDRESS'', hoGetenv h ''DBUS_SESSION_BUS_ADDRESS'')]\<rparr>)"

subsection \<open>Running a command in the session\<close>

definition bridge_limit :: "int \<Rightarrow> int" where
  "bridge_limit n = (if n \<le> 0 \<or> 10 * 1048576 < n then 2 * 1048576 else n)"

definition bridge_shell :: "'w host \<Rightarrow> string \<Rightarrow> string" where
  "bridge_shell h shell = (if trim_space shell = [] then defaultShell h else trim_space shell)"

definition bridge_command :: "'w host \<Rightarrow> exec_request \<Rightarrow> command" where
  "bridge_command h r =
     \<lparr>cmArgv = [bridge_shell h (xrShell r), ''-lc'', xrCommand r], cmDir = xrCwd r,
      cmEnv = mergeEnv_bridge (hoEnviron h) (xrEnv r), cmStdin = xrStdin r,
      cmTimeout = (if 0 < xrTimeoutSeconds r then seconds (xrTimeoutSeconds r) else 120 * 1000000000)\<rparr>"

definition runExec :: "'w host \<Rightarrow> exec_request \<Rightarrow> 'w \<Rightarrow> bridge_result res \<times> 'w" where
  "runExec h r w =
     (if trim_space (xrCommand r) = [] then (Inl (err_new ''command is required''), w)
      else case hoExec h (bridge_command h r) w of
        ((pid, NotStarted e), w1) \<Rightarrow> (Inl e, w1)
      | ((pid, Ended outs errs d timedOut st), w1) \<Rightarrow>
          let o' = captured capWrite_bridge (bridge_limit (xrMaxOutputBytes r)) outs;
              e' = captured capWrite_bridge (bridge_limit (xrMaxOutputBytes r)) errs;
              cg = processCgroup h pid;
              res = \<lparr>brExitCode = 0, brStdout = cbBuf o', brStderr = cbBuf e', brDurationMS = d,
                     brTimedOut = timedOut, brTruncated = (cbTruncated o' \<or> cbTruncated e'), brPID = pid,
                     brCgroup = cg, brSession = sessionFromCgroup cg\<rparr>
          in ((if timedOut then Inr (res\<lparr>brExitCode := -1\<rparr>)
               else (case st of
                       None \<Rightarrow> Inr res
                     | Some (Inr c) \<Rightarrow> Inr (res\<lparr>brExitCode := c\<rparr>)
                     | Some (Inl e) \<Rightarrow> Inl e)), w1))"

text \<open>A detached command has no time limit and writes to its log file; it leads its own session.\<close>

definition spawn_command :: "'w host \<Rightarrow> spawn_request \<Rightarrow> command" where
  "spawn_command h r =
     \<lparr>cmArgv = [bridge_shell h (srShell r), ''-lc'', srCommand r], cmDir = srCwd r,
      cmEnv = mergeEnv_bridge (hoEnviron h) (srEnv r), cmStdin = [], cmTimeout = 0\<rparr>"

definition runSpawn :: "'w host \<Rightarrow> spawn_request \<Rightarrow> 'w \<Rightarrow> spawn_result res \<times> 'w" where
  "runSpawn h r w =
     (if trim_space (srCommand r) = [] then (Inl (err_new ''command is required''), w)
      else if trim_space (srLogFile r) = [] then (Inl (err_new ''log_file is required''), w)
      else case hoMkdir h (path_dir (srLogFile r)) w of
        (Some e, w1) \<Rightarrow> (Inl e, w1)
      | (None, w1) \<Rightarrow>
          (case hoOpenLog h (srLogFile r) w1 of
             (Some e, w2) \<Rightarrow> (Inl e, w2)
           | (None, w2) \<Rightarrow>
               (case hoStart h (spawn_command h r) (srLogFile r) w2 of
                  (Inl e, w3) \<Rightarrow> (Inl e, w3)
                | (Inr (pid, pgid), w3) \<Rightarrow>
                    (Inr \<lparr>spPID = pid, spPGID = pgid, spCgroup = processCgroup h pid,
                          spSession = sessionFromCgroup (processCgroup h pid)\<rparr>, w3))))"

subsection \<open>A connection\<close>

definition resolvedExecutablePath :: "'w host \<Rightarrow> string \<Rightarrow> string" where
  "resolvedExecutablePath h path =
     (let p = trim_suffix path '' (deleted)''
      in (case hoEvalSymlinks h p of Inr r \<Rightarrow> r | Inl e \<Rightarrow> clean p))"

text \<open>\<open>cred\<close> is the user and the process of the peer, where the kernel names them.\<close>

definition peerIsAuthorized :: "'w host \<Rightarrow> (int \<times> int) option \<Rightarrow> bool" where
  "peerIsAuthorized h cred =
     (case cred of
        None \<Rightarrow> False
      | Some (uid, pid) \<Rightarrow>
          if uid \<noteq> hoUid h then False
          else (case hoReadlink h (''/proc/'' @ itoa pid @ ''/exe'') of
                  Inl e \<Rightarrow> False
                | Inr peerExe \<Rightarrow>
                    (case hoSelfExe h of
                       Inl e \<Rightarrow> False
                     | Inr selfExe \<Rightarrow>
                         resolvedExecutablePath h peerExe \<noteq> [] \<and>
                         resolvedExecutablePath h peerExe = resolvedExecutablePath h selfExe)))"

definition serve_request :: "(goerr \<Rightarrow> string) \<Rightarrow> 'w host \<Rightarrow> string \<Rightarrow> request \<Rightarrow> 'w \<Rightarrow> response \<times> 'w" where
  "serve_request et h socket q w =
     (if bqAction q = ''status'' then (ok_response\<lparr>bpStatus := Some (bridgeStatus h socket)\<rparr>, w)
      else if bqAction q = ''exec'' then
        (case bqExec q of
           None \<Rightarrow> (fail_response ''exec request is required'', w)
         | Some r \<Rightarrow>
             (case runExec h r w of
                (Inl e, w1) \<Rightarrow> (fail_response (et e), w1)
              | (Inr out, w1) \<Rightarrow> (ok_response\<lparr>bpExec := Some out\<rparr>, w1)))
      else if bqAction q = ''spawn'' then
        (case bqSpawn q of
           None \<Rightarrow> (fail_response ''spawn request is required'', w)
         | Some r \<Rightarrow>
             (case runSpawn h r w of
                (Inl e, w1) \<Rightarrow> (fail_response (et e), w1)
              | (Inr out, w1) \<Rightarrow> (ok_response\<lparr>bpSpawn := Some out\<rparr>, w1)))
      else (fail_response (et (Errorf ''unsupported session bridge action %q'' [FStr (bqAction q)])), w))"

definition handleConnection ::
  "(goerr \<Rightarrow> string) \<Rightarrow> 'w host \<Rightarrow> string \<Rightarrow> (int \<times> int) option \<Rightarrow> raw \<Rightarrow> 'w \<Rightarrow> response \<times> 'w" where
  "handleConnection et h socket cred body w =
     (if \<not> peerIsAuthorized h cred then (fail_response ''desktop session bridge rejected peer identity'', w)
      else case decode_bridge_request body of
        Inl e \<Rightarrow> (fail_response (''decode request: '' @ et e), w)
      | Inr q \<Rightarrow> serve_request et h socket q w)"

subsection \<open>Starting\<close>

text \<open>\<open>lstat\<close> says whether the path is a socket; \<open>dialErr\<close> and \<open>removeErr\<close> are the outcomes of
  connecting to it and of removing it.\<close>

definition removeStaleSocket :: "bool res \<Rightarrow> goerr option \<Rightarrow> goerr option \<Rightarrow> string \<Rightarrow> goerr option" where
  "removeStaleSocket lstat dialErr removeErr path =
     (case lstat of
        Inl e \<Rightarrow> if e = ErrNotExist then None else Some e
      | Inr isSocket \<Rightarrow>
          if \<not> isSocket then Some (Errorf ''refusing to replace non-socket session bridge path %s'' [FStr path])
          else if is_nil dialErr then Some (Errorf ''desktop session bridge already running at %s'' [FStr path])
          else (case removeErr of
                  Some e \<Rightarrow> Some (Errorf ''remove stale desktop session bridge socket: %w'' [FErr e])
                | None \<Rightarrow> None))"

definition DefaultSocketPath :: "'w host \<Rightarrow> string" where
  "DefaultSocketPath h =
     (if trim_space (hoGetenv h ''CYCOM_SESSION_SOCKET'') \<noteq> []
      then trim_space (hoGetenv h ''CYCOM_SESSION_SOCKET'')
      else if trim_space (hoGetenv h ''XDG_RUNTIME_DIR'') \<noteq> []
      then path_join [trim_space (hoGetenv h ''XDG_RUNTIME_DIR''), ''cycomagent-session.sock'']
      else path_join [''/run/user'', itoa (hoUid h), ''cycomagent-session.sock''])"

definition socketPath :: "'w host \<Rightarrow> string \<Rightarrow> string" where
  "socketPath h socket = (if trim_space socket \<noteq> [] then socket else DefaultSocketPath h)"

text \<open>The check of \<open>Run\<close> before anything is created.\<close>

definition bridge_refuses :: "'w host \<Rightarrow> goerr option" where
  "bridge_refuses h =
     (let cg = processCgroup h (hoPid h)
      in if sessionFromCgroup cg = [] \<and> hoGetenv h ''CYCOM_SESSION_BRIDGE_ALLOW_NONLOGIN'' \<noteq> ''1''
         then Some (Errorf ''desktop session bridge must be launched by a real graphical login session; current cgroup %q has no session-*.scope (use compositor/session autostart, not the CyComAgent or systemd user service)'' [FStr cg])
         else None)"

subsection \<open>The client\<close>

text \<open>\<open>server\<close> is the other end: its answer to a message, \<open>Inl\<close> when writing failed.\<close>

definition bridge_call ::
  "'w host \<Rightarrow> goerr option \<Rightarrow> (json \<Rightarrow> 'w \<Rightarrow> raw res \<times> 'w) \<Rightarrow> string \<Rightarrow> request \<Rightarrow> 'w \<Rightarrow> response res \<times> 'w" where
  "bridge_call h dial server socket q w =
     (case dial of
        Some e \<Rightarrow> (Inl (Errorf ''desktop session bridge unavailable at %s: %w'' [FStr (socketPath h socket), FErr e]), w)
      | None \<Rightarrow>
          (case server (encode_request q) w of
             (Inl e, w1) \<Rightarrow> (Inl (Errorf ''write desktop session bridge request: %w'' [FErr e]), w1)
           | (Inr reply, w1) \<Rightarrow>
               (case decode_bridge_response reply of
                  Inl e \<Rightarrow> (Inl (Errorf ''read desktop session bridge response: %w'' [FErr e]), w1)
                | Inr out \<Rightarrow>
                    if \<not> bpOK out
                    then (Inl (err_new (if bpError out = [] then ''desktop session bridge request failed'' else bpError out)), w1)
                    else (Inr out, w1))))"

definition session_exec ::
  "'w host \<Rightarrow> goerr option \<Rightarrow> (json \<Rightarrow> 'w \<Rightarrow> raw res \<times> 'w) \<Rightarrow> string \<Rightarrow> exec_request \<Rightarrow> 'w \<Rightarrow> bridge_result res \<times> 'w" where
  "session_exec h dial server socket r w =
     (case bridge_call h dial server socket \<lparr>bqAction = ''exec'', bqExec = Some r, bqSpawn = None\<rparr> w of
        (Inl e, w1) \<Rightarrow> (Inl e, w1)
      | (Inr out, w1) \<Rightarrow>
          (case bpExec out of
             None \<Rightarrow> (Inl (err_new ''session bridge returned no exec result''), w1)
           | Some x \<Rightarrow> (Inr x, w1)))"

definition session_spawn ::
  "'w host \<Rightarrow> goerr option \<Rightarrow> (json \<Rightarrow> 'w \<Rightarrow> raw res \<times> 'w) \<Rightarrow> string \<Rightarrow> spawn_request \<Rightarrow> 'w \<Rightarrow> spawn_result res \<times> 'w" where
  "session_spawn h dial server socket r w =
     (case bridge_call h dial server socket \<lparr>bqAction = ''spawn'', bqExec = None, bqSpawn = Some r\<rparr> w of
        (Inl e, w1) \<Rightarrow> (Inl e, w1)
      | (Inr out, w1) \<Rightarrow>
          (case bpSpawn out of
             None \<Rightarrow> (Inl (err_new ''session bridge returned no spawn result''), w1)
           | Some x \<Rightarrow> (Inr x, w1)))"

text \<open>The status, with the error where there is one.\<close>

definition session_status ::
  "'w host \<Rightarrow> goerr option \<Rightarrow> (json \<Rightarrow> 'w \<Rightarrow> raw res \<times> 'w) \<Rightarrow> string \<Rightarrow> 'w \<Rightarrow> (status \<times> goerr option) \<times> 'w" where
  "session_status h dial server socket w =
     (case bridge_call h dial server socket \<lparr>bqAction = ''status'', bqExec = None, bqSpawn = None\<rparr> w of
        (Inl e, w1) \<Rightarrow> ((zero_status\<lparr>stSocket := socketPath h socket\<rparr>, Some e), w1)
      | (Inr out, w1) \<Rightarrow>
          (case bpStatus out of
             None \<Rightarrow> ((zero_status\<lparr>stSocket := socketPath h socket\<rparr>, Some (err_new ''session bridge returned no status'')), w1)
           | Some s \<Rightarrow> ((s\<lparr>stAvailable := True\<rparr>, None), w1)))"

definition session_available ::
  "'w host \<Rightarrow> goerr option \<Rightarrow> (json \<Rightarrow> 'w \<Rightarrow> raw res \<times> 'w) \<Rightarrow> string \<Rightarrow> 'w \<Rightarrow> bool \<times> 'w" where
  "session_available h dial server socket w =
     (case session_status h dial server socket w of ((s, err), w1) \<Rightarrow> (is_nil err, w1))"

subsection \<open>Lemmas\<close>

lemma env_prefix_index:
  assumes "env_key k"
  shows "has_prefix e (k @ ''='') \<longleftrightarrow> index_byte e (CHR ''='') = Some (length k) \<and> take (length k) e = k"
proof
  assume "has_prefix e (k @ ''='')"
  then obtain t where "e = k @ CHR ''='' # t" by (auto simp: has_prefix_iff)
  then show "index_byte e (CHR ''='') = Some (length k) \<and> take (length k) e = k"
    using assms index_byte_append [of "CHR ''=''" k t] by (simp add: env_key_def)
next
  assume i: "index_byte e (CHR ''='') = Some (length k) \<and> take (length k) e = k"
  then have "e ! length k = CHR ''=''" "length k < length e" by (auto dest: index_byte_Some)
  then have "e = k @ CHR ''='' # drop (Suc (length k)) e"
    using i by (metis append_take_drop_id Cons_nth_drop_Suc)
  then show "has_prefix e (k @ ''='')" by (auto simp: has_prefix_iff)
qed

abbreviation add_entry :: "string \<Rightarrow> string gomap \<Rightarrow> string gomap" where
  "add_entry e m \<equiv> (case index_byte e (CHR ''='') of
     Some i \<Rightarrow> if 0 < i then gm_put (take i e) (drop (i + 1) e) m else m
   | None \<Rightarrow> m)"

lemma add_entry_get:
  assumes "env_key k"
  shows "gm_get (add_entry e m) k = (if has_prefix e (k @ ''='') then Some (drop (length k + 1) e) else gm_get m k)"
proof (cases "index_byte e (CHR ''='')")
  case None
  then show ?thesis by (simp add: env_prefix_index [OF assms])
next
  case (Some i)
  then have "i < length e" by (auto dest: index_byte_Some)
  then have "length (take i e) = i" by simp
  then show ?thesis
    using Some assms by (auto simp: env_prefix_index [OF assms] env_key_def)
qed

lemma add_entry_keys: "env_keys m \<Longrightarrow> env_keys (add_entry e m)"
  by (auto split: option.split intro!: gm_all_put simp: env_key_def dest: index_byte_Some)

lemma add_entries:
  assumes "env_keys m"
  shows "env_keys (fold add_entry es m)"
    and "env_key k \<Longrightarrow> gm_get (fold add_entry es m) k =
      (case env_value es k of Some v \<Rightarrow> Some v | None \<Rightarrow> gm_get m k)"
proof -
  show "env_keys (fold add_entry es m)"
    using assms by (induction es arbitrary: m) (simp_all add: add_entry_keys)
  assume k: "env_key k"
  show "gm_get (fold add_entry es m) k = (case env_value es k of Some v \<Rightarrow> Some v | None \<Rightarrow> gm_get m k)"
  proof (induction es arbitrary: m)
    case (Cons e es)
    show ?case
      by (simp only: fold_simps Cons.IH add_entry_get [OF k] env_value.simps) (simp split: option.split)
  qed simp
qed

lemma put_entries:
  assumes "env_keys extra" and "env_keys m"
  shows "env_keys (fold (\<lambda>(k, v). gm_put k v) extra m)"
    and "gm_get (fold (\<lambda>(k, v). gm_put k v) extra m) k =
      (case gm_get extra k of Some v \<Rightarrow> Some v | None \<Rightarrow> gm_get m k)"
proof -
  have keys: "\<forall>kv \<in> set extra. env_key (fst kv)" using assms(1) by (auto simp: gm_all_def)
  then show "env_keys (fold (\<lambda>(k, v). gm_put k v) extra m)"
    using assms(2) by (induction extra arbitrary: m) (auto simp: gm_all_put)
  have "map_of (rev extra) k = gm_get extra k"
    using assms(1) by (simp add: map_of_rev_gm gm_all_get)
  then show "gm_get (fold (\<lambda>(k, v). gm_put k v) extra m) k =
      (case gm_get extra k of Some v \<Rightarrow> Some v | None \<Rightarrow> gm_get m k)"
    by (simp add: gm_get_fold_put)
qed

interpretation env_bridge: env_merger mergeEnv_bridge
proof
  fix extra :: "string gomap" and k environ
  assume e: "env_keys extra" and k: "env_key k"
  let ?m = "fold add_entry environ []"
  have m: "env_keys ?m" by (rule add_entries(1)) simp
  have "env_value (mergeEnv_bridge environ extra) k = gm_get (fold (\<lambda>(k, v). gm_put k v) extra ?m) k"
    unfolding mergeEnv_bridge_def by (rule env_value_list [OF put_entries(1) [OF e m] k])
  also have "\<dots> = (case gm_get extra k of Some v \<Rightarrow> Some v | None \<Rightarrow> gm_get ?m k)"
    by (rule put_entries(2) [OF e m])
  also have "gm_get ?m k = env_value environ k"
    using add_entries(2) [of "[]" k environ] k by (simp split: option.split)
  finally show "env_value (mergeEnv_bridge environ extra) k =
      (case gm_get extra k of Some v \<Rightarrow> Some v | None \<Rightarrow> env_value environ k)" .
qed

text \<open>The members of the messages, whose names never fold together.\<close>

definition bridge_fields :: "string list" where
  "bridge_fields = [''action'', ''exec'', ''spawn'', ''ok'', ''error'', ''status'', ''exit_code'', ''stdout'', ''stderr'',
     ''duration_ms'', ''timed_out'', ''truncated'', ''pid'', ''cgroup'', ''session'', ''pgid'', ''command'', ''cwd'', ''env'',
     ''shell'', ''log_file'']"

lemma bridge_keys: "f \<in> set bridge_fields \<Longrightarrow> g \<in> set bridge_fields \<Longrightarrow> key_matches f g = (f = g)"
proof (rule key_matches_fields)
  show "distinct (map fold_name bridge_fields)" by code_simp
qed

lemma bridge_fields_mem:
  "''action'' \<in> set bridge_fields" "''exec'' \<in> set bridge_fields" "''spawn'' \<in> set bridge_fields"
  "''ok'' \<in> set bridge_fields" "''error'' \<in> set bridge_fields" "''status'' \<in> set bridge_fields"
  "''exit_code'' \<in> set bridge_fields" "''stdout'' \<in> set bridge_fields" "''stderr'' \<in> set bridge_fields"
  "''duration_ms'' \<in> set bridge_fields" "''timed_out'' \<in> set bridge_fields" "''truncated'' \<in> set bridge_fields"
  "''pid'' \<in> set bridge_fields" "''cgroup'' \<in> set bridge_fields" "''session'' \<in> set bridge_fields"
  "''pgid'' \<in> set bridge_fields" "''command'' \<in> set bridge_fields" "''cwd'' \<in> set bridge_fields"
  "''env'' \<in> set bridge_fields" "''shell'' \<in> set bridge_fields" "''log_file'' \<in> set bridge_fields"
  by (simp_all add: bridge_fields_def)

lemmas decode_simps = Let_def dec_field_def field_values_append field_values_Cons field_omit bridge_keys bridge_fields_mem

definition result_ok :: "bridge_result \<Rightarrow> bool" where
  "result_ok r \<longleftrightarrow> go_int (brExitCode r) \<and> go_int (brDurationMS r) \<and> go_int (brPID r)"

definition spawned_ok :: "spawn_result \<Rightarrow> bool" where
  "spawned_ok r \<longleftrightarrow> go_int (spPID r) \<and> go_int (spPGID r)"

definition spawn_ok :: "spawn_request \<Rightarrow> bool" where
  "spawn_ok r \<longleftrightarrow> utf8_ok (srCommand r) \<and> utf8_ok (srCwd r) \<and> utf8_ok (srShell r) \<and> utf8_ok (srLogFile r) \<and>
     gm_all (\<lambda>k v. utf8_ok k \<and> utf8_ok v) (srEnv r)"

text \<open>What the client reads: bytes that are not UTF-8 have been replaced.\<close>

definition received_result :: "bridge_result \<Rightarrow> bridge_result" where
  "received_result r = r\<lparr>brStdout := json_text (brStdout r), brStderr := json_text (brStderr r),
     brCgroup := json_text (brCgroup r), brSession := json_text (brSession r)\<rparr>"

definition received_spawned :: "spawn_result \<Rightarrow> spawn_result" where
  "received_spawned r = r\<lparr>spCgroup := json_text (spCgroup r), spSession := json_text (spSession r)\<rparr>"

lemma decode_encode_result:
  "result_ok r \<Longrightarrow> decode_result zero_result (encode_result r) = (received_result r, False)"
  by (simp add: decode_result_def encode_result_def zero_result_def received_result_def decode_simps result_ok_def go_int_def)

lemma decode_encode_spawned:
  "spawned_ok r \<Longrightarrow> decode_spawned zero_spawned (encode_spawned r) = (received_spawned r, False)"
  by (simp add: decode_spawned_def encode_spawned_def zero_spawned_def received_spawned_def decode_simps spawned_ok_def go_int_def)

lemma decode_encode_spawn:
  assumes "spawn_ok r"
  shows "decode_spawn zero_spawn (encode_spawn r) = (r\<lparr>srEnv := gm_sorted (srEnv r)\<rparr>, False)"
proof -
  have env: "set_strmap (strmap_json (srEnv r)) [] = Some (gm_sorted (srEnv r))"
    using assms by (intro strmap_json_back) (simp add: spawn_ok_def)
  show ?thesis
    using assms env
    by (simp add: decode_spawn_def encode_spawn_def zero_spawn_def decode_simps spawn_ok_def utf8_ok_def del: set_strmap.simps)
qed

lemma action_text: "json_text ''exec'' = ''exec''" "json_text ''spawn'' = ''spawn''" "json_text ''status'' = ''status''"
  by code_simp+

lemma decode_encode_request_exec:
  assumes "request_ok r"
  shows "decode_bridge_request (RawDoc (encode_request \<lparr>bqAction = ''exec'', bqExec = Some r, bqSpawn = None\<rparr>)) =
    Inr \<lparr>bqAction = ''exec'', bqExec = Some (r\<lparr>xrEnv := gm_sorted (xrEnv r)\<rparr>), bqSpawn = None\<rparr>"
  using encode_decode_exec [OF assms]
  by (simp add: decode_bridge_request_def encode_request_def decode_simps action_text)

lemma decode_encode_request_spawn:
  assumes "spawn_ok r"
  shows "decode_bridge_request (RawDoc (encode_request \<lparr>bqAction = ''spawn'', bqExec = None, bqSpawn = Some r\<rparr>)) =
    Inr \<lparr>bqAction = ''spawn'', bqExec = None, bqSpawn = Some (r\<lparr>srEnv := gm_sorted (srEnv r)\<rparr>)\<rparr>"
  using decode_encode_spawn [OF assms]
  by (simp add: decode_bridge_request_def encode_request_def decode_simps action_text)

lemma decode_response_exec:
  "result_ok x \<Longrightarrow> decode_bridge_response (RawDoc (encode_bridge_response (ok_response\<lparr>bpExec := Some x\<rparr>))) =
     Inr (ok_response\<lparr>bpExec := Some (received_result x)\<rparr>)"
  by (simp add: decode_bridge_response_def encode_bridge_response_def ok_response_def decode_simps decode_encode_result)

lemma decode_response_spawn:
  "spawned_ok x \<Longrightarrow> decode_bridge_response (RawDoc (encode_bridge_response (ok_response\<lparr>bpSpawn := Some x\<rparr>))) =
     Inr (ok_response\<lparr>bpSpawn := Some (received_spawned x)\<rparr>)"
  by (simp add: decode_bridge_response_def encode_bridge_response_def ok_response_def decode_simps decode_encode_spawned)

lemma decode_response_fail:
  "decode_bridge_response (RawDoc (encode_bridge_response (fail_response msg))) = Inr (fail_response (json_text msg))"
  by (simp add: decode_bridge_response_def encode_bridge_response_def fail_response_def ok_response_def decode_simps)

lemma fail_response_fields [simp]:
  "\<not> bpOK (fail_response msg)" "bpError (fail_response msg) = msg"
  by (simp_all add: fail_response_def)

lemma ok_response_ok [simp]: "bpOK ok_response"
  by (simp add: ok_response_def)

lemma peer_authorised:
  "peerIsAuthorized h cred \<longleftrightarrow>
     (\<exists>pid peer self. cred = Some (hoUid h, pid) \<and> hoReadlink h (''/proc/'' @ itoa pid @ ''/exe'') = Inr peer \<and>
        hoSelfExe h = Inr self \<and> resolvedExecutablePath h peer \<noteq> [] \<and>
        resolvedExecutablePath h peer = resolvedExecutablePath h self)"
proof (cases cred)
  case None
  then show ?thesis by (simp add: peerIsAuthorized_def)
next
  case (Some c)
  obtain uid pid where c: "c = (uid, pid)" by (cases c)
  show ?thesis
    by (cases "hoReadlink h (''/proc/'' @ itoa pid @ ''/exe'')"; cases "hoSelfExe h")
      (auto simp: peerIsAuthorized_def Some c)
qed

definition bridge_server ::
  "(goerr \<Rightarrow> string) \<Rightarrow> 'w host \<Rightarrow> string \<Rightarrow> (int \<times> int) option \<Rightarrow> (json \<Rightarrow> nat) \<Rightarrow> json \<Rightarrow> 'w \<Rightarrow> raw res \<times> 'w" where
  "bridge_server et h socket cred text_size doc w =
     (let (p, w1) = handleConnection et h socket cred (limited text_size 4194304 doc) w
      in (Inr (limited text_size 25165824 (encode_bridge_response p)), w1))"

text \<open>Processes end with numbers that fit a Go \<open>int\<close>.\<close>

fun run_ok :: "int \<times> outcome \<Rightarrow> bool" where
  "run_ok (pid, NotStarted e) \<longleftrightarrow> True"
| "run_ok (pid, Ended outs errs d timedOut st) \<longleftrightarrow>
     go_int pid \<and> go_int d \<and> (case st of Some (Inr c) \<Rightarrow> go_int c | _ \<Rightarrow> True)"

lemma runExec_ok:
  assumes "runExec h r w = (Inr x, w1)" and "\<And>c w. run_ok (fst (hoExec h c w))"
  shows "result_ok x"
proof (cases "hoExec h (bridge_command h r) w")
  case (Pair po w2)
  obtain pid out where po: "po = (pid, out)" by (cases po)
  have "run_ok (pid, out)" using assms(2) [of "bridge_command h r" w] by (simp add: Pair po)
  then show ?thesis
    using assms(1) Pair po
    by (cases out) (auto simp: runExec_def result_ok_def go_int_def Let_def split: if_splits option.splits sum.splits)
qed

lemma runExec_world: "snd (runExec h r w) \<noteq> w \<Longrightarrow> trim_space (xrCommand r) \<noteq> []"
  by (auto simp: runExec_def split: if_splits)

lemma runSpawn_world: "snd (runSpawn h r w) \<noteq> w \<Longrightarrow> trim_space (srCommand r) \<noteq> [] \<and> trim_space (srLogFile r) \<noteq> []"
  by (auto simp: runSpawn_def split: if_splits)

text \<open>A session scope is recognised wherever it stands in the path of the control group.\<close>

lemma split_on_append: "split_on c (a @ c # b) = split_on c a @ split_on c b"
  by (induction a) (auto split: list.splits)

lemma session_recognised:
  assumes "CHR ''/'' \<notin> set i" and "\<forall>p \<in> set (split_on (CHR ''/'') a). \<not> has_prefix p ''session-''"
  shows "sessionFromCgroup (a @ ''/session-'' @ i @ ''.scope'') = i"
proof -
  let ?p = "''session-'' @ i @ ''.scope''"
  have "split_on (CHR ''/'') (a @ CHR ''/'' # ?p) = split_on (CHR ''/'') a @ [?p]"
    unfolding split_on_append using assms(1) by (simp add: split_on_free)
  moreover have "find (\<lambda>p. has_prefix p ''session-'' \<and> has_suffix p ''.scope'') (split_on (CHR ''/'') a) = None"
    using assms(2) by (auto simp: find_None_iff)
  moreover have "find P (xs @ [x]) = (case find P xs of Some y \<Rightarrow> Some y | None \<Rightarrow> if P x then Some x else None)"
    for P :: "string \<Rightarrow> bool" and xs x by (induction xs) auto
  moreover have "has_suffix ?p ''.scope''" unfolding has_suffix_iff by (rule exI [of _ "''session-'' @ i"]) simp
  moreover have "trim_suffix (trim_prefix ?p ''session-'') ''.scope'' = i"
    unfolding trim_prefix_append by (simp add: trim_suffix_def has_suffix_iff)
  ultimately show ?thesis by (simp add: sessionFromCgroup_def)
qed

subsection \<open>Properties\<close>

text \<open>
  C19: the bridge acts only for itself: when a connection changes anything, the kernel named a peer of
  the same user whose executable is the bridge's own, and the request was a command or a detached
  command that is not blank, the latter with a log file.
\<close>

theorem bridge_serves_only_itself:
  assumes "snd (handleConnection et h socket cred body w) \<noteq> w"
  shows "(\<exists>pid peer self. cred = Some (hoUid h, pid) \<and> hoReadlink h (''/proc/'' @ itoa pid @ ''/exe'') = Inr peer \<and>
      hoSelfExe h = Inr self \<and> resolvedExecutablePath h peer = resolvedExecutablePath h self) \<and>
    (\<exists>q. decode_bridge_request body = Inr q \<and>
       (bqAction q = ''exec'' \<and> (\<exists>r. bqExec q = Some r \<and> trim_space (xrCommand r) \<noteq> []) \<or>
        bqAction q = ''spawn'' \<and> (\<exists>r. bqSpawn q = Some r \<and> trim_space (srCommand r) \<noteq> [] \<and> trim_space (srLogFile r) \<noteq> [])))"
proof -
  have auth: "peerIsAuthorized h cred" using assms by (auto simp: handleConnection_def split: if_splits)
  obtain q where q: "decode_bridge_request body = Inr q"
    using assms auth by (auto simp: handleConnection_def split: sum.splits)
  have "snd (serve_request et h socket q w) \<noteq> w" using assms auth q by (simp add: handleConnection_def)
  then have "bqAction q = ''exec'' \<and> (\<exists>r. bqExec q = Some r \<and> snd (runExec h r w) \<noteq> w) \<or>
      bqAction q = ''spawn'' \<and> (\<exists>r. bqSpawn q = Some r \<and> snd (runSpawn h r w) \<noteq> w)"
    by (auto simp: serve_request_def split: if_splits option.splits prod.splits sum.splits)
  then have "bqAction q = ''exec'' \<and> (\<exists>r. bqExec q = Some r \<and> trim_space (xrCommand r) \<noteq> []) \<or>
      bqAction q = ''spawn'' \<and> (\<exists>r. bqSpawn q = Some r \<and> trim_space (srCommand r) \<noteq> [] \<and> trim_space (srLogFile r) \<noteq> [])"
    by (auto dest!: runExec_world runSpawn_world)
  with q auth [unfolded peer_authorised] show ?thesis by fast
qed

text \<open>
  C21: a client that talks to the bridge it belongs to gets exactly what running its request in the
  session gives, as long as the two messages fit the limits of their readers (4 MiB and 24 MiB): the
  request arrives as it was sent, an error comes back as its text, and a result comes back with the
  bytes that are not UTF-8 replaced.
\<close>

theorem bridge_end_to_end:
  assumes "peerIsAuthorized h cred" and "request_ok r" and "\<And>c w. run_ok (fst (hoExec h c w))"
    and "text_size (encode_request \<lparr>bqAction = ''exec'', bqExec = Some r, bqSpawn = None\<rparr>) \<le> 4194304"
    and "runExec h (r\<lparr>xrEnv := gm_sorted (xrEnv r)\<rparr>) w = (out, w1)"
    and "text_size (encode_bridge_response (case out of Inl e \<Rightarrow> fail_response (et e)
        | Inr x \<Rightarrow> ok_response\<lparr>bpExec := Some x\<rparr>)) \<le> 25165824"
  shows "session_exec h None (bridge_server et h socket cred text_size) path r w =
    (case out of
       Inl e \<Rightarrow> Inl (err_new (if et e = [] then ''desktop session bridge request failed'' else json_text (et e)))
     | Inr x \<Rightarrow> Inr (received_result x), w1)"
proof (cases out)
  case (Inl e)
  then have "bridge_server et h socket cred text_size (encode_request \<lparr>bqAction = ''exec'', bqExec = Some r, bqSpawn = None\<rparr>) w =
      (Inr (RawDoc (encode_bridge_response (fail_response (et e)))), w1)"
    using assms decode_encode_request_exec [OF assms(2)]
    by (simp add: bridge_server_def limited_def handleConnection_def serve_request_def)
  then show ?thesis
    using Inl by (simp add: session_exec_def bridge_call_def decode_response_fail)
next
  case (Inr x)
  then have ok: "result_ok x" using assms(5) runExec_ok [OF _ assms(3)] by blast
  have "bridge_server et h socket cred text_size (encode_request \<lparr>bqAction = ''exec'', bqExec = Some r, bqSpawn = None\<rparr>) w =
      (Inr (RawDoc (encode_bridge_response (ok_response\<lparr>bpExec := Some x\<rparr>))), w1)"
    using assms decode_encode_request_exec [OF assms(2)] Inr
    by (simp add: bridge_server_def limited_def handleConnection_def serve_request_def)
  then show ?thesis
    using Inr by (simp add: session_exec_def bridge_call_def decode_response_exec [OF ok])
qed

text \<open>
  A result whose text is longer than 24 MiB is lost although the command ran and its effects stay:
  the client sees a reading error. Each output may hold 10 MiB and JSON prints a control character
  with six bytes, so a request within the limits of the bridge can end that way.
\<close>

theorem bridge_large_result_lost:
  assumes "peerIsAuthorized h cred" and "request_ok r"
    and "text_size (encode_request \<lparr>bqAction = ''exec'', bqExec = Some r, bqSpawn = None\<rparr>) \<le> 4194304"
    and "runExec h (r\<lparr>xrEnv := gm_sorted (xrEnv r)\<rparr>) w = (Inr x, w1)"
    and "25165824 < text_size (encode_bridge_response (ok_response\<lparr>bpExec := Some x\<rparr>))"
  shows "session_exec h None (bridge_server et h socket cred text_size) path r w =
    (Inl (Errorf ''read desktop session bridge response: %w'' [FErr json_err]), w1)"
proof -
  have "bridge_server et h socket cred text_size (encode_request \<lparr>bqAction = ''exec'', bqExec = Some r, bqSpawn = None\<rparr>) w =
      (Inr (RawBad []), w1)"
    using assms decode_encode_request_exec [OF assms(2)]
    by (simp add: bridge_server_def limited_def handleConnection_def serve_request_def)
  then show ?thesis by (simp add: session_exec_def bridge_call_def decode_bridge_response_def)
qed

subsection \<open>Witnesses\<close>

definition sample_host :: "nat host" where
  "sample_host = \<lparr>hoEnviron = [''A=0'', ''P=1''], hoGetenv = (\<lambda>k. []), hoUid = 1000, hoPid = 5,
     hoSelfExe = Inr ''/usr/bin/agent'',
     hoReadlink = (\<lambda>p. if p = ''/proc/7/exe'' then Inr ''/usr/bin/agent (deleted)'' else Inl ErrNotExist),
     hoEvalSymlinks = Inr, hoReadFile = (\<lambda>p. Inr ''0::/user.slice/session-2.scope''), hoBinSh = True,
     hoLookSh = Inl ErrNotExist, hoMkdir = (\<lambda>p w. (None, w)), hoOpenLog = (\<lambda>p w. (None, w)),
     hoExec = (\<lambda>c w. ((9, Ended [''out''] [] 3 False (Some (Inr 2))), w + 1)),
     hoStart = (\<lambda>c l w. (Inr (9, 9), w + 1))\<rparr>"

definition sample_bridge_exec :: exec_request where
  "sample_bridge_exec = zero_request\<lparr>xrCommand := ''id''\<rparr>"

definition sample_bridge_result :: bridge_result where
  "sample_bridge_result = \<lparr>brExitCode = 2, brStdout = ''out'', brStderr = [], brDurationMS = 3, brTimedOut = False,
     brTruncated = False, brPID = 9, brCgroup = ''/user.slice/session-2.scope'', brSession = ''2''\<rparr>"

lemma sample_peer: "peerIsAuthorized sample_host (Some (1000, 7))"
  by code_simp

lemma sample_bridge_ok: "request_ok sample_bridge_exec"
proof -
  have "utf8_ok ''id''" unfolding utf8_ok_def by code_simp
  then show ?thesis by (simp add: request_ok_def sample_bridge_exec_def zero_request_def go_int_def)
qed

lemma sample_run:
  "runExec sample_host (sample_bridge_exec\<lparr>xrEnv := gm_sorted (xrEnv sample_bridge_exec)\<rparr>) w =
     (Inr sample_bridge_result, w + 1)"
proof -
  have "processCgroup sample_host 9 = ''/user.slice/session-2.scope''" by code_simp
  moreover have "sessionFromCgroup ''/user.slice/session-2.scope'' = ''2''" by code_simp
  moreover have "trim_space ''id'' \<noteq> []" by code_simp
  moreover have "hoExec sample_host c w = ((9, Ended [''out''] [] 3 False (Some (Inr 2))), w + 1)" for c
    by (simp add: sample_host_def)
  moreover have "captured capWrite_bridge 2097152 [''out''] = \<lparr>cbBuf = ''out'', cbLimit = 2097152, cbTruncated = False\<rparr>"
    "captured capWrite_bridge 2097152 [] = \<lparr>cbBuf = [], cbLimit = 2097152, cbTruncated = False\<rparr>"
    by (simp_all add: captured_def cap_new_def capWrite_bridge_def)
  ultimately show ?thesis
    by (simp add: runExec_def sample_bridge_exec_def zero_request_def bridge_limit_def sample_bridge_result_def)
qed

theorem bridge_serves_only_itself_witness:
  "\<exists>pid peer. Some (1000 :: int, 7 :: int) = Some (hoUid sample_host, pid) \<and>
     hoReadlink sample_host (''/proc/'' @ itoa pid @ ''/exe'') = Inr peer"
proof -
  let ?body = "RawDoc (encode_request \<lparr>bqAction = ''exec'', bqExec = Some sample_bridge_exec, bqSpawn = None\<rparr>)"
  have "snd (handleConnection (\<lambda>e. []) sample_host [] (Some (1000, 7)) ?body 0) = 1"
    by (simp add: handleConnection_def sample_peer decode_encode_request_exec [OF sample_bridge_ok]
        serve_request_def sample_run)
  then have "snd (handleConnection (\<lambda>e. []) sample_host [] (Some (1000, 7)) ?body 0) \<noteq> 0" by simp
  from bridge_serves_only_itself [OF this] show ?thesis by blast
qed

theorem bridge_end_to_end_witness:
  "session_exec sample_host None (bridge_server (\<lambda>e. []) sample_host [] (Some (1000, 7)) (\<lambda>d. 0)) [] sample_bridge_exec 0 =
    (Inr (received_result sample_bridge_result), 1)"
  using bridge_end_to_end [OF sample_peer sample_bridge_ok _ _ sample_run [of 0], of "\<lambda>d. 0" "\<lambda>e. []" "[]" "[]"]
  by (simp add: sample_host_def go_int_def)

theorem bridge_large_result_lost_witness:
  "fst (session_exec sample_host None (bridge_server (\<lambda>e. []) sample_host [] (Some (1000, 7))
      (\<lambda>d. if d = encode_bridge_response (ok_response\<lparr>bpExec := Some sample_bridge_result\<rparr>) then 25165825 else 0))
      [] sample_bridge_exec 0) = Inl (Errorf ''read desktop session bridge response: %w'' [FErr json_err])"
proof -
  have "encode_request \<lparr>bqAction = ''exec'', bqExec = Some sample_bridge_exec, bqSpawn = None\<rparr> \<noteq>
      encode_bridge_response (ok_response\<lparr>bpExec := Some sample_bridge_result\<rparr>)"
    by (simp add: encode_request_def encode_bridge_response_def)
  then show ?thesis
    by (subst bridge_large_result_lost [OF sample_peer sample_bridge_ok _ sample_run]) simp_all
qed

end
