(* ===== verification/ProcessTools.thy ===== *)
theory ProcessTools
  imports Jobs RootBroker SessionBridge
begin

section \<open>The process tools (internal/tools/process.go)\<close>

text \<open>
  \<open>process_exec\<close> runs a command in one of three places: in the service itself, in the desktop session
  through the bridge, or as root through the broker; \<open>process_spawn\<close> starts a job in the first two.
  Which one is decided from the requested context, the command and the \<open>privileged\<close> flag.

  \<open>'w exec_env\<close> is what the tools call: the process starter, the two clients and the operating
  system, over a state \<open>'w\<close>. \<open>SessionBridge\<close> and \<open>RootBroker\<close> model the clients and what is behind
  them.
\<close>

datatype host_platform = Linux | Termux | Darwin | OtherPlatform

text \<open>\<open>platform.SupportsLocalPrivilege\<close>.\<close>

definition supports_privilege :: "host_platform \<Rightarrow> bool" where
  "supports_privilege p \<longleftrightarrow> p = Linux"

record 'w exec_env =
  xeShell :: string
  xePlatform :: host_platform
  xeEnviron :: "string list"
  xeRun :: "command \<Rightarrow> 'w \<Rightarrow> outcome \<times> 'w"
  xeAvailable :: "'w \<Rightarrow> bool \<times> 'w"
  xeSession :: "exec_request \<Rightarrow> 'w \<Rightarrow> bridge_result res \<times> 'w"
  xeSpawn :: "spawn_request \<Rightarrow> 'w \<Rightarrow> spawn_result res \<times> 'w"
  xeRoot :: "exec_request \<Rightarrow> 'w \<Rightarrow> exec_response res \<times> 'w"

subsection \<open>The execution context\<close>

definition desktop_markers :: "string list" where
  "desktop_markers = [''noctalia'', ''powerprofilesctl'', ''notify-send'', ''xdg-open'', ''gtk-launch'',
     ''wl-copy'', ''wl-paste'', ''grim'', ''slurp'', ''wtype'', ''ydotool'',
     ''secret-tool'', ''kwallet'', ''kdialog'', ''zenity'', ''dbus-send --session'',
     ''gdbus call --session'', ''busctl --user'', ''systemctl --user import-environment'']"

definition looksLikeDesktopCommand :: "string \<Rightarrow> bool" where
  "looksLikeDesktopCommand command = list_ex (contains (to_lower command)) desktop_markers"

definition needs_probe :: "string \<Rightarrow> string \<Rightarrow> bool \<Rightarrow> bool" where
  "needs_probe requested0 command privileged =
     (let requested = to_lower (trim_space requested0)
      in if privileged \<or> requested = ''service'' \<or> requested = ''system'' then False
         else if requested = ''desktop'' \<or> requested = ''user'' then True
         else (requested = [] \<or> requested = ''auto'') \<and> looksLikeDesktopCommand command)"

definition resolveExecutionContext :: "string \<Rightarrow> string \<Rightarrow> bool \<Rightarrow> bool \<Rightarrow> string res" where
  "resolveExecutionContext requested0 command privileged desktopAvailable =
     (let r = to_lower (trim_space requested0); requested = (if r = [] then ''auto'' else r)
      in if requested = ''auto'' then
           (if privileged then Inr ''system''
            else if desktopAvailable \<and> looksLikeDesktopCommand command then Inr ''desktop''
            else Inr ''service'')
         else if requested = ''service'' then (if privileged then Inr ''system'' else Inr ''service'')
         else if requested = ''user'' \<or> requested = ''desktop'' then
           (if privileged then Inl (Errorf ''execution_context=%s cannot be privileged'' [FStr requested])
            else if \<not> desktopAvailable
            then Inl (Errorf ''execution_context=%s requires an active CyCom desktop session bridge'' [FStr requested])
            else Inr requested)
         else if requested = ''system'' then
           (if \<not> privileged then Inl (err_new ''execution_context=system requires privileged=true'') else Inr ''system'')
         else Inl (Errorf ''unsupported execution_context %q'' [FStr requested]))"

text \<open>The bridge is asked only when the answer can matter.\<close>

definition choose_context :: "'w exec_env \<Rightarrow> string \<Rightarrow> string \<Rightarrow> bool \<Rightarrow> 'w \<Rightarrow> string res \<times> 'w" where
  "choose_context E requested command privileged w =
     (let (avail, w1) = (if needs_probe requested command privileged then xeAvailable E w else (False, w))
      in (resolveExecutionContext requested command privileged avail, w1))"

subsection \<open>Running to the end\<close>

record exec_input =
  eiCommand :: string
  eiStdin :: string
  eiCwd :: string
  eiEnv :: "string gomap"
  eiTimeoutSeconds :: int
  eiShell :: string
  eiMaxOutputBytes :: int
  eiPrivileged :: bool
  eiContext :: string

definition exec_input_fields :: "string list" where
  "exec_input_fields = [''command'', ''stdin'', ''cwd'', ''env'', ''timeout_seconds'', ''shell'', ''max_output_bytes'',
     ''privileged'', ''execution_context'']"

definition decode_exec_input :: "raw \<Rightarrow> exec_input res" where
  "decode_exec_input args =
     (case decode_members exec_input_fields args of
        Inl e \<Rightarrow> Inl e
      | Inr ms \<Rightarrow>
          let (c, e1) = dec_field set_str [] ''command'' ms;
              (i, e2) = dec_field set_str [] ''stdin'' ms;
              (d, e3) = dec_field set_str [] ''cwd'' ms;
              (env, e4) = dec_field set_strmap [] ''env'' ms;
              (t, e5) = dec_field set_int 0 ''timeout_seconds'' ms;
              (sh, e6) = dec_field set_str [] ''shell'' ms;
              (mx, e7) = dec_field set_int 0 ''max_output_bytes'' ms;
              (p, e8) = dec_field set_bool False ''privileged'' ms;
              (x, e9) = dec_field set_str [] ''execution_context'' ms
          in if e1 \<or> e2 \<or> e3 \<or> e4 \<or> e5 \<or> e6 \<or> e7 \<or> e8 \<or> e9 then Inl invalid_arguments
             else Inr \<lparr>eiCommand = c, eiStdin = i, eiCwd = d, eiEnv = env, eiTimeoutSeconds = t, eiShell = sh,
                       eiMaxOutputBytes = mx, eiPrivileged = p, eiContext = x\<rparr>)"

record exec_output =
  poExit :: int
  poStdout :: string
  poStderr :: string
  poDuration :: int
  poTimedOut :: bool
  poTruncated :: bool
  poRanPrivileged :: bool
  poContext :: string
  poBridge :: "(int \<times> string \<times> string) option"

definition exec_timeout :: "exec_input \<Rightarrow> int" where
  "exec_timeout i = (if 0 < eiTimeoutSeconds i then seconds (eiTimeoutSeconds i) else 120 * 1000000000)"

text \<open>\<open>int(timeout / time.Second)\<close>, which truncates toward zero.\<close>

definition whole_seconds :: "int \<Rightarrow> int" where
  "whole_seconds d = (if 0 \<le> d then d div 1000000000 else - ((- d) div 1000000000))"

definition exec_max :: "exec_input \<Rightarrow> int" where
  "exec_max i =
     (if eiMaxOutputBytes i \<le> 0 \<or> 10 * 1048576 < eiMaxOutputBytes i then 2 * 1048576 else eiMaxOutputBytes i)"

text \<open>The request that is passed on to the bridge or to the broker.\<close>

definition remote_request :: "'w exec_env \<Rightarrow> exec_input \<Rightarrow> exec_request" where
  "remote_request E i =
     \<lparr>xrCommand = eiCommand i, xrStdin = eiStdin i, xrCwd = eiCwd i, xrEnv = eiEnv i,
      xrShell = (if eiShell i = [] then xeShell E else eiShell i),
      xrTimeoutSeconds = whole_seconds (exec_timeout i), xrMaxOutputBytes = exec_max i\<rparr>"

definition mergedEnv_tools :: "string list \<Rightarrow> string gomap \<Rightarrow> string list" where
  "mergedEnv_tools environ extra = environ @ env_list extra"

interpretation env_tools: env_merger mergedEnv_tools
  by unfold_locales (simp add: mergedEnv_tools_def env_value_append env_value_list)

definition local_command :: "'w exec_env \<Rightarrow> exec_input \<Rightarrow> command" where
  "local_command E i =
     \<lparr>cmArgv = [if eiShell i = [] then xeShell E else eiShell i, ''-lc'', eiCommand i], cmDir = eiCwd i,
      cmEnv = mergedEnv_tools (xeEnviron E) (eiEnv i), cmStdin = eiStdin i, cmTimeout = exec_timeout i\<rparr>"

definition run_local :: "'w exec_env \<Rightarrow> exec_input \<Rightarrow> string \<Rightarrow> 'w \<Rightarrow> exec_output res \<times> 'w" where
  "run_local E i context w =
     (case xeRun E (local_command E i) w of
        (NotStarted e, w1) \<Rightarrow> (Inl e, w1)
      | (Ended outs errs d timedOut st, w1) \<Rightarrow>
          let o' = captured capWrite_tools (exec_max i) outs;
              e' = captured capWrite_tools (exec_max i) errs;
              res = \<lparr>poExit = 0, poStdout = cbBuf o', poStderr = cbBuf e', poDuration = d, poTimedOut = timedOut,
                     poTruncated = (cbTruncated o' \<or> cbTruncated e'), poRanPrivileged = False,
                     poContext = context, poBridge = None\<rparr>
          in ((if timedOut then Inr (res\<lparr>poExit := -1\<rparr>)
               else (case st of
                       None \<Rightarrow> Inr res
                     | Some (Inr c) \<Rightarrow> Inr (res\<lparr>poExit := c\<rparr>)
                     | Some (Inl e) \<Rightarrow> Inl e)), w1))"

definition no_privilege :: "host_platform \<Rightarrow> goerr" where
  "no_privilege p =
     (case p of
        Termux \<Rightarrow> err_new ''Android device-root escalation is not supported on Termux and is not planned; ordinary user-space commands (including sudo inside a non-root container/proot when available) remain allowed''
      | Darwin \<Rightarrow> err_new ''local privileged execution is not supported by the experimental macOS runtime; use ordinary user-space commands or a remote SSH target''
      | _ \<Rightarrow> err_new ''local privileged execution is not supported on this platform'')"

definition from_bridge :: "string \<Rightarrow> bridge_result \<Rightarrow> exec_output" where
  "from_bridge context r =
     \<lparr>poExit = brExitCode r, poStdout = brStdout r, poStderr = brStderr r, poDuration = brDurationMS r,
      poTimedOut = brTimedOut r, poTruncated = brTruncated r, poRanPrivileged = False, poContext = context,
      poBridge = Some (brPID r, brCgroup r, brSession r)\<rparr>"

definition from_root :: "string \<Rightarrow> exec_response \<Rightarrow> exec_output" where
  "from_root context r =
     \<lparr>poExit = xpExitCode r, poStdout = xpStdout r, poStderr = xpStderr r, poDuration = xpDurationMS r,
      poTimedOut = xpTimedOut r, poTruncated = xpTruncated r, poRanPrivileged = True, poContext = context,
      poBridge = None\<rparr>"

text \<open>Applying a function to the value of a result and passing its error on.\<close>

definition answer :: "('a \<Rightarrow> 'b) \<Rightarrow> 'a res \<times> 'w \<Rightarrow> 'b res \<times> 'w" where
  "answer f r = (case fst r of Inl e \<Rightarrow> Inl e | Inr x \<Rightarrow> Inr (f x), snd r)"

definition processExec :: "'w exec_env \<Rightarrow> raw \<Rightarrow> 'w \<Rightarrow> exec_output res \<times> 'w" where
  "processExec E args w =
     (case decode_exec_input args of
        Inl e \<Rightarrow> (Inl e, w)
      | Inr i \<Rightarrow>
          if trim_space (eiCommand i) = [] then (Inl (err_new ''command is required''), w)
          else (case choose_context E (eiContext i) (eiCommand i) (eiPrivileged i) w of
            (Inl e, w1) \<Rightarrow> (Inl e, w1)
          | (Inr context, w1) \<Rightarrow>
              if context = ''desktop'' \<or> context = ''user'' then
                (if eiPrivileged i
                 then (Inl (Errorf ''privileged execution cannot use execution_context=%s; use execution_context=system'' [FStr context]), w1)
                 else answer (from_bridge context) (xeSession E (remote_request E i) w1))
              else if context = ''system'' \<and> \<not> eiPrivileged i
              then (Inl (err_new ''execution_context=system requires privileged=true so policy and the root broker remain authoritative''), w1)
              else if eiPrivileged i \<and> \<not> supports_privilege (xePlatform E)
              then (Inl (no_privilege (xePlatform E)), w1)
              else if eiPrivileged i then answer (from_root context) (xeRoot E (remote_request E i) w1)
              else run_local E i context w1))"

subsection \<open>Starting jobs\<close>

record spawn_input =
  siCommand :: string
  siCwd :: string
  siEnv :: "string gomap"
  siShell :: string
  siContext :: string

definition spawn_input_fields :: "string list" where
  "spawn_input_fields = [''command'', ''cwd'', ''env'', ''shell'', ''execution_context'']"

definition decode_spawn_input :: "raw \<Rightarrow> spawn_input res" where
  "decode_spawn_input args =
     (case decode_members spawn_input_fields args of
        Inl e \<Rightarrow> Inl e
      | Inr ms \<Rightarrow>
          let (c, e1) = dec_field set_str [] ''command'' ms;
              (d, e2) = dec_field set_str [] ''cwd'' ms;
              (env, e3) = dec_field set_strmap [] ''env'' ms;
              (sh, e4) = dec_field set_str [] ''shell'' ms;
              (x, e5) = dec_field set_str [] ''execution_context'' ms
          in if e1 \<or> e2 \<or> e3 \<or> e4 \<or> e5 then Inl invalid_arguments
             else Inr \<lparr>siCommand = c, siCwd = d, siEnv = env, siShell = sh, siContext = x\<rparr>)"

text \<open>
  What starting a job takes from its surroundings: the clock, the outcome of opening the log, the
  process a local start gives, and whether writing the job's file fails.
\<close>

record start_env =
  seMs :: int
  seNow :: int
  seOpened :: "goerr option"
  seStarted :: "(int \<times> int) res"
  sePersistFails :: bool

definition bridge_spawn_request :: "'w exec_env \<Rightarrow> spawn_input \<Rightarrow> string \<Rightarrow> spawn_request" where
  "bridge_spawn_request E i logFile =
     \<lparr>srCommand = siCommand i, srCwd = siCwd i, srEnv = siEnv i,
      srShell = (if siShell i = [] then xeShell E else siShell i), srLogFile = logFile\<rparr>"

definition job_log :: "int \<Rightarrow> manager \<Rightarrow> string" where
  "job_log ms m = mDir m @ ''/'' @ job_id ms (Suc (mSeq m)) @ ''.log''"

text \<open>The launcher runs only when the log could be opened.\<close>

definition processSpawn ::
  "'w exec_env \<Rightarrow> start_env \<Rightarrow> spawn_input \<Rightarrow> manager \<times> 'w \<Rightarrow> job res \<times> manager \<times> 'w" where
  "processSpawn E S i st =
     (let (m, w) = st
      in if trim_space (siCommand i) = [] then (Inl (err_new ''command is required''), st)
         else (case choose_context E (siContext i) (siCommand i) False w of
           (Inl e, w1) \<Rightarrow> (Inl e, m, w1)
         | (Inr context, w1) \<Rightarrow>
             if context = ''system''
             then (Inl (err_new ''process_spawn does not support execution_context=system; use process_exec with privileged=true or a managed service''), m, w1)
             else if context = ''desktop'' \<or> context = ''user'' then
               (let launch = (\<lambda>logFile. xeSpawn E (bridge_spawn_request E i logFile) w1);
                    (r, m1) = StartExternal (xeShell E) (seMs S) (seNow S) (seOpened S)
                      (Some (\<lambda>logFile. (case fst (launch logFile) of Inl e \<Rightarrow> Inl e | Inr x \<Rightarrow> Inr (spPID x, spPGID x))))
                      (sePersistFails S) (siCommand i) (siCwd i)
                      (if siShell i = [] then xeShell E else siShell i) (siEnv i) context m
                in (r, m1, if is_nil (seOpened S) then snd (launch (job_log (seMs S) m)) else w1))
             else
               (let (r, m1) = StartWithContext (xeShell E) (seMs S) (seNow S) (seOpened S) (seStarted S)
                      (sePersistFails S) (siCommand i) (siCwd i) (siShell i) (siEnv i) context m
                in (r, m1, w1))))"

definition process_spawn_tool ::
  "'w exec_env \<Rightarrow> start_env \<Rightarrow> raw \<Rightarrow> manager \<times> 'w \<Rightarrow> job res \<times> manager \<times> 'w" where
  "process_spawn_tool E S args st =
     (case decode_spawn_input args of Inl e \<Rightarrow> (Inl e, st) | Inr i \<Rightarrow> processSpawn E S i st)"

subsection \<open>Inspecting and signalling\<close>

definition decode_pid :: "string list \<Rightarrow> raw \<Rightarrow> (int \<times> (string \<times> json) list) res" where
  "decode_pid names args =
     (case decode_members names args of
        Inl e \<Rightarrow> Inl e
      | Inr ms \<Rightarrow>
          let (p, e1) = dec_field set_int 0 ''pid'' ms
          in if e1 then Inl invalid_arguments else Inr (p, ms))"

text \<open>
  \<open>ps\<close> is the outcome of running \<open>ps -p PID -o ...\<close>: its output, or \<open>None\<close> when it ended with a
  failing exit code. The answer is the identifier and the line, \<open>None\<close> for no such process.
\<close>

definition processInspect :: "(int \<Rightarrow> string option res) \<Rightarrow> raw \<Rightarrow> (int \<times> string option) res" where
  "processInspect ps args =
     (case decode_pid [''pid''] args of
        Inl e \<Rightarrow> Inl e
      | Inr (pid, ms) \<Rightarrow>
          if pid \<le> 0 then Inl (err_new ''pid must be positive'')
          else (case ps pid of
                  Inl e \<Rightarrow> Inl e
                | Inr None \<Rightarrow> Inr (pid, None)
                | Inr (Some out) \<Rightarrow> Inr (pid, Some (trim_space out))))"

definition parseSignal_tools :: "string \<Rightarrow> sig res" where
  "parseSignal_tools s =
     (let n = to_upper (trim_prefix (trim_space s) ''SIG'')
      in if n \<in> set [[], ''TERM''] then Inr SIGTERM
         else if n = ''INT'' then Inr SIGINT
         else if n = ''HUP'' then Inr SIGHUP
         else if n = ''KILL'' then Inr SIGKILL
         else if n = ''USR1'' then Inr SIGUSR1
         else if n = ''USR2'' then Inr SIGUSR2
         else Inl (Errorf ''unsupported signal %q'' [FStr s]))"

definition processSignal :: "(int \<Rightarrow> sig \<Rightarrow> 'w \<Rightarrow> goerr option \<times> 'w) \<Rightarrow> raw \<Rightarrow> 'w \<Rightarrow> (int \<times> sig) res \<times> 'w" where
  "processSignal kill args w =
     (case decode_pid [''pid'', ''signal''] args of
        Inl e \<Rightarrow> (Inl e, w)
      | Inr (pid, ms) \<Rightarrow>
          let (name, e2) = dec_field set_str [] ''signal'' ms
          in if e2 then (Inl invalid_arguments, w)
             else if pid \<le> 0 then (Inl (err_new ''pid must be positive''), w)
             else (case parseSignal_tools name of
                     Inl e \<Rightarrow> (Inl e, w)
                   | Inr s \<Rightarrow>
                       (case kill pid s w of
                          (Some e, w1) \<Rightarrow> (Inl e, w1)
                        | (None, w1) \<Rightarrow> (Inr (pid, s), w1))))"

subsection \<open>Lemmas\<close>

text \<open>The two packages read the names of signals alike.\<close>

lemma parseSignal_agree: "parseSignal_tools s = parseSignal s"
  by (simp add: parseSignal_tools_def parseSignal_def)

text \<open>A context that was resolved: root exactly for privileged calls, the desktop only when the bridge
  answered.\<close>

lemma resolved_context:
  assumes "resolveExecutionContext requested command privileged avail = Inr c"
  shows "(c = ''system'' \<longleftrightarrow> privileged) \<and> (c \<in> {''desktop'', ''user''} \<longrightarrow> avail) \<and>
    c \<in> {''system'', ''service'', ''desktop'', ''user''}"
  using assms by (auto simp: resolveExecutionContext_def Let_def split: if_splits)

text \<open>Where the bridge is not asked, its answer would not have mattered.\<close>

lemma probe_enough:
  assumes "\<not> needs_probe requested command privileged"
  shows "resolveExecutionContext requested command privileged avail =
    resolveExecutionContext requested command privileged False"
proof -
  define r where "r = to_lower (trim_space requested)"
  consider "r = []" | "r = ''auto''" | "r = ''service''" | "r = ''system''" | "r = ''desktop''" | "r = ''user''"
    | "r \<noteq> []" "r \<noteq> ''auto''" "r \<noteq> ''service''" "r \<noteq> ''system''" "r \<noteq> ''desktop''" "r \<noteq> ''user''" by argo
  then show ?thesis
    using assms unfolding needs_probe_def resolveExecutionContext_def Let_def r_def [symmetric]
    by cases (simp_all split: if_splits)
qed

lemma privileged_no_probe: "\<not> needs_probe requested command True"
  by (simp add: needs_probe_def Let_def)

lemma choose_context_resolved:
  assumes "choose_context E requested command privileged w = (Inr c, w1)"
  shows "(c = ''system'' \<longleftrightarrow> privileged) \<and> c \<in> {''system'', ''service'', ''desktop'', ''user''} \<and>
    (c \<in> {''desktop'', ''user''} \<longrightarrow> xeAvailable E w = (True, w1)) \<and> (privileged \<longrightarrow> w1 = w)"
proof -
  obtain avail w2 where aw: "(if needs_probe requested command privileged then xeAvailable E w else (False, w)) = (avail, w2)"
    by (rule prod.exhaust)
  with assms have "(resolveExecutionContext requested command privileged avail, w2) = (Inr c, w1)"
    unfolding choose_context_def by (simp only: Let_def prod.case)
  then have r: "resolveExecutionContext requested command privileged avail = Inr c" and w: "w2 = w1"
    by simp_all
  note facts = resolved_context [OF r]
  have "avail \<longrightarrow> xeAvailable E w = (True, w1)" using aw w by (auto split: if_splits)
  moreover have "privileged \<longrightarrow> w1 = w" using aw w privileged_no_probe by (auto split: if_splits)
  ultimately show ?thesis using facts unfolding insert_iff empty_iff by argo
qed

lemma context_names: "trim_space ''desktop'' \<noteq> []" "trim_space ''user'' \<noteq> []"
  by code_simp+

lemma answer_simps [simp]:
  "answer f (Inl e, w) = (Inl e, w)" "answer f (Inr x, w) = (Inr (f x), w)"
  by (simp_all add: answer_def)

text \<open>What \<open>processExec\<close> does once the arguments are decoded: three places, no other outcome.\<close>

lemma processExec_places:
  assumes "decode_exec_input args = Inr i" and "trim_space (eiCommand i) \<noteq> []"
    and "choose_context E (eiContext i) (eiCommand i) (eiPrivileged i) w = (Inr c, w1)"
  shows "processExec E args w =
    (if eiPrivileged i then
       (if supports_privilege (xePlatform E) then answer (from_root ''system'') (xeRoot E (remote_request E i) w)
        else (Inl (no_privilege (xePlatform E)), w))
     else if c = ''service'' then run_local E i c w1
     else answer (from_bridge c) (xeSession E (remote_request E i) w1))"
proof -
  note c = choose_context_resolved [OF assms(3)]
  show ?thesis
  proof (cases "eiPrivileged i")
    case True
    then have "c = ''system''" "w1 = w" using c by simp_all
    with True assms show ?thesis by (simp add: processExec_def)
  next
    case False
    then have "c \<noteq> ''system''" using c by simp
    moreover have "c = ''service'' \<or> c = ''desktop'' \<or> c = ''user''" using c False unfolding insert_iff empty_iff by argo
    ultimately show ?thesis using False assms by (elim disjE) (simp_all add: processExec_def)
  qed
qed

lemma processExec_refused:
  "decode_exec_input args = Inr i \<Longrightarrow> trim_space (eiCommand i) \<noteq> [] \<Longrightarrow>
   choose_context E (eiContext i) (eiCommand i) (eiPrivileged i) w = (Inl e, w1) \<Longrightarrow>
   processExec E args w = (Inl e, w1)"
  by (simp add: processExec_def)

lemma choose_context_env:
  "choose_context (E\<lparr>xeRun := f\<rparr>) = choose_context E" "choose_context (E\<lparr>xeRoot := g\<rparr>) = choose_context E"
  "choose_context (E\<lparr>xeSession := h\<rparr>) = choose_context E"
  "choose_context (E\<lparr>xeAvailable := av\<rparr>) requested command True = choose_context E requested command True"
  by (simp_all add: choose_context_def privileged_no_probe fun_eq_iff)

text \<open>
  The calls that ask for the desktop session: without \<open>privileged\<close>, those with the context \<open>desktop\<close> or \<open>user\<close>
  (in any case, with surrounding blanks), and with no context or \<open>auto\<close> those whose command looks like a
  desktop command, when the bridge answers.
\<close>

definition asks_desktop :: "'w exec_env \<Rightarrow> exec_input \<Rightarrow> 'w \<Rightarrow> bool" where
  "asks_desktop E i w \<longleftrightarrow>
     \<not> eiPrivileged i \<and>
     (to_lower (trim_space (eiContext i)) \<in> {''desktop'', ''user''} \<or>
      to_lower (trim_space (eiContext i)) \<in> {[], ''auto''} \<and> looksLikeDesktopCommand (eiCommand i) \<and> fst (xeAvailable E w))"

lemma chosen_place:
  assumes "choose_context E (eiContext i) (eiCommand i) False w = (Inr c, w1)" and "\<not> eiPrivileged i"
  shows "(c = ''service'' \<longleftrightarrow> \<not> asks_desktop E i w) \<and> (c \<in> {''desktop'', ''user''} \<longleftrightarrow> asks_desktop E i w) \<and>
    w1 = (if needs_probe (eiContext i) (eiCommand i) False then snd (xeAvailable E w) else w)"
proof -
  define r where "r = to_lower (trim_space (eiContext i))"
  obtain avail w2 where av: "xeAvailable E w = (avail, w2)" by (rule prod.exhaust)
  consider "r = []" | "r = ''auto''" | "r = ''service''" | "r = ''system''" | "r = ''desktop''" | "r = ''user''"
    | "r \<noteq> []" "r \<noteq> ''auto''" "r \<noteq> ''service''" "r \<noteq> ''system''" "r \<noteq> ''desktop''" "r \<noteq> ''user''" by argo
  then show ?thesis
    using assms
    unfolding choose_context_def needs_probe_def resolveExecutionContext_def asks_desktop_def Let_def r_def [symmetric]
    by cases (auto simp: av split: if_splits)
qed

lemma local_state: "snd (run_local E i c w) = snd (xeRun E (local_command E i) w)"
  by (auto simp: run_local_def Let_def split: prod.split outcome.split)

lemma run_local_reports:
  "fst (run_local E i c w) = Inr out \<Longrightarrow> \<not> poRanPrivileged out \<and> poContext out = c"
  by (auto simp: run_local_def Let_def split: if_splits sum.splits prod.splits outcome.splits option.splits)

lemma replaced_places:
  "remote_request (E\<lparr>xeRun := run\<rparr>) = remote_request E" "remote_request (E\<lparr>xeRoot := root\<rparr>) = remote_request E"
  "remote_request (E\<lparr>xeSession := session\<rparr>) = remote_request E" "remote_request (E\<lparr>xeAvailable := av\<rparr>) = remote_request E"
  "run_local (E\<lparr>xeRoot := root\<rparr>) = run_local E" "run_local (E\<lparr>xeSession := session\<rparr>) = run_local E"
  by (simp_all add: remote_request_def run_local_def local_command_def fun_eq_iff)

lemma started_job:
  assumes "StartWithContext d ms now opened started pf command cwd sh env ctx m = (Inr j, m1)"
  shows "jContext j = (if trim_space ctx = [] then ''service'' else ctx) \<and> jStatus j = ''running'' \<and>
    jCommand j = command \<and> gm_get (mJobs m1) (jID j) = Some j \<and> jLogFile j = job_log ms m"
  using assms
  by (cases opened; cases started)
    (auto simp: StartWithContext_def recordStartedJob_def store_job_get open_log_def job_log_def Let_def split: if_splits)

lemma launched_job:
  assumes "StartExternal d ms now opened (Some run) pf command cwd sh env ctx m = (Inr j, m1)"
  shows "opened = None \<and> jContext j = (if trim_space ctx = [] then ''user'' else ctx) \<and> jStatus j = ''running'' \<and>
    jCommand j = command \<and> gm_get (mJobs m1) (jID j) = Some j \<and> jLogFile j = job_log ms m \<and>
    run (job_log ms m) = Inr (jPID j, jPGID j) \<and> 0 < jPID j"
proof (cases "run (job_log ms m)")
  case (Inl e)
  with assms show ?thesis
    by (cases opened) (simp_all add: StartExternal_def job_log_def Let_def open_log_def split: if_splits)
next
  case (Inr x)
  with assms show ?thesis
    by (cases x; cases opened)
      (auto simp: StartExternal_def recordStartedJob_def store_job_get open_log_def job_log_def Let_def split: if_splits)
qed

subsection \<open>Properties\<close>

text \<open>
  C22: a command runs in the one place it asks for. A privileged call does the same whatever the process
  starter and the desktop bridge would do, a call that asks for the desktop session the same whatever the
  process starter and the root broker would do, and any other call the same whatever the bridge, asked to
  run something, and the root broker would do. A call that succeeds has run exactly its own command in
  that place, and reports truly whether it ran privileged and in which context.
\<close>

theorem exec_stays_in_its_domain:
  assumes "decode_exec_input args = Inr i"
  shows "(eiPrivileged i \<longrightarrow>
      processExec (E\<lparr>xeRun := run, xeSession := session, xeAvailable := av\<rparr>) args w = processExec E args w) \<and>
    (asks_desktop E i w \<longrightarrow> processExec (E\<lparr>xeRun := run, xeRoot := root\<rparr>) args w = processExec E args w) \<and>
    (\<not> eiPrivileged i \<and> \<not> asks_desktop E i w \<longrightarrow>
      processExec (E\<lparr>xeSession := session, xeRoot := root\<rparr>) args w = processExec E args w) \<and>
    (\<forall>out. fst (processExec E args w) = Inr out \<longrightarrow>
       poRanPrivileged out = eiPrivileged i \<and> (poContext out = ''system'' \<longleftrightarrow> eiPrivileged i) \<and>
       (poContext out \<in> {''desktop'', ''user''} \<longleftrightarrow> asks_desktop E i w) \<and>
       snd (processExec E args w) =
         (if eiPrivileged i then snd (xeRoot E (remote_request E i) w)
          else if asks_desktop E i w then snd (xeSession E (remote_request E i) (snd (xeAvailable E w)))
          else snd (xeRun E (local_command E i)
                 (if needs_probe (eiContext i) (eiCommand i) False then snd (xeAvailable E w) else w))))"
proof (cases "trim_space (eiCommand i) = []")
  case True
  with assms show ?thesis by (simp add: processExec_def)
next
  case cmd: False
  obtain r w1 where ch: "choose_context E (eiContext i) (eiCommand i) (eiPrivileged i) w = (r, w1)"
    by (rule prod.exhaust)
  then have ch2: "choose_context (E\<lparr>xeRun := run, xeRoot := root\<rparr>) (eiContext i) (eiCommand i) (eiPrivileged i) w = (r, w1)"
    "choose_context (E\<lparr>xeSession := session, xeRoot := root\<rparr>) (eiContext i) (eiCommand i) (eiPrivileged i) w = (r, w1)"
    and ch3: "eiPrivileged i \<Longrightarrow> choose_context (E\<lparr>xeRun := run, xeSession := session, xeAvailable := av\<rparr>)
      (eiContext i) (eiCommand i) (eiPrivileged i) w = (r, w1)"
    by (simp_all add: choose_context_env)
  show ?thesis
  proof (cases r)
    case (Inl e)
    note refused = processExec_refused [OF assms cmd]
    show ?thesis
      using refused [OF ch [unfolded Inl]] refused [OF ch2(1) [unfolded Inl]] refused [OF ch2(2) [unfolded Inl]]
        refused [OF ch3 [unfolded Inl]] by simp
  next
    case (Inr c)
    note places = processExec_places [OF assms cmd]
    note here = places [OF ch [unfolded Inr]]
    show ?thesis
    proof (cases "eiPrivileged i")
      case True
      then have "\<not> asks_desktop E i w" by (simp add: asks_desktop_def)
      with True here places [OF ch3 [unfolded Inr]] show ?thesis
        by (auto simp: replaced_places answer_def from_root_def split: if_splits sum.splits)
    next
      case False
      then have ch0: "choose_context E (eiContext i) (eiCommand i) False w = (Inr c, w1)" using ch Inr by simp
      note c = chosen_place [OF ch0 False]
      have probed: "needs_probe (eiContext i) (eiCommand i) False" if "asks_desktop E i w"
        using that by (auto simp: asks_desktop_def needs_probe_def Let_def)
      have sys: "c \<noteq> ''system''" using choose_context_resolved [OF ch0] by blast
      show ?thesis
      proof (cases "asks_desktop E i w")
        case True
        with False c here sys probed places [OF ch2(1) [unfolded Inr]] show ?thesis
          by (auto simp: replaced_places answer_def from_bridge_def split: sum.splits)
      next
        case home: False
        with False c have "c = ''service''" by blast
        with False home c here places [OF ch2(2) [unfolded Inr]] show ?thesis
          by (auto simp: replaced_places local_state dest: run_local_reports)
      qed
    qed
  qed
qed

text \<open>
  A context is resolved as documented: root exactly for privileged calls, the desktop session only
  when the bridge answered that it is there, and leaving the bridge unasked never changes the result.
\<close>

theorem context_resolution:
  assumes "choose_context E requested command privileged w = (Inr c, w1)"
  shows "(c = ''system'' \<longleftrightarrow> privileged) \<and> (c = ''desktop'' \<or> c = ''user'' \<longrightarrow> xeAvailable E w = (True, w1)) \<and>
    (c = ''system'' \<or> c = ''service'' \<or> c = ''desktop'' \<or> c = ''user'') \<and>
    (\<not> needs_probe requested command privileged \<longrightarrow>
       (\<forall>avail. resolveExecutionContext requested command privileged avail = Inr c))"
proof -
  have "resolveExecutionContext requested command privileged avail = Inr c"
    if "\<not> needs_probe requested command privileged" for avail
    using assms that probe_enough [OF that, of avail] by (simp add: choose_context_def)
  then have "\<not> needs_probe requested command privileged \<longrightarrow>
      (\<forall>avail. resolveExecutionContext requested command privileged avail = Inr c)" by blast
  with choose_context_resolved [OF assms] show ?thesis unfolding insert_iff empty_iff by argo
qed

text \<open>
  A job started in the desktop session is recorded with the process the bridge started: the job
  has its identifiers and the log file the bridge was asked to write to, is \<open>running\<close> in the context
  it was started in and is in the table; and no job is ever started as root.
\<close>

theorem spawned_job_tracks_process:
  assumes "processSpawn E S i (m, w) = (Inr j, m1, w1)"
  shows "jContext j \<noteq> ''system'' \<and> jStatus j = ''running'' \<and> jCommand j = siCommand i \<and>
    gm_get (mJobs m1) (jID j) = Some j \<and> jLogFile j = job_log (seMs S) m \<and>
    (jContext j \<noteq> ''service'' \<longrightarrow>
       (\<exists>w0 x. xeAvailable E w = (True, w0) \<and>
          xeSpawn E (bridge_spawn_request E i (jLogFile j)) w0 = (Inr x, w1) \<and>
          jPID j = spPID x \<and> jPGID j = spPGID x \<and> 0 < jPID j))"
proof -
  have cmd: "trim_space (siCommand i) \<noteq> []" using assms by (auto simp: processSpawn_def)
  obtain r w0 where ch: "choose_context E (siContext i) (siCommand i) False w = (r, w0)" by (rule prod.exhaust)
  with assms cmd obtain c where r: "r = Inr c" by (cases r) (auto simp: processSpawn_def)
  note ch = ch [unfolded r]
  note c = choose_context_resolved [OF ch]
  then have sys: "c \<noteq> ''system''" by blast
  show ?thesis
  proof (cases "c = ''service''")
    case True
    then have "\<exists>m2. StartWithContext (xeShell E) (seMs S) (seNow S) (seOpened S) (seStarted S) (sePersistFails S)
        (siCommand i) (siCwd i) (siShell i) (siEnv i) ''service'' m = (Inr j, m2) \<and> m2 = m1"
      using assms cmd ch by (auto simp: processSpawn_def split: prod.splits)
    with started_job show ?thesis by fastforce
  next
    case False
    then have desk: "c = ''desktop'' \<or> c = ''user''" and av: "xeAvailable E w = (True, w0)"
      using c sys unfolding insert_iff empty_iff by argo+
    have ctx: "trim_space c \<noteq> []" using desk context_names by auto
    obtain x w2 where sp: "xeSpawn E (bridge_spawn_request E i (job_log (seMs S) m)) w0 = (x, w2)" by (rule prod.exhaust)
    have run: "StartExternal (xeShell E) (seMs S) (seNow S) (seOpened S)
        (Some (\<lambda>l. case fst (xeSpawn E (bridge_spawn_request E i l) w0) of Inl e \<Rightarrow> Inl e | Inr x \<Rightarrow> Inr (spPID x, spPGID x)))
        (sePersistFails S) (siCommand i) (siCwd i) (if siShell i = [] then xeShell E else siShell i) (siEnv i) c m = (Inr j, m1)"
      and w1: "w1 = (if is_nil (seOpened S) then snd (xeSpawn E (bridge_spawn_request E i (job_log (seMs S) m)) w0) else w0)"
      using assms cmd ch desk sys by (simp_all add: processSpawn_def split: prod.splits split del: if_split)
    from launched_job [OF run] ctx sp w1 av show ?thesis
      using sys by (cases x) auto
  qed
qed

subsection \<open>Witnesses\<close>

definition sample_env :: "nat exec_env" where
  "sample_env = \<lparr>xeShell = ''/bin/sh'', xePlatform = Linux, xeEnviron = [], xeRun = (\<lambda>c w. (NotStarted ErrNotExist, w)),
     xeAvailable = (\<lambda>w. (True, w)), xeSession = (\<lambda>r w. (Inl ErrNotExist, w)),
     xeSpawn = (\<lambda>r w. (Inr \<lparr>spPID = 9, spPGID = 9, spCgroup = [], spSession = []\<rparr>, w + 1)),
     xeRoot = (\<lambda>r w. (Inr (zero_response\<lparr>xpStdout := ''root''\<rparr>), w + 1))\<rparr>"

definition sample_input :: exec_input where
  "sample_input = \<lparr>eiCommand = ''id'', eiStdin = [], eiCwd = [], eiEnv = [], eiTimeoutSeconds = 5, eiShell = [],
     eiMaxOutputBytes = 0, eiPrivileged = True, eiContext = []\<rparr>"

lemma sample_domains:
  "decode_exec_input (RawDoc (JObj [(''command'', JStr ''id''), (''timeout_seconds'', JNum (JInt 5)), (''privileged'', JBool True)])) =
     Inr sample_input"
  "decode_exec_input (RawDoc (JObj [(''command'', JStr ''id''), (''timeout_seconds'', JNum (JInt 5))])) =
     Inr (sample_input\<lparr>eiPrivileged := False\<rparr>)"
  "asks_desktop sample_env (sample_input\<lparr>eiPrivileged := False\<rparr>) 0 = False"
  by code_simp+

theorem exec_stays_in_its_domain_witness:
  "processExec (sample_env\<lparr>xeRun := (\<lambda>c w. (Ended [] [] 0 False None, w)), xeSession := xeSession sample_env,
       xeAvailable := (\<lambda>w. (False, w))\<rparr>)
      (RawDoc (JObj [(''command'', JStr ''id''), (''timeout_seconds'', JNum (JInt 5)), (''privileged'', JBool True)])) 0 =
    processExec sample_env
      (RawDoc (JObj [(''command'', JStr ''id''), (''timeout_seconds'', JNum (JInt 5)), (''privileged'', JBool True)])) 0 \<and>
   processExec (sample_env\<lparr>xeSession := xeSession sample_env, xeRoot := (\<lambda>r w. (Inl ErrNotExist, w))\<rparr>)
      (RawDoc (JObj [(''command'', JStr ''id''), (''timeout_seconds'', JNum (JInt 5))])) 0 =
    processExec sample_env (RawDoc (JObj [(''command'', JStr ''id''), (''timeout_seconds'', JNum (JInt 5))])) 0"
  using exec_stays_in_its_domain [OF sample_domains(1), where E = sample_env and w = 0 and run = "\<lambda>c w. (Ended [] [] 0 False None, w)"
      and session = "xeSession sample_env" and av = "\<lambda>w. (False, w)"]
    exec_stays_in_its_domain [OF sample_domains(2), where E = sample_env and w = 0 and root = "\<lambda>r w. (Inl ErrNotExist, w)"
      and session = "xeSession sample_env"]
  by (simp add: sample_input_def [THEN arg_cong [where f = eiPrivileged]] sample_domains(3))

theorem context_resolution_witness: "xeAvailable sample_env 0 = (True, 0)"
proof -
  have "resolveExecutionContext ''Desktop'' ''ls'' False True = Inr ''desktop''" by code_simp
  moreover have "needs_probe ''Desktop'' ''ls'' False" by code_simp
  ultimately have "choose_context sample_env ''Desktop'' ''ls'' False 0 = (Inr ''desktop'', 0)"
    by (simp add: choose_context_def sample_env_def)
  from context_resolution [OF this] show ?thesis by simp
qed

definition sample_spawn :: spawn_input where
  "sample_spawn = \<lparr>siCommand = ''grim x'', siCwd = [], siEnv = [], siShell = [], siContext = ''auto''\<rparr>"

definition sample_start :: start_env where
  "sample_start = \<lparr>seMs = 5, seNow = 7, seOpened = None, seStarted = Inl ErrNotExist, sePersistFails = False\<rparr>"

theorem spawned_job_tracks_process_witness:
  "\<exists>j m1. processSpawn sample_env sample_start sample_spawn (sample_manager, 0) = (Inr j, m1, 1) \<and>
     jContext j = ''desktop'' \<and> jPID j = 9 \<and> gm_get (mJobs m1) (jID j) = Some j"
proof -
  have "resolveExecutionContext ''auto'' ''grim x'' False True = Inr ''desktop''" by code_simp
  moreover have "needs_probe ''auto'' ''grim x'' False" by code_simp
  ultimately have ch: "choose_context sample_env ''auto'' ''grim x'' False 0 = (Inr ''desktop'', 0)"
    by (simp add: choose_context_def sample_env_def)
  have "trim_space ''grim x'' \<noteq> []" by code_simp
  with ch obtain j m1 where sp: "processSpawn sample_env sample_start sample_spawn (sample_manager, 0) = (Inr j, m1, 1)"
    and ctx: "jContext j = ''desktop''"
    by (auto simp: processSpawn_def sample_spawn_def sample_start_def StartExternal_def sample_env_def Let_def
        context_names bridge_spawn_request_def recordStartedJob_def)
  from spawned_job_tracks_process [OF sp] ctx have "gm_get (mJobs m1) (jID j) = Some j \<and> jPID j = 9"
    by (auto simp: sample_env_def)
  with sp ctx show ?thesis by blast
qed

end
