(* ===== verification/Texts.thy ===== *)
theory Texts
  imports Exec
begin

section \<open>File contents: base64, UTF-8 and replacing text\<close>

text \<open>
  What the file tools take from \<open>encoding/base64\<close>, \<open>unicode/utf8\<close> and \<open>strings\<close>: the standard
  encoding with padding, whose decoder skips line ends; the check that bytes are UTF-8; counting and
  replacing a text that is not empty, from the left and without overlaps.
\<close>

subsection \<open>Base64\<close>

definition alphabet :: string where
  "alphabet = ''ABCDEFGHIJKLM'' @ ''NOPQRSTUVWXYZ'' @ ''abcdefghijklm'' @ ''nopqrstuvwxyz'' @ ''0123456789+/''"

definition b64_char :: "nat \<Rightarrow> char" where
  "b64_char n = alphabet ! n"

definition b64_val :: "char \<Rightarrow> nat option" where
  "b64_val c = index_byte alphabet c"

definition byte :: "char \<Rightarrow> nat" where
  "byte c = of_char c"

fun b64_encode :: "string \<Rightarrow> string" where
  "b64_encode (a # b # c # s) =
     (let v = byte a * 65536 + byte b * 256 + byte c
      in [b64_char (v div 262144), b64_char (v div 4096 mod 64), b64_char (v div 64 mod 64), b64_char (v mod 64)] @
         b64_encode s)"
| "b64_encode [a, b] =
     (let v = byte a * 65536 + byte b * 256
      in [b64_char (v div 262144), b64_char (v div 4096 mod 64), b64_char (v div 64 mod 64), CHR ''='']) "
| "b64_encode [a] =
     (let v = byte a * 65536
      in [b64_char (v div 262144), b64_char (v div 4096 mod 64), CHR ''='', CHR ''='']) "
| "b64_encode [] = []"

text \<open>The bytes of four characters; a group with padding is the last one.\<close>

fun b64_groups :: "string \<Rightarrow> string option" where
  "b64_groups [] = Some []"
| "b64_groups (a # b # c # d # s) =
     (case (b64_val a, b64_val b) of
        (Some x, Some y) \<Rightarrow>
          if c = CHR ''='' then
            (if d = CHR ''='' \<and> s = [] then Some [char_of ((x * 64 + y) div 16)] else None)
          else (case b64_val c of
            None \<Rightarrow> None
          | Some z \<Rightarrow>
              let v = (x * 64 + y) * 64 + z
              in if d = CHR ''='' then
                   (if s = [] then Some [char_of (v div 1024), char_of (v div 4 mod 256)] else None)
                 else (case b64_val d of
                   None \<Rightarrow> None
                 | Some u \<Rightarrow>
                     let w = v * 64 + u
                     in map_option (\<lambda>r. char_of (w div 65536) # char_of (w div 256 mod 256) # char_of (w mod 256) # r)
                          (b64_groups s)))
      | _ \<Rightarrow> None)"
| "b64_groups _ = None"

definition b64_decode :: "string \<Rightarrow> string option" where
  "b64_decode s = b64_groups (filter (\<lambda>c. c \<noteq> CHR 0x0A \<and> c \<noteq> CHR 0x0D) s)"

lemma byte_less: "byte c < 256"
  unfolding byte_def by (cases c) (simp add: of_char_def)

lemma char_of_byte [simp]: "char_of (byte c) = c"
  by (simp add: byte_def)

lemma alphabet_facts: "length alphabet = 64" "distinct alphabet" "CHR ''='' \<notin> set alphabet"
  "CHR 0x0A \<notin> set alphabet" "CHR 0x0D \<notin> set alphabet"
  by (simp_all add: alphabet_def)

lemma index_byte_nth: "distinct s \<Longrightarrow> i < length s \<Longrightarrow> index_byte s (s ! i) = Some i"
proof (induction s arbitrary: i)
  case (Cons x s)
  then show ?case by (cases i) auto
qed simp

lemma b64_val_char [simp]: "n < 64 \<Longrightarrow> b64_val (b64_char n) = Some n"
  using alphabet_facts by (simp add: b64_val_def b64_char_def index_byte_nth)

lemma b64_char_in: "n < 64 \<Longrightarrow> b64_char n \<in> set alphabet"
  using alphabet_facts(1) by (simp add: b64_char_def)

lemma b64_char_ne [simp]: "n < 64 \<Longrightarrow> b64_char n \<noteq> CHR ''=''" "n < 64 \<Longrightarrow> CHR ''='' \<noteq> b64_char n"
  using b64_char_in [of n] alphabet_facts(3) by metis+

text \<open>Recombining the sextets of a group.\<close>

lemma sextets:
  fixes v :: nat
  assumes "v < 16777216"
  shows "v div 262144 < 64" "v div 4096 mod 64 < 64" "v div 64 mod 64 < 64" "v mod 64 < 64"
    and "((v div 262144 * 64 + v div 4096 mod 64) * 64 + v div 64 mod 64) * 64 + v mod 64 = v"
    and "(v div 262144 * 64 + v div 4096 mod 64) * 64 + v div 64 mod 64 = v div 64"
    and "v div 262144 * 64 + v div 4096 mod 64 = v div 4096"
proof -
  show "v div 262144 < 64" using assms by (simp add: less_mult_imp_div_less)
  have a: "v div 262144 * 64 + v div 4096 mod 64 = v div 4096"
    using div_mult_mod_eq [of "v div 4096" 64] by (simp add: div_mult2_eq [symmetric])
  have b: "v div 4096 * 64 + v div 64 mod 64 = v div 64"
    using div_mult_mod_eq [of "v div 64" 64] by (simp add: div_mult2_eq [symmetric])
  show "v div 262144 * 64 + v div 4096 mod 64 = v div 4096" by (rule a)
  show "(v div 262144 * 64 + v div 4096 mod 64) * 64 + v div 64 mod 64 = v div 64" unfolding a by (rule b)
  show "((v div 262144 * 64 + v div 4096 mod 64) * 64 + v div 64 mod 64) * 64 + v mod 64 = v"
    unfolding a b by simp
qed simp_all

text \<open>The bytes of a group.\<close>

lemma three_bytes:
  fixes a b c :: nat
  assumes "b < 256" and "c < 256"
  shows "(a * 65536 + b * 256 + c) div 65536 = a" "(a * 65536 + b * 256 + c) div 256 mod 256 = b"
    "(a * 65536 + b * 256 + c) mod 256 = c"
proof -
  have e: "a * 65536 + b * 256 + c = (a * 256 + b) * 256 + c" by simp
  have d: "(a * 65536 + b * 256 + c) div 256 = a * 256 + b" unfolding e using assms(2) by (subst div_mult_self3) simp_all
  show "(a * 65536 + b * 256 + c) mod 256 = c" unfolding e using assms(2) by (subst mod_mult_self3) simp
  show "(a * 65536 + b * 256 + c) div 256 mod 256 = b" unfolding d using assms(1) by (subst mod_mult_self3) simp
  have "(a * 65536 + b * 256 + c) div 65536 = (a * 65536 + b * 256 + c) div 256 div 256"
    by (simp add: div_mult2_eq [symmetric])
  also have "\<dots> = a" unfolding d using assms(1) by (subst div_mult_self3) simp_all
  finally show "(a * 65536 + b * 256 + c) div 65536 = a" .
qed

lemma group_chars:
  "char_of ((byte a * 65536 + byte b * 256 + byte c) div 256) = b"
  "char_of (byte a * 65536 + byte b * 256 + byte c) = c"
  by (metis three_bytes(2) [OF byte_less byte_less] char_of_mod_256 char_of_byte)
    (metis three_bytes(3) [OF byte_less byte_less] char_of_mod_256 char_of_byte)

lemma b64_groups_encode: "b64_groups (b64_encode s) = Some s"
proof (induction s rule: b64_encode.induct)
  case (1 a b c s)
  let ?v = "byte a * 65536 + byte b * 256 + byte c"
  have v: "?v < 16777216" using byte_less [of a] byte_less [of b] byte_less [of c] by linarith
  show ?case using 1 sextets(1-4) [OF v] by (simp add: Let_def sextets(5) [OF v] three_bytes byte_less group_chars del: distrib_right_numeral)
next
  case (2 a b)
  define v where "v = byte a * 65536 + byte b * 256"
  have v: "v < 16777216" using byte_less [of a] byte_less [of b] by (simp add: v_def)
  have "v div 64 div 1024 = byte a" "v div 64 div 4 mod 256 = byte b"
    using three_bytes [of "byte b" 0 "byte a"] byte_less [of b] by (simp_all add: v_def div_mult2_eq [symmetric])
  then have chars: "char_of (v div 64 div 1024) = a" "char_of (v div 64 div 4 mod 256) = b"
    by (simp_all only: char_of_byte)
  define x y z where "x = v div 262144" and "y = v div 4096 mod 64" and "z = v div 64 mod 64"
  have xyz: "x < 64" "y < 64" "z < 64" "(x * 64 + y) * 64 + z = v div 64"
    unfolding x_def y_def z_def using sextets(1-3) [OF v] sextets(6) [OF v] by blast+
  have "b64_encode [a, b] = [b64_char x, b64_char y, b64_char z, CHR ''='']"
    unfolding x_def y_def z_def by (simp only: b64_encode.simps(2) Let_def v_def)
  moreover have "b64_groups [b64_char x, b64_char y, b64_char z, CHR ''=''] =
      Some [char_of (((x * 64 + y) * 64 + z) div 1024), char_of (((x * 64 + y) * 64 + z) div 4 mod 256)]"
    using xyz(1-3) by (simp add: Let_def)
  ultimately show ?case by (simp only: xyz(4) chars)
next
  case (3 a)
  define v where "v = byte a * 65536"
  have v: "v < 16777216" using byte_less [of a] by (simp add: v_def)
  have "v div 4096 div 16 = byte a" by (simp add: v_def div_mult2_eq [symmetric])
  then have char: "char_of (v div 4096 div 16) = a" by (simp only: char_of_byte)
  define x y where "x = v div 262144" and "y = v div 4096 mod 64"
  have xy: "x < 64" "y < 64" "x * 64 + y = v div 4096"
    unfolding x_def y_def using sextets(1-2) [OF v] sextets(7) [OF v] by blast+
  have "b64_encode [a] = [b64_char x, b64_char y, CHR ''='', CHR ''='']"
    unfolding x_def y_def by (simp only: b64_encode.simps(3) Let_def v_def)
  moreover have "b64_groups [b64_char x, b64_char y, CHR ''='', CHR ''=''] = Some [char_of ((x * 64 + y) div 16)]"
    using xy(1-2) by simp
  ultimately show ?case by (simp only: xy(3) char)
qed simp

lemma b64_encode_chars: "set (b64_encode s) \<subseteq> insert (CHR ''='') (set alphabet)"
proof (induction s rule: b64_encode.induct)
  case (1 a b c s)
  have "byte a * 65536 + byte b * 256 + byte c < 16777216"
    using byte_less [of a] byte_less [of b] byte_less [of c] by linarith
  then show ?case using 1 by (auto simp: Let_def b64_char_in sextets)
next
  case (2 a b)
  have "byte a * 65536 + byte b * 256 < 16777216" using byte_less [of a] byte_less [of b] by linarith
  then show ?case by (auto simp: Let_def b64_char_in sextets)
next
  case (3 a)
  have "byte a * 65536 < 16777216" using byte_less [of a] by linarith
  then show ?case by (auto simp: Let_def b64_char_in sextets)
qed simp

lemma b64_decode_encode: "b64_decode (b64_encode s) = Some s"
proof -
  have "c \<noteq> CHR 0x0A \<and> c \<noteq> CHR 0x0D" if "c \<in> set (b64_encode s)" for c
    using that b64_encode_chars [of s] alphabet_facts(4,5) by auto
  then have "filter (\<lambda>c. c \<noteq> CHR 0x0A \<and> c \<noteq> CHR 0x0D) (b64_encode s) = b64_encode s"
    by (auto simp: filter_id_conv)
  then show ?thesis by (simp add: b64_decode_def b64_groups_encode)
qed

subsection \<open>UTF-8\<close>

function valid_utf8 :: "string \<Rightarrow> bool" where
  "valid_utf8 s = (if s = [] then True else if rune_len s = 0 then False else valid_utf8 (drop (rune_len s) s))"
  by pat_completeness auto
termination by (relation "measure length") auto

declare valid_utf8.simps [simp del]

lemma valid_utf8_ok: "valid_utf8 s \<Longrightarrow> utf8_ok s"
proof (induction s rule: valid_utf8.induct)
  case (1 s)
  show ?case
  proof (cases "s = []")
    case False
    with 1 have "rune_len s \<noteq> 0" "utf8_ok (drop (rune_len s) s)"
      by (auto simp: valid_utf8.simps [of s] split: if_splits)
    with False show ?thesis by (simp add: utf8_ok_def json_text.simps [of s])
  qed simp
qed

lemma ascii_rune: "between (CHR 0x00) (CHR 0x7F) c \<Longrightarrow> rune_len (c # s) = 1"
  by simp

lemma ascii_utf8: "list_all (between (CHR 0x00) (CHR 0x7F)) s \<Longrightarrow> utf8_ok s"
proof (induction s)
  case (Cons c s)
  then show ?case by (simp add: utf8_ok_def json_text.simps [of "c # s"])
qed simp

lemma b64_encode_utf8: "utf8_ok (b64_encode s)"
proof (rule ascii_utf8)
  have "list_all (between (CHR 0x00) (CHR 0x7F)) (CHR ''='' # alphabet)" by code_simp
  then show "list_all (between (CHR 0x00) (CHR 0x7F)) (b64_encode s)"
    using b64_encode_chars [of s] by (auto simp: list_all_iff)
qed

subsection \<open>Counting and replacing\<close>

function count_sub :: "string \<Rightarrow> string \<Rightarrow> nat" where
  "count_sub old s =
     (if old = [] \<or> s = [] then 0
      else if has_prefix s old then Suc (count_sub old (drop (length old) s))
      else count_sub old (tl s))"
  by pat_completeness auto
termination by (relation "measure (\<lambda>(old, s). length s)") auto

function replace_n :: "string \<Rightarrow> string \<Rightarrow> nat \<Rightarrow> string \<Rightarrow> string" where
  "replace_n old new n s =
     (if old = [] \<or> s = [] \<or> n = 0 then s
      else if has_prefix s old then new @ replace_n old new (n - 1) (drop (length old) s)
      else hd s # replace_n old new n (tl s))"
  by pat_completeness auto
termination by (relation "measure (\<lambda>(old, new, n, s). length s)") auto

declare count_sub.simps [simp del] replace_n.simps [simp del]

text \<open>The text between the occurrences (\<open>strings.Split\<close>), as the reference.\<close>

function pieces :: "string \<Rightarrow> string \<Rightarrow> string list" where
  "pieces old s =
     (if old = [] \<or> s = [] then [s]
      else if has_prefix s old then [] # pieces old (drop (length old) s)
      else (case pieces old (tl s) of p # ps \<Rightarrow> (hd s # p) # ps | [] \<Rightarrow> [[hd s]]))"
  by pat_completeness auto
termination by (relation "measure (\<lambda>(old, s). length s)") auto

declare pieces.simps [simp del]

text \<open>Pieces joined by \<open>new\<close> at the first \<open>k\<close> places and by \<open>old\<close> at the others.\<close>

fun join_first :: "nat \<Rightarrow> string \<Rightarrow> string \<Rightarrow> string list \<Rightarrow> string" where
  "join_first k new old [] = []"
| "join_first k new old [p] = p"
| "join_first k new old (p # q # ps) = p @ (if 0 < k then new else old) @ join_first (k - 1) new old (q # ps)"

lemma pieces_ne [simp]: "pieces old s \<noteq> []"
  by (subst pieces.simps) (auto split: list.split)

lemma join_first_Cons: "ps \<noteq> [] \<Longrightarrow> join_first k new old ((c # p) # ps) = c # join_first k new old (p # ps)"
  by (cases ps) auto

lemma join_first_head: "join_first k new old ((c # p) # ps) = c # join_first k new old (p # ps)"
  by (cases ps) auto

lemma pieces_count: "length (pieces old s) = Suc (count_sub old s)"
proof (induction old s rule: pieces.induct)
  case (1 old s)
  then show ?case
    by (subst pieces.simps, subst count_sub.simps) (auto split: list.splits)
qed

lemma replace_pieces: "old \<noteq> [] \<Longrightarrow> replace_n old new n s = join_first n new old (pieces old s)"
proof (induction old s arbitrary: n rule: pieces.induct)
  case (1 old s)
  show ?case
  proof (cases "s = []")
    case True
    then show ?thesis by (simp add: pieces.simps [of old "[]"] replace_n.simps [of old new n "[]"])
  next
    case s: False
    show ?thesis
    proof (cases "has_prefix s old")
      case True
      let ?r = "drop (length old) s"
      obtain q qs where q: "pieces old ?r = q # qs" by (cases "pieces old ?r") auto
      have split: "s = old @ ?r" using True by (auto simp: has_prefix_iff)
      have ih: "replace_n old new m ?r = join_first m new old (q # qs)" for m
        using "1.IH"(1) [of m] "1.prems" s True q by simp
      have "replace_n old new 0 ?r = ?r" by (simp add: replace_n.simps)
      then have zero: "join_first 0 new old (q # qs) = ?r" using ih [of 0] by simp
      show ?thesis
        using "1.prems" s True split zero
        by (simp add: pieces.simps [of old s] q replace_n.simps [of old new n s] ih)
    next
      case False
      obtain q qs where q: "pieces old (tl s) = q # qs" by (cases "pieces old (tl s)") auto
      have ih: "replace_n old new m (tl s) = join_first m new old (q # qs)" for m
        using "1.IH"(2) [of m] "1.prems" s False q by simp
      have "replace_n old new 0 (tl s) = tl s" by (simp add: replace_n.simps)
      then have zero: "join_first 0 new old (q # qs) = tl s" using ih [of 0] by simp
      show ?thesis
        using "1.prems" s False zero
        by (simp add: pieces.simps [of old s] q replace_n.simps [of old new n s] ih join_first_head)
    qed
  qed
qed

lemma join_pieces: "old \<noteq> [] \<Longrightarrow> join_first 0 new old (pieces old s) = s"
  using replace_pieces [of old new 0 s] by (simp add: replace_n.simps)

end
