(* ===== verification/Files.thy ===== *)
theory Files
  imports Texts
begin

section \<open>The file tools (internal/tools/filesystem.go)\<close>

text \<open>
  A file system is a map from the name of an entry to what it is; a directory's entries are those
  named below it. \<open>ent\<close> is the kernel's reading of a path: the entry it names, symbolic links in the
  directories followed, the last component not; the last component is followed where the program
  opens a file. \<open>fail\<close> says which step of an operation fails (a full disk, a missing permission).

  Regular expressions are an argument: \<open>compile\<close> gives an error or the set of the lines that match.
  The contents of devices and pipes are not modelled: they read as nothing.
\<close>

datatype node =
    RegFile string nat
  | SymLink string
  | Directory
  | Special

type_synonym fsys = "node gomap"

abbreviation EISDIR :: goerr where "EISDIR \<equiv> ErrOS ''is a directory''"
abbreviation ENOTDIR :: goerr where "ENOTDIR \<equiv> ErrOS ''not a directory''"
abbreviation ELOOP :: goerr where "ELOOP \<equiv> ErrOS ''too many levels of symbolic links''"
abbreviation EEXIST :: goerr where "EEXIST \<equiv> ErrOS ''file exists''"
abbreviation EINVAL :: goerr where "EINVAL \<equiv> ErrOS ''invalid argument''"
abbreviation ENOTEMPTY :: goerr where "ENOTEMPTY \<equiv> ErrOS ''directory not empty''"

subsection \<open>The system calls\<close>

text \<open>The entry after following symbolic links, at most 40 of them.\<close>

fun follow_links :: "nat \<Rightarrow> (string \<Rightarrow> string) \<Rightarrow> fsys \<Rightarrow> string \<Rightarrow> string option" where
  "follow_links 0 ent fs e = None"
| "follow_links (Suc n) ent fs e =
     (case gm_get fs e of Some (SymLink t) \<Rightarrow> follow_links n ent fs (ent t) | _ \<Rightarrow> Some e)"

definition target_entry :: "(string \<Rightarrow> string) \<Rightarrow> fsys \<Rightarrow> string \<Rightarrow> string option" where
  "target_entry ent fs path = follow_links 41 ent fs (ent path)"

definition open_read :: "(string \<Rightarrow> string) \<Rightarrow> fsys \<Rightarrow> string \<Rightarrow> string res" where
  "open_read ent fs path =
     (case target_entry ent fs path of
        None \<Rightarrow> Inl ELOOP
      | Some e \<Rightarrow>
          (case gm_get fs e of
             None \<Rightarrow> Inl ErrNotExist
           | Some (RegFile d m) \<Rightarrow> Inr d
           | Some Directory \<Rightarrow> Inl EISDIR
           | Some _ \<Rightarrow> Inr []))"

text \<open>The permission bits of the file a path leads to.\<close>

definition stat_mode :: "(string \<Rightarrow> string) \<Rightarrow> fsys \<Rightarrow> string \<Rightarrow> nat" where
  "stat_mode ent fs path =
     (case target_entry ent fs path of
        Some e \<Rightarrow> (case gm_get fs e of Some (RegFile d m) \<Rightarrow> m | _ \<Rightarrow> 0)
      | None \<Rightarrow> 0)"

definition below :: "string \<Rightarrow> string \<Rightarrow> bool" where
  "below d k \<longleftrightarrow> has_prefix k (if d = ''/'' then d else d @ ''/'') \<and> k \<noteq> d"

text \<open>\<open>os.Rename\<close>, which refuses to replace a directory.\<close>

definition rename_entry :: "string \<Rightarrow> string \<Rightarrow> fsys \<Rightarrow> goerr option \<times> fsys" where
  "rename_entry a b fs =
     (case gm_get fs a of
        None \<Rightarrow> (Some ErrNotExist, fs)
      | Some n \<Rightarrow>
          if gm_get fs b = Some Directory then (Some EEXIST, fs)
          else if a = b then (None, fs)
          else if n = Directory \<and> gm_has fs b then (Some ENOTDIR, fs)
          else if n = Directory \<and> below a b then (Some EINVAL, fs)
          else (None, map (\<lambda>(k, v). (if k = a then b else if below a k then b @ drop (length a) k else k, v)) (gm_del b fs)))"

definition remove_entry :: "string \<Rightarrow> fsys \<Rightarrow> goerr option \<times> fsys" where
  "remove_entry a fs =
     (if \<not> gm_has fs a then (Some ErrNotExist, fs)
      else if gm_get fs a = Some Directory \<and> list_ex (\<lambda>(k, _). below a k) fs then (Some ENOTEMPTY, fs)
      else (None, gm_del a fs))"

definition remove_tree :: "string \<Rightarrow> fsys \<Rightarrow> fsys" where
  "remove_tree a fs = filter (\<lambda>(k, _). k \<noteq> a \<and> \<not> below a k) fs"

subsection \<open>Contents\<close>

definition encodeFileData :: "string \<Rightarrow> string \<times> string" where
  "encodeFileData data =
     (if valid_utf8 data \<and> CHR 0x00 \<notin> set data then (''utf-8'', data) else (''base64'', b64_encode data))"

definition decode_content :: "string \<Rightarrow> string \<Rightarrow> string res" where
  "decode_content encoding content =
     (if encoding = ''base64'' then
        (case b64_decode content of
           None \<Rightarrow> Inl (Errorf ''decode base64: %w'' [FErr (ErrOS ''base64'')])
         | Some b \<Rightarrow> Inr b)
      else if encoding \<noteq> [] \<and> encoding \<noteq> ''utf-8''
      then Inl (Errorf ''unsupported encoding %q'' [FStr encoding])
      else Inr content)"

subsection \<open>Reading\<close>

abbreviation path_required :: goerr where "path_required \<equiv> err_new ''path is required''"

record read_output =
  roPath :: string
  roEncoding :: string
  roContent :: string
  roBytes :: nat
  roTruncated :: bool

definition read_limit :: "int \<Rightarrow> int" where
  "read_limit n = (if n \<le> 0 \<or> 10 * 1048576 < n then 10 * 1048576 else n)"

definition read_range :: "int \<Rightarrow> int \<Rightarrow> string \<Rightarrow> string \<times> bool" where
  "read_range offset limit file =
     (let rest = (if 0 < offset then drop (nat offset) file else file);
          got = take (nat (limit + 1)) rest;
          truncated = (limit < int (length got))
      in (if truncated then take (nat limit) got else got, truncated))"

definition fsRead :: "(string \<Rightarrow> string) \<Rightarrow> raw \<Rightarrow> fsys \<Rightarrow> read_output res" where
  "fsRead ent args fs =
     (case decode_members [''path'', ''offset'', ''max_bytes''] args of
        Inl e \<Rightarrow> Inl e
      | Inr ms \<Rightarrow>
          let (p, e1) = dec_field set_str [] ''path'' ms;
              (off, e2) = dec_field set_int 0 ''offset'' ms;
              (mx, e3) = dec_field set_int 0 ''max_bytes'' ms
          in if e1 \<or> e2 \<or> e3 then Inl invalid_arguments
             else if p = [] then Inl path_required
             else (case open_read ent fs p of
                     Inl e \<Rightarrow> Inl e
                   | Inr file \<Rightarrow>
                       let (data, truncated) = read_range off (read_limit mx) file;
                           (enc, content) = encodeFileData data
                       in Inr \<lparr>roPath = p, roEncoding = enc, roContent = content, roBytes = length data,
                               roTruncated = truncated\<rparr>))"

subsection \<open>Writing\<close>

text \<open>A field of type \<open>uint32\<close>.\<close>

fun set_uint32 :: "json \<Rightarrow> nat \<Rightarrow> nat option" where
  "set_uint32 (JNum (JInt n)) _ = (if 0 \<le> n \<and> n < 2 ^ 32 then Some (nat n) else None)"
| "set_uint32 JNull old = Some old"
| "set_uint32 _ _ = None"

text \<open>
  Opening for writing creates the file with the mode the system lets through (\<open>perm\<close>), or cuts it to
  nothing unless it is appended to. \<open>short\<close> is how much was written when writing fails.
\<close>

definition open_write ::
  "(string \<Rightarrow> string) \<Rightarrow> (nat \<Rightarrow> nat) \<Rightarrow> string \<Rightarrow> bool \<Rightarrow> nat \<Rightarrow> fsys \<Rightarrow> (string \<times> string \<times> nat) res" where
  "open_write ent perm path app mode fs =
     (case target_entry ent fs path of
        None \<Rightarrow> Inl ELOOP
      | Some e \<Rightarrow>
          (case gm_get fs e of
             None \<Rightarrow> Inr (e, [], perm mode)
           | Some (RegFile d m) \<Rightarrow> Inr (e, if app then d else [], m)
           | Some Directory \<Rightarrow> Inl EISDIR
           | Some _ \<Rightarrow> Inl (ErrOS ''special file'')))"

definition write_file ::
  "(string \<Rightarrow> string) \<Rightarrow> (string \<Rightarrow> fsys \<Rightarrow> goerr option \<times> fsys) \<Rightarrow> (nat \<Rightarrow> nat) \<Rightarrow> (string \<Rightarrow> goerr option) \<Rightarrow>
   nat \<Rightarrow> string \<Rightarrow> string \<Rightarrow> bool \<Rightarrow> nat \<Rightarrow> fsys \<Rightarrow> nat res \<times> fsys" where
  "write_file ent mkdirs perm fail short path data app mode fs =
     (case (if path_dir path \<noteq> ''.'' then mkdirs (path_dir path) fs else (None, fs)) of
        (Some e, fs1) \<Rightarrow> (Inl e, fs1)
      | (None, fs1) \<Rightarrow>
          (case fail ''open'' of
             Some e \<Rightarrow> (Inl e, fs1)
           | None \<Rightarrow>
               (case open_write ent perm path app (if mode = 0 then 420 else mode) fs1 of
                  Inl e \<Rightarrow> (Inl e, fs1)
                | Inr (k, old, m) \<Rightarrow>
                    (case fail ''write'' of
                       Some e \<Rightarrow> (Inl e, gm_put k (RegFile (old @ take short data) m) fs1)
                     | None \<Rightarrow> (Inr (length data), gm_put k (RegFile (old @ data) m) fs1)))))"

definition write_fields :: "string list" where
  "write_fields = [''path'', ''content'', ''encoding'', ''append'', ''mode'']"

definition fsWrite ::
  "(string \<Rightarrow> string) \<Rightarrow> (string \<Rightarrow> fsys \<Rightarrow> goerr option \<times> fsys) \<Rightarrow> (nat \<Rightarrow> nat) \<Rightarrow> (string \<Rightarrow> goerr option) \<Rightarrow>
   nat \<Rightarrow> raw \<Rightarrow> fsys \<Rightarrow> nat res \<times> fsys" where
  "fsWrite ent mkdirs perm fail short args fs =
     (case decode_members write_fields args of
        Inl e \<Rightarrow> (Inl e, fs)
      | Inr ms \<Rightarrow>
          let (p, e1) = dec_field set_str [] ''path'' ms;
              (c, e2) = dec_field set_str [] ''content'' ms;
              (enc, e3) = dec_field set_str [] ''encoding'' ms;
              (app, e4) = dec_field set_bool False ''append'' ms;
              (mode, e5) = dec_field set_uint32 0 ''mode'' ms
          in if e1 \<or> e2 \<or> e3 \<or> e4 \<or> e5 then (Inl invalid_arguments, fs)
             else if p = [] then (Inl path_required, fs)
             else (case decode_content enc c of
                     Inl e \<Rightarrow> (Inl e, fs)
                   | Inr data \<Rightarrow> write_file ent mkdirs perm fail short p data app mode fs))"

subsection \<open>Patching\<close>

record patch_edit =
  peOld :: string
  peNew :: string
  peCount :: int

text \<open>The elements of \<open>edits\<close>; an unknown member of an element is refused like one of the message.\<close>

definition edit_fields :: "string list" where
  "edit_fields = [''old'', ''new'', ''count'']"

fun set_edit :: "json \<Rightarrow> patch_edit option" where
  "set_edit (JObj ms) =
     (let (old, e1) = dec_field set_str [] ''old'' ms;
          (new, e2) = dec_field set_str [] ''new'' ms;
          (n, e3) = dec_field set_int 0 ''count'' ms
      in if e1 \<or> e2 \<or> e3 \<or> \<not> list_all (\<lambda>(k, _). known_field edit_fields k) ms then None
         else Some \<lparr>peOld = old, peNew = new, peCount = n\<rparr>)"
| "set_edit JNull = Some \<lparr>peOld = [], peNew = [], peCount = 0\<rparr>"
| "set_edit _ = None"

fun set_edit_list :: "json list \<Rightarrow> patch_edit list option" where
  "set_edit_list [] = Some []"
| "set_edit_list (v # vs) =
     (case set_edit v of None \<Rightarrow> None | Some e \<Rightarrow> map_option ((#) e) (set_edit_list vs))"

fun set_edits :: "json \<Rightarrow> patch_edit list \<Rightarrow> patch_edit list option" where
  "set_edits (JArr vs) _ = set_edit_list vs"
| "set_edits JNull _ = Some []"
| "set_edits _ _ = None"

definition edit_count :: "patch_edit \<Rightarrow> nat \<Rightarrow> nat" where
  "edit_count e found = (if peCount e \<le> 0 \<or> int found < peCount e then found else nat (peCount e))"

fun apply_edits :: "nat \<Rightarrow> patch_edit list \<Rightarrow> string \<Rightarrow> nat \<Rightarrow> (string \<times> nat) res" where
  "apply_edits i [] txt made = Inr (txt, made)"
| "apply_edits i (e # es) txt made =
     (if peOld e = [] then Inl (Errorf ''edit %d: old text is empty'' [FInt (int i)])
      else
        let found = count_sub (peOld e) txt
        in if found = 0 then Inl (Errorf ''edit %d: old text not found'' [FInt (int i)])
           else
             let n = edit_count e found
             in apply_edits (i + 1) es (replace_n (peOld e) (peNew e) n txt) (made + n))"

text \<open>
  The new text goes to a temporary file beside the old one, named \<open>tmp\<close>, which takes over the
  permissions and is renamed; whatever step fails, the temporary file is removed.
\<close>

definition replace_file ::
  "(string \<Rightarrow> string) \<Rightarrow> (string \<Rightarrow> goerr option) \<Rightarrow> string \<Rightarrow> string \<Rightarrow> string \<Rightarrow> fsys \<Rightarrow> goerr option \<times> fsys" where
  "replace_file ent fail tmp path txt fs =
     (case fail ''create'' of
        Some e \<Rightarrow> (Some e, fs)
      | None \<Rightarrow>
          let mode = stat_mode ent fs path;
              fs1 = gm_put tmp (RegFile [] 384) fs
          in (case fail ''chmod'' of
            Some e \<Rightarrow> (Some e, gm_del tmp fs1)
          | None \<Rightarrow>
              (case (if is_nil (fail ''write'') then if is_nil (fail ''sync'') then fail ''close'' else fail ''sync'' else fail ''write'') of
                 Some e \<Rightarrow> (Some e, gm_del tmp fs1)
               | None \<Rightarrow>
                   let fs2 = gm_put tmp (RegFile txt mode) fs1
                   in (case fail ''rename'' of
                         Some e \<Rightarrow> (Some e, gm_del tmp fs2)
                       | None \<Rightarrow>
                           (case rename_entry tmp (ent path) fs2 of
                              (Some e, fs3) \<Rightarrow> (Some e, gm_del tmp fs3)
                            | (None, fs3) \<Rightarrow> (None, fs3))))))"

definition patch_file ::
  "(string \<Rightarrow> string) \<Rightarrow> (string \<Rightarrow> goerr option) \<Rightarrow> string \<Rightarrow> string \<Rightarrow> patch_edit list \<Rightarrow> fsys \<Rightarrow> nat res \<times> fsys" where
  "patch_file ent fail tmp path edits fs =
     (case open_read ent fs path of
        Inl e \<Rightarrow> (Inl e, fs)
      | Inr txt \<Rightarrow>
          (case apply_edits 0 edits txt 0 of
             Inl e \<Rightarrow> (Inl e, fs)
           | Inr (txt', made) \<Rightarrow>
               (case replace_file ent fail tmp path txt' fs of
                  (Some e, fs1) \<Rightarrow> (Inl e, fs1)
                | (None, fs1) \<Rightarrow> (Inr made, fs1))))"

definition fsPatch ::
  "(string \<Rightarrow> string) \<Rightarrow> (string \<Rightarrow> goerr option) \<Rightarrow> string \<Rightarrow> raw \<Rightarrow> fsys \<Rightarrow> nat res \<times> fsys" where
  "fsPatch ent fail tmp args fs =
     (case decode_members [''path'', ''edits''] args of
        Inl e \<Rightarrow> (Inl e, fs)
      | Inr ms \<Rightarrow>
          let (p, e1) = dec_field set_str [] ''path'' ms;
              (edits, e2) = dec_field set_edits [] ''edits'' ms
          in if e1 \<or> e2 then (Inl invalid_arguments, fs)
             else if p = [] \<or> edits = [] then (Inl (err_new ''path and at least one edit are required''), fs)
             else patch_file ent fail tmp p edits fs)"

subsection \<open>Moving, removing, inspecting\<close>

text \<open>\<open>os.Rename\<close> needs the directory it moves the entry into.\<close>

definition rename_path :: "string \<Rightarrow> string \<Rightarrow> fsys \<Rightarrow> goerr option \<times> fsys" where
  "rename_path a b fs =
     (if path_dir b = ''/'' then rename_entry a b fs
      else (case gm_get fs (path_dir b) of
              None \<Rightarrow> (Some ErrNotExist, fs)
            | Some Directory \<Rightarrow> rename_entry a b fs
            | Some _ \<Rightarrow> (Some ENOTDIR, fs)))"

definition fsMove :: "(string \<Rightarrow> string) \<Rightarrow> raw \<Rightarrow> fsys \<Rightarrow> (string \<times> string) res \<times> fsys" where
  "fsMove ent args fs =
     (case decode_members [''source'', ''dest''] args of
        Inl e \<Rightarrow> (Inl e, fs)
      | Inr ms \<Rightarrow>
          let (a, e1) = dec_field set_str [] ''source'' ms;
              (b, e2) = dec_field set_str [] ''dest'' ms
          in if e1 \<or> e2 then (Inl invalid_arguments, fs)
             else if a = [] \<or> b = [] then (Inl (err_new ''source and dest are required''), fs)
             else (case rename_path (ent a) (ent b) fs of
                     (Some e, fs1) \<Rightarrow> (Inl e, fs1)
                   | (None, fs1) \<Rightarrow> (Inr (a, b), fs1)))"

text \<open>\<open>os.RemoveAll\<close> refuses a path that ends in a dot.\<close>

definition ends_with_dot :: "string \<Rightarrow> bool" where
  "ends_with_dot path \<longleftrightarrow> path = ''.'' \<or> has_suffix path ''/.''"

definition fsRemove :: "(string \<Rightarrow> string) \<Rightarrow> raw \<Rightarrow> fsys \<Rightarrow> string res \<times> fsys" where
  "fsRemove ent args fs =
     (case decode_members [''path'', ''recursive''] args of
        Inl e \<Rightarrow> (Inl e, fs)
      | Inr ms \<Rightarrow>
          let (p, e1) = dec_field set_str [] ''path'' ms;
              (rec, e2) = dec_field set_bool False ''recursive'' ms
          in if e1 \<or> e2 then (Inl invalid_arguments, fs)
             else if p = [] then (Inl path_required, fs)
             else (case gm_get fs (ent p) of
                     None \<Rightarrow> (Inl ErrNotExist, fs)
                   | Some n \<Rightarrow>
                       if n = Directory \<and> rec then
                         (if ends_with_dot p then (Inl EINVAL, fs) else (Inr p, remove_tree (ent p) fs))
                       else (case remove_entry (ent p) fs of
                               (Some e, fs1) \<Rightarrow> (Inl e, fs1)
                             | (None, fs1) \<Rightarrow> (Inr p, fs1))))"

fun fileType :: "node \<Rightarrow> string" where
  "fileType Directory = ''directory''"
| "fileType (SymLink t) = ''symlink''"
| "fileType (RegFile d m) = ''file''"
| "fileType Special = ''other''"

fun node_size :: "node \<Rightarrow> nat" where
  "node_size (RegFile d m) = length d"
| "node_size (SymLink t) = length t"
| "node_size _ = 0"

definition fsStat :: "(string \<Rightarrow> string) \<Rightarrow> raw \<Rightarrow> fsys \<Rightarrow> (string \<times> (string \<times> nat) option) res" where
  "fsStat ent args fs =
     (case decode_members [''path''] args of
        Inl e \<Rightarrow> Inl e
      | Inr ms \<Rightarrow>
          let (p, e1) = dec_field set_str [] ''path'' ms
          in if e1 then Inl invalid_arguments
             else if p = [] then Inl path_required
             else Inr (p, map_option (\<lambda>n. (fileType n, node_size n)) (gm_get fs (ent p))))"

text \<open>The names in a directory.\<close>

definition child_name :: "string \<Rightarrow> string \<Rightarrow> string" where
  "child_name d k = drop (if d = ''/'' then 1 else length d + 1) k"

definition dir_children :: "string \<Rightarrow> fsys \<Rightarrow> (string \<times> node) list" where
  "dir_children d fs =
     gm_sorted (map (\<lambda>(k, n). (child_name d k, n))
       (filter (\<lambda>(k, _). below d k \<and> CHR ''/'' \<notin> set (child_name d k)) fs))"

definition fsList :: "(string \<Rightarrow> string) \<Rightarrow> raw \<Rightarrow> fsys \<Rightarrow> (string \<times> (string \<times> string \<times> string \<times> nat) list) res" where
  "fsList ent args fs =
     (case decode_members [''path'', ''hidden''] args of
        Inl e \<Rightarrow> Inl e
      | Inr ms \<Rightarrow>
          let (p0, e1) = dec_field set_str [] ''path'' ms;
              (hidden, e2) = dec_field set_bool False ''hidden'' ms;
              p = (if p0 = [] then ''.'' else p0)
          in if e1 \<or> e2 then Inl invalid_arguments
             else (case target_entry ent fs p of
                     None \<Rightarrow> Inl ELOOP
                   | Some d \<Rightarrow>
                       (case gm_get fs d of
                          None \<Rightarrow> Inl ErrNotExist
                        | Some Directory \<Rightarrow>
                            Inr (p, map (\<lambda>(n, v). (n, path_join [p, n], fileType v, node_size v))
                              (filter (\<lambda>(n, _). hidden \<or> \<not> has_prefix n ''.'') (dir_children d fs)))
                        | Some _ \<Rightarrow> Inl ENOTDIR)))"

subsection \<open>Searching\<close>

text \<open>
  \<open>filepath.WalkDir\<close> visits the root and everything below it without following links, a directory
  before its entries and these in the order of their names: the order of the lists of components. An
  entry is delivered under the path of the root joined with the rest of its name.
\<close>

definition walk_order :: "string \<Rightarrow> string list" where
  "walk_order k = split_on (CHR ''/'') k"

definition walk :: "(string \<Rightarrow> string) \<Rightarrow> string \<Rightarrow> fsys \<Rightarrow> (string \<times> string \<times> node) list" where
  "walk ent root fs =
     (let r = ent root
      in map (\<lambda>(k, n). if k = r then (root, path_base root, n)
                       else (path_join [root, child_name r k], last (split_on (CHR ''/'') k), n))
           (sort_key (\<lambda>(k, n). walk_order k) (filter (\<lambda>(k, n). k = r \<or> below r k) fs)))"

text \<open>The lines a scanner delivers before it meets one of 1 MiB or more, which ends the file.\<close>

definition scanned :: "string \<Rightarrow> string list" where
  "scanned s = map drop_cr (takeWhile (\<lambda>l. int (length l) < 1048576) (text_lines s))"

definition search_max :: "int \<Rightarrow> nat" where
  "search_max n = (if n \<le> 0 \<or> 5000 < n then 200 else nat n)"

definition search_size :: "int \<Rightarrow> int" where
  "search_size n = (if n \<le> 0 \<or> 64 * 1048576 < n then 4 * 1048576 else n)"

type_synonym match = "string \<times> nat \<times> string"

text \<open>The loop over the lines of one file: the matches so far, and whether there are enough.\<close>

fun search_lines ::
  "(string \<Rightarrow> bool) \<Rightarrow> string \<Rightarrow> nat \<Rightarrow> nat \<Rightarrow> string list \<Rightarrow> match list \<Rightarrow> match list \<times> bool" where
  "search_lines re path mx line [] acc = (acc, False)"
| "search_lines re path mx line (l # ls) acc =
     (if re l then
        (let acc1 = acc @ [(path, line + 1, l)]
         in if mx \<le> length acc1 then (acc1, True) else search_lines re path mx (line + 1) ls acc1)
      else search_lines re path mx (line + 1) ls acc)"

text \<open>The lines of a file that is searched at all; a link is opened, but its own size is what counts.\<close>

definition searched_lines ::
  "(string \<Rightarrow> string) \<Rightarrow> fsys \<Rightarrow> string \<Rightarrow> int \<Rightarrow> string \<times> string \<times> node \<Rightarrow> string list" where
  "searched_lines ent fs name maxFile e =
     (case e of (path, base, n) \<Rightarrow>
        if n = Directory \<or> (name \<noteq> [] \<and> \<not> contains base name) \<or> maxFile < int (node_size n) then []
        else (case open_read ent fs path of Inl _ \<Rightarrow> [] | Inr txt \<Rightarrow> scanned txt))"

fun search_entries ::
  "(string \<Rightarrow> bool) \<Rightarrow> (string \<times> string \<times> node \<Rightarrow> string list) \<Rightarrow> nat \<Rightarrow> (string \<times> string \<times> node) list \<Rightarrow>
   match list \<Rightarrow> match list \<times> bool" where
  "search_entries re lines_of mx [] acc = (acc, False)"
| "search_entries re lines_of mx (e # es) acc =
     (case search_lines re (fst e) mx 0 (lines_of e) acc of
        (acc1, True) \<Rightarrow> (acc1, True)
      | (acc1, False) \<Rightarrow> search_entries re lines_of mx es acc1)"

definition fsSearch ::
  "(string \<Rightarrow> string) \<Rightarrow> (string \<Rightarrow> (string \<Rightarrow> bool) res) \<Rightarrow> raw \<Rightarrow> fsys \<Rightarrow> (match list \<times> bool) res" where
  "fsSearch ent compile args fs =
     (case decode_members [''root'', ''pattern'', ''name'', ''max_results'', ''max_file_bytes''] args of
        Inl e \<Rightarrow> Inl e
      | Inr ms \<Rightarrow>
          let (root, e1) = dec_field set_str [] ''root'' ms;
              (pat, e2) = dec_field set_str [] ''pattern'' ms;
              (name, e3) = dec_field set_str [] ''name'' ms;
              (mx, e4) = dec_field set_int 0 ''max_results'' ms;
              (mf, e5) = dec_field set_int 0 ''max_file_bytes'' ms
          in if e1 \<or> e2 \<or> e3 \<or> e4 \<or> e5 then Inl invalid_arguments
             else if root = [] \<or> pat = [] then Inl (err_new ''root and pattern are required'')
             else (case compile pat of
                     Inl e \<Rightarrow> Inl e
                   | Inr re \<Rightarrow>
                       Inr (search_entries re (searched_lines ent fs name (search_size mf)) (search_max mx)
                              (walk ent root fs) [])))"

subsection \<open>Lemmas\<close>

text \<open>All the matches of a file, of a walk: the reference for the loops.\<close>

definition file_matches :: "(string \<Rightarrow> bool) \<Rightarrow> string \<Rightarrow> nat \<Rightarrow> string list \<Rightarrow> match list" where
  "file_matches re path n ls = map (\<lambda>(i, l). (path, i, l)) (filter (\<lambda>(i, l). re l) (enumerate (Suc n) ls))"

definition all_matches ::
  "(string \<Rightarrow> bool) \<Rightarrow> (string \<times> string \<times> node \<Rightarrow> string list) \<Rightarrow> (string \<times> string \<times> node) list \<Rightarrow> match list" where
  "all_matches re lines_of es = concat (map (\<lambda>e. file_matches re (fst e) 0 (lines_of e)) es)"

lemma search_lines_eq:
  "length acc < mx \<Longrightarrow> search_lines re path mx n ls acc =
     (let full = acc @ file_matches re path n ls in (take mx full, mx \<le> length full))"
proof (induction ls arbitrary: n acc)
  case Nil
  then show ?case by (simp add: file_matches_def)
next
  case (Cons l ls)
  show ?case
  proof (cases "re l")
    case False
    then show ?thesis using Cons by (simp add: file_matches_def Let_def)
  next
    case True
    then have f: "file_matches re path n (l # ls) = (path, Suc n, l) # file_matches re path (Suc n) ls"
      by (simp add: file_matches_def)
    show ?thesis
    proof (cases "mx \<le> length acc + 1")
      case enough: True
      then have "mx = length acc + 1" using Cons.prems by simp
      then show ?thesis using True by (simp add: f Let_def)
    next
      case False
      then show ?thesis using True Cons.IH [of "acc @ [(path, Suc n, l)]" "Suc n"] by (simp add: f Let_def)
    qed
  qed
qed

lemma search_entries_eq:
  "length acc < mx \<Longrightarrow> search_entries re lines_of mx es acc =
     (let full = acc @ all_matches re lines_of es in (take mx full, mx \<le> length full))"
proof (induction es arbitrary: acc)
  case Nil
  then show ?case by (simp add: all_matches_def)
next
  case (Cons e es)
  let ?f = "acc @ file_matches re (fst e) 0 (lines_of e)"
  have a: "all_matches re lines_of (e # es) = file_matches re (fst e) 0 (lines_of e) @ all_matches re lines_of es"
    by (simp add: all_matches_def)
  show ?case
  proof (cases "mx \<le> length ?f")
    case True
    then have "mx - length acc \<le> length (file_matches re (fst e) 0 (lines_of e))" by simp
    with True Cons.prems show ?thesis by (simp add: search_lines_eq a Let_def)
  next
    case False
    then show ?thesis using Cons.prems Cons.IH [of ?f] by (simp add: search_lines_eq a Let_def)
  qed
qed

lemma search_max_pos: "0 < search_max n" "search_max n \<le> 5000"
  by (auto simp: search_max_def)

lemma decode_encode_data: "encodeFileData d = (enc, content) \<Longrightarrow> decode_content enc content = Inr d"
  by (auto simp: encodeFileData_def decode_content_def b64_decode_encode split: if_splits)

lemma encode_data_utf8: "encodeFileData d = (enc, content) \<Longrightarrow> json_text content = content"
  using b64_encode_utf8 [of d] valid_utf8_ok [of d]
  by (auto simp: encodeFileData_def utf8_ok_def split: if_splits)

lemma follow_put:
  "follow_links n ent fs e = Some k \<Longrightarrow> follow_links n ent (gm_put k (RegFile d m) fs) e = Some k"
proof (induction n arbitrary: e)
  case (Suc n)
  then show ?case by (cases "e = k") (auto split: option.splits node.splits)
qed simp

lemma open_read_put:
  "target_entry ent fs path = Some k \<Longrightarrow> open_read ent (gm_put k (RegFile d m) fs) path = Inr d"
  by (simp add: open_read_def target_entry_def follow_put)

text \<open>What writing leaves: the bytes after the old ones when appending, and nothing else changed.\<close>

lemma write_file_read:
  assumes "write_file ent mkdirs perm fail short path data app mode fs = (Inr n, fs')"
  shows "n = length data \<and> (\<exists>fs1 k old m. open_write ent perm path app (if mode = 0 then 420 else mode) fs1 = Inr (k, old, m) \<and>
    (fs1 = fs \<or> fs1 = snd (mkdirs (path_dir path) fs)) \<and> fs' = gm_put k (RegFile (old @ data) m) fs1 \<and>
    open_read ent fs' path = Inr (old @ data))"
proof -
  obtain r fs1 where mk: "(if path_dir path \<noteq> ''.'' then mkdirs (path_dir path) fs else (None, fs)) = (r, fs1)"
    by (rule prod.exhaust)
  then have fs1: "fs1 = fs \<or> fs1 = snd (mkdirs (path_dir path) fs)" by (auto split: if_splits)
  obtain k old m where ow: "open_write ent perm path app (if mode = 0 then 420 else mode) fs1 = Inr (k, old, m)"
    and n: "n = length data" and fs': "fs' = gm_put k (RegFile (old @ data) m) fs1"
    using assms unfolding write_file_def mk
    by (auto split: option.splits sum.splits prod.splits split del: if_split)
  from ow have "target_entry ent fs1 path = Some k"
    by (auto simp: open_write_def split: option.splits node.splits)
  from open_read_put [OF this] show ?thesis using ow fs1 fs' n by blast
qed

lemma open_write_fresh: "open_write ent perm path False mode fs = Inr (k, old, m) \<Longrightarrow> old = []"
  by (auto simp: open_write_def split: option.splits node.splits)

lemma fresh_del_put: "gm_get fs tmp = None \<Longrightarrow> gm_get (gm_del tmp (gm_put tmp v fs)) k = gm_get fs k"
  by simp

lemma rename_file:
  assumes "gm_get fs a = Some (RegFile d m)" and "gm_get fs b \<noteq> Some Directory" and "a \<noteq> b"
    and "\<And>k. gm_get fs k \<noteq> None \<Longrightarrow> \<not> below a k" and "gm_ok fs"
  shows "\<exists>fs'. rename_entry a b fs = (None, fs') \<and>
    (\<forall>k. gm_get fs' k = (if k = b then Some (RegFile d m) else if k = a then None else gm_get fs k))"
proof -
  let ?f = "\<lambda>(k, v). (if k = a then b else if below a k then b @ drop (length a) k else k, v)"
  have eq: "map ?f (gm_del b fs) = map (\<lambda>(k, v). (if k = a then b else k, v)) (gm_del b fs)"
  proof (rule map_cong [OF refl])
    fix kv assume mem: "kv \<in> set (gm_del b fs)"
    obtain k v where kv: "kv = (k, v)" by (rule prod.exhaust)
    with mem have "gm_get (gm_del b fs) k = Some v" using assms(5) by (simp add: gm_mem_get)
    then have "gm_get fs k \<noteq> None" by (auto split: if_splits)
    then show "?f kv = (\<lambda>(k, v). (if k = a then b else k, v)) kv" using assms(4) by (simp add: kv)
  qed
  have get: "gm_get (map (\<lambda>(k, v). (if k = a then b else k, v)) m') k =
      (if k = b then gm_get m' a else if k = a then None else gm_get m' k)"
    if "gm_get m' b = None" for m' :: fsys and k
    using that assms(3) by (induction m') (auto simp: gm_get_def split: if_splits)
  show ?thesis
    using assms(1-3) by (auto simp: rename_entry_def eq get)
qed

text \<open>A name nothing is stored under.\<close>

definition unused :: "string \<Rightarrow> fsys \<Rightarrow> bool" where
  "unused tmp fs \<longleftrightarrow> list_all (\<lambda>(k, _). k \<noteq> tmp \<and> \<not> below tmp k) fs"

lemma unused_get: "unused tmp fs \<Longrightarrow> gm_get fs tmp = None"
  by (auto simp: unused_def list_all_iff gm_get_None)

lemma unused_below: "unused tmp fs \<Longrightarrow> gm_get fs k \<noteq> None \<Longrightarrow> \<not> below tmp k"
  by (auto simp: unused_def list_all_iff dest: gm_get_mem)

lemma not_below_self: "\<not> below a a"
  by (simp add: below_def)

lemma replace_file_error:
  assumes "replace_file ent fail tmp path txt fs = (Some e, fs')" and "unused tmp fs" and "gm_ok fs"
  shows "gm_get fs' k = gm_get fs k"
proof (cases "rename_entry tmp (ent path) (gm_put tmp (RegFile txt (stat_mode ent fs path)) (gm_put tmp (RegFile [] 384) fs))")
  case (Pair r fs3)
  let ?fs2 = "gm_put tmp (RegFile txt (stat_mode ent fs path)) (gm_put tmp (RegFile [] 384) fs)"
  have "r = Some x \<Longrightarrow> fs3 = ?fs2" for x
    using Pair by (auto simp: rename_entry_def split: option.splits if_splits)
  then show ?thesis
    using assms(1) unused_get [OF assms(2)] Pair by (auto simp: replace_file_def Let_def split: option.splits if_splits)
qed

lemma replace_file_ok:
  assumes "replace_file ent fail tmp path txt fs = (None, fs')" and "unused tmp fs" and "gm_ok fs"
    and "gm_get fs (ent path) \<noteq> None" and "gm_get fs (ent path) \<noteq> Some Directory"
  shows "gm_get fs' k = (if k = ent path then Some (RegFile txt (stat_mode ent fs path)) else gm_get fs k)"
proof -
  let ?fs2 = "gm_put tmp (RegFile txt (stat_mode ent fs path)) (gm_put tmp (RegFile [] 384) fs)"
  have ne: "tmp \<noteq> ent path" using unused_get [OF assms(2)] assms(4) by auto
  have r: "rename_entry tmp (ent path) ?fs2 = (None, fs')"
    using assms(1) by (auto simp: replace_file_def Let_def split: option.splits if_splits prod.splits)
  have "\<exists>fs'. rename_entry tmp (ent path) ?fs2 = (None, fs') \<and>
      (\<forall>k. gm_get fs' k = (if k = ent path then Some (RegFile txt (stat_mode ent fs path))
         else if k = tmp then None else gm_get ?fs2 k))"
    by (rule rename_file) (use assms(3,5) ne unused_below [OF assms(2)] in \<open>auto simp: not_below_self split: if_splits\<close>)
  then show ?thesis using r unused_get [OF assms(2)] by auto
qed

lemma open_read_entry: "open_read ent fs path = Inr txt \<Longrightarrow> gm_get fs (ent path) \<noteq> None \<and> gm_get fs (ent path) \<noteq> Some Directory"
  by (auto simp: open_read_def target_entry_def numeral_eq_Suc split: option.splits node.splits)

lemma patch_file_error:
  "patch_file ent fail tmp path edits fs = (Inl e, fs') \<Longrightarrow> unused tmp fs \<Longrightarrow> gm_ok fs \<Longrightarrow> gm_get fs' k = gm_get fs k"
  by (auto simp: patch_file_def replace_file_error split: sum.splits prod.splits option.splits)

lemma patch_file_ok:
  assumes "patch_file ent fail tmp path edits fs = (Inr n, fs')" and "unused tmp fs" and "gm_ok fs"
  shows "\<exists>txt txt'. open_read ent fs path = Inr txt \<and> apply_edits 0 edits txt 0 = Inr (txt', n) \<and>
    (\<forall>k. gm_get fs' k = (if k = ent path then Some (RegFile txt' (stat_mode ent fs path)) else gm_get fs k))"
proof -
  obtain old new where txt0: "open_read ent fs path = Inr old" and ed: "apply_edits 0 edits old 0 = Inr (new, n)"
    and rf: "replace_file ent fail tmp path new fs = (None, fs')"
    using assms(1) by (auto simp: patch_file_def split: sum.splits prod.splits option.splits)
  from replace_file_ok [OF rf assms(2,3)] open_read_entry [OF txt0] txt0 ed show ?thesis by blast
qed

text \<open>A field of a message.\<close>

definition str_field :: "string \<Rightarrow> (string \<times> json) list \<Rightarrow> string" where
  "str_field name ms = fst (dec_field set_str [] name ms)"

definition int_field :: "string \<Rightarrow> (string \<times> json) list \<Rightarrow> int" where
  "int_field name ms = fst (dec_field set_int 0 name ms)"

lemma fsPatch_cases:
  "(\<exists>e. fsPatch ent fail tmp (RawDoc (JObj ms)) fs = (Inl e, fs)) \<or>
   fsPatch ent fail tmp (RawDoc (JObj ms)) fs =
     patch_file ent fail tmp (str_field ''path'' ms) (fst (dec_field set_edits [] ''edits'' ms)) fs"
  by (cases "dec_field set_str [] ''path'' ms"; cases "dec_field set_edits [] ''edits'' ms")
    (simp add: fsPatch_def str_field_def split: sum.splits)

lemma decode_other: "(\<And>ms. args \<noteq> RawDoc (JObj ms)) \<Longrightarrow> decode_members fs args = Inr [] \<or> (\<exists>e. decode_members fs args = Inl e)"
  by (cases "(fs, args)" rule: decode_members.cases) auto

lemma fsPatch_other:
  assumes "\<And>ms. args \<noteq> RawDoc (JObj ms)"
  shows "\<exists>e. fsPatch ent fail tmp args fs = (Inl e, fs)"
  using decode_other [OF assms, of "[''path'', ''edits'']"] by (auto simp: fsPatch_def)

lemma write_keys: "f \<in> set write_fields \<Longrightarrow> g \<in> set write_fields \<Longrightarrow> key_matches f g = (f = g)"
proof (rule key_matches_fields)
  show "distinct (map fold_name write_fields)" by code_simp
qed

lemma write_fields_mem:
  "''path'' \<in> set write_fields" "''content'' \<in> set write_fields" "''encoding'' \<in> set write_fields"
  "''append'' \<in> set write_fields" "''mode'' \<in> set write_fields"
  by (simp_all add: write_fields_def)

lemma fsWrite_message:
  "fsWrite ent mkdirs perm fail short (RawDoc (JObj [(''path'', JStr q), (''content'', JStr c), (''encoding'', JStr enc)])) fs =
     (if q = [] then (Inl path_required, fs)
      else (case decode_content enc c of
              Inl e \<Rightarrow> (Inl e, fs)
            | Inr bytes \<Rightarrow> write_file ent mkdirs perm fail short q bytes False 0 fs))"
proof -
  have known: "f \<in> set write_fields \<Longrightarrow> known_field write_fields f" for f
    by (auto simp: known_field_def list_ex_iff key_matches_def)
  show ?thesis
    by (simp add: fsWrite_def known write_fields_mem dec_field_def field_values_Cons write_keys)
qed

text \<open>Reading a file to its end.\<close>

lemma read_whole:
  assumes "fsRead ent (RawDoc (JObj ms)) fs = Inr out" and "roTruncated out = False"
    and "fst (dec_field set_int 0 ''offset'' ms) \<le> 0"
  shows "\<exists>bytes. open_read ent fs (roPath out) = Inr bytes \<and> encodeFileData bytes = (roEncoding out, roContent out)"
proof -
  obtain p e1 where p: "dec_field set_str [] ''path'' ms = (p, e1)" by (rule prod.exhaust)
  obtain off e2 where off: "dec_field set_int 0 ''offset'' ms = (off, e2)" by (rule prod.exhaust)
  obtain mx e3 where mx: "dec_field set_int 0 ''max_bytes'' ms = (mx, e3)" by (rule prod.exhaust)
  have mem: "decode_members [''path'', ''offset'', ''max_bytes''] (RawDoc (JObj ms)) = Inr ms"
    using assms(1) by (auto simp: fsRead_def split: if_splits)
  obtain bytes where bytes: "open_read ent fs p = Inr bytes"
    using assms(1) by (auto simp: fsRead_def mem p off mx split: if_splits sum.splits prod.splits simp del: decode_members.simps)
  obtain got where got: "read_range off (read_limit mx) bytes = (got, False)"
    and enc: "encodeFileData got = (roEncoding out, roContent out)" and out: "roPath out = p"
    using assms(1,2)
    by (auto simp: fsRead_def mem p off mx bytes split: if_splits prod.splits simp del: decode_members.simps)
  have lim: "0 \<le> read_limit mx" by (simp add: read_limit_def)
  have "got = take (nat (read_limit mx + 1)) bytes" "int (length got) \<le> read_limit mx"
    using got assms(3) off by (auto simp: read_range_def Let_def split: if_splits)
  then have "got = bytes" using lim by (auto simp: min_def split: if_splits)
  then show ?thesis using bytes enc out by blast
qed

subsection \<open>Properties\<close>

text \<open>
  C35: the patch tool is atomic: a call that fails, at whatever edit and in whatever step of writing,
  leaves every entry of the file system as it was, the temporary file included.
\<close>

theorem patch_failure_changes_nothing:
  assumes "fst (fsPatch ent fail tmp args fs) = Inl e" and "unused tmp fs" and "gm_ok fs"
  shows "gm_get (snd (fsPatch ent fail tmp args fs)) k = gm_get fs k"
proof (cases "\<exists>e. fsPatch ent fail tmp args fs = (Inl e, fs)")
  case True
  then show ?thesis by auto
next
  case False
  then obtain ms where "args = RawDoc (JObj ms)" using fsPatch_other by blast
  with False fsPatch_cases have "\<exists>p edits. fsPatch ent fail tmp args fs = patch_file ent fail tmp p edits fs" by blast
  with assms show ?thesis
    using patch_file_error [of ent fail tmp _ _ fs e "snd (fsPatch ent fail tmp args fs)" k] by (auto simp: prod_eq_iff)
qed

text \<open>
  C36: a patch that succeeds leaves, at the path itself, a regular file with the edits of the message
  applied to the text that was read, and changes no other entry: when the path is a symbolic link, the
  link is replaced and the file it led to keeps its old text.
\<close>

theorem patch_replaces_entry:
  assumes "fsPatch ent fail tmp (RawDoc (JObj ms)) fs = (Inr n, fs')" and "unused tmp fs" and "gm_ok fs"
  shows "\<exists>old new. open_read ent fs (str_field ''path'' ms) = Inr old \<and>
    apply_edits 0 (fst (dec_field set_edits [] ''edits'' ms)) old 0 = Inr (new, n) \<and>
    gm_get fs' (ent (str_field ''path'' ms)) = Some (RegFile new (stat_mode ent fs (str_field ''path'' ms))) \<and>
    (\<forall>k. k \<noteq> ent (str_field ''path'' ms) \<longrightarrow> gm_get fs' k = gm_get fs k)"
proof -
  let ?p = "str_field ''path'' ms" and ?edits = "fst (dec_field set_edits [] ''edits'' ms)"
  have pf: "patch_file ent fail tmp ?p ?edits fs = (Inr n, fs')"
    using fsPatch_cases [of ent fail tmp ms fs] assms(1) by auto
  from patch_file_ok [OF this assms(2,3)] obtain old new where "open_read ent fs ?p = Inr old"
    and "apply_edits 0 ?edits old 0 = Inr (new, n)"
    and get: "\<forall>k. gm_get fs' k = (if k = ent ?p then Some (RegFile new (stat_mode ent fs ?p)) else gm_get fs k)" by blast
  moreover from get have "gm_get fs' (ent ?p) = Some (RegFile new (stat_mode ent fs ?p))"
    "\<forall>k. k \<noteq> ent ?p \<longrightarrow> gm_get fs' k = gm_get fs k" by simp_all
  ultimately show ?thesis by blast
qed

text \<open>
  One edit agrees with splitting: cut the text at the occurrences of the old text, from the left
  and without overlaps, and put the pieces together again with the new text at the first \<open>count\<close>
  places, at all of them when \<open>count\<close> is not positive or larger than their number, and with the old
  text at the others. The number reported is the number of places replaced.
\<close>

theorem edit_is_split_and_join:
  assumes "apply_edits i [ed] txt made = Inr (txt', n)"
  shows "\<exists>k. n = made + k \<and> 0 < k \<and> k = edit_count ed (length (pieces (peOld ed) txt) - 1) \<and>
    txt' = join_first k (peNew ed) (peOld ed) (pieces (peOld ed) txt) \<and>
    txt = join_first 0 (peNew ed) (peOld ed) (pieces (peOld ed) txt)"
proof -
  have old: "peOld ed \<noteq> []" using assms by (auto split: if_splits)
  define found where "found = count_sub (peOld ed) txt"
  have f: "found \<noteq> 0" "n = made + edit_count ed found" "txt' = replace_n (peOld ed) (peNew ed) (edit_count ed found) txt"
    using assms by (auto simp: found_def Let_def split: if_splits)
  have "0 < edit_count ed found" using f(1) by (auto simp: edit_count_def)
  moreover have "length (pieces (peOld ed) txt) - 1 = found" by (simp add: pieces_count found_def)
  ultimately show ?thesis using f old by (auto simp: replace_pieces join_pieces)
qed

text \<open>
  C37: what \<open>fs_read\<close> returns of a whole file can be written back: \<open>fs_write\<close> with its content and its
  encoding, after the content went through JSON, leaves exactly the bytes that were read.
\<close>

theorem read_then_write_restores:
  assumes "fsRead ent (RawDoc (JObj ms)) fs = Inr out" and "roTruncated out = False"
    and "fst (dec_field set_int 0 ''offset'' ms) \<le> 0"
    and "fsWrite ent mkdirs perm fail short (RawDoc (JObj [(''path'', JStr q),
      (''content'', JStr (json_text (roContent out))), (''encoding'', JStr (roEncoding out))])) fs2 = (Inr n, fs3)"
  shows "\<exists>bytes. open_read ent fs (roPath out) = Inr bytes \<and> open_read ent fs3 q = Inr bytes \<and> n = length bytes"
proof -
  obtain bytes enc where rd: "open_read ent fs (roPath out) = Inr bytes"
    and enc: "encodeFileData bytes = (roEncoding out, roContent out)"
    using read_whole [OF assms(1-3)] by blast
  have q: "q \<noteq> []" using assms(4) by (auto simp: fsWrite_message)
  have "write_file ent mkdirs perm fail short q bytes False 0 fs2 = (Inr n, fs3)"
    using assms(4) q decode_encode_data [OF enc] by (simp add: fsWrite_message encode_data_utf8 [OF enc])
  from write_file_read [OF this] open_write_fresh rd show ?thesis by fastforce
qed

text \<open>
  \<open>fs_search\<close> returns the first matching lines, in the order of the walk and of the lines, as many
  as were asked for (between 1 and 5000, 200 by default); it says that the result is truncated exactly
  when that many were found, even if there are no more.
\<close>

theorem search_first_matches:
  assumes "fsSearch ent compile (RawDoc (JObj ms)) fs = Inr (found, truncated)"
    and "compile (str_field ''pattern'' ms) = Inr re"
  shows "let every = all_matches re
        (searched_lines ent fs (str_field ''name'' ms) (search_size (int_field ''max_file_bytes'' ms)))
        (walk ent (str_field ''root'' ms) fs);
      mx = search_max (int_field ''max_results'' ms)
    in 0 < mx \<and> mx \<le> 5000 \<and> found = take mx every \<and> (truncated \<longleftrightarrow> mx \<le> length every)"
proof -
  have "search_entries re (searched_lines ent fs (str_field ''name'' ms) (search_size (int_field ''max_file_bytes'' ms)))
      (search_max (int_field ''max_results'' ms)) (walk ent (str_field ''root'' ms) fs) [] = (found, truncated)"
    using assms by (auto simp: fsSearch_def str_field_def int_field_def Let_def split: sum.splits prod.splits if_splits)
  then show ?thesis by (auto simp: search_entries_eq search_max_pos Let_def)
qed

text \<open>
  \<open>fs_remove\<close> removes exactly what it was asked to remove: the entry itself, with everything below
  it when it is a directory and \<open>recursive\<close> was asked for; without it a directory that is not empty is
  refused. A symbolic link is removed itself, never what it leads to.
\<close>

theorem remove_exact:
  assumes "fsRemove ent (RawDoc (JObj ms)) fs = (Inr p, fs')" and "gm_ok fs"
  shows "p = str_field ''path'' ms \<and> gm_get fs (ent p) \<noteq> None \<and>
    (let all = (gm_get fs (ent p) = Some Directory \<and> fst (dec_field set_bool False ''recursive'' ms))
     in (\<not> all \<and> gm_get fs (ent p) = Some Directory \<longrightarrow> (\<forall>k. below (ent p) k \<longrightarrow> gm_get fs k = None)) \<and>
        (\<forall>k. gm_get fs' k = (if k = ent p \<or> all \<and> below (ent p) k then None else gm_get fs k)))"
proof -
  obtain q e1 where q: "dec_field set_str [] ''path'' ms = (q, e1)" by (rule prod.exhaust)
  obtain rec e2 where rec: "dec_field set_bool False ''recursive'' ms = (rec, e2)" by (rule prod.exhaust)
  have mem: "decode_members [''path'', ''recursive''] (RawDoc (JObj ms)) = Inr ms"
    using assms(1) by (auto simp: fsRemove_def split: if_splits)
  obtain n where n: "gm_get fs (ent q) = Some n" and p: "p = q"
    and fs': "fs' = (if n = Directory \<and> rec then remove_tree (ent q) fs else gm_del (ent q) fs)"
    and empty: "\<not> (n = Directory \<and> rec) \<Longrightarrow> n = Directory \<Longrightarrow> \<not> list_ex (\<lambda>(k, _). below (ent q) k) fs"
    using assms(1)
    by (auto simp: fsRemove_def mem q rec remove_entry_def split: if_splits option.splits prod.splits simp del: decode_members.simps)
  have tree: "gm_get (remove_tree (ent q) fs) k = (if k = ent q \<or> below (ent q) k then None else gm_get fs k)" for k
    using assms(2) by (auto simp: remove_tree_def gm_get_filter split: option.split)
  have children: "gm_get fs k = None" if "\<not> (n = Directory \<and> rec)" "n = Directory" "below (ent q) k" for k
    using empty [OF that(1,2)] that(3) by (cases "gm_get fs k") (auto simp: list_ex_iff dest: gm_get_mem)
  show ?thesis
    using q rec n p fs' tree children by (auto simp: str_field_def Let_def)
qed

subsection \<open>Witnesses\<close>

definition sample_fs :: fsys where
  "sample_fs = [(''/f'', RegFile ''one two one'' 420), (''/l'', SymLink ''/f''), (''/d'', Directory), (''/d/x'', RegFile ''three'' 384)]"

definition sample_patch :: "string \<Rightarrow> (string \<times> json) list" where
  "sample_patch old = [(''path'', JStr ''/l''), (''edits'', JArr [JObj [(''old'', JStr old), (''new'', JStr ''1'')]])]"

lemma sample_fs_ok: "unused ''/t'' sample_fs" "gm_ok sample_fs"
  by code_simp+

theorem patch_failure_changes_nothing_witness:
  "gm_get (snd (fsPatch id (\<lambda>_. None) ''/t'' (RawDoc (JObj (sample_patch ''four''))) sample_fs)) ''/f'' =
     gm_get sample_fs ''/f''"
proof -
  have "fst (fsPatch id (\<lambda>_. None) ''/t'' (RawDoc (JObj (sample_patch ''four''))) sample_fs) =
      Inl (Errorf ''edit %d: old text not found'' [FInt 0])" by code_simp
  from patch_failure_changes_nothing [OF this sample_fs_ok] show ?thesis .
qed

theorem patch_replaces_entry_witness:
  "gm_get (snd (fsPatch id (\<lambda>_. None) ''/t'' (RawDoc (JObj (sample_patch ''one''))) sample_fs)) ''/f'' =
     gm_get sample_fs ''/f''"
proof -
  have "fst (fsPatch id (\<lambda>_. None) ''/t'' (RawDoc (JObj (sample_patch ''one''))) sample_fs) = Inr 2" by code_simp
  then have "fsPatch id (\<lambda>_. None) ''/t'' (RawDoc (JObj (sample_patch ''one''))) sample_fs =
      (Inr 2, snd (fsPatch id (\<lambda>_. None) ''/t'' (RawDoc (JObj (sample_patch ''one''))) sample_fs))"
    by (simp add: prod_eq_iff)
  from patch_replaces_entry [OF this sample_fs_ok]
  have "\<forall>k. k \<noteq> id (str_field ''path'' (sample_patch ''one'')) \<longrightarrow>
      gm_get (snd (fsPatch id (\<lambda>_. None) ''/t'' (RawDoc (JObj (sample_patch ''one''))) sample_fs)) k = gm_get sample_fs k"
    by blast
  moreover have "''/f'' \<noteq> id (str_field ''path'' (sample_patch ''one''))" by code_simp
  ultimately show ?thesis by blast
qed

theorem edit_is_split_and_join_witness:
  "''1 two one'' = join_first 1 ''1'' ''one'' (pieces ''one'' ''one two one'')"
proof -
  let ?ed = "\<lparr>peOld = ''one'', peNew = ''1'', peCount = 1\<rparr>"
  have "apply_edits 0 [?ed] ''one two one'' 0 = Inr (''1 two one'', 1)" by code_simp
  from edit_is_split_and_join [OF this] show ?thesis by simp
qed

definition sample_read :: read_output where
  "sample_read = \<lparr>roPath = ''/l'', roEncoding = ''utf-8'', roContent = ''one two one'', roBytes = 11, roTruncated = False\<rparr>"

theorem read_then_write_restores_witness:
  "open_read id (snd (fsWrite id (\<lambda>_ fs. (None, fs)) id (\<lambda>_. None) 0 (RawDoc (JObj [(''path'', JStr ''/d/y''),
      (''content'', JStr (json_text (roContent sample_read))), (''encoding'', JStr (roEncoding sample_read))])) sample_fs)) ''/d/y'' =
     Inr ''one two one''" (is "open_read id (snd ?w) _ = _")
proof -
  have r: "fsRead id (RawDoc (JObj [(''path'', JStr ''/l''), (''max_bytes'', JNum (JInt 20))])) sample_fs = Inr sample_read" by code_simp
  have "fst ?w = Inr 11" by code_simp
  then have w: "?w = (Inr 11, snd ?w)" by (simp add: prod_eq_iff)
  have o0: "fst (dec_field set_int 0 ''offset'' [(''path'', JStr ''/l''), (''max_bytes'', JNum (JInt 20))]) \<le> 0" by code_simp
  have p: "roPath sample_read = ''/l''" "roTruncated sample_read = False" "open_read id sample_fs ''/l'' = Inr ''one two one''"
    by code_simp+
  from read_then_write_restores [OF r p(2) o0 w] p show ?thesis by auto
qed

definition sample_search :: "(string \<times> json) list" where
  "sample_search = [(''root'', JStr ''/''), (''pattern'', JStr ''e''), (''max_results'', JNum (JInt 2))]"

theorem search_first_matches_witness:
  "take 2 (all_matches (\<lambda>l. contains l ''e'') (searched_lines id sample_fs [] (4 * 1048576)) (walk id ''/'' sample_fs)) =
     [(''/d/x'', 1, ''three''), (''/f'', 1, ''one two one'')]"
proof -
  have r: "fsSearch id (\<lambda>p. Inr (\<lambda>l. contains l p)) (RawDoc (JObj sample_search)) sample_fs =
      Inr ([(''/d/x'', 1, ''three''), (''/f'', 1, ''one two one'')], True)" by code_simp
  have p: "str_field ''pattern'' sample_search = ''e''" "str_field ''root'' sample_search = ''/''" "str_field ''name'' sample_search = []"
    "search_max (int_field ''max_results'' sample_search) = 2" "int_field ''max_file_bytes'' sample_search = 0"
    by code_simp+
  from search_first_matches [OF r, of "\<lambda>l. contains l ''e''"] p show ?thesis by (simp add: Let_def search_size_def)
qed

theorem remove_exact_witness:
  "gm_get (snd (fsRemove id (RawDoc (JObj [(''path'', JStr ''/d''), (''recursive'', JBool True)])) sample_fs)) ''/d/x'' = None \<and>
   gm_get (snd (fsRemove id (RawDoc (JObj [(''path'', JStr ''/d''), (''recursive'', JBool True)])) sample_fs)) ''/f'' \<noteq> None"
proof -
  let ?ms = "[(''path'', JStr ''/d''), (''recursive'', JBool True)]"
  let ?r = "fsRemove id (RawDoc (JObj ?ms)) sample_fs"
  have "fst ?r = Inr ''/d''" by code_simp
  then have r: "?r = (Inr ''/d'', snd ?r)" by (simp add: prod_eq_iff)
  have p: "fst (dec_field set_bool False ''recursive'' ?ms)" "gm_get sample_fs ''/d'' = Some Directory"
    "below ''/d'' ''/d/x''" "\<not> below ''/d'' ''/f''" "gm_get sample_fs ''/f'' \<noteq> None" "''/d'' \<noteq> ''/f''"
    by code_simp+
  from remove_exact [OF r sample_fs_ok(2)] p show ?thesis by (simp add: Let_def)
qed

end
