(* ===== verification/Watch.thy ===== *)
theory Watch
  imports Jobs
begin

section \<open>The watchers of processes (internal/jobs/manager.go)\<close>

text \<open>
  Two goroutines look at a process every 500 ms until it is gone: \<open>monitorExternal\<close> for a process
  another program started, \<open>monitorRecovered\<close> for one that an earlier runtime left behind. Only then
  they touch the table. What else happens meanwhile is a run: the manager at each tick, with any
  number of other operations between two ticks.

  A loop over the ticks may go on forever, so it is an option: \<open>None\<close> is a watcher that never ends.
\<close>

partial_function (option) watch_ticks :: "(nat \<Rightarrow> bool) \<Rightarrow> nat \<Rightarrow> nat option" where
  "watch_ticks alive k = (if alive k then watch_ticks alive (Suc k) else Some k)"

definition watched ::
  "(bool \<Rightarrow> int \<Rightarrow> string \<Rightarrow> manager \<Rightarrow> manager) \<Rightarrow> (nat \<Rightarrow> int \<Rightarrow> bool) \<Rightarrow> (nat \<Rightarrow> manager) \<Rightarrow> bool \<Rightarrow> int \<Rightarrow>
   string \<Rightarrow> int \<Rightarrow> (nat \<times> manager) option" where
  "watched record_end signalable run pf now i pid =
     (case watch_ticks (\<lambda>k. processAlive (signalable k) pid) 0 of
        None \<Rightarrow> None
      | Some k \<Rightarrow> Some (k, record_end pf now i (run k)))"

definition watch_external ::
  "(nat \<Rightarrow> int \<Rightarrow> bool) \<Rightarrow> (nat \<Rightarrow> manager) \<Rightarrow> bool \<Rightarrow> int \<Rightarrow> string \<Rightarrow> int \<Rightarrow> (nat \<times> manager) option" where
  "watch_external = watched monitorExternal"


text \<open>
  The steps of the others, while one goroutine watches the job \<open>i\<close>: no other goroutine waits for the
  same job, a new job has another id, and the runtime is not restarted.
\<close>

inductive other_step :: "string \<Rightarrow> manager \<Rightarrow> manager \<Rightarrow> bool" for i :: string where
  start: "job_id ms (Suc (mSeq m)) \<noteq> i \<Longrightarrow>
    other_step i m (snd (StartWithContext defShell ms now opened started pf command cwd shell env ctx m))"
| external: "job_id ms (Suc (mSeq m)) \<noteq> i \<Longrightarrow>
    other_step i m (snd (StartExternal defShell ms now opened launch pf command cwd shell env ctx m))"
| finish: "i' \<noteq> i \<Longrightarrow> other_step i m (finishJob pf now i' r m)"
| watch: "i' \<noteq> i \<Longrightarrow> other_step i m (monitorExternal pf now i' m)"
| watch_other: "i' \<noteq> i \<Longrightarrow> other_step i m (monitorRecovered pf now i' m)"
| signal: "other_step i m (snd (Signal pf now kill i' s m))"
| prune: "other_step i m (snd (Prune now age m))"

inductive_cases other_stepE: "other_step i m m'"

definition undisturbed :: "string \<Rightarrow> (nat \<Rightarrow> manager) \<Rightarrow> bool" where
  "undisturbed i run \<longleftrightarrow> (\<forall>k. (other_step i)\<^sup>*\<^sup>* (run k) (run (Suc k)))"

subsection \<open>The loop\<close>

lemma watch_ticks_first:
  "\<not> alive n \<Longrightarrow> (\<And>k. k < n \<Longrightarrow> alive k) \<Longrightarrow> j \<le> n \<Longrightarrow> watch_ticks alive j = Some n"
proof (induction "n - j" arbitrary: j)
  case 0
  then show ?case by (simp add: watch_ticks.simps [of alive j])
next
  case (Suc d)
  then have "j < n" by simp
  with Suc have "alive j" "watch_ticks alive (Suc j) = Some n" by simp_all
  then show ?case by (simp add: watch_ticks.simps [of alive j])
qed

lemma watch_ticks_end: "watch_ticks alive k = Some n \<Longrightarrow> k \<le> n \<and> \<not> alive n \<and> (\<forall>l. k \<le> l \<and> l < n \<longrightarrow> alive l)"
proof (rule watch_ticks.raw_induct [where P = "\<lambda>alive k n. k \<le> n \<and> \<not> alive n \<and> (\<forall>l. k \<le> l \<and> l < n \<longrightarrow> alive l)"])
  fix loop alive k n
  assume IH: "\<And>alive k n. loop alive k = Some n \<Longrightarrow> k \<le> n \<and> \<not> alive n \<and> (\<forall>l. k \<le> l \<and> l < n \<longrightarrow> alive l)"
    and eq: "(if alive k then loop alive (Suc k) else Some k) = Some n"
  show "k \<le> n \<and> \<not> alive n \<and> (\<forall>l. k \<le> l \<and> l < n \<longrightarrow> alive l)"
  proof (cases "alive k")
    case True
    with eq IH [of alive "Suc k" n] show ?thesis by (auto simp: Suc_le_eq) (metis le_neq_implies_less)
  qed (use eq in auto)
qed

lemma watch_ticks_eq:
  "watch_ticks alive 0 = (if \<exists>n. \<not> alive n then Some (LEAST n. \<not> alive n) else None)"
proof (cases "\<exists>n. \<not> alive n")
  case True
  then have "\<not> alive (LEAST n. \<not> alive n)" by (rule LeastI_ex)
  moreover have "alive k" if "k < (LEAST n. \<not> alive n)" for k using not_less_Least [OF that] by simp
  ultimately have "watch_ticks alive 0 = Some (LEAST n. \<not> alive n)" using watch_ticks_first le0 by blast
  then show ?thesis using True by simp
next
  case False
  have "watch_ticks alive 0 = None"
  proof (rule ccontr)
    assume "watch_ticks alive 0 \<noteq> None"
    then obtain n where "watch_ticks alive 0 = Some n" by blast
    from watch_ticks_end [OF this] False show False by blast
  qed
  then show ?thesis using False by simp
qed

lemma watched_eq:
  "watched f signalable run pf now i pid =
     (if \<exists>n. \<not> processAlive (signalable n) pid
      then let k = LEAST n. \<not> processAlive (signalable n) pid in Some (k, f pf now i (run k))
      else None)"
  by (simp add: watched_def watch_ticks_eq Let_def)

subsection \<open>What the others do to a watched job\<close>

lemma start_other:
  "job_id ms (Suc (mSeq m)) \<noteq> i \<Longrightarrow>
   gm_get (mJobs (snd (StartWithContext defShell ms now opened started pf command cwd shell env ctx m))) i = gm_get (mJobs m) i"
  by (auto simp: StartWithContext_def recordStartedJob_def store_job_get open_log_def Let_def split: option.split sum.split)

lemma external_other:
  "job_id ms (Suc (mSeq m)) \<noteq> i \<Longrightarrow>
   gm_get (mJobs (snd (StartExternal defShell ms now opened launch pf command cwd shell env ctx m))) i = gm_get (mJobs m) i"
  by (auto simp: StartExternal_def recordStartedJob_def store_job_get open_log_def Let_def split: option.split sum.split)

lemma end_other:
  "i' \<noteq> i \<Longrightarrow> gm_get (mJobs (finishJob pf now i' r m)) i = gm_get (mJobs m) i"
  "i' \<noteq> i \<Longrightarrow> gm_get (mJobs (monitorExternal pf now i' m)) i = gm_get (mJobs m) i"
  "i' \<noteq> i \<Longrightarrow> gm_get (mJobs (monitorRecovered pf now i' m)) i = gm_get (mJobs m) i"
  by (simp_all add: finishJob_def monitorExternal_def monitorRecovered_def store_job_get split: option.split)

definition still :: "string \<Rightarrow> string \<Rightarrow> manager \<Rightarrow> bool" where
  "still i s m \<longleftrightarrow> jobs_inv m \<and> live_status s \<and>
     (\<exists>j. gm_get (mJobs m) i = Some j \<and> (jStatus j = s \<or> jStatus j = ''terminating''))"

lemma still_signal: "still i s m \<Longrightarrow> still i s (snd (Signal pf now kill i' g m))"
  using signal_keeps(1)
  by (auto simp: still_def signal_state mark_signal_def store_job_get split: sum.split option.split)

lemma still_prune: "still i s m \<Longrightarrow> still i s (snd (Prune now age m))"
proof -
  assume st: "still i s m"
  then have inv: "jobs_inv m" by (simp add: still_def)
  then have "jobs_inv (snd (Prune now age m))" by (simp add: Prune_def Let_def prune_jobs_inv)
  with st Prune_jobs [OF inv, of now age i] show ?thesis by (auto simp: still_def keep_job_def live_status_def)
qed

lemma other_step_still: "other_step i m m' \<Longrightarrow> still i s m \<Longrightarrow> still i s m'"
proof (induction rule: other_step.induct)
  case (signal m pf now kill i' s')
  then show ?case by (rule still_signal)
next
  case (prune m now age)
  then show ?case by (rule still_prune)
qed (auto simp: still_def start_other external_other end_other start_keeps external_keeps finish_keeps watch_keeps
    watch_recovered_keeps)

lemma undisturbed_still: "undisturbed i run \<Longrightarrow> still i s (run 0) \<Longrightarrow> still i s (run k)"
proof (induction k)
  case (Suc k)
  then have "(other_step i)\<^sup>*\<^sup>* (run k) (run (Suc k))" and "still i s (run k)" by (simp_all add: undisturbed_def)
  then show ?case by (induction rule: rtranclp_induct) (auto intro: other_step_still)
qed

lemma watched_ends: "\<not> processAlive (signalable n) pid \<Longrightarrow> \<exists>k m'. watched f signalable run pf now i pid = Some (k, m')"
  by (auto simp: watched_eq Let_def)

lemma watched_result: "watched f signalable run pf now i pid = Some (n, m') \<Longrightarrow>
    m' = f pf now i (run n) \<and> \<not> processAlive (signalable n) pid \<and> (\<forall>k<n. processAlive (signalable k) pid)"
  using watch_ticks_end [of "\<lambda>k. processAlive (signalable k) pid" 0 n]
  by (auto simp: watched_def split: option.splits)

subsection \<open>Properties\<close>

text \<open>
  C34: the end of an external job is always recorded: when its process is gone at some tick, the
  watcher ends and leaves the job ended with exit code -1, as \<open>terminated\<close> if it had been told to
  terminate and as \<open>exited-external\<close> otherwise, however the other operations interleave.
\<close>

theorem external_end_recorded:
  assumes "undisturbed i run" and "jobs_inv (run 0)" and "gm_get (mJobs (run 0)) i = Some j"
    and "jStatus j \<in> set [''running'', ''running-recovered'', ''terminating'']"
    and "\<not> processAlive (signalable n) (jPID j)"
  shows "\<exists>k m' j0 j'. k \<le> n \<and> watch_external signalable run pf now i (jPID j) = Some (k, m') \<and>
    gm_get (mJobs (run k)) i = Some j0 \<and> gm_get (mJobs m') i = Some j' \<and> jExitCode j' = Some (-1) \<and>
    jStatus j' = (if jStatus j0 = ''terminating'' then ''terminated'' else ''exited-external'')"
proof -
  obtain k m' where w: "watch_external signalable run pf now i (jPID j) = Some (k, m')"
    unfolding watch_external_def using watched_ends [where signalable = signalable, OF assms(5)] by blast
  from watched_result [OF this [unfolded watch_external_def]] have m': "m' = monitorExternal pf now i (run k)"
    and "\<forall>l<k. processAlive (signalable l) (jPID j)" by simp_all
  with assms(5) have "k \<le> n" by (meson not_le_imp_less)
  have "still i (jStatus j) (run 0)" using assms(2-4) by (auto simp: still_def live_status_def)
  from undisturbed_still [OF assms(1) this, of k] obtain j0 where "gm_get (mJobs (run k)) i = Some j0"
    and "jStatus j0 = jStatus j \<or> jStatus j0 = ''terminating''" by (auto simp: still_def)
  with w m' assms(4) \<open>k \<le> n\<close> show ?thesis by (auto simp: monitorExternal_def store_job_get)
qed


subsection \<open>Witnesses\<close>

text \<open>A run in which the job is told to terminate before the second tick.\<close>

definition sample_run :: "manager \<Rightarrow> nat \<Rightarrow> manager" where
  "sample_run m k = (if k = 0 then m else snd (Signal False 6 (\<lambda>p g. None) ''job-5-1'' ''TERM'' m))"

lemma sample_undisturbed: "undisturbed ''job-5-1'' (sample_run m)"
  unfolding undisturbed_def
proof
  fix k
  show "(other_step ''job-5-1'')\<^sup>*\<^sup>* (sample_run m k) (sample_run m (Suc k))"
    by (cases k) (simp_all add: sample_run_def r_into_rtranclp other_step.signal)
qed

theorem external_end_recorded_witness:
  "\<exists>k m' j'. watch_external (\<lambda>k p. k < 2) (sample_run sample_manager) False 9 ''job-5-1'' 41 = Some (k, m') \<and>
     gm_get (mJobs m') ''job-5-1'' = Some j' \<and> jExitCode j' = Some (-1)"
proof -
  have s: "gm_get (mJobs (sample_run sample_manager 0)) ''job-5-1'' = Some sample_job" "jobs_inv (sample_run sample_manager 0)"
    using job_reach_inv [OF sample_manager_reach] by (simp_all add: sample_run_def sample_get)
  have j: "jStatus sample_job \<in> set [''running'', ''running-recovered'', ''terminating'']" "jPID sample_job = 41"
    by (simp_all add: sample_job_def)
  have "\<not> processAlive ((\<lambda>k p. k < 2) (2::nat)) (jPID sample_job)" by (simp add: processAlive_def)
  from external_end_recorded [where signalable = "\<lambda>k p. k < 2" and n = 2 and pf = False and now = 9,
      OF sample_undisturbed s(2,1) j(1) this] show ?thesis
    unfolding j(2) by blast
qed


end
