(* ===== verification/Host.thy ===== *)
theory Host
  imports Exec
begin

section \<open>The host and its desktop adapters (internal/platform, internal/desktopruntime)\<close>

text \<open>
  What the program asks about the machine it runs on. \<open>getenv\<close> is the environment, the empty text for
  a variable that is not set; \<open>goos\<close> is the operating system the program was built for; \<open>exists\<close> says
  whether a path can be inspected and \<open>lookup\<close> is \<open>exec.LookPath\<close>.
\<close>

subsection \<open>The platform\<close>

definition IsTermux :: "(string \<Rightarrow> string) \<Rightarrow> bool" where
  "IsTermux getenv =
     (if getenv ''TERMUX_VERSION'' \<noteq> [] then True
      else let prefix = clean (getenv ''PREFIX'') in prefix \<noteq> ''.'' \<and> contains prefix ''/com.termux/'')"

definition DefaultShell ::
  "(string \<Rightarrow> string) \<Rightarrow> (string \<Rightarrow> bool) \<Rightarrow> (string \<Rightarrow> string res) \<Rightarrow> string" where
  "DefaultShell getenv exists lookup =
     (let candidate = path_join [trim_space (getenv ''PREFIX''), ''bin'', ''sh'']
      in if trim_space (getenv ''CYCOM_SHELL'') \<noteq> [] then trim_space (getenv ''CYCOM_SHELL'')
         else if trim_space (getenv ''SHELL'') \<noteq> [] then trim_space (getenv ''SHELL'')
         else if IsTermux getenv \<and> trim_space (getenv ''PREFIX'') \<noteq> [] \<and> exists candidate then candidate
         else if exists ''/bin/sh'' then ''/bin/sh''
         else (case lookup ''sh'' of Inr shell \<Rightarrow> shell | Inl _ \<Rightarrow> ''sh''))"

definition IsDarwin :: "string \<Rightarrow> bool" where
  "IsDarwin goos \<longleftrightarrow> goos = ''darwin''"

definition SupportsLocalPrivilege :: "string \<Rightarrow> (string \<Rightarrow> string) \<Rightarrow> bool" where
  "SupportsLocalPrivilege goos getenv \<longleftrightarrow> goos = ''linux'' \<and> \<not> IsTermux getenv"

definition DefaultRootSocket :: "string \<Rightarrow> (string \<Rightarrow> string) \<Rightarrow> string" where
  "DefaultRootSocket goos getenv =
     (if \<not> SupportsLocalPrivilege goos getenv then [] else ''/run/cycomagent/root.sock'')"

definition TermuxServiceDir :: "(string \<Rightarrow> string) \<Rightarrow> string" where
  "TermuxServiceDir getenv =
     (if trim_space (getenv ''SVDIR'') \<noteq> [] then trim_space (getenv ''SVDIR'')
      else if trim_space (getenv ''PREFIX'') \<noteq> [] then path_join [trim_space (getenv ''PREFIX''), ''var'', ''service'']
      else [])"

lemma default_shell_ne: "(\<And>c p. lookup c = Inr p \<Longrightarrow> p \<noteq> []) \<Longrightarrow> DefaultShell getenv exists lookup \<noteq> []"
proof -
  assume lookup: "\<And>c p. lookup c = Inr p \<Longrightarrow> p \<noteq> []"
  have "path_join [trim_space (getenv ''PREFIX''), ''bin'', ''sh''] \<noteq> []"
    by (auto simp: path_join_def clean_def Let_def)
  then show ?thesis by (auto simp: DefaultShell_def Let_def dest: lookup split: sum.split)
qed

subsection \<open>Desktop adapters\<close>

datatype capability = Capture | Input | Semantic | Window | IsolatedDesktop

record adapter =
  adName :: string
  adFamily :: string
  adCapabilities :: "capability list"
  adScore :: int
  adAvailable :: bool
  adIsolated :: bool
  adReason :: string

record snapshot =
  snPlatform :: string
  snSessionType :: string
  snDesktop :: string
  snWaylandDisplay :: string
  snDisplay :: string
  snAdapters :: "adapter list"

text \<open>The closure \<open>add\<close>: an adapter that is available gets a reason of its own.\<close>

definition with_detected :: "adapter \<Rightarrow> adapter" where
  "with_detected a = (if adAvailable a then a\<lparr>adReason := ''detected''\<rparr> else a)"

definition linux_adapters :: "bool \<Rightarrow> bool \<Rightarrow> (string \<Rightarrow> bool) \<Rightarrow> adapter list" where
  "linux_adapters wayland x11 has =
     [\<lparr>adName = ''wlroots'', adFamily = ''wayland'', adCapabilities = [Capture, Input, Window, IsolatedDesktop],
       adScore = 120, adAvailable = (wayland \<and> (has ''wlr-randr'' \<or> has ''grim'')), adIsolated = True, adReason = []\<rparr>,
      \<lparr>adName = ''libei'', adFamily = ''wayland'', adCapabilities = [Input], adScore = 115,
       adAvailable = (wayland \<and> (has ''ei-debug-events'' \<or> has ''libei-test-client'')), adIsolated = True, adReason = []\<rparr>,
      \<lparr>adName = ''portal'', adFamily = ''wayland'', adCapabilities = [Capture, Input], adScore = 110,
       adAvailable = (wayland \<and> has ''gdbus''), adIsolated = True, adReason = []\<rparr>,
      \<lparr>adName = ''x11-xtest'', adFamily = ''x11'', adCapabilities = [Capture, Input, Window], adScore = 100,
       adAvailable = (x11 \<and> has ''xdotool''), adIsolated = False, adReason = []\<rparr>,
      \<lparr>adName = ''uinput'', adFamily = ''linux'', adCapabilities = [Input], adScore = 40,
       adAvailable = has ''ydotool'', adIsolated = False,
       adReason = ''global fallback; may share physical desktop input''\<rparr>]"

definition darwin_adapters :: "(string \<Rightarrow> bool) \<Rightarrow> adapter list" where
  "darwin_adapters has =
     [\<lparr>adName = ''macos'', adFamily = ''darwin'', adCapabilities = [Capture, Input, Window], adScore = 100,
       adAvailable = (has ''osascript'' \<or> has ''screencapture''), adIsolated = False, adReason = []\<rparr>]"

definition Detect :: "string \<Rightarrow> string \<Rightarrow> (string \<Rightarrow> string) \<Rightarrow> (string \<Rightarrow> bool) \<Rightarrow> snapshot" where
  "Detect goos goarch getenv has =
     (let session = getenv ''XDG_SESSION_TYPE'';
          wayland = (getenv ''WAYLAND_DISPLAY'' \<noteq> [] \<or> fold_name session = fold_name ''wayland'');
          x11 = (getenv ''DISPLAY'' \<noteq> [] \<or> fold_name session = fold_name ''x11'');
          found = (if goos = ''linux'' then linux_adapters wayland x11 has else []) @
                  (if goos = ''darwin'' then darwin_adapters has else [])
      in \<lparr>snPlatform = goos @ ''/'' @ goarch, snSessionType = session, snDesktop = getenv ''XDG_CURRENT_DESKTOP'',
          snWaylandDisplay = getenv ''WAYLAND_DISPLAY'', snDisplay = getenv ''DISPLAY'',
          snAdapters = sort_key (\<lambda>a. - adScore a) (map with_detected found)\<rparr>)"

fun best_adapter :: "capability \<Rightarrow> bool \<Rightarrow> adapter list \<Rightarrow> adapter option" where
  "best_adapter c own [] = None"
| "best_adapter c own (a # as) =
     (if \<not> adAvailable a \<or> own \<and> \<not> adIsolated a then best_adapter c own as
      else if c \<in> set (adCapabilities a) then Some a
      else best_adapter c own as)"

definition Best :: "snapshot \<Rightarrow> capability \<Rightarrow> bool \<Rightarrow> adapter option" where
  "Best s c own = best_adapter c own (snAdapters s)"

definition eligible :: "capability \<Rightarrow> bool \<Rightarrow> adapter \<Rightarrow> bool" where
  "eligible c own a \<longleftrightarrow> adAvailable a \<and> (own \<longrightarrow> adIsolated a) \<and> c \<in> set (adCapabilities a)"

lemma best_adapter_eq: "best_adapter c own as = find (eligible c own) as"
  by (induction as) (auto simp: eligible_def)

lemma find_sorted:
  "sorted (map f as) \<Longrightarrow> find P as = Some a \<Longrightarrow> b \<in> set as \<Longrightarrow> P b \<Longrightarrow> f a \<le> (f b :: int)"
  by (induction as) (auto split: if_splits)

text \<open>
  The adapter that is chosen can do what is asked and scores at least as much as every other that can;
  none is chosen only when none can.
\<close>

theorem best_adapter_optimal:
  "case Best (Detect goos goarch getenv has) c own of
     None \<Rightarrow> \<not> list_ex (eligible c own) (snAdapters (Detect goos goarch getenv has))
   | Some a \<Rightarrow> a \<in> set (snAdapters (Detect goos goarch getenv has)) \<and> eligible c own a \<and>
       list_all (\<lambda>b. \<not> eligible c own b \<or> adScore b \<le> adScore a) (snAdapters (Detect goos goarch getenv has))"
proof -
  let ?as = "snAdapters (Detect goos goarch getenv has)"
  have sorted: "sorted (map (\<lambda>a. - adScore a) ?as)" by (simp add: Detect_def Let_def)
  have "\<not> eligible c own b \<or> adScore b \<le> adScore a" if "find (eligible c own) ?as = Some a" "b \<in> set ?as" for a b
    using find_sorted [OF sorted that] by auto
  then show ?thesis
    by (auto simp: Best_def best_adapter_eq list_all_iff list_ex_iff find_None_iff find_Some_iff split: option.split)
qed

text \<open>An adapter that was asked to be isolated never shares the input of the physical desktop.\<close>

lemma isolated_choice: "Best (Detect goos goarch getenv has) c True = Some a \<Longrightarrow> adIsolated a \<and> adName a \<noteq> ''uinput''"
proof -
  assume b: "Best (Detect goos goarch getenv has) c True = Some a"
  with best_adapter_optimal [where c = c and own = True and goos = goos and goarch = goarch and getenv = getenv and has = has] have own: "adIsolated a"
    and mem: "a \<in> set (snAdapters (Detect goos goarch getenv has))" by (auto simp: eligible_def)
  have "adIsolated x \<Longrightarrow> adName x \<noteq> ''uinput''" if "x \<in> set (snAdapters (Detect goos goarch getenv has))" for x
    using that by (auto simp: Detect_def Let_def linux_adapters_def darwin_adapters_def with_detected_def split: if_splits)
  with own mem show ?thesis by blast
qed

text \<open>The warning of the global fallback is only ever shown when the fallback is not available.\<close>

lemma uinput_reason_lost:
  "a \<in> set (snAdapters (Detect goos goarch getenv has)) \<Longrightarrow> adAvailable a \<Longrightarrow> adReason a = ''detected''"
  by (auto simp: Detect_def Let_def with_detected_def)

end
