(* ===== verification/Plugins.thy ===== *)
theory Plugins
  imports Registry StateStore Exec
begin

section \<open>External tools (internal/plugins/loader.go)\<close>

text \<open>
  A plugin is a file of the plugin directory that describes a command; loading registers a tool that
  runs it with the arguments of the call as its standard input. The directory is a list of entries in
  the order of their names, as \<open>os.ReadDir\<close> gives it. Parameters: \<open>num\<close> reads a number as a \<open>float64\<close>,
  \<open>lookup\<close> is \<open>exec.LookPath\<close>, \<open>run\<close> runs a command, \<open>show\<close> and \<open>parse\<close> are the text of a JSON message
  and its reading. The end of a call by its caller is not modelled.
\<close>

record manifest =
  mfName :: string
  mfTitle :: string
  mfDescription :: string
  mfCommand :: string
  mfArgs :: "string list"
  mfInputSchema :: "schema option"
  mfTimeoutSeconds :: int
  mfMaxOutputBytes :: int
  mfEnv :: "string gomap"

type_synonym manifests = "manifest gomap"

subsection \<open>Manifests\<close>

text \<open>A JSON value as a Go value of type \<open>any\<close>.\<close>

fun gv_of :: "(jnum \<Rightarrow> jnum option) \<Rightarrow> json \<Rightarrow> gv option"
and gv_of_members :: "(jnum \<Rightarrow> jnum option) \<Rightarrow> (string \<times> json) list \<Rightarrow> (string \<times> gv) list option"
and gv_of_items :: "(jnum \<Rightarrow> jnum option) \<Rightarrow> json list \<Rightarrow> gv list option" where
  "gv_of num JNull = Some GNil"
| "gv_of num (JBool b) = Some (GBool b)"
| "gv_of num (JNum n) = map_option GFloat (num n)"
| "gv_of num (JStr s) = Some (GStr s)"
| "gv_of num (JArr vs) = map_option GArr (gv_of_items num vs)"
| "gv_of num (JObj ms) = map_option (\<lambda>kvs. GMap (gm_of kvs)) (gv_of_members num ms)"
| "gv_of_members num [] = Some []"
| "gv_of_members num ((k, v) # ms) =
     (case gv_of num v of None \<Rightarrow> None | Some g \<Rightarrow> map_option ((#) (k, g)) (gv_of_members num ms))"
| "gv_of_items num [] = Some []"
| "gv_of_items num (v # vs) =
     (case gv_of num v of None \<Rightarrow> None | Some g \<Rightarrow> map_option ((#) g) (gv_of_items num vs))"

text \<open>A field of type \<open>map[string]any\<close>: a second object is merged into the map of the first.\<close>

fun set_schema :: "(jnum \<Rightarrow> jnum option) \<Rightarrow> json \<Rightarrow> schema option \<Rightarrow> schema option option" where
  "set_schema num (JObj ms) old =
     (case gv_of_members num ms of
        None \<Rightarrow> None
      | Some kvs \<Rightarrow> Some (Some (fold (\<lambda>(k, v). gm_put k v) kvs (case old of None \<Rightarrow> [] | Some m \<Rightarrow> m))))"
| "set_schema num JNull old = Some None"
| "set_schema num _ old = None"

text \<open>\<open>json.Unmarshal\<close> into a manifest, which ignores unknown members; \<open>None\<close> when it fails.\<close>

fun decode_manifest :: "(jnum \<Rightarrow> jnum option) \<Rightarrow> raw \<Rightarrow> manifest option" where
  "decode_manifest num (RawDoc (JObj ms)) =
     (let (name, e1) = dec_field set_str [] ''name'' ms;
          (title, e2) = dec_field set_str [] ''title'' ms;
          (desc, e3) = dec_field set_str [] ''description'' ms;
          (cmd, e4) = dec_field set_str [] ''command'' ms;
          (args, e5) = dec_field set_strs [] ''args'' ms;
          (schema, e6) = dec_field (set_schema num) None ''input_schema'' ms;
          (secs, e7) = dec_field set_int 0 ''timeout_seconds'' ms;
          (mx, e8) = dec_field set_int 0 ''max_output_bytes'' ms;
          (env, e9) = dec_field set_strmap [] ''env'' ms
      in if e1 \<or> e2 \<or> e3 \<or> e4 \<or> e5 \<or> e6 \<or> e7 \<or> e8 \<or> e9 then None
         else Some \<lparr>mfName = name, mfTitle = title, mfDescription = desc, mfCommand = cmd, mfArgs = args,
                    mfInputSchema = schema, mfTimeoutSeconds = secs, mfMaxOutputBytes = mx, mfEnv = env\<rparr>)"
| "decode_manifest num (RawDoc JNull) =
     Some \<lparr>mfName = [], mfTitle = [], mfDescription = [], mfCommand = [], mfArgs = [],
           mfInputSchema = None, mfTimeoutSeconds = 0, mfMaxOutputBytes = 0, mfEnv = []\<rparr>"
| "decode_manifest num _ = None"

text \<open>What \<open>LoadInto\<close> makes of a manifest before it registers the tool; \<open>None\<close> skips the file.\<close>

definition complete_manifest :: "(string \<Rightarrow> string res) \<Rightarrow> manifest \<Rightarrow> manifest option" where
  "complete_manifest lookup mf =
     (if mfName mf = [] \<or> mfCommand mf = [] \<or> mfDescription mf = [] then None
      else
        let mf1 = (if is_nil (mfInputSchema mf) then mf\<lparr>mfInputSchema := Some (ObjectSchema None [])\<rparr> else mf)
        in Some (if has_prefix (mfCommand mf) ''/'' then mf1
                 else (case lookup (mfCommand mf) of Inl _ \<Rightarrow> mf1 | Inr p \<Rightarrow> mf1\<lparr>mfCommand := p\<rparr>)))"

subsection \<open>Running\<close>

definition plugin_timeout :: "manifest \<Rightarrow> int" where
  "plugin_timeout mf = (if 0 < mfTimeoutSeconds mf then seconds (mfTimeoutSeconds mf) else seconds 60)"

definition plugin_max :: "manifest \<Rightarrow> int" where
  "plugin_max mf =
     (if mfMaxOutputBytes mf \<le> 0 \<or> 10 * 1048576 < mfMaxOutputBytes mf then 2 * 1048576 else mfMaxOutputBytes mf)"

definition plugin_command :: "string list \<Rightarrow> manifest \<Rightarrow> string \<Rightarrow> command" where
  "plugin_command environ mf input =
     \<lparr>cmArgv = mfCommand mf # mfArgs mf, cmDir = [], cmEnv = environ @ env_list (mfEnv mf), cmStdin = input,
      cmTimeout = plugin_timeout mf\<rparr>"

definition exit_error :: "int \<Rightarrow> goerr" where
  "exit_error c = Errorf ''exit status %d'' [FInt c]"

definition plugin_value ::
  "(jnum \<Rightarrow> jnum option) \<Rightarrow> (string \<Rightarrow> raw) \<Rightarrow> cap_buffer \<Rightarrow> cap_buffer \<Rightarrow> tool_value" where
  "plugin_value num parse out err =
     (let truncated = (cbTruncated out \<or> cbTruncated err);
          text = JObj [(''stderr'', JStr (cbBuf err)), (''stdout'', JStr (cbBuf out)), (''truncated'', JBool truncated)]
      in if cbBuf out = [] then Plain (JObj [(''ok'', JBool True), (''truncated'', JBool truncated)])
         else (case parse (cbBuf out) of
                 RawDoc v \<Rightarrow> (case any_value num v of Some v' \<Rightarrow> Plain v' | None \<Rightarrow> Plain text)
               | _ \<Rightarrow> Plain text))"

definition plugin_execute ::
  "(jnum \<Rightarrow> jnum option) \<Rightarrow> (string \<Rightarrow> raw) \<Rightarrow> (raw \<Rightarrow> string) \<Rightarrow> string list \<Rightarrow>
   (command \<Rightarrow> 'w \<Rightarrow> outcome \<times> 'w) \<Rightarrow> manifest \<Rightarrow> 'w handler" where
  "plugin_execute num parse shw environ run mf args w =
     (case run (plugin_command environ mf (shw args)) w of
        (NotStarted e, w1) \<Rightarrow> (Inl e, w1)
      | (Ended outs errs d timedOut st, w1) \<Rightarrow>
          let out = captured capWrite_plugins (plugin_max mf) outs;
              err = captured capWrite_plugins (plugin_max mf) errs
          in ((if timedOut
               then Inl (Errorf ''external tool %s timed out after %s'' [FStr (mfName mf), FInt (plugin_timeout mf)])
               else (case st of
                       Some r \<Rightarrow>
                         Inl (Errorf ''external tool %s failed: %v: %s''
                           [FStr (mfName mf), FErr (case r of Inl e \<Rightarrow> e | Inr c \<Rightarrow> exit_error c),
                            FStr (trim_space (cbBuf err))])
                     | None \<Rightarrow> Inr (plugin_value num parse out err))), w1))"

subsection \<open>Loading\<close>

text \<open>An entry: \<open>None\<close> is a directory, otherwise what reading the file gave.\<close>

type_synonym dir_entry = "string \<times> raw res option"

text \<open>What the loader is given: the directory, its failures, and how a manifest becomes a handler.\<close>

record 'w loader =
  ldDir :: string
  ldMkdirFails :: "goerr option"
  ldReadDirFails :: "goerr option"
  ldEntries :: "dir_entry list"
  ldNum :: "jnum \<Rightarrow> jnum option"
  ldLookup :: "string \<Rightarrow> string res"
  ldHandler :: "manifest \<Rightarrow> 'w handler"

text \<open>The manifest of one entry, and the tool that is registered for it.\<close>

definition entry_manifest :: "'w loader \<Rightarrow> dir_entry \<Rightarrow> manifest option" where
  "entry_manifest L e =
     (case snd e of
        Some (Inr doc) \<Rightarrow>
          if has_suffix (fst e) ''.json''
          then (case decode_manifest (ldNum L) doc of None \<Rightarrow> None | Some mf \<Rightarrow> complete_manifest (ldLookup L) mf)
          else None
      | _ \<Rightarrow> None)"

definition plugin_tool :: "'w loader \<Rightarrow> string \<Rightarrow> manifest \<Rightarrow> 'w tool" where
  "plugin_tool L name mf =
     \<lparr>tName = mfName mf, tTitle = mfTitle mf, tDescription = mfDescription mf, tInputSchema = mfInputSchema mf,
      tOutputSchema = None, tAnnotations = [], tHandler = Some (ldHandler L mf),
      tSource = ''plugin:'' @ path_join [ldDir L, name]\<rparr>"

fun load_entries ::
  "'w loader \<Rightarrow> dir_entry list \<Rightarrow> string list \<Rightarrow> 'w registry \<Rightarrow> manifests \<Rightarrow> string list \<times> 'w registry \<times> manifests" where
  "load_entries L [] loaded r m = (loaded, r, m)"
| "load_entries L (e # es) loaded r m =
     (case entry_manifest L e of
        None \<Rightarrow> load_entries L es loaded r m
      | Some mf \<Rightarrow>
          (case Add (plugin_tool L (fst e) mf) r of
             Inl _ \<Rightarrow> load_entries L es loaded r m
           | Inr r1 \<Rightarrow> load_entries L es (loaded @ [mfName mf]) r1 (gm_put (mfName mf) mf m)))"

definition LoadInto ::
  "'w loader \<Rightarrow> 'w registry \<Rightarrow> manifests \<Rightarrow> string list res \<times> 'w registry \<times> manifests" where
  "LoadInto L r m =
     (if ldDir L = [] then (Inr [], r, m)
      else (case ldMkdirFails L of
        Some e \<Rightarrow> (Inl e, r, m)
      | None \<Rightarrow>
          (case ldReadDirFails L of
             Some e \<Rightarrow> (Inl e, r, m)
           | None \<Rightarrow>
               let (loaded, r1, m1) = load_entries L (ldEntries L) [] r m
               in (Inr (sort loaded), r1, m1))))"

definition plugin_names :: "manifests \<Rightarrow> string list" where
  "plugin_names m = sort (map fst m)"

definition ReloadInto ::
  "'w loader \<Rightarrow> 'w registry \<Rightarrow> manifests \<Rightarrow> string list res \<times> 'w registry \<times> manifests" where
  "ReloadInto L r m = LoadInto L (RemoveSourcePrefix ''plugin:'' r) []"

text \<open>The tool \<open>plugins_reload\<close> (internal/tools/system.go).\<close>

definition plugins_reload_tool ::
  "bool \<Rightarrow> 'w loader \<Rightarrow> 'w registry \<Rightarrow> manifests \<Rightarrow> tool_value res \<times> 'w registry \<times> manifests" where
  "plugins_reload_tool allowed L r m =
     (if \<not> allowed then (Inl (err_new ''policy denied external plugins''), r, m)
      else (case ReloadInto L r m of
              (Inl e, r1, m1) \<Rightarrow> (Inl e, r1, m1)
            | (Inr loaded, r1, m1) \<Rightarrow>
                (Inr (Plain (JObj [(''count'', JNum (JInt (int (length loaded)))), (''loaded'', if ldDir L = [] then JNull else JArr (map JStr loaded))])), r1, m1)))"

subsection \<open>Lemmas\<close>

lemma gm_put_new: "gm_get m k = None \<Longrightarrow> gm_put k v m = m @ [(k, v)]"
  by (induction m) (auto simp: gm_put_def gm_get_def split: if_splits)

text \<open>What registering a new tool does to the registry.\<close>

lemma Add_appends:
  assumes "Add t r = Inr r'"
  shows "\<exists>t'. rTools r' = rTools r @ [(tName t, t')] \<and> tName t' = tName t \<and> tSource t' = tSource t \<and>
    tHandler t' = tHandler t \<and> gm_get (rTools r) (tName t) = None \<and> rInterceptors r' = rInterceptors r"
proof -
  obtain t' where t': "normalize_tool t = Inr t'" and free: "gm_get (rTools r) (tName t') = None"
    and r': "r' = r\<lparr>rTools := gm_put (tName t') t' (rTools r)\<rparr>"
    using assms by (auto simp: Add_def split: sum.splits if_splits)
  have "tName t' = tName t \<and> tSource t' = tSource t \<and> tHandler t' = tHandler t"
    using t' by (auto simp: normalize_tool_def Let_def default_input_schema_def clone_output_schema_def split: if_splits sum.splits)
  with r' free show ?thesis by (auto simp: gm_put_new)
qed

text \<open>A plugin in the table: registered under a free name from an entry of the directory.\<close>

definition plugin_of :: "'w loader \<Rightarrow> string \<Rightarrow> 'w tool \<Rightarrow> bool" where
  "plugin_of L k t \<longleftrightarrow> has_prefix (tSource t) ''plugin:'' \<and> tName t = k \<and>
     (\<exists>e mf. e \<in> set (ldEntries L) \<and> entry_manifest L e = Some mf \<and> mfName mf = k \<and>
        tSource t = ''plugin:'' @ path_join [ldDir L, fst e] \<and> tHandler t = Some (ldHandler L mf))"

lemma load_entries_appends:
  assumes "load_entries L es loaded r m = (loaded', r', m')" and "set es \<subseteq> set (ldEntries L)"
  shows "\<exists>new. rTools r' = rTools r @ new \<and> loaded' = loaded @ map fst new \<and> rInterceptors r' = rInterceptors r \<and>
    (\<forall>(k, t) \<in> set new. plugin_of L k t)"
  using assms
proof (induction es arbitrary: loaded r m)
  case (Cons e es)
  note IH = Cons.IH [OF _ order_trans [OF set_subset_Cons Cons.prems(2)]]
  show ?case
  proof (cases "entry_manifest L e")
    case (Some mf)
    show ?thesis
    proof (cases "Add (plugin_tool L (fst e) mf) r")
      case (Inr r1)
      from Add_appends [OF Inr] obtain t' where t': "rTools r1 = rTools r @ [(mfName mf, t')]" "tName t' = mfName mf"
        "tSource t' = ''plugin:'' @ path_join [ldDir L, fst e]" "tHandler t' = Some (ldHandler L mf)" "rInterceptors r1 = rInterceptors r"
        by (auto simp: plugin_tool_def)
      have "load_entries L es (loaded @ [mfName mf]) r1 (gm_put (mfName mf) mf m) = (loaded', r', m')"
        using Cons.prems(1) Some Inr by simp
      from IH [OF this] obtain new where new: "rTools r' = rTools r1 @ new" "loaded' = (loaded @ [mfName mf]) @ map fst new"
        "rInterceptors r' = rInterceptors r1" "\<forall>(k, t) \<in> set new. plugin_of L k t" by blast
      have "plugin_of L (mfName mf) t'"
        unfolding plugin_of_def using t' Some Cons.prems(2)
        by (intro conjI exI [of _ e] exI [of _ mf]) (auto simp: has_prefix_iff)
      with new t' show ?thesis by (intro exI [of _ "(mfName mf, t') # new"]) simp
    qed (use IH [of loaded r m] Cons.prems Some in simp)
  qed (use IH [of loaded r m] Cons.prems in simp)
qed simp

lemma load_entries_ok: "load_entries L es loaded r m = (loaded', r', m') \<Longrightarrow> registry_ok r \<Longrightarrow> registry_ok r'"
proof (induction es arbitrary: loaded r m)
  case (Cons e es)
  then show ?case
    by (cases "entry_manifest L e"; cases "Add (plugin_tool L (fst e) (the (entry_manifest L e))) r")
      (auto intro: Cons.IH registry_ok_Add)
qed simp

lemma LoadInto_cases:
  assumes "LoadInto L r m = (Inr loaded, r', m')"
  shows "ldDir L = [] \<and> loaded = [] \<and> r' = r \<and> m' = m \<or>
    (\<exists>names. ldDir L \<noteq> [] \<and> ldMkdirFails L = None \<and> ldReadDirFails L = None \<and> loaded = sort names \<and>
       load_entries L (ldEntries L) [] r m = (names, r', m'))"
  using assms by (auto simp: LoadInto_def split: if_splits option.splits prod.splits)

definition own_tools :: "'w registry \<Rightarrow> 'w registry" where
  "own_tools r = RemoveSourcePrefix ''plugin:'' r"

lemma own_tools_appended:
  assumes "rTools r' = rTools (own_tools r) @ new" and "rInterceptors r' = rInterceptors r"
    and "\<forall>(k, t) \<in> set new. plugin_of L k t"
  shows "own_tools r' = own_tools r"
proof -
  have "filter (\<lambda>(_, t). \<not> has_prefix (tSource t) ''plugin:'') new = []"
    using assms(3) by (auto simp: filter_empty_conv plugin_of_def)
  then show ?thesis using assms(1,2) by (simp add: own_tools_def RemoveSourcePrefix_def)
qed

subsection \<open>Properties\<close>

text \<open>
  Loading plugins only adds tools: every tool that was registered stays as it was, the
  interceptors too, and what is added are exactly the tools that are reported, each of them registered
  for a manifest of the directory with its name, marked with the path of its file and run by its
  command; the registry still asks for a reason everywhere.
\<close>

theorem plugins_only_add:
  assumes "LoadInto L r m = (Inr loaded, r', m')" and "registry_ok r"
  shows "registry_ok r' \<and> rInterceptors r' = rInterceptors r \<and>
    (\<exists>new. rTools r' = rTools r @ new \<and> loaded = sort (map fst new) \<and> (\<forall>(k, t) \<in> set new. plugin_of L k t))"
  using LoadInto_cases [OF assms(1)]
proof (elim disjE exE conjE)
  fix names assume le: "load_entries L (ldEntries L) [] r m = (names, r', m')" and "loaded = sort names"
  with load_entries_appends [OF le] load_entries_ok [OF le assms(2)] show ?thesis by auto
qed (use assms(2) in auto)

text \<open>
  Reloading makes the plugins those of the directory: the tools of the program itself are kept, the
  old plugins go, and reloading again changes nothing and reports the same names.
\<close>

theorem reload_replaces_plugins:
  assumes "ReloadInto L r m = (Inr loaded, r1, m1)"
  shows "own_tools r1 = own_tools r \<and> ReloadInto L r1 m1 = (Inr loaded, r1, m1) \<and>
    (\<forall>k t. gm_get (rTools r1) k = Some t \<and> has_prefix (tSource t) ''plugin:'' \<longrightarrow> plugin_of L k t)"
proof -
  have load: "LoadInto L (own_tools r) [] = (Inr loaded, r1, m1)" using assms by (simp add: ReloadInto_def own_tools_def)
  from LoadInto_cases [OF this] load_entries_appends [of L "ldEntries L" "[]" "own_tools r" "[]"] obtain new
    where new: "rTools r1 = rTools (own_tools r) @ new" "rInterceptors r1 = rInterceptors r" "\<forall>(k, t) \<in> set new. plugin_of L k t"
    by (auto simp: own_tools_def RemoveSourcePrefix_def)
  have own: "own_tools r1 = own_tools r" by (rule own_tools_appended [OF new])
  have "ReloadInto L r1 m1 = (Inr loaded, r1, m1)"
    using load own by (simp add: ReloadInto_def own_tools_def)
  moreover have "plugin_of L k t" if "gm_get (rTools r1) k = Some t" "has_prefix (tSource t) ''plugin:''" for k t
    using gm_get_mem [OF that(1)] that(2) new(1,3) by (auto simp: own_tools_def RemoveSourcePrefix_def)
  ultimately show ?thesis using own by blast
qed

text \<open>What a plugin prints is its result when it is JSON; a plugin that prints nothing succeeds.\<close>

lemma plugin_result:
  assumes "run (plugin_command environ mf (shw args)) w = (Ended outs errs d False None, w1)"
    and "[] \<notin> set outs" and "int (length (concat outs)) \<le> plugin_max mf"
  shows "plugin_execute num parse shw environ run mf args w =
    (Inr (if concat outs = [] then Plain (JObj [(''ok'', JBool True), (''truncated'', JBool (cbTruncated (captured capWrite_plugins (plugin_max mf) errs)))])
          else (case parse (concat outs) of
                  RawDoc v \<Rightarrow> (case any_value num v of Some v' \<Rightarrow> Plain v'
                              | None \<Rightarrow> plugin_value num (\<lambda>_. RawEmpty) (captured capWrite_plugins (plugin_max mf) outs) (captured capWrite_plugins (plugin_max mf) errs))
                | _ \<Rightarrow> plugin_value num (\<lambda>_. RawEmpty) (captured capWrite_plugins (plugin_max mf) outs) (captured capWrite_plugins (plugin_max mf) errs))), w1)"
proof -
  have "0 \<le> plugin_max mf" by (simp add: plugin_max_def)
  from cap_plugins.capture [OF this assms(2)] assms(3)
  have b: "cbBuf (captured capWrite_plugins (plugin_max mf) outs) = concat outs"
    and t: "\<not> cbTruncated (captured capWrite_plugins (plugin_max mf) outs)" by (simp_all add: captured_def)
  then show ?thesis
    using assms(1) by (auto simp: plugin_execute_def plugin_value_def Let_def split: raw.split option.split)
qed

subsection \<open>Witnesses\<close>

definition sample_loader :: "nat loader" where
  "sample_loader = \<lparr>ldDir = ''p'', ldMkdirFails = None, ldReadDirFails = None,
     ldEntries = [(''a.json'', Some (Inr (RawDoc (JObj [(''name'', JStr ''hi''), (''command'', JStr ''echo''),
         (''description'', JStr ''says hi'')])))), (''b.txt'', Some (Inr RawEmpty)), (''c.json'', None)],
     ldNum = Some, ldLookup = (\<lambda>c. Inr (''/bin/'' @ c)), ldHandler = (\<lambda>mf args w. (Inr (Plain (JStr (mfCommand mf))), w + 1))\<rparr>"

lemma sample_load: "fst (LoadInto sample_loader New []) = Inr [''hi'']"
  "map fst (rTools (fst (snd (LoadInto sample_loader New [])))) = [''hi'']"
  by code_simp+

theorem plugins_only_add_witness:
  "registry_ok (fst (snd (LoadInto sample_loader New []))) \<and>
   (\<exists>t. rTools (fst (snd (LoadInto sample_loader New []))) = [(''hi'', t)] \<and> plugin_of sample_loader ''hi'' t)"
proof -
  have l: "LoadInto sample_loader New [] =
      (Inr [''hi''], fst (snd (LoadInto sample_loader New [])), snd (snd (LoadInto sample_loader New [])))"
    using sample_load(1) by (simp add: prod_eq_iff)
  from plugins_only_add [OF l registry_ok_New] sample_load(2) show ?thesis
    by (auto simp: New_def Cons_eq_map_conv)
qed

theorem reload_replaces_plugins_witness:
  "ReloadInto sample_loader (fst (snd (LoadInto sample_loader New []))) (snd (snd (LoadInto sample_loader New []))) =
     (Inr [''hi''], fst (snd (LoadInto sample_loader New [])), snd (snd (LoadInto sample_loader New [])))"
proof -
  have own: "RemoveSourcePrefix ''plugin:'' New = New" by (simp add: RemoveSourcePrefix_def New_def)
  have l: "ReloadInto sample_loader New [] =
      (Inr [''hi''], fst (snd (LoadInto sample_loader New [])), snd (snd (LoadInto sample_loader New [])))"
    using sample_load(1) by (simp add: ReloadInto_def own prod_eq_iff)
  from reload_replaces_plugins [OF l] show ?thesis by (elim conjE)
qed

end
