(* ===== verification/Runtime.thy ===== *)
theory Runtime
  imports Host Plugins Mcp AuditLog Jobs Targets
begin

section \<open>The runtime and its server (internal/runtime/runtime.go, cmd/cycomagent/main.go)\<close>

text \<open>
  \<open>runtime_new\<close> builds the parts in the order of \<open>runtime.New\<close> and puts the policy and the audit log
  in front of every tool. What the parts find on disk, the failures of making directories, the clock
  and the tools of the program itself are given by \<open>boot\<close>: \<open>boTools\<close> are the tools \<open>tools.Register\<close>
  adds one after the other, of which the components model the handlers.

  The server routes by path; the tool calls are all behind \<open>/mcp\<close>. The counter of health requests,
  which nothing reads, is left out.
\<close>

subsection \<open>Settings\<close>

definition EnvBool :: "(string \<Rightarrow> string) \<Rightarrow> string \<Rightarrow> bool \<Rightarrow> bool" where
  "EnvBool getenv name fallback =
     (let v = to_lower (trim_space (getenv name))
      in if v = ''1'' \<or> v = ''true'' \<or> v = ''yes'' \<or> v = ''on'' then True
         else if v = ''0'' \<or> v = ''false'' \<or> v = ''no'' \<or> v = ''off'' then False
         else fallback)"

definition EnvInt :: "(string \<Rightarrow> string) \<Rightarrow> string \<Rightarrow> int \<Rightarrow> int" where
  "EnvInt getenv name fallback =
     (if getenv name \<noteq> [] then (case atoi (getenv name) of Some n \<Rightarrow> n | None \<Rightarrow> fallback) else fallback)"

text \<open>\<open>strings.Trim(s, "[]")\<close>, and the text before the last colon.\<close>

definition trim_brackets :: "string \<Rightarrow> string" where
  "trim_brackets s =
     rev (dropWhile (\<lambda>c. c = CHR ''['' \<or> c = CHR '']'') (rev (dropWhile (\<lambda>c. c = CHR ''['' \<or> c = CHR '']'') s)))"

definition addr_host :: "string \<Rightarrow> string" where
  "addr_host addr =
     (case dropWhile (\<lambda>c. c \<noteq> CHR '':'') (rev addr) of
        [] \<Rightarrow> addr
      | _ # r \<Rightarrow> trim_brackets (rev r))"

definition IsLoopbackAddr :: "string \<Rightarrow> bool" where
  "IsLoopbackAddr addr =
     (let host = addr_host addr
      in host = [] \<or> host = ''localhost'' \<or> host = ''127.0.0.1'' \<or> host = ''::1'')"

subsection \<open>Building the runtime\<close>

record rt_config =
  rcVersion :: string
  rcStateDir :: string
  rcPluginDir :: string
  rcRootSocket :: string
  rcStrictMCP :: bool
  rcInstructions :: string

record parts =
  pFiles :: files
  pEngine :: engine
  pLogger :: logger
  pJobs :: manager
  pTargets :: tmanager

record boot =
  boGoos :: string
  boGetenv :: "string \<Rightarrow> string"
  boInstructions :: string
  boStateFails :: "goerr option"
  boJobsFails :: "goerr option"
  boPolicyFails :: "goerr option"
  boAuditFails :: "goerr option"
  boPersistFails :: bool
  boIdentityFails :: "goerr option"
  boAlive :: "int \<Rightarrow> bool"
  boNow :: int
  boJobFiles :: "job option gomap"
  boJobLogs :: "string gomap"
  boTargets :: targets_file
  boFiles :: files
  boAuditFiles :: "log_file gomap"
  boLogEnv :: log_env
  boClock :: "parts \<Rightarrow> int"
  boArch :: arch
  boTools :: "(bool \<times> parts tool) list"
  boLoader :: "string \<Rightarrow> parts loader"
  boStarted :: json

record runtime =
  rtConfig :: rt_config
  rtServer :: server
  rtRegistry :: "parts registry"
  rtManifests :: manifests

text \<open>
  \<open>tools.Register\<close>: most tools are added under \<open>must\<close> (the flag), whose panic is \<open>None\<close>; the error of
  adding a tool of an optional backend is dropped.
\<close>

fun Register :: "(bool \<times> 'w tool) list \<Rightarrow> 'w registry \<Rightarrow> 'w registry option" where
  "Register [] r = Some r"
| "Register ((must, t) # ts) r =
     (case Add t r of Inl _ \<Rightarrow> if must then None else Register ts r | Inr r1 \<Rightarrow> Register ts r1)"

definition complete_config :: "boot \<Rightarrow> rt_config \<Rightarrow> rt_config" where
  "complete_config B c =
     c\<lparr>rcVersion := (if rcVersion c = [] then ''dev'' else rcVersion c),
       rcPluginDir := (if rcPluginDir c = [] then rcStateDir c @ ''/plugins.d'' else rcPluginDir c),
       rcRootSocket :=
         (if \<not> SupportsLocalPrivilege (boGoos B) (boGetenv B) then []
          else if rcRootSocket c = [] then DefaultRootSocket (boGoos B) (boGetenv B)
          else rcRootSocket c),
       rcInstructions := (if rcInstructions c = [] then boInstructions B else rcInstructions c)\<rparr>"

definition guards :: "boot \<Rightarrow> parts registry" where
  "guards B = runtime_interceptors (boArch B) pEngine (boLogEnv B) (boClock B) pLogger (\<lambda>l w. w\<lparr>pLogger := l\<rparr>) New"

definition rt_server :: "rt_config \<Rightarrow> server" where
  "rt_server c =
     \<lparr>svName = ''CyComAgent-MCP'', svVersion = rcVersion c, svInstructions = rcInstructions c,
      svStrict = rcStrictMCP c, svCompatMissingReason = True\<rparr>"

definition rt_parts :: "boot \<Rightarrow> rt_config \<Rightarrow> parts res" where
  "rt_parts B c =
     (case store_new (boStateFails B) (rcStateDir c) of
        Inl e \<Rightarrow> Inl (Errorf ''state: %w'' [FErr e])
      | Inr dir \<Rightarrow>
          (case boJobsFails B of
             Some e \<Rightarrow> Inl (Errorf ''jobs: %w'' [FErr e])
           | None \<Rightarrow>
               (case targets_new (boTargets B) of
                  Inl e \<Rightarrow> Inl (Errorf ''targets: %w'' [FErr e])
                | Inr tm \<Rightarrow>
                    (case policy_new (boPolicyFails B) (rcStateDir c) (boFiles B) of
                       (Inl e, fs) \<Rightarrow> Inl (Errorf ''policy: %w'' [FErr e])
                     | (Inr pe, fs) \<Rightarrow>
                         (case boAuditFails B of
                            Some e \<Rightarrow> Inl (Errorf ''audit: %w'' [FErr e])
                          | None \<Rightarrow>
                              Inr \<lparr>pFiles = fs, pEngine = pe, pLogger = new_logger (boAuditFiles B),
                                   pJobs = jobs_new (processAlive (boAlive B)) (boNow B) (boPersistFails B)
                                     (path_join [rcStateDir c, ''jobs'']) (boJobFiles B) (boJobLogs B),
                                   pTargets = tm\<rparr>)))))"

text \<open>\<open>None\<close> is a panic.\<close>

definition runtime_new :: "boot \<Rightarrow> rt_config \<Rightarrow> (runtime \<times> parts) res option" where
  "runtime_new B c0 =
     (let c = complete_config B c0
      in if rcStateDir c = [] then Some (Inl (err_new ''state directory is required''))
         else (case rt_parts B c of
                 Inl e \<Rightarrow> Some (Inl e)
               | Inr w \<Rightarrow>
                   (case Register (boTools B) (guards B) of
                      None \<Rightarrow> None
                    | Some r \<Rightarrow>
                        let (loaded, r1, m) =
                              (if cAllowExternalPlugins (Snapshot (pEngine w))
                               then LoadInto (boLoader B (rcPluginDir c)) r [] else (Inr [], r, []))
                        in (case loaded of
                              Inl e \<Rightarrow> Some (Inl (Errorf ''plugins: %w'' [FErr e]))
                            | Inr names \<Rightarrow>
                                let fs = snd (Put (boIdentityFails B) (rcStateDir c) ''runtime'' ''identity''
                                           (JObj [(''name'', JStr ''CyComAgent-MCP''), (''started_at'', boStarted B),
                                                  (''version'', JStr (rcVersion c))]) (pFiles w))
                                in Some (Inr (\<lparr>rtConfig = c, rtServer = rt_server c, rtRegistry = r1, rtManifests = m\<rparr>,
                                              w\<lparr>pFiles := fs\<rparr>))))))"

subsection \<open>Starting the program\<close>

record flags =
  flMode :: string
  flAddr :: string
  flStateDir :: string
  flPluginDir :: string
  flRootSocket :: string
  flToken :: string
  flStrict :: bool
  flAllowRemote :: bool
  flSessionBridge :: bool
  flSessionSocket :: string
  flShowVersion :: bool

datatype launch =
    PrintVersion
  | RunBridge string
  | Fatal goerr
  | Panicked
  | OnStdio runtime parts
  | OnHttp string string runtime parts

definition flag_config :: "string \<Rightarrow> string \<Rightarrow> flags \<Rightarrow> rt_config" where
  "flag_config version instructions f =
     \<lparr>rcVersion = version, rcStateDir = flStateDir f,
      rcPluginDir = (if flPluginDir f = [] then path_join [flStateDir f, ''plugins.d''] else flPluginDir f),
      rcRootSocket = flRootSocket f, rcStrictMCP = flStrict f, rcInstructions = instructions\<rparr>"

definition start_program :: "boot \<Rightarrow> string \<Rightarrow> string \<Rightarrow> flags \<Rightarrow> launch" where
  "start_program B version instructions f =
     (if flShowVersion f then PrintVersion
      else if flSessionBridge f then RunBridge (flSessionSocket f)
      else if flMode f = ''http'' \<and> \<not> IsLoopbackAddr (flAddr f) \<and> flToken f = [] \<and> \<not> flAllowRemote f
      then Fatal (err_new ''refusing unauthenticated non-loopback bind; set CYCOM_TOKEN or explicitly allow it'')
      else (case runtime_new B (flag_config version instructions f) of
              None \<Rightarrow> Panicked
            | Some (Inl e) \<Rightarrow> Fatal e
            | Some (Inr (rt, w)) \<Rightarrow>
                if flMode f = ''stdio'' then OnStdio rt w
                else if flMode f = ''http'' then OnHttp (flAddr f) (flToken f) rt w
                else Fatal (Errorf ''unsupported mode %q'' [FStr (flMode f)])))"

definition defaultStateDir :: "int \<Rightarrow> (string \<Rightarrow> string) \<Rightarrow> string res \<Rightarrow> string" where
  "defaultStateDir euid getenv home =
     (if euid = 0 then ''/var/lib/cycomagent''
      else if getenv ''XDG_STATE_HOME'' \<noteq> [] then path_join [getenv ''XDG_STATE_HOME'', ''cycomagent'']
      else (case home of
              Inr h \<Rightarrow> path_join [h, ''.local'', ''state'', ''cycomagent'']
            | Inl _ \<Rightarrow> ''.cycomagent''))"

text \<open>\<open>buildinfo.FullVersion\<close>: the revision and whether the tree was modified, when the build says so.\<close>

definition FullVersion :: "string \<Rightarrow> (string \<times> string) list option \<Rightarrow> string" where
  "FullVersion versionText settings =
     (let base = trim_space versionText
      in case settings of
           None \<Rightarrow> base
         | Some kvs \<Rightarrow>
             let rev0 = fold (\<lambda>(k, v) r. if k = ''vcs.revision'' then trim_space v else r) kvs [];
                 dirty = fold (\<lambda>(k, v) d. if k = ''vcs.modified'' then v = ''true'' else d) kvs False;
                 revision = (if 12 < length rev0 then take 12 rev0 else rev0);
                 base1 = (if revision \<noteq> [] then base @ ''+'' @ revision else base)
             in if dirty then base1 @ ''.dirty'' else base1)"

subsection \<open>The server\<close>

datatype page =
    McpPage http_reply
  | Alive string
  | Ready nat
  | NotReady goerr
  | Healthy "(string \<times> json) list"
  | MetricsText int nat counters
  | Inspector
  | InspectorEvents "event list" "active_call list"
  | PageNotFound

definition running_jobs :: "manager \<Rightarrow> nat" where
  "running_jobs m = length (filter (\<lambda>j. has_prefix (jStatus j) ''running'' \<or> jStatus j = ''terminating'') (List_jobs m))"

text \<open>The members of the health report that come from the parts.\<close>

definition health :: "runtime \<Rightarrow> parts \<Rightarrow> (string \<times> json) list" where
  "health rt w =
     [(''audit_enabled'', JBool True),
      (''jobs_running'', JNum (JInt (int (running_jobs (pJobs w))))),
      (''jobs_total'', JNum (JInt (int (length (List_jobs (pJobs w)))))),
      (''plugin_dir'', JStr (rcPluginDir (rtConfig rt))),
      (''plugins'', JArr (map JStr (plugin_names (rtManifests rt)))),
      (''policy_mode'', JStr (cMode (Snapshot (pEngine w)))),
      (''state_dir'', JStr (rcStateDir (rtConfig rt))),
      (''status'', JStr ''healthy''),
      (''targets'', JNum (JInt (int (target_count (pTargets w))))),
      (''tools'', JNum (JInt (int (length (List_tools (rtRegistry rt)))))),
      (''version'', JStr (rcVersion (rtConfig rt)))]"

text \<open>
  A request to the server: \<open>probe\<close> is the outcome of writing the file \<open>Readyz\<close> writes and removes, \<open>up\<close>
  the seconds since the start; the first four arguments are those of \<open>HTTPHandler\<close>.
\<close>

text \<open>The three short pages; \<open>probe\<close> is the failure of writing a file in the state directory.\<close>

definition Livez :: "runtime \<Rightarrow> page" where
  "Livez rt = Alive (rcVersion (rtConfig rt))"

definition Readyz :: "runtime \<Rightarrow> goerr option \<Rightarrow> page" where
  "Readyz rt probe =
     (case probe of Some e \<Rightarrow> NotReady e | None \<Rightarrow> Ready (length (List_tools (rtRegistry rt))))"

definition Metrics_page :: "runtime \<Rightarrow> int \<Rightarrow> counters \<Rightarrow> page" where
  "Metrics_page rt up ct = MetricsText up (length (List_tools (rtRegistry rt))) ct"

definition serve_http ::
  "(string \<Rightarrow> (string \<times> string \<times> string) res) \<Rightarrow> (string \<Rightarrow> bool) \<Rightarrow> (goerr \<Rightarrow> string) \<Rightarrow> (json \<Rightarrow> string) \<Rightarrow>
   runtime \<Rightarrow> int \<Rightarrow> goerr option \<Rightarrow> int \<Rightarrow> string \<Rightarrow> string \<Rightarrow> http_request \<Rightarrow> counters \<times> parts \<Rightarrow>
   page \<times> counters \<times> parts" where
  "serve_http origin loopback et jt rt up probe d token path q st =
     (if path = ''/mcp'' then
        (case HTTPHandler origin loopback et jt (rtServer rt) (rtRegistry rt) d token q st of
           (reply, st1) \<Rightarrow> (McpPage reply, st1))
      else
        ((if path = ''/livez'' then Livez rt
          else if path = ''/readyz'' then Readyz rt probe
          else if path = ''/health'' then Healthy (health rt (snd st))
          else if path = ''/metrics'' then Metrics_page rt up (fst st)
          else if path = ''/inspector'' then Inspector
          else if path = ''/inspector/events'' then
            InspectorEvents (Tail 200 (pLogger (snd st))) (Active (pLogger (snd st)))
          else PageNotFound), st))"

subsection \<open>Lemmas\<close>

lemma Add_keeps: "Add t r = Inr r' \<Longrightarrow> rInterceptors r' = rInterceptors r"
  using Add_appends [of t r r'] by blast

lemma Register_keeps:
  "Register ts r = Some r' \<Longrightarrow> registry_ok r \<Longrightarrow> registry_ok r' \<and> rInterceptors r' = rInterceptors r"
proof (induction ts r rule: Register.induct)
  case (2 must t ts r)
  show ?case
  proof (cases "Add t r")
    case (Inl e)
    then show ?thesis using 2 by (auto split: if_splits)
  next
    case (Inr r1)
    then have "registry_ok r1" "rInterceptors r1 = rInterceptors r" "Register ts r1 = Some r'"
      using 2 registry_ok_Add Add_keeps by auto
    with 2(2) [OF Inr] show ?thesis by simp
  qed
qed simp

lemma guards_ok: "registry_ok (guards B)"
  by (simp add: guards_def runtime_interceptors_def registry_ok_AddInterceptor registry_ok_New)

lemma guards_interceptors:
  "rInterceptors (guards B) =
     [policy_interceptor (boArch B) pEngine, audit_interceptor (boLogEnv B) (boClock B) pLogger (\<lambda>l w. w\<lparr>pLogger := l\<rparr>)]"
  by (simp add: guards_def runtime_interceptors_def AddInterceptor_def New_def)

lemma policy_new_ok: "fst (policy_new fail dir fs) = Inr e \<Longrightarrow> config_ok (eCfg e)"
  using Reload_ok [of "\<lparr>eFile = dir @ ''/policy.json'', eCfg = Default\<rparr>"]
  by (auto simp: policy_new_def Let_def split: prod.splits option.splits dest: arg_cong [where f = snd]) (metis snd_conv)+

lemma rt_parts_policy: "rt_parts B c = Inr w \<Longrightarrow> config_ok (eCfg (pEngine w))"
  using policy_new_ok [of "boPolicyFails B" "rcStateDir c" "boFiles B"]
  by (auto simp: rt_parts_def split: sum.splits option.splits prod.splits)

lemma LoadInto_keeps: "LoadInto L r m = (Inr loaded, r', m') \<Longrightarrow> registry_ok r \<Longrightarrow> registry_ok r' \<and> rInterceptors r' = rInterceptors r"
  using LoadInto_cases [of L r m loaded r' m'] load_entries_appends [of L "ldEntries L" "[]" r m] load_entries_ok [of L "ldEntries L" "[]" r m]
  by auto

lemma runtime_new_cases:
  assumes "runtime_new B c0 = Some (Inr (rt, w))"
  shows "\<exists>w0 r loaded. rt_parts B (complete_config B c0) = Inr w0 \<and> Register (boTools B) (guards B) = Some r \<and>
    (if cAllowExternalPlugins (eCfg (pEngine w0))
     then LoadInto (boLoader B (rcPluginDir (complete_config B c0))) r [] = (Inr loaded, rtRegistry rt, rtManifests rt)
     else rtRegistry rt = r \<and> rtManifests rt = []) \<and>
    rtConfig rt = complete_config B c0 \<and> (\<exists>fs. w = w0\<lparr>pFiles := fs\<rparr>)"
  using assms
  by (auto simp: runtime_new_def Let_def Snapshot_def split: if_splits sum.splits option.splits prod.splits)

subsection \<open>Properties\<close>

text \<open>
  C16: a runtime that started has a valid policy, a registry in which every tool asks for a reason and
  nothing but the policy and then the audit log in front of the tools; it loaded plugins only if the
  policy allows them, and it knows no privilege broker on a host without local privilege.
\<close>

theorem started_runtime_guarded:
  assumes "runtime_new B c0 = Some (Inr (rt, w))"
  shows "config_ok (eCfg (pEngine w)) \<and> registry_ok (rtRegistry rt) \<and>
    rInterceptors (rtRegistry rt) =
      [policy_interceptor (boArch B) pEngine, audit_interceptor (boLogEnv B) (boClock B) pLogger (\<lambda>l w. w\<lparr>pLogger := l\<rparr>)] \<and>
    (\<not> cAllowExternalPlugins (eCfg (pEngine w)) \<longrightarrow> Register (boTools B) (guards B) = Some (rtRegistry rt)) \<and>
    (\<not> SupportsLocalPrivilege (boGoos B) (boGetenv B) \<longrightarrow> rcRootSocket (rtConfig rt) = [])"
proof -
  obtain w0 r loaded fs where parts: "rt_parts B (complete_config B c0) = Inr w0"
    and reg: "Register (boTools B) (guards B) = Some r" and w: "w = w0\<lparr>pFiles := fs\<rparr>"
    and conf: "rtConfig rt = complete_config B c0"
    and load: "if cAllowExternalPlugins (eCfg (pEngine w0))
     then LoadInto (boLoader B (rcPluginDir (complete_config B c0))) r [] = (Inr loaded, rtRegistry rt, rtManifests rt)
     else rtRegistry rt = r \<and> rtManifests rt = []"
    using runtime_new_cases [OF assms] by blast
  have r: "registry_ok r" "rInterceptors r = rInterceptors (guards B)"
    using Register_keeps [OF reg guards_ok] by simp_all
  have "registry_ok (rtRegistry rt) \<and> rInterceptors (rtRegistry rt) = rInterceptors (guards B)"
  proof (cases "cAllowExternalPlugins (eCfg (pEngine w0))")
    case True
    then show ?thesis using LoadInto_keeps [OF _ r(1)] load r(2) by simp
  qed (use load r in simp)
  moreover have "config_ok (eCfg (pEngine w))" using rt_parts_policy [OF parts] by (simp add: w)
  ultimately show ?thesis using load reg conf by (simp add: w guards_interceptors complete_config_def)
qed

text \<open>
  C17: in a runtime that started, a call that the policy in force refuses fails and changes nothing but
  the audit log, whatever the tool would do: files, policy, jobs and targets stay as they are.
\<close>

theorem refused_call_leaves_parts:
  assumes "runtime_new B c0 = Some (Inr (rt, w0))"
    and "BeforeCall (boArch B) (eCfg (pEngine w)) name (call_args args) \<noteq> None"
  shows "\<exists>e l. call (rtRegistry rt) name args d w = (Inl e, w\<lparr>pLogger := l\<rparr>)"
proof -
  obtain w1 r loaded where "rt_parts B (complete_config B c0) = Inr w1" and reg: "Register (boTools B) (guards B) = Some r"
    and load: "if cAllowExternalPlugins (eCfg (pEngine w1))
     then LoadInto (boLoader B (rcPluginDir (complete_config B c0))) r [] = (Inr loaded, rtRegistry rt, rtManifests rt)
     else rtRegistry rt = r \<and> rtManifests rt = []"
    using runtime_new_cases [OF assms(1)] by blast
  have r: "registry_ok r" "rInterceptors r = rInterceptors (guards B)"
    using Register_keeps [OF reg guards_ok] by simp_all
  have inter: "rInterceptors (rtRegistry rt) = rInterceptors (guards B)"
    using load LoadInto_keeps [OF _ r(1)] r(2) by (simp split: if_splits)
  obtain e where e: "BeforeCall (boArch B) (eCfg (pEngine w)) name (call_args args) = Some e" using assms(2) by blast
  have before: "run_before (rInterceptors (rtRegistry rt)) name (call_args args) w = (Some e, w)"
    by (simp add: inter guards_interceptors policy_interceptor_def Snapshot_def e)
  have self: "\<exists>l. w = w\<lparr>pLogger := l\<rparr>" by (rule exI [of _ "pLogger w"]) simp
  show ?thesis
  proof (cases "gm_get (rTools (rtRegistry rt)) name")
    case None
    with self show ?thesis by (simp add: call_def)
  next
    case (Some t)
    show ?thesis
    proof (cases "validateReason (call_args args)")
      case None
      have "snd (call (rtRegistry rt) name args d w) =
          run_after (rInterceptors (rtRegistry rt)) name (call_args args) 0 (Some e) w"
        using Some None before by (simp add: call_def Let_def)
      moreover have "\<exists>l. run_after (rInterceptors (rtRegistry rt)) name (call_args args) 0 (Some e) w = w\<lparr>pLogger := l\<rparr>"
        by (auto simp: inter guards_interceptors policy_interceptor_def audit_interceptor_def)
      ultimately show ?thesis using Some None before by (auto simp: call_def Let_def)
    next
      case refused: (Some e')
      with Some self show ?thesis by (simp add: call_def)
    qed
  qed
qed

text \<open>
  Without a token the program listens for HTTP exactly when the address names \<open>localhost\<close>,
  \<open>127.0.0.1\<close>, \<open>::1\<close> or no host at all, unless that was allowed explicitly; an address without a host,
  as in \<open>:7331\<close>, is a listener on every interface, so anybody who reaches the machine is served.
\<close>

theorem unauthenticated_http_hosts:
  assumes "flMode f = ''http''" and "\<not> flShowVersion f" and "\<not> flSessionBridge f" and "flToken f = []" and "\<not> flAllowRemote f"
    and "runtime_new B (flag_config version instructions f) = Some (Inr (rt, w))"
  shows "start_program B version instructions f =
      (if addr_host (flAddr f) \<in> set [''localhost'', ''127.0.0.1'', ''::1'', []] then OnHttp (flAddr f) [] rt w
       else Fatal (err_new ''refusing unauthenticated non-loopback bind; set CYCOM_TOKEN or explicitly allow it'')) \<and>
    addr_host '':7331'' = []"
proof -
  have "IsLoopbackAddr (flAddr f) \<longleftrightarrow> addr_host (flAddr f) \<in> set [''localhost'', ''127.0.0.1'', ''::1'', []]"
    by (simp add: IsLoopbackAddr_def Let_def disj_commute disj_left_commute)
  moreover have "addr_host '':7331'' = []" by code_simp
  ultimately show ?thesis using assms by (simp add: start_program_def del: list.set)
qed

lemma address_without_host: "CHR '':'' \<notin> set port \<Longrightarrow> IsLoopbackAddr (CHR '':'' # port)"
proof -
  assume "CHR '':'' \<notin> set port"
  then have "dropWhile (\<lambda>c. c \<noteq> CHR '':'') (rev port @ '':'') = '':''"
    by (subst dropWhile_append2) auto
  then show ?thesis by (simp add: IsLoopbackAddr_def addr_host_def trim_brackets_def)
qed

text \<open>
  The pages beside \<open>/mcp\<close> change nothing, and none of them asks for the token or looks at the origin:
  anybody who reaches the server reads the reasons and errors of the last calls.
\<close>

lemma other_pages_unguarded:
  assumes "path \<noteq> ''/mcp''"
  shows "snd (serve_http origin loopback et jt rt up probe d token path q st) = st"
    and "serve_http origin loopback et jt rt up probe d token path q st =
      serve_http origin' loopback' et jt rt up probe d token' path q' st"
  using assms by (simp_all add: serve_http_def del: list.inject)

lemma inspector_shows_log:
  "fst (serve_http origin loopback et jt rt up probe d token ''/inspector/events'' q st) =
     InspectorEvents (Tail 200 (pLogger (snd st))) (Active (pLogger (snd st)))"
  by (simp add: serve_http_def)

subsection \<open>Witnesses\<close>

definition sample_boot :: boot where
  "sample_boot =
     \<lparr>boGoos = ''linux'', boGetenv = (\<lambda>n. []), boInstructions = ''i'', boStateFails = None, boJobsFails = None,
      boPolicyFails = None, boAuditFails = None, boPersistFails = False, boIdentityFails = None, boAlive = (\<lambda>p. False),
      boNow = 0, boJobFiles = [], boJobLogs = [], boTargets = FileMissing,
      boFiles = [(''s/policy.json'', RawDoc (JObj [(''mode'', JStr ''readonly'')]))],
      boAuditFiles = [], boLogEnv = \<lparr>vSha = (\<lambda>t a. t), vDay = (\<lambda>t. ''d''), vLen = (\<lambda>e. 1)\<rparr>, boClock = (\<lambda>w. 0),
      boArch = AMD64,
      boTools = [(True, \<lparr>tName = ''fs_write'', tTitle = [], tDescription = ''w'', tInputSchema = None, tOutputSchema = None,
        tAnnotations = [], tHandler = Some (\<lambda>a w. (Inr (Plain JNull), w\<lparr>pFiles := []\<rparr>)), tSource = ''core''\<rparr>)],
      boLoader = (\<lambda>d. \<lparr>ldDir = d, ldMkdirFails = None, ldReadDirFails = None, ldEntries = [], ldNum = Some,
        ldLookup = (\<lambda>c. Inr c), ldHandler = (\<lambda>mf a w. (Inr (Plain JNull), w))\<rparr>), boStarted = JNull\<rparr>"

definition sample_flags :: flags where
  "sample_flags = \<lparr>flMode = ''http'', flAddr = '':7331'', flStateDir = ''s'', flPluginDir = [], flRootSocket = [],
     flToken = [], flStrict = False, flAllowRemote = False, flSessionBridge = False, flSessionSocket = [], flShowVersion = False\<rparr>"

definition sample_started :: "(runtime \<times> parts) res option" where
  "sample_started = runtime_new sample_boot (flag_config ''1'' [] sample_flags)"

fun started_ok :: "(runtime \<times> parts) res option \<Rightarrow> bool" where
  "started_ok (Some (Inr (rt, w))) = (cMode (eCfg (pEngine w)) = ''readonly'')"
| "started_ok _ = False"

lemma sample_started_ok: "started_ok sample_started"
  by code_simp

lemma sample_start: "\<exists>rt w. runtime_new sample_boot (flag_config ''1'' [] sample_flags) = Some (Inr (rt, w))"
  using sample_started_ok by (cases sample_started rule: started_ok.cases) (auto simp: sample_started_def)

theorem started_runtime_guarded_witness:
  "\<exists>rt w. runtime_new sample_boot (flag_config ''1'' [] sample_flags) = Some (Inr (rt, w)) \<and> registry_ok (rtRegistry rt)"
  using sample_start started_runtime_guarded by blast

theorem refused_call_leaves_parts_witness:
  "\<exists>rt w0 e l. runtime_new sample_boot (flag_config ''1'' [] sample_flags) = Some (Inr (rt, w0)) \<and>
     call (rtRegistry rt) ''fs_write'' (RawDoc (JObj [(''reason'', JStr ''r'')])) 0 w0 = (Inl e, w0\<lparr>pLogger := l\<rparr>)"
proof -
  obtain rt w0 where st: "runtime_new sample_boot (flag_config ''1'' [] sample_flags) = Some (Inr (rt, w0))"
    using sample_start by blast
  have "map_option (\<lambda>x. case x of Inr (rt, w) \<Rightarrow> is_nil (BeforeCall (boArch sample_boot) (eCfg (pEngine w)) ''fs_write''
      (call_args (RawDoc (JObj [(''reason'', JStr ''r'')])))) | Inl e \<Rightarrow> True) sample_started = Some False"
    by code_simp
  then have "BeforeCall (boArch sample_boot) (eCfg (pEngine w0)) ''fs_write'' (call_args (RawDoc (JObj [(''reason'', JStr ''r'')]))) \<noteq> None"
    using st by (simp add: sample_started_def)
  from refused_call_leaves_parts [OF st this] st show ?thesis by blast
qed

theorem unauthenticated_http_hosts_witness:
  "\<exists>rt w. start_program sample_boot ''1'' [] sample_flags = OnHttp '':7331'' [] rt w"
proof -
  obtain rt w where st: "runtime_new sample_boot (flag_config ''1'' [] sample_flags) = Some (Inr (rt, w))"
    using sample_start by blast
  have f: "flMode sample_flags = ''http''" "\<not> flShowVersion sample_flags" "\<not> flSessionBridge sample_flags"
    "flToken sample_flags = []" "\<not> flAllowRemote sample_flags" "flAddr sample_flags = '':7331''"
    by (simp_all add: sample_flags_def)
  from unauthenticated_http_hosts [OF f(1-5) st] f(6) show ?thesis by simp
qed

end
