(* ===== verification/SystemTools.thy ===== *)
theory SystemTools
  imports Targets RootBroker Host Texts Policy
begin

section \<open>The system and session tools (internal/tools/system.go, session_control_linux.go)\<close>

text \<open>
  Services on the three platforms, the network, the environment, and the machine and session control
  that goes through the root broker. \<open>'w sys_env\<close> is what the tools call, over a state \<open>'w\<close>: \<open>syRun\<close> runs
  a program with its two outputs joined, \<open>syRoot\<close> is the client of the root broker (\<open>RootBroker\<close>), \<open>syStat\<close>
  inspects a path (\<open>Inr\<close> whether it is a directory).
\<close>

text \<open>What became of a program whose outputs are joined: the output and the end, as in \<open>outcome\<close>.\<close>

type_synonym ran = "string \<times> (goerr + int) option"

record 'w sys_env =
  syGoos :: string
  syGetenv :: "string \<Rightarrow> string"
  syLookupEnv :: "string \<Rightarrow> string option"
  syUid :: int
  syHome :: string
  syStat :: "string \<Rightarrow> bool res"
  syLookPath :: "string \<Rightarrow> string res"
  syDesktopEnv :: "'w \<Rightarrow> string list"
  syRun :: "string list \<Rightarrow> string list option \<Rightarrow> 'w \<Rightarrow> ran \<times> 'w"
  syRoot :: "exec_request \<Rightarrow> 'w \<Rightarrow> exec_response res \<times> 'w"
  syRootAvailable :: bool

definition shellJoin :: "string list \<Rightarrow> string" where
  "shellJoin args = GoStrings.join '' ''
     (map (\<lambda>a. [CHR 0x27] @ replace_char (CHR 0x27) [CHR 0x27, CHR 0x5C, CHR 0x27, CHR 0x27] a @ [CHR 0x27]) args)"

definition root_request :: "string \<Rightarrow> int \<Rightarrow> exec_request" where
  "root_request cmd secs =
     zero_request\<lparr>xrCommand := cmd, xrTimeoutSeconds := secs, xrMaxOutputBytes := 1048576\<rparr>"

subsection \<open>The environment\<close>

definition system_env :: "'w sys_env \<Rightarrow> raw \<Rightarrow> (bool \<times> string) gomap res" where
  "system_env E args =
     (case decode_members [''names''] args of
        Inl e \<Rightarrow> Inl e
      | Inr ms \<Rightarrow>
          (case strict (dec_field set_strs [] ''names'' ms) of
             Inl e \<Rightarrow> Inl e
           | Inr names \<Rightarrow>
               Inr (fold (\<lambda>n. gm_put n (case syLookupEnv E n of Some v \<Rightarrow> (True, v) | None \<Rightarrow> (False, []))) names [])))"

subsection \<open>Services\<close>

datatype svc_reply =
    ServiceRan string string string int string
  | ServiceState string string bool bool int
  | ServiceByRoot exec_response

definition svc_actions :: "string list" where
  "svc_actions = [''status'', ''start'', ''stop'', ''restart'', ''reload'', ''enable'', ''disable'', ''is-active'', ''is-enabled'']"

definition runServiceCommand ::
  "'w sys_env \<Rightarrow> string \<Rightarrow> string \<Rightarrow> string \<Rightarrow> string list \<Rightarrow> 'w \<Rightarrow> svc_reply res \<times> 'w" where
  "runServiceCommand E adapter name action argv w =
     (case syRun E argv None w of
        ((out, None), w1) \<Rightarrow> (Inr (ServiceRan adapter name action 0 out), w1)
      | ((out, Some (Inr c)), w1) \<Rightarrow> (Inr (ServiceRan adapter name action c out), w1)
      | ((out, Some (Inl e)), w1) \<Rightarrow> (Inl e, w1))"

definition termuxServiceControl ::
  "'w sys_env \<Rightarrow> string \<Rightarrow> string \<Rightarrow> bool \<Rightarrow> 'w \<Rightarrow> svc_reply res \<times> 'w" where
  "termuxServiceControl E name action privileged w =
     (if privileged then (Inl (err_new ''privileged service_control is not supported by the Termux runit adapter''), w)
      else if action = ''is-enabled'' then
        (let dir = TermuxServiceDir (syGetenv E); serviceDir = path_join [dir, name]
         in if dir = [] then (Inl (err_new ''cannot determine Termux service directory; PREFIX/SVDIR is unset''), w)
            else (case syStat E serviceDir of
                    Inl ErrNotExist \<Rightarrow> (Inr (ServiceState name action False False 1), w)
                  | Inl e \<Rightarrow> (Inl e, w)
                  | Inr _ \<Rightarrow>
                      (case syStat E (path_join [serviceDir, ''down'']) of
                         Inl ErrNotExist \<Rightarrow> (Inr (ServiceState name action True True 0), w)
                       | Inl e \<Rightarrow> (Inl e, w)
                       | Inr _ \<Rightarrow> (Inr (ServiceState name action True False 0), w))))
      else
        (let argv =
           (if action = ''status'' \<or> action = ''is-active'' then [''sv'', ''status'', name]
            else if action = ''start'' then [''sv'', ''up'', name]
            else if action = ''stop'' then [''sv'', ''down'', name]
            else if action = ''restart'' then [''sv'', ''restart'', name]
            else if action = ''reload'' then [''sv'', ''hup'', name]
            else if action = ''enable'' then [''sv-enable'', name]
            else if action = ''disable'' then [''sv-disable'', name]
            else [])
         in if argv = [] then (Inl (Errorf ''unsupported Termux service action %q'' [FStr action]), w)
            else (case syLookPath E (hd argv) of
                    Inl _ \<Rightarrow> (Inl (Errorf ''Termux service adapter requires %s; install termux-services with: pkg install termux-services''
                               [FStr (hd argv)]), w)
                  | Inr _ \<Rightarrow> runServiceCommand E ''termux-runit'' name action argv w)))"

definition launchd_missing :: "string \<Rightarrow> string \<Rightarrow> goerr" where
  "launchd_missing name plist = Errorf ''launchd plist not found for %s: %s'' [FStr name, FStr plist]"

definition darwinServiceControl ::
  "'w sys_env \<Rightarrow> string \<Rightarrow> string \<Rightarrow> bool \<Rightarrow> 'w \<Rightarrow> svc_reply res \<times> 'w" where
  "darwinServiceControl E name action privileged w =
     (let domain = ''gui/'' @ itoa (syUid E);
          dest = domain @ ''/'' @ name;
          plist = path_join [syHome E, ''Library'', ''LaunchAgents'', name @ ''.plist''];
          ctl = (\<lambda>args w. runServiceCommand E ''launchd-user'' name action (''launchctl'' # args) w)
      in if privileged
         then (Inl (err_new ''privileged service_control is not supported by the experimental macOS launchd adapter''), w)
         else if \<not> is_ok (syLookPath E ''launchctl'') then (Inl (err_new ''macOS launchd adapter requires launchctl''), w)
         else if action = ''status'' \<or> action = ''is-active'' then ctl [''print'', dest] w
         else if action = ''start'' then
           (if \<not> is_ok (syStat E plist) then (Inl (launchd_missing name plist), w) else ctl [''bootstrap'', domain, plist] w)
         else if action = ''stop'' then ctl [''bootout'', dest] w
         else if action = ''restart'' \<or> action = ''reload'' then
           (if \<not> is_ok (syStat E plist) then (Inl (launchd_missing name plist), w)
            else ctl [''bootstrap'', domain, plist] (snd (ctl [''bootout'', dest] w)))
         else if action = ''enable'' then ctl [''enable'', dest] w
         else if action = ''disable'' then ctl [''disable'', dest] w
         else if action = ''is-enabled'' then ctl [''print-disabled'', domain] w
         else (Inl (Errorf ''unsupported macOS service action %q'' [FStr action]), w))"

definition systemctl_args :: "bool \<Rightarrow> string \<Rightarrow> string \<Rightarrow> string list" where
  "systemctl_args user action name = (if user then [''--user''] else []) @ [action, name]"

definition by_root :: "exec_response res \<times> 'w \<Rightarrow> svc_reply res \<times> 'w" where
  "by_root r = ((case fst r of Inl e \<Rightarrow> Inl e | Inr o' \<Rightarrow> Inr (ServiceByRoot o')), snd r)"

definition serviceControl :: "'w sys_env \<Rightarrow> raw \<Rightarrow> 'w \<Rightarrow> svc_reply res \<times> 'w" where
  "serviceControl E args w =
     (case decode_members [''name'', ''action'', ''user'', ''privileged''] args of
        Inl e \<Rightarrow> (Inl e, w)
      | Inr ms \<Rightarrow>
          let (name, e1) = dec_field set_str [] ''name'' ms;
              (action, e2) = dec_field set_str [] ''action'' ms;
              (user, e3) = dec_field set_bool False ''user'' ms;
              (privileged, e4) = dec_field set_bool False ''privileged'' ms
          in if e1 \<or> e2 \<or> e3 \<or> e4 then (Inl invalid_arguments, w)
             else if name = [] \<or> action = [] then (Inl (err_new ''name and action are required''), w)
             else if action \<notin> set svc_actions then (Inl (Errorf ''unsupported action %q'' [FStr action]), w)
             else if IsTermux (syGetenv E) then termuxServiceControl E name action privileged w
             else if syGoos E = ''darwin'' then darwinServiceControl E name action privileged w
             else if privileged
             then by_root (syRoot E (root_request (''systemctl '' @ shellJoin (systemctl_args user action name)) 60) w)
             else runServiceCommand E ''systemd'' name action (''systemctl'' # systemctl_args user action name) w)"

subsection \<open>The network\<close>

record http_call =
  hcMethod :: string
  hcURL :: string
  hcHeaders :: "string gomap"
  hcBody :: string
  hcTimeout :: int

record http_answer =
  haStatus :: int
  haHeaders :: "string list gomap"
  haBody :: string
  haTruncated :: bool

definition network_limit :: "int \<Rightarrow> int" where
  "network_limit n = (if n \<le> 0 \<or> 10 * 1048576 < n then 2 * 1048576 else n)"

definition timeout_or :: "int \<Rightarrow> int \<Rightarrow> int" where
  "timeout_or default_secs secs = (if 0 < secs then seconds secs else seconds default_secs)"

text \<open>\<open>fetch\<close> builds the request and does it: the status, the headers and the whole body.\<close>

definition networkRequest ::
  "(http_call \<Rightarrow> 'w \<Rightarrow> (int \<times> string list gomap \<times> string) res \<times> 'w) \<Rightarrow> raw \<Rightarrow> 'w \<Rightarrow> http_answer res \<times> 'w" where
  "networkRequest fetch args w =
     (case decode_members [''method'', ''url'', ''headers'', ''body'', ''timeout_seconds'', ''max_bytes''] args of
        Inl e \<Rightarrow> (Inl e, w)
      | Inr ms \<Rightarrow>
          let (meth, e1) = dec_field set_str [] ''method'' ms;
              (url, e2) = dec_field set_str [] ''url'' ms;
              (headers, e3) = dec_field set_strmap [] ''headers'' ms;
              (body, e4) = dec_field set_str [] ''body'' ms;
              (secs, e5) = dec_field set_int 0 ''timeout_seconds'' ms;
              (mx, e6) = dec_field set_int 0 ''max_bytes'' ms
          in if e1 \<or> e2 \<or> e3 \<or> e4 \<or> e5 \<or> e6 then (Inl invalid_arguments, w)
             else if url = [] then (Inl (err_new ''url is required''), w)
             else (case fetch \<lparr>hcMethod = (if to_upper meth = [] then ''GET'' else to_upper meth), hcURL = url,
                               hcHeaders = headers, hcBody = body, hcTimeout = timeout_or 30 secs\<rparr> w of
                     (Inl e, w1) \<Rightarrow> (Inl e, w1)
                   | (Inr (status, hs, full), w1) \<Rightarrow>
                       let limit = network_limit mx;
                           data = take (nat (limit + 1)) full;
                           trunc = (limit < int (length data))
                       in (Inr \<lparr>haStatus = status, haHeaders = hs, haBody = (if trunc then take (nat limit) data else data),
                                haTruncated = trunc\<rparr>, w1)))"

definition networkTCP :: "(int \<Rightarrow> string \<Rightarrow> goerr option) \<Rightarrow> raw \<Rightarrow> (string \<times> goerr option) res" where
  "networkTCP dial args =
     (case decode_members [''address'', ''timeout_seconds''] args of
        Inl e \<Rightarrow> Inl e
      | Inr ms \<Rightarrow>
          let (address, e1) = dec_field set_str [] ''address'' ms;
              (secs, e2) = dec_field set_int 0 ''timeout_seconds'' ms
          in if e1 \<or> e2 then Inl invalid_arguments
             else if address = [] then Inl (err_new ''address is required'')
             else Inr (address, dial (timeout_or 5 secs) address))"

definition networkResolve :: "(string \<Rightarrow> string list res) \<Rightarrow> raw \<Rightarrow> (string \<times> string list) res" where
  "networkResolve resolve args =
     (case decode_members [''host''] args of
        Inl e \<Rightarrow> Inl e
      | Inr ms \<Rightarrow>
          (case strict (dec_field set_str [] ''host'' ms) of
             Inl e \<Rightarrow> Inl e
           | Inr host \<Rightarrow>
               if host = [] then Inl (err_new ''host is required'')
               else (case resolve host of Inl e \<Rightarrow> Inl e | Inr ips \<Rightarrow> Inr (host, ips))))"

subsection \<open>Key-value files\<close>

text \<open>\<open>unquote\<close> reads a JSON string, and fails on anything else; other texts lose their double quotes.\<close>

definition trim_quotes :: "string \<Rightarrow> string" where
  "trim_quotes s = rev (dropWhile (\<lambda>c. c = CHR 0x22) (rev (dropWhile (\<lambda>c. c = CHR 0x22) s)))"

definition key_value :: "(string \<Rightarrow> string option) \<Rightarrow> string \<Rightarrow> (string \<times> string) option" where
  "key_value unquote line0 =
     (let line = trim_space line0
      in if line = [] \<or> has_prefix line ''#'' then None
         else (case index_byte line (CHR ''='') of
                 None \<Rightarrow> None
               | Some i \<Rightarrow>
                   let v = drop (i + 1) line
                   in Some (take i line, case unquote v of Some s \<Rightarrow> s | None \<Rightarrow> trim_quotes v)))"

definition parseKeyValue :: "(string \<Rightarrow> string option) \<Rightarrow> string \<Rightarrow> string gomap" where
  "parseKeyValue unquote s =
     fold (\<lambda>line m. case key_value unquote line of None \<Rightarrow> m | Some (k, v) \<Rightarrow> gm_put k v m) (split_on (CHR 0x0A) s) []"

subsection \<open>Capabilities\<close>

text \<open>
  The adapters of \<open>capabilities_list\<close>: capability, adapter, score and whether it is available; \<open>found\<close>
  says which programs are installed, \<open>session\<close>, \<open>anyapp\<close> and \<open>root\<close> whether the bridge, the desktop backend
  and the root broker are there.
\<close>

type_synonym capability_entry = "string \<times> string \<times> int \<times> bool"

definition cap_entry :: "string \<Rightarrow> string \<Rightarrow> int \<Rightarrow> bool \<Rightarrow> capability_entry" where
  "cap_entry cap adapter yes ok = (cap, adapter, if ok then yes else 0, ok)"

definition service_entry :: "string \<Rightarrow> bool \<Rightarrow> (string \<Rightarrow> bool) \<Rightarrow> capability_entry" where
  "service_entry goos termux found =
     (if termux then cap_entry ''service.manage'' ''termux-runit'' 100 (found ''sv'')
      else if goos = ''darwin'' then cap_entry ''service.manage'' ''launchd-user'' 100 (found ''launchctl'')
      else cap_entry ''service.manage'' ''systemd'' 100 (found ''systemctl''))"

definition capability_adapters ::
  "string \<Rightarrow> bool \<Rightarrow> (string \<Rightarrow> bool) \<Rightarrow> bool \<Rightarrow> bool \<Rightarrow> bool \<Rightarrow> capability_entry list" where
  "capability_adapters goos termux found session anyapp root =
     (let privileged = (goos = ''linux'' \<and> \<not> termux \<and> root); mac = (goos = ''darwin'')
      in [cap_entry ''session.exec'' ''desktop-session-bridge'' 120 session,
          cap_entry ''desktop.semantic'' ''codex-computer-use-linux'' 110 anyapp,
          cap_entry ''local.exec'' ''shell'' 100 True,
          cap_entry ''privileged.exec'' ''root-broker'' 100 privileged,
          cap_entry ''remote.exec'' ''openssh'' 95 (found ''ssh''),
          cap_entry ''remote.copy'' ''scp'' 90 (found ''scp''),
          service_entry goos termux found,
          cap_entry ''container.manage'' ''docker'' 100 (found ''docker''),
          cap_entry ''container.manage'' ''podman'' 95 (found ''podman''),
          cap_entry ''desktop.capture'' ''grim'' 100 (found ''grim''),
          cap_entry ''desktop.capture'' ''spectacle'' 95 (found ''spectacle''),
          cap_entry ''desktop.capture'' ''screencapture'' 100 (mac \<and> found ''screencapture''),
          cap_entry ''desktop.input'' ''osascript'' 90 (mac \<and> found ''osascript''),
          cap_entry ''desktop.input'' ''cliclick'' 95 (mac \<and> found ''cliclick''),
          cap_entry ''desktop.input'' ''ydotool'' 100 (found ''ydotool''),
          cap_entry ''desktop.input'' ''wtype'' 90 (found ''wtype''),
          cap_entry ''desktop.input'' ''xdotool'' 80 (found ''xdotool''),
          cap_entry ''android.api'' ''termux-api'' 90 (termux \<and> found ''termux-battery-status'')])"

definition capability_tools :: "'w registry \<Rightarrow> string list" where
  "capability_tools r = sort (map tName (List_tools r))"

text \<open>An adapter scores exactly when it is available.\<close>

lemma capability_scores:
  "list_all (\<lambda>(cap, adapter, score, ok). 0 < score \<longleftrightarrow> ok) (capability_adapters goos termux found session anyapp root)"
  by (simp add: capability_adapters_def cap_entry_def service_entry_def Let_def)

subsection \<open>The machine and its sessions\<close>

text \<open>\<open>strings.Fields\<close>: the words between white space.\<close>

fun word_length :: "string \<Rightarrow> nat" where
  "word_length [] = 0"
| "word_length (c # s) = (if list_ex (has_prefix (c # s)) space_seqs then 0 else Suc (word_length s))"

lemma strip_seqs_length: "length (strip_seqs ws s) \<le> length s"
proof (induction ws s rule: strip_seqs.induct)
  case (1 ws s)
  then show ?case by (subst strip_seqs.simps) (fastforce split: option.split)
qed

lemma word_length_le: "word_length s \<le> length s"
  by (induction s) auto

lemma fields_smaller:
  assumes "word_length (trim_left s) \<noteq> 0"
  shows "length (drop (word_length (trim_left s)) (trim_left s)) < length s"
proof -
  have "0 < length (trim_left s)" using assms by (cases "trim_left s") auto
  then show ?thesis
    using assms strip_seqs_length [of space_seqs s, folded trim_left_def] unfolding length_drop by linarith
qed

function go_fields :: "string \<Rightarrow> string list" where
  "go_fields s =
     (if word_length (trim_left s) = 0 then []
      else take (word_length (trim_left s)) (trim_left s) # go_fields (drop (word_length (trim_left s)) (trim_left s)))"
  by pat_completeness auto
termination
  by (relation "measure length") (simp_all only: in_measure fields_smaller wf_measure not_False_eq_True)

declare go_fields.simps [simp del]

datatype root_reply =
    Switched string exec_response
  | LoggedOut string exec_response
  | TtyDone string string exec_response

abbreviation broker_unavailable :: goerr where
  "broker_unavailable \<equiv> err_new ''CyComAgent privilege broker is unavailable''"

definition on_root :: "(exec_response \<Rightarrow> 'b) \<Rightarrow> exec_response res \<times> 'w \<Rightarrow> 'b res \<times> 'w" where
  "on_root f r = ((case fst r of Inl e \<Rightarrow> Inl e | Inr o' \<Rightarrow> Inr (f o')), snd r)"

definition rootSystemctl :: "'w sys_env \<Rightarrow> string \<Rightarrow> 'w \<Rightarrow> root_reply res \<times> 'w" where
  "rootSystemctl E action w =
     (if \<not> syRootAvailable E then (Inl broker_unavailable, w)
      else on_root (Switched action) (syRoot E (root_request (''systemctl '' @ action) 30) w))"

text \<open>The handlers of \<open>machine_restart\<close> and \<open>machine_poweroff\<close> ignore their arguments.\<close>

definition machine_restart :: "'w sys_env \<Rightarrow> raw \<Rightarrow> 'w \<Rightarrow> root_reply res \<times> 'w" where
  "machine_restart E args w = rootSystemctl E ''reboot'' w"

definition machine_poweroff :: "'w sys_env \<Rightarrow> raw \<Rightarrow> 'w \<Rightarrow> root_reply res \<times> 'w" where
  "machine_poweroff E args w = rootSystemctl E ''poweroff'' w"

text \<open>The session of the user in what \<open>loginctl list-sessions\<close> printed.\<close>

fun listed_session :: "string \<Rightarrow> string list \<Rightarrow> string" where
  "listed_session user [] = []"
| "listed_session user (line # ls) =
     (let f = go_fields line
      in if 3 \<le> length f \<and> f ! 2 = user then f ! 0 else listed_session user ls)"

definition find_session :: "'w sys_env \<Rightarrow> string res \<Rightarrow> string \<Rightarrow> string" where
  "find_session E sessions asked =
     (let s1 = trim_space asked;
          s2 = (if s1 = [] then syGetenv E ''XDG_SESSION_ID'' else s1)
      in if s2 \<noteq> [] then s2
         else (case sessions of
                 Inl _ \<Rightarrow> []
               | Inr out \<Rightarrow> listed_session (syGetenv E ''USER'') (split_on (CHR 0x0A) out)))"

definition logoutSession :: "'w sys_env \<Rightarrow> string res \<Rightarrow> raw \<Rightarrow> 'w \<Rightarrow> root_reply res \<times> 'w" where
  "logoutSession E sessions args w =
     (case decode_members [''session''] args of
        Inl e \<Rightarrow> (Inl e, w)
      | Inr ms \<Rightarrow>
          (case strict (dec_field set_str [] ''session'' ms) of
             Inl e \<Rightarrow> (Inl e, w)
           | Inr asked \<Rightarrow>
               let session = find_session E sessions asked
               in if session = [] then (Inl (err_new ''could not determine login session''), w)
                  else if contains_any session [CHR '' '', CHR ''/'', CHR 0x09, CHR 0x0A]
                  then (Inl (err_new ''invalid session id''), w)
                  else on_root (LoggedOut session)
                         (syRoot E (root_request (''loginctl terminate-session '' @ shellJoin [session]) 15) w)))"

text \<open>The number of a virtual terminal, and the command for an action on it.\<close>

definition tty_number :: "string \<Rightarrow> int res" where
  "tty_number tty =
     (if \<not> has_prefix tty ''tty'' then Inl (err_new ''tty must look like tty1'')
      else (case atoi (trim_prefix tty ''tty'') of
              Some n \<Rightarrow> if n < 1 \<or> 63 < n then Inl (Errorf ''invalid tty %q'' [FStr tty]) else Inr n
            | None \<Rightarrow> Inl (Errorf ''invalid tty %q'' [FStr tty])))"

definition tty_command :: "string \<Rightarrow> int \<Rightarrow> string \<Rightarrow> string res" where
  "tty_command tty n action =
     (if action \<in> set [''status'', ''start'', ''stop'', ''restart'']
      then Inr (''systemctl '' @ action @ '' '' @ ''getty@'' @ tty @ ''.service'')
      else if action = ''activate'' then Inr (''chvt '' @ itoa n)
      else Inl (Errorf ''unsupported tty action %q'' [FStr action]))"

definition ttyControl :: "'w sys_env \<Rightarrow> raw \<Rightarrow> 'w \<Rightarrow> root_reply res \<times> 'w" where
  "ttyControl E args w =
     (case decode_members [''TTY'', ''Action''] args of
        Inl e \<Rightarrow> (Inl e, w)
      | Inr ms \<Rightarrow>
          let (tty0, e1) = dec_field set_str [] ''TTY'' ms;
              (action0, e2) = dec_field set_str [] ''Action'' ms;
              tty = trim_space tty0; action = trim_space action0
          in if e1 \<or> e2 then (Inl invalid_arguments, w)
             else (case tty_number tty of
                     Inl e \<Rightarrow> (Inl e, w)
                   | Inr n \<Rightarrow>
                       (case tty_command tty n action of
                          Inl e \<Rightarrow> (Inl e, w)
                        | Inr cmd \<Rightarrow>
                            if \<not> syRootAvailable E then (Inl broker_unavailable, w)
                            else on_root (TtyDone tty action) (syRoot E (root_request cmd 30) w))))"

subsection \<open>Display outputs\<close>

text \<open>An adapter that is installed: its name, its program and its arguments.\<close>

type_synonym display_adapter = "string \<times> string list"

definition installed_adapter :: "'w sys_env \<Rightarrow> string \<Rightarrow> string list \<Rightarrow> display_adapter list" where
  "installed_adapter E name args = (case syLookPath E name of Inl _ \<Rightarrow> [] | Inr p \<Rightarrow> [(name, p # args)])"

text \<open>The adapters are tried in turn, each with the desktop environment as it is then.\<close>

definition display_attempt ::
  "'w sys_env \<Rightarrow> display_adapter \<Rightarrow> 'w \<Rightarrow> (string + string \<times> string) \<times> 'w" where
  "display_attempt E c w =
     (case syRun E (snd c) (Some (syDesktopEnv E w)) w of
        ((out, None), w1) \<Rightarrow> (Inr (fst c, out), w1)
      | ((out, Some _), w1) \<Rightarrow> (Inl (fst c @ '': '' @ trim_space out), w1))"

fun try_adapters ::
  "'w sys_env \<Rightarrow> display_adapter list \<Rightarrow> string list \<Rightarrow> 'w \<Rightarrow> (string list + string \<times> string) \<times> 'w" where
  "try_adapters E [] failures w = (Inl failures, w)"
| "try_adapters E (c # cs) failures w =
     (case display_attempt E c w of
        (Inr r, w1) \<Rightarrow> (Inr r, w1)
      | (Inl t, w1) \<Rightarrow> try_adapters E cs (failures @ [t]) w1)"

interpretation displays: adapter_loop "display_attempt E" "\<lambda>ts r. Inr r" "\<lambda>ts. Inl ts" "try_adapters E"
  by unfold_locales simp_all

definition displayOutputs :: "'w sys_env \<Rightarrow> 'w \<Rightarrow> (string \<times> string) res \<times> 'w" where
  "displayOutputs E w =
     (case try_adapters E (installed_adapter E ''wlr-randr'' [] @ installed_adapter E ''kscreen-doctor'' [''-o''] @
             installed_adapter E ''xrandr'' [''--query'']) [] w of
        (Inr r, w1) \<Rightarrow> (Inr r, w1)
      | (Inl _, w1) \<Rightarrow> (Inl (err_new ''no working display output adapter found''), w1))"

definition output_adapters :: "'w sys_env \<Rightarrow> string \<Rightarrow> bool \<Rightarrow> display_adapter list" where
  "output_adapters E name enabled =
     installed_adapter E ''wlr-randr'' [''--output'', name, if enabled then ''--on'' else ''--off''] @
     installed_adapter E ''kscreen-doctor'' [''output.'' @ name @ ''.'' @ (if enabled then ''enable'' else ''disable'')] @
     installed_adapter E ''xrandr'' [''--output'', name, if enabled then ''--auto'' else ''--off'']"

definition displayOutputControl :: "'w sys_env \<Rightarrow> raw \<Rightarrow> 'w \<Rightarrow> (string \<times> string \<times> bool) res \<times> 'w" where
  "displayOutputControl E args w =
     (case decode_members [''output'', ''enabled''] args of
        Inl e \<Rightarrow> (Inl e, w)
      | Inr ms \<Rightarrow>
          let (output, e1) = dec_field set_str [] ''output'' ms;
              (enabled, e2) = dec_field set_bool False ''enabled'' ms;
              name = trim_space output
          in if e1 \<or> e2 then (Inl invalid_arguments, w)
             else if name = [] \<or> contains_any name [CHR 0x0A, CHR 0x0D, CHR 0x00]
             then (Inl (err_new ''invalid output''), w)
             else (case try_adapters E (output_adapters E name enabled) [] w of
                     (Inr (adapter, out), w1) \<Rightarrow> (Inr (adapter, name, enabled), w1)
                   | (Inl failures, w1) \<Rightarrow>
                       (Inl (Errorf ''all display adapters failed: %s'' [FStr (GoStrings.join ''; '' failures)]), w1)))"

subsection \<open>What root is asked to run\<close>

text \<open>Quoting by \<open>shellJoin\<close> under the grammar of the shell.\<close>

lemma sh_single_join:
  "sh_tokens ShSingle (Some w)
     (replace_char (CHR 0x27) [CHR 0x27, CHR 0x5C, CHR 0x27, CHR 0x27] s @ CHR 0x27 # rest) =
   sh_tokens ShPlain (Some (w @ s)) rest"
  by (induction s arbitrary: w) (simp_all add: replace_char_Cons sh_add_def sh_open_def)

lemma reads_joined: "reads (shellJoin [a]) [a]"
  by (simp add: reads_def shellJoin_def sh_single_join sh_open_def sh_flush)

lemma reads_cons:
  assumes "reads p [a]" and "reads q ws"
  shows "reads (p @ CHR '' '' # q) (a # ws)"
proof -
  have "sh_tokens ShPlain None (p @ CHR '' '' # q @ rest) =
      map_option (\<lambda>ts. ShWord a # ts) (sh_tokens ShPlain None (q @ rest))" for rest
    using assms(1) unfolding reads_def by (auto simp: sh_word_def option.map_comp comp_def dest: spec [of _ "CHR '' '' # q @ rest"])
  then show ?thesis using assms(2) by (simp add: reads_def option.map_comp comp_def)
qed

lemma shellJoin_Cons: "shellJoin (a # b # as) = shellJoin [a] @ CHR '' '' # shellJoin (b # as)"
  by (simp add: shellJoin_def)

lemma reads_shellJoin: "as \<noteq> [] \<Longrightarrow> reads (shellJoin as) as"
proof (induction as rule: induct_list012)
  case (2 a)
  show ?case by (rule reads_joined)
next
  case (3 a b as)
  then show ?case using reads_cons [OF reads_joined] by (simp add: shellJoin_Cons)
qed simp

lemma reads_word:
  assumes "list_all sh_literal p" and "p \<noteq> []"
  shows "reads p [p]"
proof -
  obtain c p' where p: "p = c # p'" using assms(2) by (cases p) auto
  show ?thesis
    unfolding reads_def using sh_tokens_literal [of c p' None] assms(1) by (auto simp: p sh_flush simp del: sh_tokens.simps)
qed

lemma sh_commands_one: "reads p ws \<Longrightarrow> sh_commands p = Some [ws]"
  using sh_commands_join [of "[p]" "[ws]"] by simp

lemma sh_literal_digit: "is_digit c \<Longrightarrow> sh_literal c"
  by (simp add: sh_literal_def env_char_def)

lemma itoa_literal: "0 \<le> n \<Longrightarrow> list_all sh_literal (itoa n)"
  using itoa_nat_digits [of _ "nat n"] by (auto simp: itoa_def list_all_iff sh_literal_digit)

lemma digits_val_digits: "digits_val n s = Some v \<Longrightarrow> list_all is_digit s"
  by (induction s arbitrary: n) (auto split: if_splits)

lemma tty_literal: "tty_number tty = Inr n \<Longrightarrow> list_all sh_literal tty"
proof -
  assume t: "tty_number tty = Inr n"
  then obtain r where tty: "tty = ''tty'' @ r" and "\<exists>n. atoi r = Some n"
    by (auto simp: tty_number_def has_prefix_iff trim_prefix_def split: if_splits option.splits)
  then have "\<exists>c s. (r = c # s \<and> (c = CHR ''-'' \<or> c = CHR ''+'') \<and> list_all is_digit s) \<or> list_all is_digit r"
    by (auto simp: atoi_def Let_def split: list.splits if_splits option.splits prod.splits dest: digits_val_digits)
  then have "list_all sh_literal r"
    by (auto simp: list_all_iff sh_literal_digit) (auto simp: sh_literal_def)
  then show ?thesis by (simp add: tty sh_literal_def env_char_def between_def less_eq_char_def)
qed

text \<open>The commands these tools may send to the root broker.\<close>

inductive root_words :: "string list \<Rightarrow> bool" where
  power: "action = ''reboot'' \<or> action = ''poweroff'' \<Longrightarrow> root_words [''systemctl'', action]"
| service: "action \<in> set svc_actions \<Longrightarrow> name \<noteq> [] \<Longrightarrow> root_words (''systemctl'' # systemctl_args user action name)"
| getty: "tty_number tty = Inr n \<Longrightarrow> action \<in> set [''status'', ''start'', ''stop'', ''restart''] \<Longrightarrow>
    root_words [''systemctl'', action, ''getty@'' @ tty @ ''.service'']"
| activate: "1 \<le> n \<Longrightarrow> n \<le> 63 \<Longrightarrow> root_words [''chvt'', itoa n]"
| logout: "session \<noteq> [] \<Longrightarrow> \<not> contains_any session [CHR '' '', CHR ''/'', CHR 0x09, CHR 0x0A] \<Longrightarrow>
    root_words [''loginctl'', ''terminate-session'', session]"

definition exact_request :: "exec_request \<Rightarrow> bool" where
  "exact_request r \<longleftrightarrow> xrStdin r = [] \<and> xrCwd r = [] \<and> xrEnv r = [] \<and> xrShell r = [] \<and>
     (\<exists>ws. sh_commands (xrCommand r) = Some [ws] \<and> root_words ws)"

lemma exact_root_request: "reads cmd ws \<Longrightarrow> root_words ws \<Longrightarrow> exact_request (root_request cmd secs)"
  using sh_commands_one [of cmd ws] by (auto simp: exact_request_def root_request_def zero_request_def)

lemma control_words:
  "list_all sh_literal ''systemctl''" "list_all sh_literal ''loginctl''" "list_all sh_literal ''terminate-session''"
  "list_all sh_literal ''chvt''" "list_all sh_literal ''reboot''" "list_all sh_literal ''poweroff''"
  "list_all sh_literal ''getty@''" "list_all sh_literal ''.service''"
  "a \<in> set [''status'', ''start'', ''stop'', ''restart''] \<Longrightarrow> list_all sh_literal a"
proof -
  show "list_all sh_literal ''systemctl''" "list_all sh_literal ''loginctl''" "list_all sh_literal ''terminate-session''"
    "list_all sh_literal ''chvt''" "list_all sh_literal ''reboot''" "list_all sh_literal ''poweroff''"
    "list_all sh_literal ''getty@''" "list_all sh_literal ''.service''" by code_simp+
  have "list_all (list_all sh_literal) [''status'', ''start'', ''stop'', ''restart'']" by code_simp
  then show "a \<in> set [''status'', ''start'', ''stop'', ''restart''] \<Longrightarrow> list_all sh_literal a"
    unfolding list_all_iff by blast
qed

lemma systemctl_reads: "reads q ws \<Longrightarrow> reads (''systemctl '' @ q) (''systemctl'' # ws)"
  using reads_literal_blank [OF control_words(1), of q ws] by simp

lemma power_exact: "action = ''reboot'' \<or> action = ''poweroff'' \<Longrightarrow> exact_request (root_request (''systemctl '' @ action) 30)"
  using systemctl_reads [OF reads_word [of action]] control_words(5,6)
  by (intro exact_root_request [OF _ root_words.power]) auto

lemma service_exact:
  "action \<in> set svc_actions \<Longrightarrow> name \<noteq> [] \<Longrightarrow>
   exact_request (root_request (''systemctl '' @ shellJoin (systemctl_args user action name)) 60)"
  by (rule exact_root_request [OF systemctl_reads [OF reads_shellJoin] root_words.service]) (simp_all add: systemctl_args_def)

lemma logout_exact:
  assumes "session \<noteq> []" and "\<not> contains_any session [CHR '' '', CHR ''/'', CHR 0x09, CHR 0x0A]"
  shows "exact_request (root_request (''loginctl terminate-session '' @ shellJoin [session]) 15)"
proof -
  have "reads (''terminate-session'' @ CHR '' '' # shellJoin [session]) [''terminate-session'', session]"
    by (rule reads_literal_blank [OF control_words(3) _ reads_joined]) simp
  from reads_literal_blank [OF control_words(2) _ this]
  have "reads (''loginctl terminate-session '' @ shellJoin [session]) [''loginctl'', ''terminate-session'', session]" by simp
  from exact_root_request [OF this root_words.logout [OF assms]] show ?thesis .
qed

lemma tty_exact:
  assumes "tty_number tty = Inr n" and "tty_command tty n action = Inr cmd"
  shows "exact_request (root_request cmd 30)"
proof (cases "action \<in> set [''status'', ''start'', ''stop'', ''restart'']")
  case True
  then have cmd: "cmd = ''systemctl '' @ action @ CHR '' '' # ''getty@'' @ tty @ ''.service''"
    using assms(2) by (simp add: tty_command_def del: list.set)
  have ne: "action \<noteq> []" using True by auto
  have "reads (''getty@'' @ tty @ ''.service'') [''getty@'' @ tty @ ''.service'']"
    using control_words(7,8) tty_literal [OF assms(1)] by (intro reads_word) simp_all
  from systemctl_reads [OF reads_literal_blank [OF control_words(9) [OF True] ne this]]
  have "reads cmd [''systemctl'', action, ''getty@'' @ tty @ ''.service'']" by (simp add: cmd)
  from exact_root_request [OF this root_words.getty [OF assms(1) True]] show ?thesis .
next
  case False
  then have cmd: "cmd = ''chvt '' @ itoa n"
    using assms(2) by (simp add: tty_command_def del: list.set split: if_splits)
  have n: "1 \<le> n" "n \<le> 63" using assms(1) by (auto simp: tty_number_def split: if_splits option.splits)
  have "reads (itoa n) [itoa n]"
    using itoa_literal [of n] n(1) by (intro reads_word) (simp_all add: itoa_def)
  from reads_literal_blank [OF control_words(4) _ this] have "reads cmd [''chvt'', itoa n]" by (simp add: cmd)
  from exact_root_request [OF this root_words.activate [OF n]] show ?thesis .
qed

subsection \<open>Properties\<close>

text \<open>
  C23: whatever the arguments, every command that the service, machine, session and terminal tools send
  to the root broker is read by the shell as exactly one command of a short list, with the name of the
  service or of the session as one word of it: a root that answers these requests as the real one
  does, and all others differently, makes no difference.
\<close>

theorem root_commands_exact:
  assumes "\<And>r. exact_request r \<Longrightarrow> root r = syRoot E r"
  shows "serviceControl (E\<lparr>syRoot := root\<rparr>) args w = serviceControl E args w \<and>
    machine_restart (E\<lparr>syRoot := root\<rparr>) args w = machine_restart E args w \<and>
    machine_poweroff (E\<lparr>syRoot := root\<rparr>) args w = machine_poweroff E args w \<and>
    logoutSession (E\<lparr>syRoot := root\<rparr>) sessions args w = logoutSession E sessions args w \<and>
    ttyControl (E\<lparr>syRoot := root\<rparr>) args w = ttyControl E args w"
proof (intro conjI)
  have run: "runServiceCommand (E\<lparr>syRoot := root\<rparr>) = runServiceCommand E"
    by (rule ext)+ (simp add: runServiceCommand_def)
  have sel: "syGetenv (E\<lparr>syRoot := root\<rparr>) = syGetenv E" "syStat (E\<lparr>syRoot := root\<rparr>) = syStat E"
    "syLookPath (E\<lparr>syRoot := root\<rparr>) = syLookPath E" "syUid (E\<lparr>syRoot := root\<rparr>) = syUid E"
    "syHome (E\<lparr>syRoot := root\<rparr>) = syHome E" by simp_all
  have tx: "termuxServiceControl (E\<lparr>syRoot := root\<rparr>) = termuxServiceControl E"
    unfolding fun_eq_iff termuxServiceControl_def run sel by blast
  have dw: "darwinServiceControl (E\<lparr>syRoot := root\<rparr>) = darwinServiceControl E"
    unfolding fun_eq_iff darwinServiceControl_def run sel by blast
  show "serviceControl (E\<lparr>syRoot := root\<rparr>) args w = serviceControl E args w"
    using assms service_exact
    by (auto simp: serviceControl_def run tx dw Let_def simp del: decode_members.simps split: sum.split prod.split)
  show "machine_restart (E\<lparr>syRoot := root\<rparr>) args w = machine_restart E args w"
    "machine_poweroff (E\<lparr>syRoot := root\<rparr>) args w = machine_poweroff E args w"
    using assms power_exact by (simp_all add: machine_restart_def machine_poweroff_def rootSystemctl_def)
  have fs: "find_session (E\<lparr>syRoot := root\<rparr>) = find_session E" unfolding fun_eq_iff find_session_def sel by blast
  show "logoutSession (E\<lparr>syRoot := root\<rparr>) sessions args w = logoutSession E sessions args w"
    using assms logout_exact by (auto simp: logoutSession_def fs Let_def simp del: decode_members.simps split: sum.split)
  show "ttyControl (E\<lparr>syRoot := root\<rparr>) args w = ttyControl E args w"
    using assms tty_exact by (auto simp: ttyControl_def Let_def simp del: decode_members.simps split: sum.split prod.split)
qed

text \<open>
  The machine can be switched off as root although the policy denies privileged execution, in safe
  mode too: the tool is not of high impact and has no member \<open>privileged\<close>, which is all that is checked.
\<close>

theorem poweroff_escapes_policy:
  assumes "cMode c = ''safe'' \<or> cMode c = ''full''" and "cDenyTools c = []" and "cAllowTools c = []"
    and "\<not> cAllowPrivileged c" and "syRootAvailable E"
  shows "BeforeCall a c ''machine_poweroff'' (RawDoc (JObj [(''reason'', JStr r)])) = None \<and>
    machine_poweroff E args w = on_root (Switched ''poweroff'') (syRoot E (root_request ''systemctl poweroff'' 30) w)"
proof
  have "\<not> isHighImpact ''machine_poweroff''" "\<not> isSensitiveAndroid ''machine_poweroff''"
    "\<not> has_prefix ''machine_poweroff'' ''target_''" by code_simp+
  then show "BeforeCall a c ''machine_poweroff'' (RawDoc (JObj [(''reason'', JStr r)])) = None"
    using assms(1-3)
    by (auto simp: BeforeCall_def check_args_def check_method_def policy_args_def map_at_def gm_get_of Let_def)
  show "machine_poweroff E args w = on_root (Switched ''poweroff'') (syRoot E (root_request ''systemctl poweroff'' 30) w)"
    using assms(5) by (simp add: machine_poweroff_def rootSystemctl_def)
qed

text \<open>A service name that starts with a dash reaches \<open>systemctl\<close> as an option: here, to run elsewhere over ssh.\<close>

lemma service_name_as_option:
  "sh_commands (''systemctl '' @ shellJoin (systemctl_args False ''start'' ''-Hroot@elsewhere'')) =
     Some [[''systemctl'', ''start'', ''-Hroot@elsewhere'']]"
proof -
  have "reads (shellJoin (systemctl_args False ''start'' ''-Hroot@elsewhere'')) (systemctl_args False ''start'' ''-Hroot@elsewhere'')"
    by (rule reads_shellJoin) (simp add: systemctl_args_def)
  from sh_commands_one [OF systemctl_reads [OF this]] show ?thesis by (simp add: systemctl_args_def)
qed

text \<open>A request depends on what fetching does with its method only.\<close>

lemma decoded_self: "decode_members fs (RawDoc (JObj ms)) = Inr ms' \<Longrightarrow> ms' = ms"
  by (simp split: if_splits)

lemma networkRequest_method:
  assumes "args = RawDoc (JObj ms)"
    and "\<And>m (c :: http_call). dec_field set_str [] ''method'' ms = (m, False) \<Longrightarrow> hcMethod c = (if to_upper m = [] then ''GET'' else to_upper m) \<Longrightarrow>
      fetch' c w = fetch c w"
  shows "networkRequest fetch' args w = networkRequest fetch args w"
proof -
  obtain m e where m: "dec_field set_str [] ''method'' ms = (m, e)" by (rule prod.exhaust)
  show ?thesis
  proof (cases e)
    case True
    then show ?thesis by (auto simp: networkRequest_def assms(1) m split: prod.split)
  next
    case False
    then have "fetch' \<lparr>hcMethod = (if to_upper m = [] then ''GET'' else to_upper m), hcURL = u, hcHeaders = h, hcBody = b, hcTimeout = t\<rparr> w =
        fetch \<lparr>hcMethod = (if to_upper m = [] then ''GET'' else to_upper m), hcURL = u, hcHeaders = h, hcBody = b, hcTimeout = t\<rparr> w"
      for u h b t using assms(2) [of m] m by simp
    note same = this
    show ?thesis
    proof (cases "decode_members [''method'', ''url'', ''headers'', ''body'', ''timeout_seconds'', ''max_bytes''] args")
      case (Inl e)
      then show ?thesis by (simp add: networkRequest_def del: decode_members.simps)
    next
      case (Inr ms')
      then have "ms' = ms" using decoded_self assms(1) by simp
      show ?thesis unfolding networkRequest_def Inr sum.case Let_def \<open>ms' = ms\<close> m prod.case same by (rule refl)
    qed
  qed
qed

lemma method_respelled:
  "stripReason (RawDoc (JObj [(''reason'', JStr why), (''Method'', JStr meth), (''url'', JStr url)])) =
     RawDoc (JObj [(''Method'', JStr meth), (''url'', JStr url)])"
  "BeforeCall a cfg ''network_request'' (RawDoc (JObj [(''reason'', JStr why), (''Method'', JStr meth), (''url'', JStr url)])) =
     BeforeCall a cfg ''network_request'' (RawDoc (JObj [(''reason'', JStr why), (''url'', JStr url)]))"
proof -
  show "stripReason (RawDoc (JObj [(''reason'', JStr why), (''Method'', JStr meth), (''url'', JStr url)])) =
     RawDoc (JObj [(''Method'', JStr meth), (''url'', JStr url)])"
    by (simp add: stripReason_obj gm_of_def gm_put_def gm_del_def AList.delete_eq gm_sorted_def)
  let ?l = "RawDoc (JObj [(''reason'', JStr why), (''Method'', JStr meth), (''url'', JStr url)])"
    and ?s = "RawDoc (JObj [(''reason'', JStr why), (''url'', JStr url)])"
  have "check_args a cfg tool (policy_args ?l) = check_args a cfg tool (policy_args ?s)" for tool
    by (simp add: check_args_def map_at_policy_args last_member_def)
  moreover have "check_method cfg tool (policy_args ?l) = check_method cfg tool (policy_args ?s)" for tool
    by (simp add: check_method_def policy_method_def map_at_policy_args last_member_def)
  ultimately show "BeforeCall a cfg ''network_request'' ?l = BeforeCall a cfg ''network_request'' ?s"
    by (simp add: BeforeCall_def Let_def split: option.split)
qed

text \<open>
  C5: in readonly mode the policy accepts only the tools of a fixed list. A request that it accepts does
  the same whatever fetching does with other methods than GET, HEAD and OPTIONS (in any case, with
  surrounding blanks), as long as no member of the message is another spelling of \<open>method\<close>. With the
  member \<open>Method\<close> it is not so: where a plain request is accepted, one with any \<open>Method\<close> is, and is sent with
  that method.
\<close>

theorem readonly_requests:
  assumes "BeforeCall a cfg tool (RawDoc (JObj ms)) = None" and "cMode cfg = ''readonly''"
    and "\<And>(c :: http_call) w m. hcMethod c \<in> {''GET'', to_upper m} \<Longrightarrow> to_upper (trim_space m) \<in> {[], ''GET'', ''HEAD'', ''OPTIONS''} \<Longrightarrow>
      fetch' c w = fetch c w"
  shows "tool \<in> set readonly_tools \<and>
    (tool = ''network_request'' \<and> spelled ''method'' ms \<longrightarrow>
       networkRequest fetch' (stripReason (RawDoc (JObj ms))) w = networkRequest fetch (stripReason (RawDoc (JObj ms))) w) \<and>
    (tool = ''network_request'' \<and> ms = [(''reason'', JStr why), (''url'', JStr url)] \<and> url \<noteq> [] \<and> to_upper meth \<noteq> [] \<longrightarrow>
       (let respelled = RawDoc (JObj [(''reason'', JStr why), (''Method'', JStr meth), (''url'', JStr url)])
        in BeforeCall a cfg tool respelled = None \<and>
           snd (networkRequest fetch (stripReason respelled) w) =
             snd (fetch \<lparr>hcMethod = to_upper meth, hcURL = url, hcHeaders = [], hcBody = [], hcTimeout = seconds 30\<rparr> w)))"
proof (intro conjI impI)
  show "tool \<in> set readonly_tools" using assms(1,2) by (auto simp: accepted_iff isMutation_iff)
next
  assume t: "tool = ''network_request'' \<and> spelled ''method'' ms"
  let ?out = "gm_sorted (gm_del ''reason'' (gm_of ms))"
  show "networkRequest fetch' (stripReason (RawDoc (JObj ms))) w = networkRequest fetch (stripReason (RawDoc (JObj ms))) w"
  proof (rule networkRequest_method [OF stripReason_obj])
    fix m and c :: http_call
    assume "dec_field set_str [] ''method'' ?out = (m, False)"
      and c: "hcMethod c = (if to_upper m = [] then ''GET'' else to_upper m)"
    then have "to_upper (trim_space m) \<in> {[], ''GET'', ''HEAD'', ''OPTIONS''}"
      using t assms(1,2) by (intro readonly_method [OF _ stripReason_obj]) auto
    then show "fetch' c w = fetch c w" using assms(3) [of c m w] c by (auto split: if_splits)
  qed
next
  assume t: "tool = ''network_request'' \<and> ms = [(''reason'', JStr why), (''url'', JStr url)] \<and> url \<noteq> [] \<and> to_upper meth \<noteq> []"
  have k: "list_all (\<lambda>f. \<not> key_matches f ''Method'') [''url'', ''headers'', ''body'', ''timeout_seconds'', ''max_bytes'']"
    "list_all (\<lambda>f. \<not> key_matches f ''url'') [''method'', ''headers'', ''body'', ''timeout_seconds'', ''max_bytes'']"
    "key_matches ''method'' ''Method''" "key_matches ''url'' ''url''" by code_simp+
  have "snd (networkRequest fetch (RawDoc (JObj [(''Method'', JStr meth), (''url'', JStr url)])) w) =
      snd (fetch \<lparr>hcMethod = to_upper meth, hcURL = url, hcHeaders = [], hcBody = [], hcTimeout = seconds 30\<rparr> w)"
    using t k
    by (auto simp: networkRequest_def known_field_def dec_field_def field_values_Cons timeout_or_def Let_def split: sum.split prod.split)
  then show "let respelled = RawDoc (JObj [(''reason'', JStr why), (''Method'', JStr meth), (''url'', JStr url)])
        in BeforeCall a cfg tool respelled = None \<and>
           snd (networkRequest fetch (stripReason respelled) w) =
             snd (fetch \<lparr>hcMethod = to_upper meth, hcURL = url, hcHeaders = [], hcBody = [], hcTimeout = seconds 30\<rparr> w)"
    using t assms(1) by (simp add: Let_def method_respelled)
qed

subsection \<open>Witnesses\<close>

text \<open>A network that counts the requests that are not GET.\<close>

definition sample_fetch :: "http_call \<Rightarrow> nat \<Rightarrow> (int \<times> string list gomap \<times> string) res \<times> nat" where
  "sample_fetch c w = (Inr (200, [], hcMethod c), if hcMethod c = ''POST'' then w + 1 else w)"

theorem readonly_requests_witness:
  "BeforeCall AMD64 sample_policy ''network_request''
     (RawDoc (JObj [(''reason'', JStr ''look''), (''Method'', JStr ''post''), (''url'', JStr ''http://x'')])) = None \<and>
   snd (networkRequest sample_fetch (stripReason
     (RawDoc (JObj [(''reason'', JStr ''look''), (''Method'', JStr ''post''), (''url'', JStr ''http://x'')]))) 0) = 1"
proof -
  have "is_nil (BeforeCall AMD64 sample_policy ''network_request'' (RawDoc (JObj [(''reason'', JStr ''look''), (''url'', JStr ''http://x'')])))"
    by code_simp
  then have acc: "BeforeCall AMD64 sample_policy ''network_request'' (RawDoc (JObj [(''reason'', JStr ''look''), (''url'', JStr ''http://x'')])) = None"
    by simp
  have mode: "cMode sample_policy = ''readonly''" by (simp add: sample_policy_def)
  have post: "to_upper ''post'' = ''POST''" by code_simp
  from readonly_requests [OF acc mode, where fetch = sample_fetch and fetch' = sample_fetch and w = 0 and meth = "''post''"
      and why = "''look''" and url = "''http://x''"] post
  show ?thesis by (simp add: Let_def sample_fetch_def)
qed


definition sample_sys :: "nat sys_env" where
  "sample_sys = \<lparr>syGoos = ''linux'', syGetenv = (\<lambda>n. []), syLookupEnv = (\<lambda>n. None), syUid = 1000, syHome = ''/h'',
     syStat = (\<lambda>p. Inl ErrNotExist), syLookPath = (\<lambda>p. Inl ErrNotExist), syDesktopEnv = (\<lambda>w. []),
     syRun = (\<lambda>argv env w. (([], None), w)),
     syRoot = (\<lambda>r w. (Inr (zero_response\<lparr>xpStdout := xrCommand r\<rparr>), w + 1)), syRootAvailable = True\<rparr>"

theorem root_commands_exact_witness:
  "serviceControl (sample_sys\<lparr>syRoot := (\<lambda>r w. if exact_request r then syRoot sample_sys r w else (Inl ErrNotExist, w))\<rparr>)
     (RawDoc (JObj [(''name'', JStr ''a; reboot''), (''action'', JStr ''stop''), (''privileged'', JBool True)])) 0 =
   serviceControl sample_sys
     (RawDoc (JObj [(''name'', JStr ''a; reboot''), (''action'', JStr ''stop''), (''privileged'', JBool True)])) 0"
  by (rule root_commands_exact [THEN conjunct1]) (simp add: fun_eq_iff)

theorem poweroff_escapes_policy_witness:
  "fst (machine_poweroff sample_sys RawEmpty 0) =
     Inr (Switched ''poweroff'' (zero_response\<lparr>xpStdout := ''systemctl poweroff''\<rparr>))"
proof -
  let ?c = "Default\<lparr>cMode := ''safe'', cAllowPrivileged := False\<rparr>"
  have "machine_poweroff sample_sys RawEmpty 0 =
      on_root (Switched ''poweroff'') (syRoot sample_sys (root_request ''systemctl poweroff'' 30) 0)"
    by (rule poweroff_escapes_policy [of ?c, THEN conjunct2]) (simp_all add: Default_def sample_sys_def)
  then show ?thesis by (simp add: on_root_def sample_sys_def root_request_def zero_request_def)
qed

end
