(* ===== verification/Desktop.thy ===== *)
theory Desktop
  imports SystemTools SessionBridge
begin

section \<open>The desktop tools (internal/tools/desktop.go)\<close>

text \<open>
  Screenshots and input on the desktop. The programs are tried in turn (\<open>adapter_loop\<close> of the prelude), each
  with the environment of the session: the physical one, which is looked for among the processes of the
  user when the service was started before the login, or the isolated one of the compositor that is
  kept for the agent. \<open>'w dk_env\<close> is what the tools call, over a state \<open>'w\<close>; \<open>dkRun\<close> runs a program with
  its environment for at most eight seconds and gives its joined outputs, its error and whether the
  time was up. Lower case is that of ASCII letters.
\<close>

record file_stat =
  fiDir :: bool
  fiSocket :: bool
  fiExec :: bool
  fiSize :: int

text \<open>An entry of /proc: its name, the owner when it could be inspected, and its environment.\<close>

record proc_entry =
  peName :: string
  peUid :: "int option"
  peEnviron :: "string res"

record 'w dk_env =
  dkGoos :: string
  dkEnviron :: "string list"
  dkGetenv :: "string \<Rightarrow> string"
  dkUid :: int
  dkHome :: "string res"
  dkStateDir :: string
  dkMillis :: int
  dkErrText :: "goerr \<Rightarrow> string"
  dkLookPath :: "string \<Rightarrow> string res"
  dkStat :: "'w \<Rightarrow> string \<Rightarrow> file_stat res"
  dkRead :: "'w \<Rightarrow> string \<Rightarrow> string res"
  dkProcs :: "'w \<Rightarrow> proc_entry list"
  dkGlob :: "'w \<Rightarrow> string \<Rightarrow> string list"
  dkRemove :: "string \<Rightarrow> 'w \<Rightarrow> 'w"
  dkMkdirAll :: "string \<Rightarrow> 'w \<Rightarrow> goerr option \<times> 'w"
  dkRun :: "string list \<Rightarrow> string list \<Rightarrow> 'w \<Rightarrow> (string \<times> goerr option \<times> bool) \<times> 'w"

subsection \<open>The environment of the desktop\<close>

definition env_val :: "string gomap \<Rightarrow> string \<Rightarrow> string" where
  "env_val m k = (case gm_get m k of Some v \<Rightarrow> v | None \<Rightarrow> [])"

definition sortedDesktopEnvironment :: "string gomap \<Rightarrow> string list" where
  "sortedDesktopEnvironment m = sort (map (\<lambda>(k, v). k @ ''='' @ v) m)"

definition user_runtime_dir :: "int \<Rightarrow> string" where
  "user_runtime_dir uid = ''/run/user/'' @ itoa uid"

definition socket_at :: "'w dk_env \<Rightarrow> 'w \<Rightarrow> string \<Rightarrow> bool" where
  "socket_at E w path = (case dkStat E w path of Inr st \<Rightarrow> fiSocket st | Inl _ \<Rightarrow> False)"

definition desktopSessionEnvScore :: "'w dk_env \<Rightarrow> 'w \<Rightarrow> string gomap \<Rightarrow> int" where
  "desktopSessionEnvScore E w env =
     (let wd = env_val env ''WAYLAND_DISPLAY'';
          dir = (if env_val env ''XDG_RUNTIME_DIR'' = [] then user_runtime_dir (dkUid E) else env_val env ''XDG_RUNTIME_DIR'');
          path = (if is_abs wd then wd else path_join [dir, wd])
      in (if wd \<noteq> [] then 100 + (if socket_at E w path then 100 else 0) else 0) +
         (if env_val env ''DISPLAY'' \<noteq> [] then 80 else 0) +
         (if env_val env ''DBUS_SESSION_BUS_ADDRESS'' \<noteq> [] then 20 else 0) +
         (if env_val env ''XDG_SESSION_TYPE'' \<noteq> [] then 10 else 0) +
         (if env_val env ''XDG_CURRENT_DESKTOP'' \<noteq> [] \<or> env_val env ''XDG_SESSION_DESKTOP'' \<noteq> [] \<or>
             env_val env ''DESKTOP_SESSION'' \<noteq> [] then 10 else 0))"

definition wanted_env :: "string list" where
  "wanted_env = [''DISPLAY'', ''WAYLAND_DISPLAY'', ''XDG_RUNTIME_DIR'', ''DBUS_SESSION_BUS_ADDRESS'', ''XAUTHORITY'',
     ''XDG_CURRENT_DESKTOP'', ''XDG_SESSION_TYPE'', ''XDG_SESSION_DESKTOP'', ''DESKTOP_SESSION'', ''KDE_FULL_SESSION'']"

text \<open>The wanted variables of a process of the user.\<close>

definition add_wanted :: "string \<Rightarrow> string gomap \<Rightarrow> string gomap" where
  "add_wanted e m =
     (case index_byte e (CHR ''='') of
        Some i \<Rightarrow> if 0 < i \<and> take i e \<in> set wanted_env then gm_put (take i e) (drop (i + 1) e) m else m
      | None \<Rightarrow> m)"

definition proc_session :: "int \<Rightarrow> proc_entry \<Rightarrow> string gomap option" where
  "proc_session uid p =
     (case atoi (peName p) of
        None \<Rightarrow> None
      | Some pid \<Rightarrow>
          if pid \<le> 1 \<or> peUid p \<noteq> Some uid then None
          else (case peEnviron p of
                  Inl _ \<Rightarrow> None
                | Inr d \<Rightarrow> Some (fold add_wanted (split_on (CHR 0x00) d) [])))"

text \<open>The candidate with the highest score, the first of them.\<close>

definition best_session :: "'w dk_env \<Rightarrow> 'w \<Rightarrow> proc_entry list \<Rightarrow> int \<times> string gomap" where
  "best_session E w ps =
     fold (\<lambda>p (s, best).
         case proc_session (dkUid E) p of
           None \<Rightarrow> (s, best)
         | Some c \<Rightarrow> if s < desktopSessionEnvScore E w c then (desktopSessionEnvScore E w c, c) else (s, best))
       ps (-1, [])"

definition join_session :: "'w dk_env \<Rightarrow> 'w \<Rightarrow> string gomap \<Rightarrow> string gomap" where
  "join_session E w env =
     (if env_val env ''WAYLAND_DISPLAY'' = [] \<and> env_val env ''DISPLAY'' = []
      then (case best_session E w (dkProcs E w) of
              (score, best) \<Rightarrow>
                if 0 < score then fold (\<lambda>(k, v) m. if v \<noteq> [] then gm_put k v m else m) best env else env)
      else env)"

text \<open>What a variable that is still empty is set to.\<close>

definition set_missing :: "string \<Rightarrow> string option \<Rightarrow> string gomap \<Rightarrow> string gomap" where
  "set_missing k v env =
     (if env_val env k = [] then (case v of None \<Rightarrow> env | Some x \<Rightarrow> gm_put k x env) else env)"

definition live_socket :: "'w dk_env \<Rightarrow> 'w \<Rightarrow> string list \<Rightarrow> string option" where
  "live_socket E w matches = find (\<lambda>m. \<not> has_suffix m ''.lock'' \<and> socket_at E w m) (sort matches)"

definition join_wayland :: "'w dk_env \<Rightarrow> 'w \<Rightarrow> string \<Rightarrow> string gomap \<Rightarrow> string gomap" where
  "join_wayland E w dir env =
     (if env_val env ''WAYLAND_DISPLAY'' = []
      then (case live_socket E w (dkGlob E w (path_join [dir, ''wayland-*''])) of
              None \<Rightarrow> env
            | Some m \<Rightarrow> set_missing ''XDG_SESSION_TYPE'' (Some ''wayland'') (gm_put ''WAYLAND_DISPLAY'' (path_base m) env))
      else env)"

definition x11_display :: "string list \<Rightarrow> string option" where
  "x11_display matches =
     (case sort matches of
        [] \<Rightarrow> None
      | m # _ \<Rightarrow> if has_prefix (path_base m) ''X'' then Some (CHR '':'' # trim_prefix (path_base m) ''X'') else None)"

definition desktop_env_map :: "'w dk_env \<Rightarrow> 'w \<Rightarrow> string gomap" where
  "desktop_env_map E w =
     (let dir = user_runtime_dir (dkUid E);
          env1 = join_session E w (fold add_entry (dkEnviron E) []);
          env2 = set_missing ''XDG_RUNTIME_DIR''
                   (case dkStat E w dir of Inr st \<Rightarrow> if fiDir st then Some dir else None | Inl _ \<Rightarrow> None) env1;
          env3 = set_missing ''DBUS_SESSION_BUS_ADDRESS''
                   (if is_ok (dkStat E w (path_join [dir, ''bus''])) then Some (''unix:path='' @ path_join [dir, ''bus'']) else None) env2;
          env4 = join_wayland E w dir env3;
          env5 = set_missing ''DISPLAY'' (x11_display (dkGlob E w ''/tmp/.X11-unix/X*'')) env4
      in set_missing ''XAUTHORITY''
           (case sort (dkGlob E w (path_join [dir, ''xauth_*''])) of [] \<Rightarrow> None | m # _ \<Rightarrow> Some m) env5)"

definition desktopEnvironment :: "'w dk_env \<Rightarrow> 'w \<Rightarrow> string list" where
  "desktopEnvironment E w =
     (if dkGoos E = ''darwin'' then dkEnviron E else sortedDesktopEnvironment (desktop_env_map E w))"

text \<open>The environment of the isolated compositor, and its display.\<close>

definition isolated_env :: "string \<Rightarrow> string \<Rightarrow> string list \<Rightarrow> string gomap" where
  "isolated_env dir display environ =
     gm_del ''DISPLAY''
       (gm_put ''CYCOM_AI_DESKTOP'' ''1'' (gm_put ''XDG_SESSION_TYPE'' ''wayland''
         (gm_put ''XDG_SESSION_DESKTOP'' ''labwc-ai'' (gm_put ''XDG_CURRENT_DESKTOP'' ''labwc-ai''
           (gm_put ''WAYLAND_DISPLAY'' display (gm_put ''XDG_RUNTIME_DIR'' dir (fold add_entry environ [])))))))"

definition cycomHeadlessEnvironment :: "'w dk_env \<Rightarrow> 'w \<Rightarrow> (string list \<times> string) res" where
  "cycomHeadlessEnvironment E w =
     (let x = dkGetenv E ''XDG_RUNTIME_DIR'';
          dir = (if x = [] then user_runtime_dir (dkUid E) else x);
          s = dkGetenv E ''CYCOM_AI_DESKTOP_STATE'';
          home = (case dkHome E of Inr h \<Rightarrow> h | Inl _ \<Rightarrow> []);
          stateDir = (if s = [] then path_join [home, ''.local'', ''state'', ''cycom-ai-desktop''] else s)
      in case dkRead E w (path_join [stateDir, ''wayland-display'']) of
           Inl e \<Rightarrow> Inl (Errorf ''isolated AI desktop unavailable: %w'' [FErr e])
         | Inr d \<Rightarrow>
             let display = trim_space d
             in if display = [] then Inl (err_new ''isolated AI desktop has no Wayland display'')
                else if \<not> socket_at E w (path_join [dir, display])
                then Inl (Errorf ''isolated AI Wayland socket %s is unavailable'' [FStr display])
                else Inr (sortedDesktopEnvironment (isolated_env dir display (dkEnviron E)), display))"

subsection \<open>Screenshots\<close>

text \<open>A program to try: the name of the adapter, and the program with its arguments.\<close>

type_synonym candidate = "string \<times> string list"

definition found :: "'w dk_env \<Rightarrow> string \<Rightarrow> string \<Rightarrow> string list \<Rightarrow> candidate list" where
  "found E adapter binary args = (case dkLookPath E binary of Inl _ \<Rightarrow> [] | Inr p \<Rightarrow> [(adapter, p # args)])"

definition screenshotCandidates :: "'w dk_env \<Rightarrow> string \<Rightarrow> candidate list" where
  "screenshotCandidates E path =
     (if dkGoos E = ''darwin'' then found E ''screencapture'' ''screencapture'' [''-x'', path]
      else found E ''spectacle'' ''spectacle'' [''-b'', ''-n'', ''-o'', path] @
           found E ''grim'' ''grim'' [path] @
           found E ''gnome-screenshot'' ''gnome-screenshot'' [''-f'', path] @
           found E ''scrot'' ''scrot'' [path] @
           found E ''imagemagick-import'' ''import'' [''-window'', ''root'', path])"

text \<open>One attempt: the old file goes, the program runs, and the file it left must not be empty.\<close>

definition has_image :: "'w dk_env \<Rightarrow> string \<Rightarrow> 'w \<Rightarrow> bool" where
  "has_image E path w = (case dkStat E w path of Inr st \<Rightarrow> 0 < fiSize st | Inl _ \<Rightarrow> False)"

definition capture_attempt :: "'w dk_env \<Rightarrow> string \<Rightarrow> candidate \<Rightarrow> 'w \<Rightarrow> (string + string) \<times> 'w" where
  "capture_attempt E path c w =
     (let w1 = dkRemove E path w
      in case dkRun E (snd c) (desktopEnvironment E w1) w1 of
           ((out, err, late), w2) \<Rightarrow>
             if err = None \<and> has_image E path w2 then (Inr (fst c), w2)
             else let e = (case err of Some e \<Rightarrow> e | None \<Rightarrow> err_new ''capture produced no image'');
                      reason = (if late then ''timed out'' else trim_space out)
                  in (Inl (fst c @ '': '' @ (if reason = [] then dkErrText E e else reason)), w2))"

fun capture_loop ::
  "'w dk_env \<Rightarrow> string \<Rightarrow> candidate list \<Rightarrow> string list \<Rightarrow> 'w \<Rightarrow> (string \<times> string list) res \<times> 'w" where
  "capture_loop E path [] failures w =
     (Inl (Errorf ''all desktop capture adapters failed: %s'' [FStr (GoStrings.join ''; '' failures)]), w)"
| "capture_loop E path (c # cs) failures w =
     (case capture_attempt E path c w of
        (Inr adapter, w1) \<Rightarrow> (Inr (adapter, failures), w1)
      | (Inl t, w1) \<Rightarrow> capture_loop E path cs (failures @ [t]) w1)"

definition captureDesktopAdaptive :: "'w dk_env \<Rightarrow> string \<Rightarrow> 'w \<Rightarrow> (string \<times> string list) res \<times> 'w" where
  "captureDesktopAdaptive E path w =
     (if screenshotCandidates E path = [] then (Inl (err_new ''no supported screenshot adapter found''), w)
      else capture_loop E path (screenshotCandidates E path) [] w)"

record capture =
  caPath :: string
  caAdapter :: string
  caFailures :: "string list"
  caData :: string

definition take_capture :: "'w dk_env \<Rightarrow> string \<Rightarrow> 'w \<Rightarrow> capture res \<times> 'w" where
  "take_capture E path w =
     (case captureDesktopAdaptive E path w of
        (Inl e, w1) \<Rightarrow> (Inl e, w1)
      | (Inr (adapter, failures), w1) \<Rightarrow>
          (case dkRead E w1 path of
             Inl e \<Rightarrow> (Inl e, w1)
           | Inr d \<Rightarrow> (Inr \<lparr>caPath = path, caAdapter = adapter, caFailures = failures, caData = b64_encode d\<rparr>, w1)))"

definition desktopCapture :: "'w dk_env \<Rightarrow> raw \<Rightarrow> 'w \<Rightarrow> capture res \<times> 'w" where
  "desktopCapture E args w =
     (case decode_members [''output_path''] args of
        Inl e \<Rightarrow> (Inl e, w)
      | Inr ms \<Rightarrow>
          (case strict (dec_field set_str [] ''output_path'' ms) of
             Inl e \<Rightarrow> (Inl e, w)
           | Inr path \<Rightarrow>
               if path \<noteq> [] then take_capture E path w
               else let dir = path_join [dkStateDir E, ''captures'']
                    in (case dkMkdirAll E dir w of
                          (Some e, w1) \<Rightarrow> (Inl e, w1)
                        | (None, w1) \<Rightarrow> take_capture E (path_join [dir, ''desktop-'' @ itoa (dkMillis E) @ ''.png'']) w1)))"

subsection \<open>Keys on macOS\<close>

text \<open>\<open>len([]rune(s))\<close>: a byte that belongs to no UTF-8 sequence is a rune of its own.\<close>

function rune_count :: "string \<Rightarrow> nat" where
  "rune_count s = (if s = [] then 0 else Suc (rune_count (drop (max 1 (rune_len s)) s)))"
  by pat_completeness auto
termination by (relation "measure length") auto

declare rune_count.simps [simp del]

definition key_modifier :: "string \<Rightarrow> string option" where
  "key_modifier m =
     (if m \<in> set [''cmd'', ''command'', ''meta'', ''super''] then Some ''command down''
      else if m \<in> set [''ctrl'', ''control''] then Some ''control down''
      else if m \<in> set [''alt'', ''option''] then Some ''option down''
      else if m = ''shift'' then Some ''shift down''
      else None)"

fun key_modifiers :: "string list \<Rightarrow> string list option" where
  "key_modifiers [] = Some []"
| "key_modifiers (m # ms) =
     (case key_modifier (trim_space m) of
        None \<Rightarrow> None
      | Some x \<Rightarrow> map_option (Cons x) (key_modifiers ms))"

definition key_codes :: "(string \<times> int) list" where
  "key_codes = [(''enter'', 36), (''return'', 36), (''tab'', 48), (''space'', 49), (''backspace'', 51), (''delete'', 51),
     (''escape'', 53), (''esc'', 53), (''left'', 123), (''right'', 124), (''down'', 125), (''up'', 126), (''home'', 115),
     (''end'', 119), (''pageup'', 116), (''pagedown'', 121)]"

text \<open>The source writes a backslash and a quote where the script should have a quote.\<close>

abbreviation bs_quote :: string where
  "bs_quote \<equiv> [CHR 0x5C, CHR 0x22]"

definition mac_prefix :: string where
  "mac_prefix = ''tell application '' @ bs_quote @ ''System Events'' @ bs_quote @ '' to ''"

definition escape_key :: "string \<Rightarrow> string" where
  "escape_key base =
     (let s = replace_n [CHR 0x5C, CHR 0x5C] [CHR 0x5C, CHR 0x5C, CHR 0x5C, CHR 0x5C] (length base) base
      in replace_n bs_quote [CHR 0x5C, CHR 0x5C, CHR 0x5C, CHR 0x22] (length s) s)"

definition macOSKeyAppleScript :: "string \<Rightarrow> string option" where
  "macOSKeyAppleScript key =
     (let parts = split_on (CHR ''+'') (to_lower (trim_space key));
          base = trim_space (last parts)
      in case key_modifiers (butlast parts) of
           None \<Rightarrow> None
         | Some mods \<Rightarrow>
             let using_text = (if mods = [] then [] else '' using {'' @ GoStrings.join '', '' mods @ ''}'')
             in (case map_of key_codes base of
                   Some code \<Rightarrow> Some (mac_prefix @ ''key code '' @ itoa code @ using_text)
                 | None \<Rightarrow>
                     if rune_count base = 1
                     then Some (mac_prefix @ ''keystroke '' @ bs_quote @ escape_key base @ bs_quote @ using_text)
                     else None))"

subsection \<open>Input\<close>

record input =
  inAction :: string
  inTarget :: string
  inText :: string
  inKey :: string
  inButton :: int
  inX :: int
  inY :: int

definition input_fields :: "string list" where
  "input_fields = [''action'', ''target'', ''text'', ''key'', ''button'', ''x'', ''y'']"

definition decode_input :: "raw \<Rightarrow> input res" where
  "decode_input args =
     (case decode_members input_fields args of
        Inl e \<Rightarrow> Inl e
      | Inr ms \<Rightarrow>
          let (a, e1) = dec_field set_str [] ''action'' ms;
              (t, e2) = dec_field set_str [] ''target'' ms;
              (s, e3) = dec_field set_str [] ''text'' ms;
              (k, e4) = dec_field set_str [] ''key'' ms;
              (b, e5) = dec_field set_int 0 ''button'' ms;
              (x, e6) = dec_field set_int 0 ''x'' ms;
              (y, e7) = dec_field set_int 0 ''y'' ms
          in if e1 \<or> e2 \<or> e3 \<or> e4 \<or> e5 \<or> e6 \<or> e7 then Inl invalid_arguments
             else Inr \<lparr>inAction = a, inTarget = t, inText = s, inKey = k, inButton = b, inX = x, inY = y\<rparr>)"

definition isolatedInputBinary :: "'w dk_env \<Rightarrow> 'w \<Rightarrow> string \<Rightarrow> string res" where
  "isolatedInputBinary E w name =
     (case dkLookPath E name of
        Inr p \<Rightarrow> Inr p
      | Inl _ \<Rightarrow>
          (case dkHome E of
             Inr home \<Rightarrow>
               (let p = path_join [home, ''.local'', ''bin'', name]
                in case dkStat E w p of
                     Inr st \<Rightarrow> if \<not> fiDir st \<and> fiExec st then Inr p
                               else Inl (Errorf ''%s not found in PATH or ~/.local/bin'' [FStr name])
                   | Inl _ \<Rightarrow> Inl (Errorf ''%s not found in PATH or ~/.local/bin'' [FStr name]))
           | Inl _ \<Rightarrow> Inl (Errorf ''%s not found in PATH or ~/.local/bin'' [FStr name])))"

definition button_name :: "int \<Rightarrow> string option" where
  "button_name b = (if b = 0 \<or> b = 1 then Some ''left'' else if b = 2 then Some ''middle'' else if b = 3 then Some ''right'' else None)"

text \<open>The program and the arguments for an action in the isolated compositor.\<close>

definition isolated_command :: "'w dk_env \<Rightarrow> 'w \<Rightarrow> input \<Rightarrow> (string res \<times> string list) res" where
  "isolated_command E w i =
     (if inAction i = ''text'' then
        (if inText i = [] then Inl (err_new ''text is required'')
         else Inr (isolatedInputBinary E w ''wlrctl'', [''keyboard'', ''type'', inText i]))
      else if inAction i = ''key'' then
        (if inKey i = [] then Inl (err_new ''key is required'') else Inr (dkLookPath E ''wtype'', [''-k'', inKey i]))
      else if inAction i = ''click'' then
        (case button_name (inButton i) of
           None \<Rightarrow> Inl (Errorf ''unsupported mouse button %d'' [FInt (inButton i)])
         | Some name \<Rightarrow> Inr (isolatedInputBinary E w ''wlrctl'', [''pointer'', ''click'', name]))
      else if inAction i = ''mouse_move'' then
        Inr (isolatedInputBinary E w ''wlrctl'', [''pointer'', ''move'', itoa (inX i), itoa (inY i)])
      else Inl (Errorf ''unsupported action %q'' [FStr (inAction i)]))"

datatype input_reply = Isolated string | Physical string

definition desktopInputHeadless :: "'w dk_env \<Rightarrow> input \<Rightarrow> 'w \<Rightarrow> input_reply res \<times> 'w" where
  "desktopInputHeadless E i w =
     (case cycomHeadlessEnvironment E w of
        Inl e \<Rightarrow> (Inl e, w)
      | Inr (env, display) \<Rightarrow>
          (case isolated_command E w i of
             Inl e \<Rightarrow> (Inl e, w)
           | Inr (Inl e, _) \<Rightarrow> (Inl (Errorf ''isolated Wayland input adapter unavailable: %w'' [FErr e]), w)
           | Inr (Inr cmd, args) \<Rightarrow>
               (case dkRun E (cmd # args) env w of
                  ((out, Some e, _), w1) \<Rightarrow>
                    (Inl (Errorf ''isolated-wayland failed: %w: %s'' [FErr e, FStr (trim_space out)]), w1)
                | ((out, None, _), w1) \<Rightarrow> (Inr (Isolated display), w1))))"

text \<open>The programs for an action on the physical desktop.\<close>

definition text_candidates :: "'w dk_env \<Rightarrow> string \<Rightarrow> candidate list" where
  "text_candidates E t =
     (if dkGoos E = ''darwin''
      then found E ''osascript'' ''osascript''
             [''-e'', ''on run argv'', ''-e'',
              ''tell application '' @ [CHR 0x22] @ ''System Events'' @ [CHR 0x22] @ '' to keystroke (item 1 of argv)'',
              ''-e'', ''end run'', t]
      else []) @
     found E ''wtype'' ''wtype'' [t] @ found E ''ydotool'' ''ydotool'' [''type'', ''--'', t] @
     found E ''xdotool'' ''xdotool'' [''type'', ''--clearmodifiers'', ''--'', t]"

definition key_candidates :: "'w dk_env \<Rightarrow> string \<Rightarrow> candidate list" where
  "key_candidates E k =
     (if dkGoos E = ''darwin''
      then (case macOSKeyAppleScript k of Some script \<Rightarrow> found E ''osascript'' ''osascript'' [''-e'', script] | None \<Rightarrow> [])
      else []) @
     found E ''wtype'' ''wtype'' [''-k'', k] @ found E ''xdotool'' ''xdotool'' [''key'', ''--clearmodifiers'', k] @
     found E ''ydotool'' ''ydotool'' (''key'' # go_fields k)"

definition click_candidates :: "'w dk_env \<Rightarrow> int \<Rightarrow> int \<Rightarrow> int \<Rightarrow> candidate list" where
  "click_candidates E button0 x y =
     (let button = (if button0 = 0 then 1 else button0);
          place = (if x \<noteq> 0 \<or> y \<noteq> 0 then ''c:'' @ itoa x @ '','' @ itoa y else ''c:.'');
          code = (if button = 3 then ''0xC1'' else if button = 2 then ''0xC2'' else ''0xC0'')
      in (if dkGoos E = ''darwin'' then found E ''cliclick'' ''cliclick'' [place] else []) @
         found E ''xdotool'' ''xdotool'' [''click'', itoa button] @ found E ''ydotool'' ''ydotool'' [''click'', code])"

definition move_candidates :: "'w dk_env \<Rightarrow> int \<Rightarrow> int \<Rightarrow> candidate list" where
  "move_candidates E x y =
     (if dkGoos E = ''darwin'' then found E ''cliclick'' ''cliclick'' [''m:'' @ itoa x @ '','' @ itoa y] else []) @
     found E ''xdotool'' ''xdotool'' [''mousemove'', itoa x, itoa y] @
     found E ''ydotool'' ''ydotool'' [''mousemove'', ''--absolute'', ''-x'', itoa x, ''-y'', itoa y]"

definition input_candidates :: "'w dk_env \<Rightarrow> input \<Rightarrow> candidate list res" where
  "input_candidates E i =
     (if inAction i = ''text'' then
        (if inText i = [] then Inl (err_new ''text is required'') else Inr (text_candidates E (inText i)))
      else if inAction i = ''key'' then
        (if inKey i = [] then Inl (err_new ''key is required'') else Inr (key_candidates E (inKey i)))
      else if inAction i = ''click'' then Inr (click_candidates E (inButton i) (inX i) (inY i))
      else if inAction i = ''mouse_move'' then Inr (move_candidates E (inX i) (inY i))
      else Inl (Errorf ''unsupported action %q'' [FStr (inAction i)]))"

definition runDesktop :: "'w dk_env \<Rightarrow> string list \<Rightarrow> candidate \<Rightarrow> 'w \<Rightarrow> (string + string) \<times> 'w" where
  "runDesktop E env c w =
     (case dkRun E (snd c) env w of
        ((out, Some e, _), w1) \<Rightarrow>
          (Inl (dkErrText E (Errorf ''%s failed: %w: %s'' [FStr (fst c), FErr e, FStr (trim_space out)])), w1)
      | ((out, None, _), w1) \<Rightarrow> (Inr (fst c), w1))"

fun input_loop ::
  "'w dk_env \<Rightarrow> string \<Rightarrow> string list \<Rightarrow> candidate list \<Rightarrow> string list \<Rightarrow> 'w \<Rightarrow> input_reply res \<times> 'w" where
  "input_loop E action env [] failures w =
     (Inl (Errorf ''all desktop input adapters failed for action %q: %s'' [FStr action, FStr (GoStrings.join ''; '' failures)]), w)"
| "input_loop E action env (c # cs) failures w =
     (case runDesktop E env c w of
        (Inr adapter, w1) \<Rightarrow> (Inr (Physical adapter), w1)
      | (Inl t, w1) \<Rightarrow> input_loop E action env cs (failures @ [t]) w1)"

definition physical_input :: "'w dk_env \<Rightarrow> input \<Rightarrow> 'w \<Rightarrow> input_reply res \<times> 'w" where
  "physical_input E i w =
     (case input_candidates E i of
        Inl e \<Rightarrow> (Inl e, w)
      | Inr [] \<Rightarrow> (Inl (Errorf ''no compatible desktop input adapter found for action %q'' [FStr (inAction i)]), w)
      | Inr cs \<Rightarrow> input_loop E (inAction i) (desktopEnvironment E w) cs [] w)"

text \<open>The desktop that a call means.\<close>

definition input_place :: "'w dk_env \<Rightarrow> 'w \<Rightarrow> string \<Rightarrow> string" where
  "input_place E w place =
     (if place = [] \<or> place = ''auto''
      then (if is_ok (cycomHeadlessEnvironment E w) then ''headless'' else ''current'')
      else place)"

definition desktopInput :: "'w dk_env \<Rightarrow> raw \<Rightarrow> 'w \<Rightarrow> input_reply res \<times> 'w" where
  "desktopInput E args w =
     (case decode_input args of
        Inl e \<Rightarrow> (Inl e, w)
      | Inr i \<Rightarrow>
          let place = input_place E w (inTarget i)
          in if place = ''headless'' then desktopInputHeadless E i w
             else if place \<noteq> ''current'' then (Inl (Errorf ''unsupported desktop target %q'' [FStr place]), w)
             else physical_input E i w)"

subsection \<open>Lemmas\<close>

interpretation captures: adapter_loop "capture_attempt E path" "\<lambda>ts a. Inr (a, ts)"
  "\<lambda>ts. Inl (Errorf ''all desktop capture adapters failed: %s'' [FStr (GoStrings.join ''; '' ts)])" "capture_loop E path"
  by unfold_locales simp_all

interpretation inputs: adapter_loop "runDesktop E env" "\<lambda>ts a. Inr (Physical a)"
  "\<lambda>ts. Inl (Errorf ''all desktop input adapters failed for action %q: %s'' [FStr action, FStr (GoStrings.join ''; '' ts)])"
  "input_loop E action env"
  by unfold_locales simp_all

lemma capture_attempt_image: "capture_attempt E path c w = (Inr a, w') \<Longrightarrow> a = fst c \<and> has_image E path w'"
  by (auto simp: capture_attempt_def Let_def split: prod.splits if_splits)

text \<open>What a sorted environment has for a name.\<close>

lemma entry_key: "env_key k \<Longrightarrow> env_key k' \<Longrightarrow> has_prefix (k' @ CHR ''='' # v) (k @ ''='') \<longleftrightarrow> k' = k"
  using index_byte_append [of "CHR ''=''" k' v] by (auto simp: env_prefix_index env_key_def)

lemma environment_entries:
  assumes "env_keys m" and "env_key k"
  shows "filter (\<lambda>e. has_prefix e (k @ ''='')) (sortedDesktopEnvironment m) =
    (case gm_get m k of None \<Rightarrow> [] | Some v \<Rightarrow> [k @ ''='' @ v])"
proof -
  have "filter ((\<lambda>e. has_prefix e (k @ ''='')) \<circ> (\<lambda>(k, v). k @ ''='' @ v)) m = filter (\<lambda>(k', v). k' = k) m"
    using assms by (intro filter_cong refl) (auto simp: gm_all_def entry_key)
  moreover have "gm_ok m" using assms(1) by (simp add: gm_all_def)
  ultimately show ?thesis
    by (simp add: sortedDesktopEnvironment_def filter_sort filter_map filter_key split: option.split)
qed

lemma desktop_names:
  "env_key ''DISPLAY''" "env_key ''WAYLAND_DISPLAY''" "env_key ''XDG_RUNTIME_DIR''" "env_key ''XDG_SESSION_TYPE''"
  "env_key ''DBUS_SESSION_BUS_ADDRESS''" "env_key ''XAUTHORITY''" "env_key ''XDG_SESSION_DESKTOP''"
  "env_key ''XDG_CURRENT_DESKTOP''" "env_key ''CYCOM_AI_DESKTOP''"
  by code_simp+

lemma environ_keys: "env_keys (fold add_entry es [])"
  by (rule add_entries) simp

lemma isolated_keys: "env_keys (isolated_env dir display environ)"
  by (simp add: isolated_env_def gm_all_put gm_all_del environ_keys desktop_names)

lemma headless_environment:
  assumes "cycomHeadlessEnvironment E w = Inr (env, display)"
  shows "filter (\<lambda>e. has_prefix e ''DISPLAY='') env = []"
    and "filter (\<lambda>e. has_prefix e ''WAYLAND_DISPLAY='') env = [''WAYLAND_DISPLAY='' @ display]"
proof -
  obtain dir where env: "env = sortedDesktopEnvironment (isolated_env dir display (dkEnviron E))"
    using assms by (auto simp: cycomHeadlessEnvironment_def Let_def split: sum.splits if_splits)
  show "filter (\<lambda>e. has_prefix e ''DISPLAY='') env = []"
    using environment_entries [OF isolated_keys desktop_names(1)] by (simp add: env isolated_env_def)
  show "filter (\<lambda>e. has_prefix e ''WAYLAND_DISPLAY='') env = [''WAYLAND_DISPLAY='' @ display]"
    using environment_entries [OF isolated_keys desktop_names(2)] by (simp add: env isolated_env_def)
qed

text \<open>A step of the search leaves a variable that has a value as it is.\<close>

definition kept :: "string \<Rightarrow> string \<Rightarrow> string gomap \<Rightarrow> bool" where
  "kept k v m \<longleftrightarrow> env_keys m \<and> gm_get m k = Some v"

lemma kept_put: "kept k v m \<Longrightarrow> v \<noteq> [] \<Longrightarrow> env_key k' \<Longrightarrow> env_val m k' = [] \<Longrightarrow> kept k v (gm_put k' x m)"
  by (auto simp: kept_def env_val_def gm_all_put)

lemma kept_missing: "kept k v m \<Longrightarrow> v \<noteq> [] \<Longrightarrow> env_key k' \<Longrightarrow> kept k v (set_missing k' x m)"
  by (auto simp: set_missing_def kept_put split: option.split)

lemma kept_wayland: "kept k v m \<Longrightarrow> v \<noteq> [] \<Longrightarrow> kept k v (join_wayland E w dir m)"
  by (auto simp: join_wayland_def kept_put kept_missing desktop_names split: option.split)

lemma kept_desktop:
  assumes "env_value (dkEnviron E) k = Some v" and "v \<noteq> []" and "env_key k"
    and "env_val (fold add_entry (dkEnviron E) []) ''WAYLAND_DISPLAY'' \<noteq> [] \<or>
      env_val (fold add_entry (dkEnviron E) []) ''DISPLAY'' \<noteq> []"
  shows "kept k v (desktop_env_map E w)"
proof -
  have "kept k v (fold add_entry (dkEnviron E) [])"
    using assms(1,3) by (simp add: kept_def environ_keys add_entries)
  then have "kept k v (join_session E w (fold add_entry (dkEnviron E) []))"
    using assms(4) by (auto simp: join_session_def)
  then show ?thesis
    unfolding desktop_env_map_def Let_def
    using assms(2) by (intro kept_missing kept_wayland desktop_names) simp_all
qed

text \<open>Only \<open>dkRun\<close> is replaced: everything else the tools look at stays.\<close>

lemma replaced_run:
  "cycomHeadlessEnvironment (E\<lparr>dkRun := run\<rparr>) = cycomHeadlessEnvironment E"
  "isolated_command (E\<lparr>dkRun := run\<rparr>) = isolated_command E"
  "input_place (E\<lparr>dkRun := run\<rparr>) = input_place E"
proof -
  have sel: "dkGetenv (E\<lparr>dkRun := run\<rparr>) = dkGetenv E" "dkUid (E\<lparr>dkRun := run\<rparr>) = dkUid E"
    "dkHome (E\<lparr>dkRun := run\<rparr>) = dkHome E" "dkRead (E\<lparr>dkRun := run\<rparr>) = dkRead E"
    "dkEnviron (E\<lparr>dkRun := run\<rparr>) = dkEnviron E" "dkStat (E\<lparr>dkRun := run\<rparr>) = dkStat E"
    "dkLookPath (E\<lparr>dkRun := run\<rparr>) = dkLookPath E" by simp_all
  have sock: "socket_at (E\<lparr>dkRun := run\<rparr>) = socket_at E" unfolding fun_eq_iff socket_at_def sel by blast
  show head: "cycomHeadlessEnvironment (E\<lparr>dkRun := run\<rparr>) = cycomHeadlessEnvironment E"
    unfolding fun_eq_iff cycomHeadlessEnvironment_def sock sel by blast
  have "isolatedInputBinary (E\<lparr>dkRun := run\<rparr>) = isolatedInputBinary E"
    unfolding fun_eq_iff isolatedInputBinary_def sel by blast
  then show "isolated_command (E\<lparr>dkRun := run\<rparr>) = isolated_command E"
    unfolding fun_eq_iff isolated_command_def sel by (simp split: option.split)
  show "input_place (E\<lparr>dkRun := run\<rparr>) = input_place E" unfolding fun_eq_iff input_place_def head by blast
qed

text \<open>Every quote of a script for a key has a backslash in front, which AppleScript does not take.\<close>

lemma mac_script_quotes:
  "macOSKeyAppleScript key = Some script \<Longrightarrow> contains script bs_quote"
proof -
  assume "macOSKeyAppleScript key = Some script"
  then obtain t where "script = mac_prefix @ t"
    by (auto simp: macOSKeyAppleScript_def Let_def split: option.splits if_splits)
  then have "script = ''tell application '' @ bs_quote @ (''System Events'' @ bs_quote @ '' to '') @ t"
    by (simp add: mac_prefix_def)
  then show ?thesis unfolding contains_iff by blast
qed

lemma mac_script_enter:
  "macOSKeyAppleScript ''cmd+Enter'' =
     Some (''tell application '' @ bs_quote @ ''System Events'' @ bs_quote @ '' to key code 36 using {command down}'')"
  by code_simp

text \<open>Without an isolated compositor the default place is the physical desktop.\<close>

lemma auto_takes_physical:
  "decode_input args = Inr i \<Longrightarrow> inTarget i = [] \<or> inTarget i = ''auto'' \<Longrightarrow> \<not> is_ok (cycomHeadlessEnvironment E w) \<Longrightarrow>
   desktopInput E args w = physical_input E i w"
  by (auto simp: desktopInput_def input_place_def)

subsection \<open>Properties\<close>

text \<open>
  C24: input for the isolated compositor never reaches the physical desktop. A call with the target
  \<open>headless\<close>, or without a target while the isolated compositor is there, runs nothing but programs with
  the environment of that compositor, which has no X display and names its own Wayland display once; and
  when the compositor or its socket is not there, the call fails with that error and nothing is run.
\<close>

theorem isolated_input:
  assumes "decode_input args = Inr i"
    and "inTarget i = ''headless'' \<or> inTarget i \<in> {[], ''auto''} \<and> is_ok (cycomHeadlessEnvironment E w)"
    and "\<And>env display argv. cycomHeadlessEnvironment E w = Inr (env, display) \<Longrightarrow> run argv env w = dkRun E argv env w"
  shows "desktopInput (E\<lparr>dkRun := run\<rparr>) args w = desktopInput E args w \<and>
    (\<forall>e. cycomHeadlessEnvironment E w = Inl e \<longrightarrow> desktopInput E args w = (Inl e, w)) \<and>
    (\<forall>env display. cycomHeadlessEnvironment E w = Inr (env, display) \<longrightarrow>
       filter (\<lambda>e. has_prefix e ''DISPLAY='') env = [] \<and>
       filter (\<lambda>e. has_prefix e ''WAYLAND_DISPLAY='') env = [''WAYLAND_DISPLAY='' @ display])"
proof -
  have place: "input_place E w (inTarget i) = ''headless''" using assms(2) by (auto simp: input_place_def)
  have "desktopInputHeadless (E\<lparr>dkRun := run\<rparr>) i w = desktopInputHeadless E i w"
    using assms(3) by (simp add: desktopInputHeadless_def replaced_run split: sum.split prod.split)
  moreover have "desktopInput E args w = desktopInputHeadless E i w"
    "desktopInput (E\<lparr>dkRun := run\<rparr>) args w = desktopInputHeadless (E\<lparr>dkRun := run\<rparr>) i w"
    using assms(1) place by (simp_all add: desktopInput_def replaced_run)
  ultimately show ?thesis using headless_environment by (auto simp: desktopInputHeadless_def)
qed

text \<open>
  A screenshot comes from the first adapter in the order of preference that works, with what the
  ones before it said, and the file at the path is the one that adapter made.
\<close>

theorem capture_from_first_working:
  "captureDesktopAdaptive E path w = (Inr (a, ts), w2) \<longleftrightarrow>
   (\<exists>pre c post w1. screenshotCandidates E path = pre @ c # post \<and>
      tried (capture_attempt E path) pre w = Some (ts, w1) \<and> capture_attempt E path c w1 = (Inr a, w2) \<and>
      a = fst c \<and> has_image E path w2)" (is "?l \<longleftrightarrow> ?r")
proof
  assume l: ?l
  then have "capture_loop E path (screenshotCandidates E path) [] w = (Inr (a, ts), w2)"
    by (simp add: captureDesktopAdaptive_def split: if_splits)
  then obtain pre c post ts' w1 r w3 where c: "screenshotCandidates E path = pre @ c # post"
      "tried (capture_attempt E path) pre w = Some (ts', w1)" "capture_attempt E path c w1 = (Inr r, w3)"
      "(Inr (a, ts), w2) = (Inr (r, [] @ ts') :: (string \<times> string list) res, w3)"
    using captures.loop_outcome [of "screenshotCandidates E path" E path w "[]"] by fastforce
  then have "a = r" "ts = ts'" "w2 = w3" by simp_all
  then show ?r using c(1-3) capture_attempt_image [OF c(3)] by blast
next
  assume ?r
  then show ?l
    using captures.loop_won [of E path _ w] by (fastforce simp: captureDesktopAdaptive_def)
qed

text \<open>
  A service that was started in a session keeps it: when the environment names a display, every
  variable that has a value there has that value, once, in the environment of the desktop programs.
\<close>

theorem service_session_kept:
  assumes "env_value (dkEnviron E) k = Some v" and "v \<noteq> []" and "env_key k" and "dkGoos E \<noteq> ''darwin''"
    and "env_value (dkEnviron E) d = Some x" and "x \<noteq> []" and "d = ''DISPLAY'' \<or> d = ''WAYLAND_DISPLAY''"
  shows "filter (\<lambda>e. has_prefix e (k @ ''='')) (desktopEnvironment E w) = [k @ ''='' @ v]"
proof -
  have "env_val (fold add_entry (dkEnviron E) []) d \<noteq> []"
    using assms(5-7) desktop_names(1,2) by (auto simp: env_val_def add_entries)
  then have "kept k v (desktop_env_map E w)" using assms(1-3,7) by (intro kept_desktop) auto
  then show ?thesis using assms(3,4) environment_entries by (simp add: kept_def desktopEnvironment_def)
qed

text \<open>
  A screenshot with an \<open>output_path\<close> removes what is there before anything else, and does so in
  \<open>readonly\<close> mode too.
\<close>

theorem capture_removes_first:
  assumes "screenshotCandidates E path \<noteq> []" and "\<And>w. dkRemove E path (dkRemove E path w) = dkRemove E path w"
    and "cMode c = ''readonly''" and "cDenyTools c = []" and "cAllowTools c = []"
  shows "captureDesktopAdaptive E path (dkRemove E path w) = captureDesktopAdaptive E path w \<and>
    BeforeCall a c ''desktop_capture'' (RawDoc (JObj [(''reason'', JStr r), (''output_path'', JStr path)])) = None"
proof
  obtain d ds where cs: "screenshotCandidates E path = d # ds"
    using assms(1) by (cases "screenshotCandidates E path") auto
  have "capture_attempt E path d (dkRemove E path w) = capture_attempt E path d w"
    by (simp add: capture_attempt_def assms(2))
  then show "captureDesktopAdaptive E path (dkRemove E path w) = captureDesktopAdaptive E path w"
    by (simp add: captureDesktopAdaptive_def cs)
next
  have "\<not> isMutation ''desktop_capture''" "\<not> isSensitiveAndroid ''desktop_capture''"
    "\<not> has_prefix ''desktop_capture'' ''target_''" by code_simp+
  then show "BeforeCall a c ''desktop_capture'' (RawDoc (JObj [(''reason'', JStr r), (''output_path'', JStr path)])) = None"
    using assms(3-5)
    by (auto simp: BeforeCall_def check_args_def check_method_def policy_args_def map_at_def gm_get_of Let_def)
qed

subsection \<open>Witnesses\<close>

text \<open>A machine with an isolated compositor; the state counts what was run.\<close>

definition sample_desktop :: "nat dk_env" where
  "sample_desktop =
     \<lparr>dkGoos = ''linux'', dkEnviron = [''DISPLAY=:0'', ''LANG=C''], dkGetenv = (\<lambda>n. []), dkUid = 1000, dkHome = Inr ''/h'',
      dkStateDir = ''/s'', dkMillis = 1, dkErrText = (\<lambda>e. ''e''), dkLookPath = (\<lambda>n. Inr n),
      dkStat = (\<lambda>w p. Inr \<lparr>fiDir = False, fiSocket = True, fiExec = True, fiSize = int w\<rparr>),
      dkRead = (\<lambda>w p. Inr ''wayland-ai''), dkProcs = (\<lambda>w. []), dkGlob = (\<lambda>w p. []), dkRemove = (\<lambda>p w. w),
      dkMkdirAll = (\<lambda>d w. (None, w)), dkRun = (\<lambda>argv env w. (([], None, False), w + 1))\<rparr>"

definition sample_click :: raw where
  "sample_click = RawDoc (JObj [(''action'', JStr ''click''), (''button'', JNum (JInt 2))])"

definition sample_click_input :: input where
  "sample_click_input =
     \<lparr>inAction = ''click'', inTarget = [], inText = [], inKey = [], inButton = 2, inX = 0, inY = 0\<rparr>"

definition sample_isolated :: "string list" where
  "sample_isolated = [''CYCOM_AI_DESKTOP=1'', ''LANG=C'', ''WAYLAND_DISPLAY=wayland-ai'', ''XDG_CURRENT_DESKTOP=labwc-ai'',
     ''XDG_RUNTIME_DIR=/run/user/1000'', ''XDG_SESSION_DESKTOP=labwc-ai'', ''XDG_SESSION_TYPE=wayland'']"

lemma sample_headless:
  "decode_input sample_click = Inr sample_click_input"
  "cycomHeadlessEnvironment sample_desktop 0 = Inr (sample_isolated, ''wayland-ai'')"
  "input_place sample_desktop 0 [] = ''headless''"
  by code_simp+

text \<open>The same machine without the compositor.\<close>

definition sample_closed :: "nat dk_env" where
  "sample_closed = sample_desktop\<lparr>dkRead := (\<lambda>w p. Inl ErrNotExist)\<rparr>"

definition sample_headless_click :: raw where
  "sample_headless_click = RawDoc (JObj [(''action'', JStr ''click''), (''target'', JStr ''headless'')])"

lemma sample_closed:
  "decode_input sample_headless_click = Inr (sample_click_input\<lparr>inTarget := ''headless'', inButton := 0\<rparr>)"
  "cycomHeadlessEnvironment sample_closed 0 = Inl (Errorf ''isolated AI desktop unavailable: %w'' [FErr ErrNotExist])"
  by code_simp+

theorem isolated_input_witness:
  "desktopInput (sample_desktop\<lparr>dkRun := (\<lambda>argv env w. if env = sample_isolated then dkRun sample_desktop argv env w
       else ((''refused'', Some ErrNotExist, False), w))\<rparr>) sample_click 0 = desktopInput sample_desktop sample_click 0 \<and>
   desktopInput sample_closed sample_headless_click 0 =
     (Inl (Errorf ''isolated AI desktop unavailable: %w'' [FErr ErrNotExist]), 0)"
proof
  show "desktopInput (sample_desktop\<lparr>dkRun := (\<lambda>argv env w. if env = sample_isolated then dkRun sample_desktop argv env w
       else ((''refused'', Some ErrNotExist, False), w))\<rparr>) sample_click 0 = desktopInput sample_desktop sample_click 0"
    by (rule isolated_input [THEN conjunct1, OF sample_headless(1)]) (simp_all add: sample_click_input_def sample_headless)
  show "desktopInput sample_closed sample_headless_click 0 =
      (Inl (Errorf ''isolated AI desktop unavailable: %w'' [FErr ErrNotExist]), 0)"
    using isolated_input [OF sample_closed(1), where E = sample_closed and w = 0 and run = "dkRun sample_closed"]
    by (simp add: sample_closed(2))
qed

theorem service_session_kept_witness:
  "filter (\<lambda>e. has_prefix e ''LANG='') (desktopEnvironment sample_desktop 0) = [''LANG=C'']"
  using service_session_kept [of sample_desktop "''LANG''" "''C''" "''DISPLAY''" "'':0''" 0]
  by (simp add: sample_desktop_def env_key_def)

theorem capture_removes_first_witness:
  "captureDesktopAdaptive sample_desktop ''/h/notes'' (dkRemove sample_desktop ''/h/notes'' 0) =
   captureDesktopAdaptive sample_desktop ''/h/notes'' 0"
  by (rule capture_removes_first [of _ _ "Default\<lparr>cMode := ''readonly''\<rparr>", THEN conjunct1])
    (simp_all add: Default_def screenshotCandidates_def found_def sample_desktop_def)

end
