(* ===== verification/StdioMcp.thy ===== *)
theory StdioMcp
  imports Exec
begin

section \<open>The client of a backend on its standard streams (internal/tools/stdio_mcp_linux.go)\<close>

text \<open>
  A backend is a process that is asked over its standard input and answers on its standard output,
  one JSON document per line. \<open>stdio\<close> is \<open>stdioMCPState\<close>: \<open>cmd\<close>, \<open>stdin\<close> and \<open>decoder\<close> are set and cleared
  together, which is \<open>soRunning\<close>; every operation here is called with the mutex held. The process is
  \<open>'w backend\<close> over a state \<open>'w\<close>: \<open>bkIncoming\<close> is what it writes from then on until the wait of the
  caller ends, and how that wait ends when none of it is the answer; \<open>bkTake n\<close> reads \<open>n\<close> documents.
\<close>

datatype started = StdinFails goerr | StdoutFails goerr | StartFails goerr | Running

datatype wait_end = ReadFails goerr | Cancelled goerr

record 'w backend =
  bkStart :: "string list \<Rightarrow> string list \<Rightarrow> 'w \<Rightarrow> started \<times> 'w"
  bkWrite :: "json \<Rightarrow> 'w \<Rightarrow> goerr option \<times> 'w"
  bkIncoming :: "'w \<Rightarrow> raw list \<times> wait_end"
  bkTake :: "nat \<Rightarrow> 'w \<Rightarrow> 'w"
  bkStop :: "'w \<Rightarrow> 'w"

record stdio =
  soRunning :: bool
  soNextID :: int
  soSig :: string

definition stdio_zero :: stdio where
  "stdio_zero = \<lparr>soRunning = False, soNextID = 0, soSig = []\<rparr>"

subsection \<open>Answers\<close>

text \<open>An error of the protocol that the backend answered with: its code, message and data.\<close>

record upstream =
  upCode :: int
  upMessage :: string
  upData :: "json option"

record response =
  rsID :: "json option"
  rsResult :: "json option"
  rsError :: "upstream option"

fun set_upstream :: "json \<Rightarrow> upstream option \<Rightarrow> upstream option option" where
  "set_upstream (JObj ms) old =
     (let u = (case old of None \<Rightarrow> \<lparr>upCode = 0, upMessage = [], upData = None\<rparr> | Some x \<Rightarrow> x);
          (c, e1) = dec_field set_int (upCode u) ''code'' ms;
          (m, e2) = dec_field set_str (upMessage u) ''message'' ms;
          (d, e3) = dec_field set_raw (upData u) ''data'' ms
      in if e1 \<or> e2 \<or> e3 then None else Some (Some \<lparr>upCode = c, upMessage = m, upData = d\<rparr>))"
| "set_upstream JNull old = Some None"
| "set_upstream _ old = None"

definition decode_answer :: "raw \<Rightarrow> response res" where
  "decode_answer doc =
     (case stream_members doc of
        Inl e \<Rightarrow> Inl e
      | Inr ms \<Rightarrow>
          let (v, e1) = dec_field set_str [] ''jsonrpc'' ms;
              (i, e2) = dec_field set_raw None ''id'' ms;
              (r, e3) = dec_field set_raw None ''result'' ms;
              (u, e4) = dec_field set_upstream None ''error'' ms;
              (m, e5) = dec_field set_str [] ''method'' ms
          in if e1 \<or> e2 \<or> e3 \<or> e4 \<or> e5 then Inl json_err else Inr \<lparr>rsID = i, rsResult = r, rsError = u\<rparr>)"

text \<open>\<open>json.Unmarshal\<close> of an id into a \<open>uint64\<close>; \<open>null\<close> leaves the zero.\<close>

definition id_number :: "json option \<Rightarrow> int option" where
  "id_number i =
     (case i of
        Some (JNum (JInt n)) \<Rightarrow> if 0 \<le> n \<and> n < 2 ^ 64 then Some n else None
      | Some JNull \<Rightarrow> Some 0
      | _ \<Rightarrow> None)"

text \<open>The first document that cannot be read or has the id, and how many have been read with it.\<close>

fun await :: "int \<Rightarrow> raw list \<Rightarrow> nat \<Rightarrow> (response res \<times> nat) option" where
  "await i [] n = None"
| "await i (d # ds) n =
     (case decode_answer d of
        Inl e \<Rightarrow> Some (Inl e, Suc n)
      | Inr r \<Rightarrow> if id_number (rsID r) = Some i then Some (Inr r, Suc n) else await i ds (Suc n))"

subsection \<open>Operations\<close>

text \<open>Errors of a request: of the transport, or of the protocol.\<close>

datatype rpc_error = Transport goerr | Upstream string upstream

definition rpc_goerr :: "string \<Rightarrow> rpc_error \<Rightarrow> goerr" where
  "rpc_goerr label e =
     (case e of
        Transport x \<Rightarrow> x
      | Upstream m u \<Rightarrow> Errorf ''%s RPC %s failed: %w''
          [FStr label, FStr m, FErr (Errorf ''JSON-RPC error (%d): %s'' [FInt (upCode u), FStr (upMessage u)])])"

definition stop :: "'w backend \<Rightarrow> stdio \<times> 'w \<Rightarrow> stdio \<times> 'w" where
  "stop B sw =
     ((fst sw)\<lparr>soRunning := False, soSig := []\<rparr>, if soRunning (fst sw) then bkStop B (snd sw) else snd sw)"

definition request_doc :: "int \<Rightarrow> string \<Rightarrow> json \<Rightarrow> json" where
  "request_doc i m params =
     JObj [(''id'', JNum (JInt i)), (''jsonrpc'', JStr ''2.0''), (''method'', JStr m), (''params'', params)]"

definition rpc ::
  "'w backend \<Rightarrow> string \<Rightarrow> string \<Rightarrow> json \<Rightarrow> stdio \<times> 'w \<Rightarrow> (rpc_error + json option) \<times> stdio \<times> 'w" where
  "rpc B label m params sw =
     (if \<not> soRunning (fst sw) then (Inl (Transport (Errorf ''%s backend is not running'' [FStr label])), sw)
      else
        let i = (soNextID (fst sw) + 1) mod 2 ^ 64;
            s = (fst sw)\<lparr>soNextID := i\<rparr>
        in case bkWrite B (request_doc i m params) (snd sw) of
             (Some e, w1) \<Rightarrow> (Inl (Transport (Errorf ''write %s %s: %w'' [FStr label, FStr m, FErr e])), stop B (s, w1))
           | (None, w1) \<Rightarrow>
               (case await i (fst (bkIncoming B w1)) 0 of
                  None \<Rightarrow>
                    let w2 = bkTake B (length (fst (bkIncoming B w1))) w1
                    in (Inl (Transport (case snd (bkIncoming B w1) of
                                          Cancelled e \<Rightarrow> e
                                        | ReadFails e \<Rightarrow> Errorf ''read %s %s: %w'' [FStr label, FStr m, FErr e])), stop B (s, w2))
                | Some (Inl e, n) \<Rightarrow>
                    (Inl (Transport (Errorf ''read %s %s: %w'' [FStr label, FStr m, FErr e])), stop B (s, bkTake B n w1))
                | Some (Inr r, n) \<Rightarrow>
                    ((case rsError r of Some u \<Rightarrow> Inl (Upstream m u) | None \<Rightarrow> Inr (rsResult r)), s, bkTake B n w1)))"

definition client_info :: "string \<Rightarrow> json" where
  "client_info name =
     JObj [(''capabilities'', JObj []),
           (''clientInfo'', JObj [(''name'', JStr name), (''version'', JStr ''1'')]),
           (''protocolVersion'', JStr ''2025-06-18'')]"

definition initialized_doc :: json where
  "initialized_doc = JObj [(''jsonrpc'', JStr ''2.0''), (''method'', JStr ''notifications/initialized'')]"

definition handshake ::
  "'w backend \<Rightarrow> string \<Rightarrow> string \<Rightarrow> stdio \<times> 'w \<Rightarrow> goerr option \<times> stdio \<times> 'w" where
  "handshake B label name sw =
     (case rpc B label ''initialize'' (client_info name) sw of
        (Inl e, sw1) \<Rightarrow> (Some (Errorf ''initialize %s backend: %w'' [FStr label, FErr (rpc_goerr label e)]), stop B sw1)
      | (Inr _, s1, w1) \<Rightarrow>
          (case bkWrite B initialized_doc w1 of
             (Some e, w2) \<Rightarrow> (Some (Errorf ''notify %s initialized: %w'' [FStr label, FErr e]), stop B (s1, w2))
           | (None, w2) \<Rightarrow> (None, s1, w2)))"

definition ensureStarted ::
  "'w backend \<Rightarrow> string list \<Rightarrow> string list \<Rightarrow> string \<Rightarrow> string \<Rightarrow> string \<Rightarrow> stdio \<times> 'w \<Rightarrow> goerr option \<times> stdio \<times> 'w" where
  "ensureStarted B argv env sg label name sw =
     (if soRunning (fst sw) \<and> soSig (fst sw) = sg then (None, sw)
      else case stop B sw of (s, w) \<Rightarrow>
        (case bkStart B argv env w of
           (StdinFails e, w1) \<Rightarrow> (Some (Errorf ''%s stdin: %w'' [FStr label, FErr e]), s, w1)
         | (StdoutFails e, w1) \<Rightarrow> (Some (Errorf ''%s stdout: %w'' [FStr label, FErr e]), s, w1)
         | (StartFails e, w1) \<Rightarrow> (Some (Errorf ''start %s backend: %w'' [FStr label, FErr e]), s, w1)
         | (Running, w1) \<Rightarrow> handshake B label name (\<lparr>soRunning = True, soNextID = 0, soSig = sg\<rparr>, w1)))"

subsection \<open>What a backend sees\<close>

text \<open>
  A monitor of the process: none, or one that has been sent requests up to a number. It is \<open>Broken\<close> by
  a second process beside the first, by stopping or writing without a process, and by a request that
  has not the next number. \<open>watched B\<close> is \<open>B\<close> with the monitor at its side.
\<close>

datatype monitor = Idle | Serving int | Broken

fun mon_start :: "monitor \<Rightarrow> monitor" where
  "mon_start Idle = Serving 0"
| "mon_start _ = Broken"

fun mon_stop :: "monitor \<Rightarrow> monitor" where
  "mon_stop (Serving n) = Idle"
| "mon_stop _ = Broken"

fun mon_request :: "int \<Rightarrow> monitor \<Rightarrow> monitor" where
  "mon_request i (Serving n) = (if i = (n + 1) mod 2 ^ 64 then Serving i else Broken)"
| "mon_request i _ = Broken"

fun mon_notify :: "monitor \<Rightarrow> monitor" where
  "mon_notify (Serving n) = Serving n"
| "mon_notify _ = Broken"

fun mon_write :: "json \<Rightarrow> monitor \<Rightarrow> monitor" where
  "mon_write (JObj ((k, JNum (JInt i)) # ms)) m = (if k = ''id'' then mon_request i m else mon_notify m)"
| "mon_write j m = mon_notify m"

definition watched :: "'w backend \<Rightarrow> ('w \<times> monitor) backend" where
  "watched B =
     \<lparr>bkStart = (\<lambda>argv env (w, m). case bkStart B argv env w of (st, w1) \<Rightarrow> (st, w1, if st = Running then mon_start m else m)),
      bkWrite = (\<lambda>j (w, m). case bkWrite B j w of (e, w1) \<Rightarrow> (e, w1, mon_write j m)),
      bkIncoming = (\<lambda>(w, m). bkIncoming B w),
      bkTake = (\<lambda>n (w, m). (bkTake B n w, m)),
      bkStop = (\<lambda>(w, m). (bkStop B w, mon_stop m))\<rparr>"

text \<open>The operations a client makes, one after the other under its mutex.\<close>

datatype client_op =
    Ensure "string list" "string list" string string string
  | Ask string string json
  | Close

fun client_step :: "'w backend \<Rightarrow> client_op \<Rightarrow> stdio \<times> 'w \<Rightarrow> stdio \<times> 'w" where
  "client_step B (Ensure argv env sg label name) sw = snd (ensureStarted B argv env sg label name sw)"
| "client_step B (Ask label m params) sw = snd (rpc B label m params sw)"
| "client_step B Close sw = stop B sw"

definition in_step :: "stdio \<times> 'w \<times> monitor \<Rightarrow> bool" where
  "in_step sw \<longleftrightarrow> snd (snd sw) = (if soRunning (fst sw) then Serving (soNextID (fst sw)) else Idle)"

subsection \<open>Lemmas\<close>

lemma stop_running [simp]: "soRunning (fst (stop B sw)) = False"
  by (simp add: stop_def)

lemma in_step_stop: "in_step sw \<Longrightarrow> in_step (stop (watched B) sw)"
  by (cases sw) (auto simp: in_step_def stop_def watched_def)

lemma mon_write_request: "mon_write (request_doc i m params) (Serving n) = mon_request i (Serving n)"
  by (simp add: request_doc_def)

lemma in_step_rpc:
  assumes "in_step sw"
  shows "in_step (snd (rpc (watched B) label m params sw))"
proof (cases "soRunning (fst sw)")
  case True
  obtain s w n where sw: "sw = (s, w, Serving n)" "n = soNextID s" "soRunning s"
    using assms True by (cases sw) (auto simp: in_step_def)
  let ?i = "(n + 1) mod 2 ^ 64"
  obtain e w1 where wr: "bkWrite B (request_doc ?i m params) w = (e, w1)"
    by (cases "bkWrite B (request_doc ?i m params) w")
  have wrote: "bkWrite (watched B) (request_doc ?i m params) (w, Serving n) = (e, w1, Serving ?i)"
    using wr by (simp add: watched_def mon_write_request)
  have keep: "in_step (s\<lparr>soNextID := ?i\<rparr>, bkTake (watched B) k (w1, Serving ?i))"
    "in_step (s\<lparr>soNextID := ?i\<rparr>, (w1, Serving ?i))" for k
    using sw(3) by (simp_all add: in_step_def watched_def)
  show ?thesis
    using sw wrote keep in_step_stop [OF keep(1)] in_step_stop [OF keep(2)]
    by (simp add: rpc_def Let_def split: option.split sum.split)
qed (simp add: rpc_def assms)

lemma in_step_notify:
  "in_step (s, w) \<Longrightarrow> soRunning s \<Longrightarrow> in_step (s, snd (bkWrite (watched B) initialized_doc w))"
  by (cases w) (auto simp: in_step_def watched_def initialized_doc_def split: prod.splits)

text \<open>An answer leaves the process running.\<close>

lemma rpc_answer_running: "rpc B label m params sw = (Inr r, sw') \<Longrightarrow> soRunning (fst sw')"
  by (auto simp: rpc_def Let_def split: if_splits prod.splits option.splits sum.splits)

lemma in_step_handshake:
  assumes "in_step sw"
  shows "in_step (snd (handshake (watched B) label name sw))"
proof -
  obtain x s1 w1 where r: "rpc (watched B) label ''initialize'' (client_info name) sw = (x, s1, w1)"
    by (cases "rpc (watched B) label ''initialize'' (client_info name) sw") auto
  have i: "in_step (s1, w1)" using in_step_rpc [OF assms, of B label "''initialize''" "client_info name"] r by simp
  show ?thesis
  proof (cases x)
    case (Inl e)
    then show ?thesis using in_step_stop [OF i] by (simp add: handshake_def r)
  next
    case (Inr d)
    obtain e w2 where wr: "bkWrite (watched B) initialized_doc w1 = (e, w2)" by (cases "bkWrite (watched B) initialized_doc w1")
    have "soRunning s1" using rpc_answer_running [of "watched B"] r Inr by fastforce
    then have "in_step (s1, w2)" using in_step_notify [OF i, of B] wr by simp
    then show ?thesis using in_step_stop [of "(s1, w2)"] by (simp add: handshake_def r Inr wr split: option.split)
  qed
qed

lemma in_step_ensure:
  assumes "in_step sw"
  shows "in_step (snd (ensureStarted (watched B) argv env sg label name sw))"
proof (cases "soRunning (fst sw) \<and> soSig (fst sw) = sg")
  case False
  obtain s w m where st: "stop (watched B) sw = (s, w, m)" by (cases "stop (watched B) sw")
  have i: "in_step (s, w, m)" "soRunning s = False"
    using in_step_stop [OF assms, of B] stop_running [of "watched B" sw] by (simp_all add: st)
  obtain d w1 where b: "bkStart B argv env w = (d, w1)" by (cases "bkStart B argv env w")
  have m: "m = Idle" using i by (simp add: in_step_def)
  have "in_step (\<lparr>soRunning = True, soNextID = 0, soSig = sg\<rparr>, w1, Serving 0)" by (simp add: in_step_def)
  then have h: "in_step (snd (handshake (watched B) label name (\<lparr>soRunning = True, soNextID = 0, soSig = sg\<rparr>, w1, Serving 0)))"
    by (rule in_step_handshake)
  have start: "bkStart (watched B) argv env (w, m) = (d, w1, if d = Running then Serving 0 else Idle)"
    using b m by (simp add: watched_def)
  have none: "in_step (s, w1, Idle)" using i(2) by (simp add: in_step_def)
  show ?thesis
    unfolding ensureStarted_def if_not_P [OF False] st using h none by (cases d) (simp_all add: start)
qed (simp add: ensureStarted_def assms)

lemma in_step_client: "in_step sw \<Longrightarrow> in_step (client_step (watched B) op sw)"
  by (cases op) (simp_all add: in_step_ensure in_step_rpc in_step_stop)

lemma in_step_fold: "in_step sw \<Longrightarrow> in_step (fold (client_step (watched B)) ops sw)"
  by (induction ops arbitrary: sw) (simp_all add: in_step_client)

lemma await_some:
  "await i ds n = Some (x, k) \<Longrightarrow> \<exists>pre d post. ds = pre @ d # post \<and> k = n + length pre + 1 \<and> decode_answer d = x \<and>
     (\<forall>p \<in> set pre. \<exists>r. decode_answer p = Inr r \<and> id_number (rsID r) \<noteq> Some i) \<and>
     (\<forall>r. x = Inr r \<longrightarrow> id_number (rsID r) = Some i)"
proof (induction ds arbitrary: n)
  case (Cons d ds)
  show ?case
  proof (cases "\<exists>r. decode_answer d = Inr r \<and> id_number (rsID r) \<noteq> Some i")
    case True
    then obtain r where r: "decode_answer d = Inr r" "id_number (rsID r) \<noteq> Some i" by blast
    then have "await i ds (Suc n) = Some (x, k)" using Cons.prems by simp
    from Cons.IH [OF this] obtain pre e post where "ds = pre @ e # post" "k = Suc n + length pre + 1" "decode_answer e = x"
      "\<forall>p \<in> set pre. \<exists>r. decode_answer p = Inr r \<and> id_number (rsID r) \<noteq> Some i"
      "\<forall>r. x = Inr r \<longrightarrow> id_number (rsID r) = Some i" by blast
    then show ?thesis using r by (intro exI [of _ "d # pre"] exI [of _ e] exI [of _ post]) simp
  next
    case False
    then have "x = decode_answer d \<and> k = Suc n \<and> (\<forall>r. x = Inr r \<longrightarrow> id_number (rsID r) = Some i)"
      using Cons.prems by (cases "decode_answer d") auto
    then show ?thesis by (intro exI [of _ "[]"] exI [of _ d] exI [of _ ds]) simp
  qed
qed simp

subsection \<open>Properties\<close>

text \<open>
  C25: in every sequence of operations a client has at most one process, which it stops before it starts
  another or loses sight of it, writes only while there is one, and numbers its requests to each
  process one after the other from 1: whatever the backend does, it is at the number of the client
  exactly while the client takes it for running.
\<close>

theorem one_process_in_step:
  "snd (snd (fold (client_step (watched B)) ops (stdio_zero, w, Idle))) =
    (let s = fst (fold (client_step (watched B)) ops (stdio_zero, w, Idle))
     in if soRunning s then Serving (soNextID s) else Idle)"
proof -
  have "in_step (stdio_zero, w, Idle)" by (simp add: in_step_def stdio_zero_def)
  from in_step_fold [OF this, of B ops] show ?thesis by (simp add: in_step_def Let_def)
qed

text \<open>
  C26: a request is answered by the first document the backend wrote after it that has its number;
  everything up to it has been read and nothing after it, so that the next request finds the rest.
\<close>

theorem answer_is_first_with_id:
  assumes "rpc B label m params (s, w) = (Inr r, s1, w1)"
  shows "\<exists>w0 pre d post a. bkWrite B (request_doc (soNextID s1) m params) w = (None, w0) \<and>
    soNextID s1 = (soNextID s + 1) mod 2 ^ 64 \<and> fst (bkIncoming B w0) = pre @ d # post \<and>
    decode_answer d = Inr a \<and> id_number (rsID a) = Some (soNextID s1) \<and> rsResult a = r \<and> rsError a = None \<and>
    (\<forall>p \<in> set pre. \<exists>x. decode_answer p = Inr x \<and> id_number (rsID x) \<noteq> Some (soNextID s1)) \<and>
    w1 = bkTake B (length pre + 1) w0"
proof -
  let ?i = "(soNextID s + 1) mod 2 ^ 64"
  obtain e w0 where wr: "bkWrite B (request_doc ?i m params) w = (e, w0)" by (cases "bkWrite B (request_doc ?i m params) w")
  obtain a n where aw: "await ?i (fst (bkIncoming B w0)) 0 = Some (Inr a, n)" and e: "e = None"
    and a: "rsError a = None" "rsResult a = r" "s1 = s\<lparr>soNextID := ?i\<rparr>" "w1 = bkTake B n w0"
    using assms wr by (auto simp: rpc_def Let_def split: if_splits option.splits sum.splits)
  from await_some [OF aw] obtain pre d post where "fst (bkIncoming B w0) = pre @ d # post" "n = 0 + length pre + 1"
    "decode_answer d = Inr a" "\<forall>p \<in> set pre. \<exists>x. decode_answer p = Inr x \<and> id_number (rsID x) \<noteq> Some ?i"
    "id_number (rsID a) = Some ?i" by blast
  then show ?thesis using wr e a by (intro exI [of _ w0] exI [of _ pre] exI [of _ d] exI [of _ post] exI [of _ a]) simp
qed

text \<open>
  C27: after a request that could not be written or answered the process is gone, and the next use is
  that of a new client: it starts a process, whatever the environment, and ends in the same way.
\<close>

theorem transport_failure_restarts:
  assumes "rpc B label m params sw = (Inl (Transport e), sw1)"
  shows "\<not> soRunning (fst sw1) \<and>
    fst (ensureStarted B argv env sg label' name sw1) = fst (ensureStarted B argv env sg label' name (stdio_zero, snd sw1)) \<and>
    snd (snd (ensureStarted B argv env sg label' name sw1)) =
      snd (snd (ensureStarted B argv env sg label' name (stdio_zero, snd sw1)))"
proof -
  obtain s w where sw1: "sw1 = (s, w)" by (cases sw1)
  have n: "soRunning s = False"
    using assms sw1 by (auto simp: rpc_def Let_def stop_def split: if_splits option.splits sum.splits prod.splits)
  then show ?thesis
    by (simp add: sw1 ensureStarted_def stop_def stdio_zero_def split: started.split prod.split)
qed

text \<open>
  A request of the backend itself, as \<open>ping\<close>, with the number of the pending request is taken for its
  answer, an answer without a result: the member \<open>method\<close> is not looked at.
\<close>

lemma backend_request_taken:
  assumes "soRunning s" and "bkWrite B (request_doc ((soNextID s + 1) mod 2 ^ 64) m params) w = (None, w0)"
    and "fst (bkIncoming B w0) =
      RawDoc (JObj [(''id'', JNum (JInt ((soNextID s + 1) mod 2 ^ 64))), (''method'', JStr ''ping'')]) # docs"
  shows "fst (rpc B label m params (s, w)) = Inr None"
proof -
  have d: "decode_answer (RawDoc (JObj [(''id'', JNum (JInt i)), (''method'', JStr ''ping'')])) =
      Inr \<lparr>rsID = Some (JNum (JInt i)), rsResult = None, rsError = None\<rparr>" for i
    by (simp add: decode_answer_def dec_field_def field_values_def key_matches_def less_eq_char_def upper_char_def between_def)
  show ?thesis using assms by (simp add: rpc_def Let_def d id_number_def)
qed

subsection \<open>Witnesses\<close>

text \<open>A backend that answers every request, after a message of its own; the state is the last number.\<close>

definition sample_backend :: "int backend" where
  "sample_backend =
     \<lparr>bkStart = (\<lambda>argv env w. (Running, 0)), bkWrite = (\<lambda>j w. (None, w + 1)),
      bkIncoming = (\<lambda>w. ([RawDoc (JObj [(''method'', JStr ''progress'')]),
                          RawDoc (JObj [(''id'', JNum (JInt w)), (''result'', JBool True)])], Cancelled ErrNotExist)),
      bkTake = (\<lambda>n w. w), bkStop = (\<lambda>w. w)\<rparr>"

definition sample_running :: stdio where
  "sample_running = \<lparr>soRunning = True, soNextID = 4, soSig = ''x''\<rparr>"

theorem answer_is_first_with_id_witness:
  "\<exists>pre d post a. fst (bkIncoming sample_backend 5) = pre @ d # post \<and> decode_answer d = Inr a \<and>
     id_number (rsID a) = Some 5 \<and> rsResult a = Some (JBool True)"
proof -
  have r: "rpc sample_backend ''b'' ''m'' JNull (sample_running, 4) = (Inr (Some (JBool True)), sample_running\<lparr>soNextID := 5\<rparr>, 5)"
    by code_simp
  have wr: "bkWrite sample_backend j 4 = (None, w0) \<Longrightarrow> w0 = 5" for j w0 by (simp add: sample_backend_def)
  show ?thesis using answer_is_first_with_id [OF r] wr by fastforce
qed

theorem transport_failure_restarts_witness:
  "\<not> soRunning (fst (snd (rpc sample_backend ''b'' ''m'' JNull (sample_running, 7))))"
proof -
  have "rpc sample_backend ''b'' ''m'' JNull (sample_running, 7) =
      (Inl (Transport ErrNotExist), sample_running\<lparr>soRunning := False, soNextID := 5, soSig := []\<rparr>, 8)"
    by code_simp
  from transport_failure_restarts [OF this] show ?thesis
    by (simp add: \<open>rpc sample_backend ''b'' ''m'' JNull (sample_running, 7) = _\<close>)
qed

end
