(* ===== verification/AnyApp.thy ===== *)
theory AnyApp
  imports StdioMcp Desktop Plugins Policy
begin

section \<open>Any App: the tools of a desktop backend (internal/tools/anyapp_linux.go)\<close>

text \<open>
  The tools of \<open>codex-computer-use-linux\<close> are asked for once and registered with the prefix \<open>anyapp_\<close>; a
  call goes to a backend that is started for it (\<open>StdioMcp\<close>), with the desktop environment of the moment
  or that of the isolated compositor. The state is that of the client and of the world. Parameters:
  \<open>anParse\<close> reads a text as JSON, \<open>anNum\<close> a number as a \<open>float64\<close> (in schemas only: calls keep the
  literals), \<open>anFile\<close> gives the size and the time of a file.
\<close>

record 'v any_env =
  anBackend :: "'v backend"
  anDesk :: "'v dk_env"
  anBinary :: string
  anParse :: "string \<Rightarrow> raw"
  anNum :: "jnum \<Rightarrow> jnum option"
  anFile :: "'v \<Rightarrow> string \<Rightarrow> (int \<times> int) res"

subsection \<open>The backend's program\<close>

definition executable_file :: "'v dk_env \<Rightarrow> 'v \<Rightarrow> string \<Rightarrow> bool" where
  "executable_file E w p = (case dkStat E w p of Inr st \<Rightarrow> \<not> fiDir st \<and> fiExec st | Inl _ \<Rightarrow> False)"

definition backend_candidates :: "'v dk_env \<Rightarrow> string list" where
  "backend_candidates E =
     (let p = trim_space (dkGetenv E ''CYCOM_ANYAPP_BACKEND'') in if p \<noteq> [] then [p] else []) @
     [''/usr/local/lib/cycomagent/computer-use/codex-computer-use-linux'',
      ''/opt/codex-desktop/resources/plugins/openai-bundled/plugins/computer-use/bin/codex-computer-use-linux'',
      ''/usr/lib/chatgpt/resources/plugins/openai-bundled/plugins/computer-use/bin/codex-computer-use-linux''] @
     (case dkLookPath E ''codex-computer-use-linux'' of Inr p \<Rightarrow> [p] | Inl _ \<Rightarrow> [])"

definition anyAppBackendPath :: "'v dk_env \<Rightarrow> 'v \<Rightarrow> string option" where
  "anyAppBackendPath E w = find (\<lambda>p. p \<noteq> [] \<and> executable_file E w p) (backend_candidates E)"

definition anyAppBackendBase :: "string \<Rightarrow> string" where
  "anyAppBackendBase p = (if p = [] then [] else clean p)"

subsection \<open>Its environment\<close>

definition isolated_settings :: "string \<Rightarrow> string \<Rightarrow> string \<Rightarrow> string \<Rightarrow> string gomap" where
  "isolated_settings home dir display path =
     [(''WAYLAND_DISPLAY'', display), (''XDG_RUNTIME_DIR'', dir), (''XDG_SESSION_TYPE'', ''wayland''),
      (''XDG_CURRENT_DESKTOP'', ''labwc-ai''), (''XDG_SESSION_DESKTOP'', ''labwc-ai''), (''DESKTOP_SESSION'', ''labwc-ai''),
      (''CYCOM_ANYAPP_ISOLATED'', ''1''), (''CYCOM_WLR_POINTER_SOCKET'', path_join [dir, ''cycom-ai-pointer.sock'']),
      (''CYCOM_HEADLESS_WIDTH'', ''1280''), (''CYCOM_HEADLESS_HEIGHT'', ''720''),
      (''PATH'', path_join [home, ''.local'', ''lib'', ''cycomagent'', ''headless-bin''] @ '':'' @
                 path_join [home, ''.local'', ''bin''] @ '':'' @ path),
      (''COMPUTER_USE_LINUX_FORCE_YDOTOOL_POINTER'', ''1''), (''CODEX_COMPUTER_USE_FORCE_YDOTOOL_POINTER'', ''1''),
      (''CU_DISABLE_ABS_POINTER'', ''1''), (''CODEX_COMPUTER_USE_DISABLE_ABS_POINTER'', ''1'')]"

text \<open>The search path: of the environment, of the process, or a default.\<close>

definition search_path :: "'v dk_env \<Rightarrow> string list \<Rightarrow> string" where
  "search_path E env =
     (let p1 = (case find (\<lambda>e. has_prefix e ''PATH='') env of Some e \<Rightarrow> trim_prefix e ''PATH='' | None \<Rightarrow> []);
          p2 = (if p1 = [] then dkGetenv E ''PATH'' else p1)
      in if p2 = [] then ''/usr/local/sbin:/usr/local/bin:/usr/bin'' else p2)"

text \<open>The name an entry sets, when it sets one.\<close>

definition entry_name :: "string \<Rightarrow> string option" where
  "entry_name e =
     (case index_byte e (CHR ''='') of Some i \<Rightarrow> if 0 < i then Some (take i e) else None | None \<Rightarrow> None)"

definition replaced_entry :: "string gomap \<Rightarrow> string \<Rightarrow> string list" where
  "replaced_entry m e =
     (case entry_name e of
        None \<Rightarrow> []
      | Some k \<Rightarrow>
          if k = ''DISPLAY'' then []
          else (case gm_get m k of Some v \<Rightarrow> [k @ ''='' @ v] | None \<Rightarrow> [e]))"

definition with_settings :: "string gomap \<Rightarrow> string list \<Rightarrow> string list" where
  "with_settings m env =
     concat (map (replaced_entry m) env) @
     map (\<lambda>(k, v). k @ ''='' @ v) (filter (\<lambda>(k, v). Some k \<notin> set (map entry_name env)) m)"

text \<open>The isolated display, when its socket is there.\<close>

definition live_display :: "'v dk_env \<Rightarrow> 'v \<Rightarrow> (string \<times> string) option" where
  "live_display E w =
     (case dkHome E of
        Inl _ \<Rightarrow> None
      | Inr home \<Rightarrow>
          if home = [] then None
          else (case dkRead E w (path_join [home, ''.local'', ''state'', ''cycom-ai-desktop'', ''wayland-display'']) of
                  Inl _ \<Rightarrow> None
                | Inr d \<Rightarrow>
                    let display = trim_space d
                    in if display \<noteq> [] \<and> socket_at E w (path_join [user_runtime_dir (dkUid E), display])
                       then Some (home, display) else None))"

definition anyAppIsolatedDesktopEnv :: "'v dk_env \<Rightarrow> 'v \<Rightarrow> string list \<Rightarrow> string list" where
  "anyAppIsolatedDesktopEnv E w env =
     (case live_display E w of
        None \<Rightarrow> env
      | Some (home, display) \<Rightarrow>
          with_settings (isolated_settings home (user_runtime_dir (dkUid E)) display (search_path E env)) env)"

definition signature_names :: "string list" where
  "signature_names = [''DISPLAY'', ''WAYLAND_DISPLAY'', ''XDG_RUNTIME_DIR'', ''DBUS_SESSION_BUS_ADDRESS'', ''XAUTHORITY'',
     ''XDG_CURRENT_DESKTOP'', ''XDG_SESSION_TYPE'', ''CYCOM_ANYAPP_ISOLATED'', ''CYCOM_WLR_POINTER_SOCKET'', ''PATH'']"

definition anyAppDesktopEnvSignature :: "string list \<Rightarrow> string" where
  "anyAppDesktopEnvSignature env =
     GoStrings.join [CHR 0x00]
       (sort (filter (\<lambda>e. case entry_name e of Some k \<Rightarrow> k \<in> set signature_names | None \<Rightarrow> False) env))"

definition anyAppBinaryFingerprint :: "'v any_env \<Rightarrow> 'v \<Rightarrow> string" where
  "anyAppBinaryFingerprint A w =
     (case anFile A w (anBinary A) of
        Inl _ \<Rightarrow> ''missing''
      | Inr (bytes, nanos) \<Rightarrow> itoa bytes @ '':'' @ itoa nanos)"

definition any_ensure :: "'v any_env \<Rightarrow> stdio \<times> 'v \<Rightarrow> goerr option \<times> stdio \<times> 'v" where
  "any_ensure A sw =
     (let w = snd sw;
          env = anyAppIsolatedDesktopEnv (anDesk A) w (desktopEnvironment (anDesk A) w);
          sg = anyAppDesktopEnvSignature env @ [CHR 0x00] @ anyAppBinaryFingerprint A w
      in ensureStarted (anBackend A) [anBinary A, ''mcp''] env sg ''Any App'' ''CyComAgent-AnyApp'' sw)"

text \<open>Errors of the protocol become plain errors.\<close>

definition any_rpc :: "'v any_env \<Rightarrow> string \<Rightarrow> json \<Rightarrow> stdio \<times> 'v \<Rightarrow> json option res \<times> stdio \<times> 'v" where
  "any_rpc A m params sw =
     (case rpc (anBackend A) ''Any App'' m params sw of
        (Inr r, sw1) \<Rightarrow> (Inr r, sw1)
      | (Inl (Transport e), sw1) \<Rightarrow> (Inl e, sw1)
      | (Inl (Upstream m' u), sw1) \<Rightarrow>
          (Inl (Errorf ''Any App RPC %s failed (%d): %s'' [FStr m, FInt (upCode u), FStr (upMessage u)]), sw1))"

subsection \<open>Calls\<close>

text \<open>\<open>decodeAnyAppJSON\<close> into \<open>any\<close>: numbers keep their literal, objects are sorted when they are written.\<close>

fun decodeAnyAppJSON :: "raw \<Rightarrow> json res" where
  "decodeAnyAppJSON (RawDoc v) = (case any_value Some v of Some v' \<Rightarrow> Inr v' | None \<Rightarrow> Inl json_err)"
| "decodeAnyAppJSON RawEmpty = Inl (ErrOS ''EOF'')"
| "decodeAnyAppJSON (RawBad _) = Inl json_err"

text \<open>
  \<open>content\<close> is decoded into the list a member of the same name left before: its elements are used again, an
  object adds its members to the map that is there, and \<open>null\<close> empties a map or the list.
\<close>

fun content_item :: "json \<Rightarrow> json gomap \<Rightarrow> json gomap option" where
  "content_item (JObj ms) old = map_option (\<lambda>ms'. fold (\<lambda>(k, v). gm_put k v) ms' old) (any_members Some ms)"
| "content_item JNull old = Some []"
| "content_item _ old = None"

fun content_items :: "json list \<Rightarrow> json gomap list \<Rightarrow> json gomap list option" where
  "content_items [] old = Some []"
| "content_items (v # vs) old =
     (case content_item v (case old of [] \<Rightarrow> [] | m # _ \<Rightarrow> m) of
        None \<Rightarrow> None
      | Some c \<Rightarrow> map_option (Cons c) (content_items vs (drop 1 old)))"

fun set_content :: "json \<Rightarrow> json gomap list \<Rightarrow> json gomap list option" where
  "set_content (JArr vs) old = content_items vs old"
| "set_content JNull old = Some []"
| "set_content _ old = None"

fun set_any :: "json \<Rightarrow> json \<Rightarrow> json option" where
  "set_any v old = any_value Some v"

record call_answer =
  caContent :: "json gomap list"
  caStructured :: json
  caIsError :: bool

definition decode_call :: "json option \<Rightarrow> call_answer res" where
  "decode_call r =
     (case stream_members (case r of Some v \<Rightarrow> RawDoc v | None \<Rightarrow> RawEmpty) of
        Inl e \<Rightarrow> Inl e
      | Inr ms \<Rightarrow>
          let (c, e1) = dec_field set_content [] ''content'' ms;
              (s, e2) = dec_field set_any JNull ''structuredContent'' ms;
              (b, e3) = dec_field set_bool False ''isError'' ms
          in if e1 \<or> e2 \<or> e3 then Inl json_err else Inr \<lparr>caContent = c, caStructured = s, caIsError = b\<rparr>)"

definition item_text :: "json gomap \<Rightarrow> string option" where
  "item_text c =
     (case (gm_get c ''type'', gm_get c ''text'') of
        (Some (JStr t), Some (JStr s)) \<Rightarrow> if t = ''text'' \<and> trim_space s \<noteq> [] then Some s else None
      | _ \<Rightarrow> None)"

text \<open>The last text of the content that is JSON.\<close>

fun structured_of :: "(string \<Rightarrow> raw) \<Rightarrow> json gomap list \<Rightarrow> json" where
  "structured_of parse [] = JNull"
| "structured_of parse (c # cs) =
     (case item_text c of
        None \<Rightarrow> structured_of parse cs
      | Some s \<Rightarrow> (case decodeAnyAppJSON (parse s) of Inr v \<Rightarrow> v | Inl _ \<Rightarrow> structured_of parse cs))"

definition anyAppStructuredFromContent :: "(string \<Rightarrow> raw) \<Rightarrow> json gomap list \<Rightarrow> json" where
  "anyAppStructuredFromContent parse content = structured_of parse (rev content)"

fun anyAppContentError :: "json gomap list \<Rightarrow> string" where
  "anyAppContentError [] = ''Any App backend returned an MCP tool error''"
| "anyAppContentError (c # cs) = (case item_text c of Some s \<Rightarrow> s | None \<Rightarrow> anyAppContentError cs)"

definition call_value :: "(string \<Rightarrow> raw) \<Rightarrow> string \<Rightarrow> call_answer \<Rightarrow> tool_value" where
  "call_value parse name a =
     (let s1 = (if caStructured a = JNull then anyAppStructuredFromContent parse (caContent a) else caStructured a);
          s2 = (if s1 = JNull
                then JObj [(''backend'', JStr ''codex-computer-use-linux''), (''ok'', JBool True), (''tool'', JStr name)]
                else s1)
      in Rich \<lparr>rrStructured = s2, rrContent = map (\<lambda>c. JObj (gm_sorted c)) (caContent a), rrIsError = False,
               rrContentPresent = False, rrStructuredPresent = False, rrExtra = []\<rparr>)"

definition callTool :: "'v any_env \<Rightarrow> string \<Rightarrow> raw \<Rightarrow> stdio \<times> 'v \<Rightarrow> tool_value res \<times> stdio \<times> 'v" where
  "callTool A name args sw =
     (case decodeAnyAppJSON (case args of RawEmpty \<Rightarrow> RawDoc (JObj []) | RawDoc JNull \<Rightarrow> RawDoc (JObj []) | _ \<Rightarrow> args) of
        Inl e \<Rightarrow> (Inl (Errorf ''decode Any App arguments: %w'' [FErr e]), sw)
      | Inr v \<Rightarrow>
          (case any_ensure A sw of
             (Some e, sw1) \<Rightarrow> (Inl e, sw1)
           | (None, sw1) \<Rightarrow>
               (case any_rpc A ''tools/call'' (JObj [(''arguments'', v), (''name'', JStr name)]) sw1 of
                  (Inl e, sw2) \<Rightarrow> (Inl e, sw2)
                | (Inr r, sw2) \<Rightarrow>
                    ((case decode_call r of
                        Inl e \<Rightarrow> Inl (Errorf ''decode Any App tool result: %w'' [FErr e])
                      | Inr a \<Rightarrow> if caIsError a then Inl (err_new (anyAppContentError (caContent a)))
                                 else Inr (call_value (anParse A) name a)), sw2))))"

subsection \<open>Discovery and registration\<close>

record any_spec =
  asName :: string
  asTitle :: string
  asDescription :: string
  asInputSchema :: "schema option"
  asOutputSchema :: "schema option"
  asAnnotations :: "schema option"

fun decode_spec :: "(jnum \<Rightarrow> jnum option) \<Rightarrow> json \<Rightarrow> any_spec option" where
  "decode_spec num (JObj ms) =
     (let (n, e1) = dec_field set_str [] ''name'' ms;
          (t, e2) = dec_field set_str [] ''title'' ms;
          (d, e3) = dec_field set_str [] ''description'' ms;
          (i, e4) = dec_field (set_schema num) None ''inputSchema'' ms;
          (u, e5) = dec_field (set_schema num) None ''outputSchema'' ms;
          (a, e6) = dec_field (set_schema num) None ''annotations'' ms
      in if e1 \<or> e2 \<or> e3 \<or> e4 \<or> e5 \<or> e6 then None
         else Some \<lparr>asName = n, asTitle = t, asDescription = d, asInputSchema = i, asOutputSchema = u, asAnnotations = a\<rparr>)"
| "decode_spec num JNull =
     Some \<lparr>asName = [], asTitle = [], asDescription = [], asInputSchema = None, asOutputSchema = None, asAnnotations = None\<rparr>"
| "decode_spec num _ = None"

fun decode_specs :: "(jnum \<Rightarrow> jnum option) \<Rightarrow> json list \<Rightarrow> any_spec list option" where
  "decode_specs num [] = Some []"
| "decode_specs num (v # vs) =
     (case decode_spec num v of None \<Rightarrow> None | Some s \<Rightarrow> map_option (Cons s) (decode_specs num vs))"

fun set_specs :: "(jnum \<Rightarrow> jnum option) \<Rightarrow> json \<Rightarrow> any_spec list \<Rightarrow> any_spec list option" where
  "set_specs num (JArr vs) old = decode_specs num vs"
| "set_specs num JNull old = Some []"
| "set_specs num _ old = None"

definition decode_listed :: "(jnum \<Rightarrow> jnum option) \<Rightarrow> json option \<Rightarrow> any_spec list res" where
  "decode_listed num r =
     (case stream_members (case r of Some v \<Rightarrow> RawDoc v | None \<Rightarrow> RawEmpty) of
        Inl e \<Rightarrow> Inl (Errorf ''decode Any App tools/list: %w'' [FErr e])
      | Inr ms \<Rightarrow>
          let (l, e) = dec_field (set_specs num) [] ''tools'' ms
          in if e then Inl (Errorf ''decode Any App tools/list: %w'' [FErr json_err]) else Inr (sort_key asName l))"

text \<open>A client of its own asks for the tools; its process is stopped at the end.\<close>

definition discoverAnyAppTools :: "'v any_env \<Rightarrow> 'v \<Rightarrow> any_spec list res \<times> 'v" where
  "discoverAnyAppTools A w =
     (case any_ensure A (stdio_zero, w) of
        (Some e, sw1) \<Rightarrow> (Inl e, snd sw1)
      | (None, sw1) \<Rightarrow>
          (case any_rpc A ''tools/list'' (JObj []) sw1 of
             (Inl e, sw2) \<Rightarrow> (Inl e, snd (stop (anBackend A) sw2))
           | (Inr r, sw2) \<Rightarrow> (decode_listed (anNum A) r, snd (stop (anBackend A) sw2))))"

definition any_tool :: "'v any_env \<Rightarrow> any_spec \<Rightarrow> (stdio \<times> 'v) tool" where
  "any_tool A s =
     \<lparr>tName = ''anyapp_'' @ asName s, tTitle = asTitle s,
      tDescription = (if asDescription s = [] then ''Any App (Linux) tool backed by codex-computer-use-linux.''
                      else ''Any App (Linux): '' @ asDescription s),
      tInputSchema = (case asInputSchema s of None \<Rightarrow> Some (ObjectSchema None []) | Some m \<Rightarrow> Some m),
      tOutputSchema = asOutputSchema s, tAnnotations = (case asAnnotations s of None \<Rightarrow> [] | Some m \<Rightarrow> m),
      tHandler = Some (callTool A (asName s)), tSource = ''core:anyapp''\<rparr>"

fun add_specs :: "'v any_env \<Rightarrow> any_spec list \<Rightarrow> (stdio \<times> 'v) registry \<Rightarrow> (stdio \<times> 'v) registry" where
  "add_specs A [] r = r"
| "add_specs A (s # ss) r =
     (if asName s = [] then add_specs A ss r
      else (case Add (any_tool A s) r of Inl _ \<Rightarrow> add_specs A ss r | Inr r1 \<Rightarrow> add_specs A ss r1))"

definition registerAnyApp ::
  "'v any_env \<Rightarrow> 'v \<Rightarrow> (stdio \<times> 'v) registry \<Rightarrow> (stdio \<times> 'v) registry \<times> 'v" where
  "registerAnyApp A w r =
     (case anyAppBackendPath (anDesk A) w of
        None \<Rightarrow> (r, w)
      | Some p \<Rightarrow>
          (case discoverAnyAppTools (A\<lparr>anBinary := p\<rparr>) w of
             (Inl _, w1) \<Rightarrow> (r, w1)
           | (Inr specs, w1) \<Rightarrow> (add_specs (A\<lparr>anBinary := p\<rparr>) specs r, w1)))"

definition anyAppToolPrefixCount :: "'w registry \<Rightarrow> nat" where
  "anyAppToolPrefixCount r = length (filter (\<lambda>t. has_prefix (tName t) ''anyapp_'') (List_tools r))"

subsection \<open>Lemmas\<close>

lemma entry_name_iff: "env_key k \<Longrightarrow> entry_name e = Some k \<longleftrightarrow> has_prefix e (k @ ''='')"
  by (auto simp: env_prefix_index entry_name_def env_key_def dest: index_byte_Some split: option.splits)

lemma entry_name_key: "entry_name e = Some k \<Longrightarrow> env_key k"
  by (auto simp: entry_name_def env_key_def dest: index_byte_Some split: option.splits if_splits)

lemma settings_names:
  "gm_get (isolated_settings home dir display path) k = Some v \<Longrightarrow> env_key k \<and> k \<noteq> ''DISPLAY''"
proof -
  have "list_all (\<lambda>k. env_key k \<and> k \<noteq> ''DISPLAY'') (map fst (isolated_settings home dir display path))"
    by (simp add: isolated_settings_def env_key_def)
  then show "gm_get (isolated_settings home dir display path) k = Some v \<Longrightarrow> env_key k \<and> k \<noteq> ''DISPLAY''"
    using gm_get_mem [of _ k v] by (fastforce simp: list_all_iff)
qed

lemma settings_ok: "gm_ok (isolated_settings home dir display path)"
  by (simp add: gm_ok_def isolated_settings_def)

lemma with_settings_entry:
  assumes "gm_ok m" and "gm_get m k = Some v" and "\<And>k v. gm_get m k = Some v \<Longrightarrow> env_key k \<and> k \<noteq> ''DISPLAY''"
  shows "{e \<in> set (with_settings m env). has_prefix e (k @ ''='')} = {k @ ''='' @ v}"
proof (intro equalityI subsetI)
  note key = assms(3) [OF assms(2)]
  fix e assume e: "e \<in> {e \<in> set (with_settings m env). has_prefix e (k @ ''='')}"
  then consider (old) e0 where "e0 \<in> set env" "e \<in> set (replaced_entry m e0)"
    | (new) k0 v0 where "(k0, v0) \<in> set m" "e = k0 @ CHR ''='' # v0"
    by (auto simp: with_settings_def)
  then show "e \<in> {k @ ''='' @ v}"
  proof cases
    case old
    then obtain k0 where k0: "entry_name e0 = Some k0" by (cases "entry_name e0") (auto simp: replaced_entry_def)
    show ?thesis
    proof (cases "gm_get m k0")
      case None
      then have "e = e0" using old(2) k0 by (auto simp: replaced_entry_def split: if_splits)
      then have "k0 = k" using e k0 key entry_name_iff [of k e] by auto
      with None assms(2) show ?thesis by simp
    next
      case (Some v0)
      then have "e = k0 @ CHR ''='' # v0" using old(2) k0 by (auto simp: replaced_entry_def split: if_splits)
      then show ?thesis using e key entry_key [OF _ entry_name_key [OF k0], of k v0] Some assms(2) by auto
    qed
  next
    case new
    then have g: "gm_get m k0 = Some v0" using gm_mem_get [OF assms(1)] by simp
    then have "k0 = k" using new e key entry_key [of k k0 v0] assms(3) by auto
    then show ?thesis using new g assms(2) by simp
  qed
next
  note key = assms(3) [OF assms(2)]
  fix e assume "e \<in> {k @ ''='' @ v}"
  then have e: "e = k @ CHR ''='' # v" by simp
  have "e \<in> set (with_settings m env)"
  proof (cases "Some k \<in> set (map entry_name env)")
    case True
    then obtain e0 where e0: "e0 \<in> set env" "entry_name e0 = Some k" by auto
    then have "e \<in> set (replaced_entry m e0)" using key assms(2) by (simp add: replaced_entry_def e)
    with e0(1) show ?thesis by (auto simp: with_settings_def)
  next
    case False
    then show ?thesis using gm_get_mem [OF assms(2)] by (auto simp: with_settings_def e)
  qed
  then show "e \<in> {e \<in> set (with_settings m env). has_prefix e (k @ ''='')}"
    using entry_key [of k k v] key by (simp add: e)
qed

lemma with_settings_display:
  assumes "gm_get m ''DISPLAY'' = None" and "\<And>k v. gm_get m k = Some v \<Longrightarrow> env_key k \<and> k \<noteq> ''DISPLAY''" and "gm_ok m"
  shows "filter (\<lambda>e. has_prefix e ''DISPLAY='') (with_settings m env) = []"
proof -
  have k: "has_prefix e (''DISPLAY'' @ ''='') \<longleftrightarrow> entry_name e = Some ''DISPLAY''" for e
    using entry_name_iff [OF desktop_names(1)] by simp
  have "\<not> has_prefix e (''DISPLAY'' @ ''='')" if mem: "e \<in> set (replaced_entry m e0)" for e e0
  proof
    assume p: "has_prefix e (''DISPLAY'' @ ''='')"
    obtain k0 where k0: "entry_name e0 = Some k0" "k0 \<noteq> ''DISPLAY''"
      using mem by (cases "entry_name e0") (auto simp: replaced_entry_def split: if_splits)
    show False
    proof (cases "gm_get m k0")
      case None
      then have "e = e0" using mem k0 by (simp add: replaced_entry_def)
      then show False using p k0 unfolding k by simp
    next
      case (Some v0)
      then have "e = k0 @ CHR ''='' # v0" using mem k0 by (simp add: replaced_entry_def)
      then show False using p k0 entry_key [OF desktop_names(1) entry_name_key [OF k0(1)], of v0] by simp
    qed
  qed
  moreover have "\<not> has_prefix (k0 @ CHR ''='' # v0) (''DISPLAY'' @ ''='')" if "(k0, v0) \<in> set m" for k0 v0
    using that gm_mem_get [OF assms(3), of k0 v0] assms(2) [of k0 v0] entry_key [OF desktop_names(1), of k0 v0] by auto
  ultimately show ?thesis by (fastforce simp: filter_empty_conv with_settings_def)
qed

text \<open>The tools of a backend are added behind the others.\<close>

lemma add_specs_appends:
  "\<exists>new. rTools (add_specs A ss r) = rTools r @ new \<and> rInterceptors (add_specs A ss r) = rInterceptors r \<and>
     list_all (\<lambda>(k, t). has_prefix k ''anyapp_'' \<and> tSource t = ''core:anyapp'' \<and>
       (\<exists>s \<in> set ss. k = ''anyapp_'' @ asName s \<and> tHandler t = Some (callTool A (asName s)))) new"
proof (induction ss arbitrary: r)
  case (Cons s ss)
  show ?case
  proof (cases "asName s = [] \<or> \<not> is_ok (Add (any_tool A s) r)")
    case True
    then have "add_specs A (s # ss) r = add_specs A ss r" by (auto simp: not_is_ok_iff)
    then show ?thesis using Cons.IH [of r] by (fastforce simp: list_all_iff)
  next
    case False
    then obtain r1 where r1: "Add (any_tool A s) r = Inr r1" "asName s \<noteq> []" by (auto simp: is_ok_iff)
    from Add_appends [OF r1(1)] obtain t where t: "rTools r1 = rTools r @ [(''anyapp_'' @ asName s, t)]"
      "tSource t = ''core:anyapp''" "tHandler t = Some (callTool A (asName s))" "rInterceptors r1 = rInterceptors r"
      by (auto simp: any_tool_def)
    from Cons.IH [of r1] obtain new where new: "rTools (add_specs A ss r1) = rTools r1 @ new"
      "rInterceptors (add_specs A ss r1) = rInterceptors r1"
      "list_all (\<lambda>(k, t). has_prefix k ''anyapp_'' \<and> tSource t = ''core:anyapp'' \<and>
        (\<exists>s \<in> set ss. k = ''anyapp_'' @ asName s \<and> tHandler t = Some (callTool A (asName s)))) new" by blast
    have "has_prefix (''anyapp_'' @ asName s) ''anyapp_''" by (rule has_prefix_append)
    then show ?thesis using r1 t new by (intro exI [of _ "(''anyapp_'' @ asName s, t) # new"]) (auto simp: list_all_iff)
  qed
qed simp

subsection \<open>Properties\<close>

text \<open>
  C28: when the isolated display is there, a backend gets an environment without an X display in which
  every setting of the isolated desktop has its value and no other, whatever was inherited; its search
  path begins with the directory of the shim that replaces \<open>ydotool\<close>.
\<close>

theorem isolated_backend_environment:
  assumes "live_display E w = Some (home, display)"
    and "(k, v) \<in> set (isolated_settings home (user_runtime_dir (dkUid E)) display (search_path E env))"
  shows "{e \<in> set (anyAppIsolatedDesktopEnv E w env). has_prefix e (k @ ''='')} = {k @ ''='' @ v} \<and>
    filter (\<lambda>e. has_prefix e ''DISPLAY='') (anyAppIsolatedDesktopEnv E w env) = []"
proof -
  let ?m = "isolated_settings home (user_runtime_dir (dkUid E)) display (search_path E env)"
  have out: "anyAppIsolatedDesktopEnv E w env = with_settings ?m env"
    using assms(1) by (simp add: anyAppIsolatedDesktopEnv_def)
  have get: "gm_get ?m k = Some v" using assms(2) gm_mem_get [OF settings_ok] by blast
  have "gm_get ?m ''DISPLAY'' = None"
    using settings_names [of home "user_runtime_dir (dkUid E)" display "search_path E env" "''DISPLAY''"]
    by (cases "gm_get ?m ''DISPLAY''") auto
  then have none: "filter (\<lambda>e. has_prefix e ''DISPLAY='') (with_settings ?m env) = []"
    by (rule with_settings_display [OF _ settings_names settings_ok])
  have "{e \<in> set (with_settings ?m env). has_prefix e (k @ ''='')} = {k @ ''='' @ v}"
    by (rule with_settings_entry [OF settings_ok get settings_names])
  with none show ?thesis unfolding out by simp
qed

text \<open>
  Safe mode, which refuses \<open>desktop_input\<close>, lets every tool of the desktop backend through: their
  names are not in the list of the tools of high impact.
\<close>

theorem anyapp_escapes_safe_mode:
  assumes "cMode c = ''safe''" and "cDenyTools c = []" and "cAllowTools c = []" and "ms = [(''reason'', JStr r)]"
  shows "BeforeCall a c (''anyapp_'' @ name) (RawDoc (JObj ms)) = None \<and>
    BeforeCall a c ''desktop_input'' (RawDoc (JObj ms)) \<noteq> None"
proof
  have "list_all (\<lambda>t. \<not> has_prefix t ''anyapp_'') (high_impact @ sensitive_android)" by code_simp
  moreover have "has_prefix (''anyapp_'' @ name) ''anyapp_''" by (rule has_prefix_append)
  ultimately have "''anyapp_'' @ name \<notin> set high_impact" "''anyapp_'' @ name \<notin> set sensitive_android"
    unfolding list_all_iff set_append by blast+
  then show "BeforeCall a c (''anyapp_'' @ name) (RawDoc (JObj ms)) = None"
    using assms
    by (auto simp: BeforeCall_def check_args_def check_method_def policy_args_def map_at_def gm_get_of Let_def
        isHighImpact_def isSensitiveAndroid_def)
  have "isHighImpact ''desktop_input''" by code_simp
  then show "BeforeCall a c ''desktop_input'' (RawDoc (JObj ms)) \<noteq> None"
    using assms by (simp add: BeforeCall_def)
qed

text \<open>
  Registering the tools of the backend leaves the tools that were there and what is in front of
  them as they are, and every tool it adds has the prefix and goes to the backend under its own name.
\<close>

theorem anyapp_only_adds:
  "\<exists>new B. rTools (fst (registerAnyApp A w r)) = rTools r @ new \<and>
     rInterceptors (fst (registerAnyApp A w r)) = rInterceptors r \<and>
     list_all (\<lambda>(k, t). \<exists>n. k = ''anyapp_'' @ n \<and> tSource t = ''core:anyapp'' \<and> tHandler t = Some (callTool B n)) new"
proof (cases "anyAppBackendPath (anDesk A) w")
  case None
  then show ?thesis by (simp add: registerAnyApp_def)
next
  case (Some p)
  let ?A = "A\<lparr>anBinary := p\<rparr>"
  obtain d w1 where d: "discoverAnyAppTools ?A w = (d, w1)" by (cases "discoverAnyAppTools ?A w")
  show ?thesis
  proof (cases d)
    case (Inl e)
    then show ?thesis by (intro exI [of _ "[]"]) (simp add: registerAnyApp_def Some d)
  next
    case (Inr specs)
    from add_specs_appends [of ?A specs r] obtain new where "rTools (add_specs ?A specs r) = rTools r @ new"
      "rInterceptors (add_specs ?A specs r) = rInterceptors r"
      "list_all (\<lambda>(k, t). \<exists>n. k = ''anyapp_'' @ n \<and> tSource t = ''core:anyapp'' \<and> tHandler t = Some (callTool ?A n)) new"
      by (fastforce simp: list_all_iff)
    then show ?thesis by (intro exI [of _ new] exI [of _ ?A]) (simp add: registerAnyApp_def Some d Inr)
  qed
qed

subsection \<open>Witnesses\<close>

theorem isolated_backend_environment_witness:
  "{e \<in> set (anyAppIsolatedDesktopEnv sample_desktop 0 [''WAYLAND_DISPLAY=wayland-0'', ''DISPLAY=:0'']).
      has_prefix e (''WAYLAND_DISPLAY'' @ ''='')} = {''WAYLAND_DISPLAY'' @ ''='' @ ''wayland-ai''}"
proof (rule isolated_backend_environment [THEN conjunct1])
  show "live_display sample_desktop 0 = Some (''/h'', ''wayland-ai'')" by code_simp
qed (simp add: isolated_settings_def)

theorem anyapp_escapes_safe_mode_witness:
  "BeforeCall AMD64 (Default\<lparr>cMode := ''safe''\<rparr>) ''anyapp_click'' (RawDoc (JObj [(''reason'', JStr ''r'')])) = None"
  using anyapp_escapes_safe_mode [of "Default\<lparr>cMode := ''safe''\<rparr>" _ "''r''" AMD64 "''click''"] by (simp add: Default_def)

end
