(* ===== verification/BrowserRelay.thy ===== *)
theory BrowserRelay
  imports StateStore Exec Registry
begin

section \<open>The browser bridge (cmd/cycom-browser-bridge/main.go, internal/tools/browser.go)\<close>

text \<open>
  The bridge connects calls of the tool \<open>browser_use\<close>, which come over HTTP, with the extension of a
  browser, which is connected by a web socket. Calls and the readers of connections run at the same
  time; they share \<open>conn\<close> and \<open>pending\<close> under a mutex and one channel for each call, which holds one
  response. The steps below are what one of them does between two points where others may go on.
\<close>

subsection \<open>Messages\<close>

record browse_request =
  bwID :: string
  bwAction :: string
  bwTabID :: int
  bwURL :: string
  bwSelector :: string
  bwText :: string
  bwIndex :: "int option"
  bwX :: int
  bwY :: int
  bwActive :: "bool option"

fun set_int_ptr :: "json \<Rightarrow> int option \<Rightarrow> int option option" where
  "set_int_ptr JNull old = Some None"
| "set_int_ptr v old = map_option Some (set_int v 0)"

definition decode_browse :: "raw \<Rightarrow> browse_request option" where
  "decode_browse body =
     (case stream_members body of
        Inl _ \<Rightarrow> None
      | Inr ms \<Rightarrow>
          let (i, e1) = dec_field set_str [] ''id'' ms;
              (a, e2) = dec_field set_str [] ''action'' ms;
              (t, e3) = dec_field set_int 0 ''tabId'' ms;
              (u, e4) = dec_field set_str [] ''url'' ms;
              (c, e5) = dec_field set_str [] ''selector'' ms;
              (s, e6) = dec_field set_str [] ''text'' ms;
              (n, e7) = dec_field set_int_ptr None ''index'' ms;
              (x, e8) = dec_field set_int 0 ''x'' ms;
              (y, e9) = dec_field set_int 0 ''y'' ms;
              (b, e10) = dec_field set_bool_ptr None ''active'' ms
          in if e1 \<or> e2 \<or> e3 \<or> e4 \<or> e5 \<or> e6 \<or> e7 \<or> e8 \<or> e9 \<or> e10 then None
             else Some \<lparr>bwID = i, bwAction = a, bwTabID = t, bwURL = u, bwSelector = c, bwText = s, bwIndex = n,
                        bwX = x, bwY = y, bwActive = b\<rparr>)"

definition encode_browse :: "browse_request \<Rightarrow> json" where
  "encode_browse q =
     JObj ([(''id'', JStr (json_text (bwID q))), (''action'', JStr (json_text (bwAction q)))] @
       omit_int ''tabId'' (bwTabID q) @ omit_str ''url'' (bwURL q) @ omit_str ''selector'' (bwSelector q) @
       omit_str ''text'' (bwText q) @ (case bwIndex q of Some n \<Rightarrow> [(''index'', JNum (JInt n))] | None \<Rightarrow> []) @
       omit_int ''x'' (bwX q) @ omit_int ''y'' (bwY q) @
       (case bwActive q of Some b \<Rightarrow> [(''active'', JBool b)] | None \<Rightarrow> []))"

text \<open>A response of the extension; \<open>JNull\<close> is no result.\<close>

record browse_response =
  bvID :: string
  bvOK :: bool
  bvResult :: json
  bvError :: string

fun set_value :: "(jnum \<Rightarrow> jnum option) \<Rightarrow> json \<Rightarrow> json \<Rightarrow> json option" where
  "set_value num v old = any_value num v"

fun decode_frame :: "(jnum \<Rightarrow> jnum option) \<Rightarrow> raw \<Rightarrow> browse_response option" where
  "decode_frame num (RawDoc (JObj ms)) =
     (let (i, e1) = dec_field set_str [] ''id'' ms;
          (ok, e2) = dec_field set_bool False ''ok'' ms;
          (r, e3) = dec_field (set_value num) JNull ''result'' ms;
          (e, e4) = dec_field set_str [] ''error'' ms
      in if e1 \<or> e2 \<or> e3 \<or> e4 \<or> i = [] then None else Some \<lparr>bvID = i, bvOK = ok, bvResult = r, bvError = e\<rparr>)"
| "decode_frame num _ = None"

definition encode_response_doc :: "browse_response \<Rightarrow> json" where
  "encode_response_doc x =
     JObj ([(''id'', JStr (json_text (bvID x))), (''ok'', JBool (bvOK x))] @
       (if bvResult x = JNull then [] else [(''result'', bvResult x)]) @ omit_str ''error'' (bvError x))"

subsection \<open>The state and the steps\<close>

text \<open>How a call ends, and the status and the body of its HTTP response.\<close>

datatype ending = NotConnected | WriteFails string | Answer browse_response | TimedOut

definition http_status :: "ending \<Rightarrow> int" where
  "http_status e = (case e of NotConnected \<Rightarrow> 503 | WriteFails _ \<Rightarrow> 502 | Answer _ \<Rightarrow> 200 | TimedOut \<Rightarrow> 504)"

text \<open>A call waits under its identifier, ends, and is done when its entry of \<open>pending\<close> is deleted.\<close>

datatype call = Waiting string | Ending string ending | Over string ending

text \<open>A reader of a connection waits for a frame, sends a response to a channel, or has left.\<close>

datatype reader = Reading | Sending nat browse_response | Gone

record relay =
  rlConn :: "nat option"
  rlPending :: "string \<Rightarrow> nat option"
  rlChan :: "nat \<Rightarrow> browse_response option"
  rlCall :: "nat \<Rightarrow> call option"
  rlReader :: "nat \<Rightarrow> reader option"

definition relay_start :: relay where
  "relay_start = \<lparr>rlConn = None, rlPending = (\<lambda>i. None), rlChan = (\<lambda>k. None), rlCall = (\<lambda>k. None), rlReader = (\<lambda>c. None)\<rparr>"

datatype relay_event =
    Accept nat
  | Frame nat browse_response
  | Deliver nat
  | Leave nat
  | Refuse nat string
  | Begin nat string
  | WriteFail nat string
  | Take nat
  | Expire nat
  | Cleanup nat

inductive relay_step :: "relay \<Rightarrow> relay_event \<Rightarrow> relay \<Rightarrow> bool" where
  accept: "rlReader s c = None \<Longrightarrow>
    relay_step s (Accept c) (s\<lparr>rlConn := Some c, rlReader := (rlReader s)(c \<mapsto> Reading)\<rparr>)"
| frame: "rlReader s c = Some Reading \<Longrightarrow> bvID x \<noteq> [] \<Longrightarrow>
    relay_step s (Frame c x)
      (s\<lparr>rlReader := (rlReader s)(c \<mapsto> (case rlPending s (bvID x) of None \<Rightarrow> Reading | Some k \<Rightarrow> Sending k x))\<rparr>)"
| deliver: "rlReader s c = Some (Sending k x) \<Longrightarrow> rlChan s k = None \<Longrightarrow>
    relay_step s (Deliver c) (s\<lparr>rlChan := (rlChan s)(k \<mapsto> x), rlReader := (rlReader s)(c \<mapsto> Reading)\<rparr>)"
| leave: "rlReader s c = Some Reading \<Longrightarrow>
    relay_step s (Leave c)
      (s\<lparr>rlReader := (rlReader s)(c \<mapsto> Gone), rlConn := (if rlConn s = Some c then None else rlConn s)\<rparr>)"
| refuse: "rlCall s k = None \<Longrightarrow> rlConn s = None \<Longrightarrow>
    relay_step s (Refuse k i) (s\<lparr>rlCall := (rlCall s)(k \<mapsto> Over i NotConnected)\<rparr>)"
| begin_call: "rlCall s k = None \<Longrightarrow> rlConn s = Some c \<Longrightarrow>
    relay_step s (Begin k i)
      (s\<lparr>rlCall := (rlCall s)(k \<mapsto> Waiting i), rlPending := (rlPending s)(i \<mapsto> k), rlChan := (rlChan s)(k := None)\<rparr>)"
| write_fail: "rlCall s k = Some (Waiting i) \<Longrightarrow>
    relay_step s (WriteFail k e) (s\<lparr>rlCall := (rlCall s)(k \<mapsto> Ending i (WriteFails e))\<rparr>)"
| receive: "rlCall s k = Some (Waiting i) \<Longrightarrow> rlChan s k = Some x \<Longrightarrow>
    relay_step s (Take k) (s\<lparr>rlCall := (rlCall s)(k \<mapsto> Ending i (Answer x)), rlChan := (rlChan s)(k := None)\<rparr>)"
| expire: "rlCall s k = Some (Waiting i) \<Longrightarrow>
    relay_step s (Expire k) (s\<lparr>rlCall := (rlCall s)(k \<mapsto> Ending i TimedOut)\<rparr>)"
| cleanup: "rlCall s k = Some (Ending i e) \<Longrightarrow>
    relay_step s (Cleanup k) (s\<lparr>rlCall := (rlCall s)(k \<mapsto> Over i e), rlPending := (rlPending s)(i := None)\<rparr>)"

text \<open>The same as a function; \<open>None\<close> is a step that is not possible.\<close>

fun relay_do :: "relay \<Rightarrow> relay_event \<Rightarrow> relay option" where
  "relay_do s (Accept c) =
     (if rlReader s c = None then Some (s\<lparr>rlConn := Some c, rlReader := (rlReader s)(c \<mapsto> Reading)\<rparr>) else None)"
| "relay_do s (Frame c x) =
     (if rlReader s c = Some Reading \<and> bvID x \<noteq> []
      then Some (s\<lparr>rlReader := (rlReader s)(c \<mapsto> (case rlPending s (bvID x) of None \<Rightarrow> Reading | Some k \<Rightarrow> Sending k x))\<rparr>)
      else None)"
| "relay_do s (Deliver c) =
     (case rlReader s c of
        Some (Sending k x) \<Rightarrow>
          if rlChan s k = None
          then Some (s\<lparr>rlChan := (rlChan s)(k \<mapsto> x), rlReader := (rlReader s)(c \<mapsto> Reading)\<rparr>) else None
      | _ \<Rightarrow> None)"
| "relay_do s (Leave c) =
     (if rlReader s c = Some Reading
      then Some (s\<lparr>rlReader := (rlReader s)(c \<mapsto> Gone), rlConn := (if rlConn s = Some c then None else rlConn s)\<rparr>)
      else None)"
| "relay_do s (Refuse k i) =
     (if rlCall s k = None \<and> rlConn s = None then Some (s\<lparr>rlCall := (rlCall s)(k \<mapsto> Over i NotConnected)\<rparr>) else None)"
| "relay_do s (Begin k i) =
     (if rlCall s k = None \<and> rlConn s \<noteq> None
      then Some (s\<lparr>rlCall := (rlCall s)(k \<mapsto> Waiting i), rlPending := (rlPending s)(i \<mapsto> k), rlChan := (rlChan s)(k := None)\<rparr>)
      else None)"
| "relay_do s (WriteFail k e) =
     (case rlCall s k of
        Some (Waiting i) \<Rightarrow> Some (s\<lparr>rlCall := (rlCall s)(k \<mapsto> Ending i (WriteFails e))\<rparr>) | _ \<Rightarrow> None)"
| "relay_do s (Take k) =
     (case (rlCall s k, rlChan s k) of
        (Some (Waiting i), Some x) \<Rightarrow>
          Some (s\<lparr>rlCall := (rlCall s)(k \<mapsto> Ending i (Answer x)), rlChan := (rlChan s)(k := None)\<rparr>)
      | _ \<Rightarrow> None)"
| "relay_do s (Expire k) =
     (case rlCall s k of
        Some (Waiting i) \<Rightarrow> Some (s\<lparr>rlCall := (rlCall s)(k \<mapsto> Ending i TimedOut)\<rparr>) | _ \<Rightarrow> None)"
| "relay_do s (Cleanup k) =
     (case rlCall s k of
        Some (Ending i e) \<Rightarrow> Some (s\<lparr>rlCall := (rlCall s)(k \<mapsto> Over i e), rlPending := (rlPending s)(i := None)\<rparr>)
      | _ \<Rightarrow> None)"

fun relay_run :: "relay \<Rightarrow> relay_event list \<Rightarrow> relay option" where
  "relay_run s [] = Some s"
| "relay_run s (e # es) = (case relay_do s e of None \<Rightarrow> None | Some t \<Rightarrow> relay_run t es)"

inductive relay_steps :: "relay \<Rightarrow> relay_event list \<Rightarrow> relay \<Rightarrow> bool" where
  none: "relay_steps s [] s"
| more: "relay_steps s es t \<Longrightarrow> relay_step t e u \<Longrightarrow> relay_steps s (es @ [e]) u"

subsection \<open>The handler of /api and the tool\<close>

text \<open>
  What the handler looks at before it takes part: the method and the body. The identifier is the time
  of day in nanoseconds, \<open>stamp\<close>.
\<close>

definition api_request :: "string \<Rightarrow> string \<Rightarrow> raw \<Rightarrow> (int \<times> string) + browse_request" where
  "api_request stamp m body =
     (if m \<noteq> ''POST'' then Inl (405, ''POST only'')
      else (case decode_browse body of
              None \<Rightarrow> Inl (400, ''bad json'')
            | Some q \<Rightarrow> Inr (q\<lparr>bwID := stamp\<rparr>)))"

text \<open>
  \<open>browserUse\<close>: \<open>post\<close> sends the arguments and gives the status and the body; at most 4 MiB are read.
\<close>

definition browserUse ::
  "(jnum \<Rightarrow> jnum option) \<Rightarrow> (string \<Rightarrow> raw) \<Rightarrow> (raw \<Rightarrow> 'w \<Rightarrow> (int \<times> string) res \<times> 'w) \<Rightarrow> 'w handler" where
  "browserUse num parse post args w =
     (case post args w of
        (Inl e, w1) \<Rightarrow> (Inl (Errorf ''browser bridge unavailable: %w'' [FErr e]), w1)
      | (Inr (status, body), w1) \<Rightarrow>
          let b = take 4194304 body
          in ((if 300 \<le> status then Inl (Errorf ''browser bridge HTTP %d: %s'' [FInt status, FStr b])
               else (case parse b of
                       RawDoc v \<Rightarrow> (case any_value num v of Some v' \<Rightarrow> Inr (Plain v') | None \<Rightarrow> Inl json_err)
                     | _ \<Rightarrow> Inl json_err)), w1))"

subsection \<open>Lemmas\<close>

fun call_id :: "call \<Rightarrow> string" where
  "call_id (Waiting i) = i"
| "call_id (Ending i e) = i"
| "call_id (Over i e) = i"

fun over :: "call \<Rightarrow> bool" where
  "over (Over i e) = True"
| "over _ = False"

fun answered :: "call \<Rightarrow> browse_response option" where
  "answered (Ending i (Answer x)) = Some x"
| "answered (Over i (Answer x)) = Some x"
| "answered _ = None"

lemma answered_over [simp]: "answered (Over i e) = answered (Ending i e)"
  by (cases e) simp_all

text \<open>Every entry, channel and response belongs to a call of its identifier.\<close>

definition belongs :: "relay \<Rightarrow> nat \<Rightarrow> string \<Rightarrow> bool" where
  "belongs s k i \<longleftrightarrow> (\<exists>c. rlCall s k = Some c \<and> call_id c = i)"

definition active :: "relay \<Rightarrow> nat \<Rightarrow> string \<Rightarrow> bool" where
  "active s k i \<longleftrightarrow> (\<exists>c. rlCall s k = Some c \<and> call_id c = i \<and> \<not> over c)"

definition relay_inv :: "relay \<Rightarrow> bool" where
  "relay_inv s \<longleftrightarrow>
     (\<forall>i k. rlPending s i = Some k \<longrightarrow> active s k i) \<and>
     (\<forall>k x. rlChan s k = Some x \<longrightarrow> belongs s k (bvID x)) \<and>
     (\<forall>c k x. rlReader s c = Some (Sending k x) \<longrightarrow> belongs s k (bvID x)) \<and>
     (\<forall>k c x. rlCall s k = Some c \<longrightarrow> answered c = Some x \<longrightarrow> call_id c = bvID x)"

lemma relay_inv_start: "relay_inv relay_start"
  by (simp add: relay_inv_def relay_start_def)

lemma relay_invD:
  assumes "relay_inv s"
  shows "rlPending s i = Some k \<Longrightarrow> active s k i" and "rlChan s k = Some x \<Longrightarrow> belongs s k (bvID x)"
    and "rlReader s c = Some (Sending k x) \<Longrightarrow> belongs s k (bvID x)"
    and "rlCall s k = Some a \<Longrightarrow> answered a = Some x \<Longrightarrow> call_id a = bvID x"
  using assms unfolding relay_inv_def by blast+

text \<open>A step that only moves a call on keeps what belongs to it.\<close>

lemma call_moves:
  assumes "rlCall s k = Some a" and "call_id b = call_id a"
  shows "belongs (s\<lparr>rlCall := (rlCall s)(k \<mapsto> b)\<rparr>) k' i = belongs s k' i"
    and "\<not> over b \<Longrightarrow> \<not> over a \<Longrightarrow> active (s\<lparr>rlCall := (rlCall s)(k \<mapsto> b)\<rparr>) k' i = active s k' i"
  using assms by (auto simp: belongs_def active_def)

lemma relay_inv_moved:
  assumes "relay_inv s" and "rlCall s k = Some a" and "call_id b = call_id a" and "\<not> over a" and "\<not> over b"
    and "\<And>x. answered b = Some x \<Longrightarrow> call_id b = bvID x"
  shows "relay_inv (s\<lparr>rlCall := (rlCall s)(k \<mapsto> b)\<rparr>)"
  using assms by (auto simp: relay_inv_def call_moves [OF assms(2,3)])

lemma relay_inv_empty: "relay_inv s \<Longrightarrow> relay_inv (s\<lparr>rlChan := (rlChan s)(k := None)\<rparr>)"
  by (auto simp: relay_inv_def belongs_def active_def)

text \<open>Nothing belongs to a call that has not been made.\<close>

lemma no_call:
  assumes "relay_inv s" and "rlCall s k = None"
  shows "rlPending s i \<noteq> Some k" and "rlChan s k = None" and "rlReader s c \<noteq> Some (Sending k x)"
proof -
  have n: "\<not> active s k j" "\<not> belongs s k j" for j using assms(2) by (simp_all add: active_def belongs_def)
  show "rlPending s i \<noteq> Some k" "rlReader s c \<noteq> Some (Sending k x)"
    using relay_invD(1,3) [OF assms(1)] n by blast+
  show "rlChan s k = None" using relay_invD(2) [OF assms(1)] n by (cases "rlChan s k") auto
qed

lemma relay_inv_step: "relay_step s e t \<Longrightarrow> relay_inv s \<Longrightarrow> relay_inv t"
proof (induction rule: relay_step.induct)
  case (accept s c)
  then show ?case by (auto simp: relay_inv_def belongs_def active_def)
next
  case (frame s c x)
  have "belongs s k (bvID x)" if "rlPending s (bvID x) = Some k" for k
    using relay_invD(1) [OF frame.prems that] by (auto simp: belongs_def active_def)
  with frame.prems show ?case by (auto simp: relay_inv_def belongs_def active_def split: option.splits)
next
  case (deliver s c k x)
  then show ?case by (auto simp: relay_inv_def belongs_def active_def)
next
  case (leave s c)
  then show ?case by (auto simp: relay_inv_def belongs_def active_def)
next
  case (refuse s k i)
  from no_call [OF refuse.prems refuse.hyps(1)] refuse.prems show ?case
    by (auto simp: relay_inv_def belongs_def active_def)
next
  case (begin_call s k c i)
  from no_call [OF begin_call.prems begin_call.hyps(1)] begin_call.prems show ?case
    by (auto simp: relay_inv_def belongs_def active_def)
next
  case (write_fail s k i e)
  show ?case by (rule relay_inv_moved [OF write_fail.prems write_fail.hyps]) simp_all
next
  case (receive s k i x)
  have "bvID x = i" using relay_invD(2) [OF receive.prems receive.hyps(2)] receive.hyps(1) by (simp add: belongs_def)
  then have "relay_inv (s\<lparr>rlCall := (rlCall s)(k \<mapsto> Ending i (Answer x))\<rparr>)"
    by (intro relay_inv_moved [OF receive.prems receive.hyps(1)]) simp_all
  from relay_inv_empty [OF this, of k] show ?case by simp
next
  case (expire s k i)
  show ?case by (rule relay_inv_moved [OF expire.prems expire.hyps]) simp_all
next
  case (cleanup s k i e)
  let ?t = "s\<lparr>rlCall := (rlCall s)(k \<mapsto> Over i e), rlPending := (rlPending s)(i := None)\<rparr>"
  have b: "belongs ?t k' j" if "belongs s k' j" for k' j
    using that cleanup.hyps by (auto simp: belongs_def)
  have a: "active ?t k' j" if "active s k' j" "j \<noteq> i" for k' j
    using that cleanup.hyps by (auto simp: active_def)
  have c: "call_id d = bvID x" if "rlCall ?t k' = Some d" "answered d = Some x" for k' d x
    using that relay_invD(4) [OF cleanup.prems, of k' d x] relay_invD(4) [OF cleanup.prems cleanup.hyps, of x]
    by (auto split: if_splits)
  show ?case
    unfolding relay_inv_def using a b c relay_invD(1-3) [OF cleanup.prems] by (auto split: if_splits)
qed

lemma relay_inv_steps: "relay_steps s es t \<Longrightarrow> relay_inv s \<Longrightarrow> relay_inv t"
  by (induction rule: relay_steps.induct) (auto intro: relay_inv_step)

lemma relay_steps_Cons: "relay_steps t es u \<Longrightarrow> relay_step s e t \<Longrightarrow> relay_steps s (e # es) u"
proof (induction rule: relay_steps.induct)
  case (none t)
  then show ?case using relay_steps.more [OF relay_steps.none [of s]] by simp
next
  case (more t es u e' v)
  then show ?case using relay_steps.more [of s "e # es" u e' v] by simp
qed

lemma relay_do_iff: "relay_do s e = Some t \<longleftrightarrow> relay_step s e t"
proof
  assume d: "relay_do s e = Some t"
  show "relay_step s e t"
  proof (cases e)
    case (Frame c x)
    then show ?thesis using d relay_step.frame [of s c x] by (simp split: if_splits)
  next
    case (Leave c)
    then show ?thesis using d relay_step.leave [of s c] by (simp split: if_splits)
  qed (use d in \<open>auto split: if_splits option.splits call.splits reader.splits intro: relay_step.intros\<close>)
next
  show "relay_step s e t \<Longrightarrow> relay_do s e = Some t"
    by (induction rule: relay_step.induct) simp_all
qed

lemma relay_run_steps: "relay_run s es = Some t \<Longrightarrow> relay_steps s es t"
proof (induction es arbitrary: s)
  case (Cons e es)
  then show ?case by (auto simp: relay_do_iff split: option.splits intro: relay_steps_Cons)
qed (simp add: relay_steps.none)

text \<open>
  A reader that has a response for a full channel nobody will read any more, of the only connection.
\<close>

definition blocked :: "relay \<Rightarrow> nat \<Rightarrow> nat \<Rightarrow> bool" where
  "blocked s c k \<longleftrightarrow> rlConn s = Some c \<and> (\<exists>x. rlReader s c = Some (Sending k x)) \<and> rlChan s k \<noteq> None \<and>
     (\<exists>i e. rlCall s k = Some (Ending i e) \<or> rlCall s k = Some (Over i e)) \<and>
     (\<forall>c'. c' \<noteq> c \<longrightarrow> rlReader s c' = None \<or> rlReader s c' = Some Gone)"

definition unanswered :: "relay \<Rightarrow> nat \<Rightarrow> bool" where
  "unanswered s k \<longleftrightarrow>
     (case rlCall s k of None \<Rightarrow> True | Some c \<Rightarrow> rlChan s k = None \<and> answered c = None)"

lemma blocked_step:
  assumes "relay_step s e t" and "blocked s c k" and "\<And>c'. e \<noteq> Accept c'"
  shows "blocked t c k \<and> (\<forall>k'. k' \<noteq> k \<longrightarrow> unanswered s k' \<longrightarrow> unanswered t k')"
  using assms
proof (induction rule: relay_step.induct)
  case (deliver s c' k' x)
  then have "c' \<noteq> c" by (auto simp: blocked_def)
  then show ?case using deliver by (auto simp: blocked_def)
next
  case (frame s c' x)
  then have False by (cases "c' = c") (auto simp: blocked_def)
  then show ?case ..
next
  case (leave s c')
  then have False by (cases "c' = c") (auto simp: blocked_def)
  then show ?case ..
qed (auto simp: blocked_def unanswered_def split: option.splits)

lemma blocked_steps:
  "relay_steps s es t \<Longrightarrow> blocked s c k \<Longrightarrow> \<forall>e \<in> set es. \<forall>c'. e \<noteq> Accept c' \<Longrightarrow>
   blocked t c k \<and> (\<forall>k'. k' \<noteq> k \<longrightarrow> unanswered s k' \<longrightarrow> unanswered t k')"
proof (induction rule: relay_steps.induct)
  case (more s es t e u)
  then have t: "blocked t c k \<and> (\<forall>k'. k' \<noteq> k \<longrightarrow> unanswered s k' \<longrightarrow> unanswered t k')" by simp
  have "\<And>c'. e \<noteq> Accept c'" using more.prems(2) by simp
  from blocked_step [OF more.hyps(2) _ this] t show ?case by blast
qed simp

subsection \<open>Properties\<close>

text \<open>
  C29: however calls, connections and frames interleave, a call is only answered with a response that
  carries its own identifier, and every entry of \<open>pending\<close> belongs to a call that has not gone: the map
  is empty when all calls are over.
\<close>

theorem relay_answers_match:
  assumes "relay_steps relay_start es s"
  shows "(\<forall>k i x. rlCall s k = Some (Over i (Answer x)) \<longrightarrow> bvID x = i) \<and>
    (\<forall>i k. rlPending s i = Some k \<longrightarrow> rlCall s k = Some (Waiting i) \<or> (\<exists>e. rlCall s k = Some (Ending i e)))"
proof -
  have inv: "relay_inv s" using relay_inv_steps [OF assms relay_inv_start] .
  have "rlCall s k = Some (Waiting i) \<or> (\<exists>e. rlCall s k = Some (Ending i e))" if p: "rlPending s i = Some k" for i k
  proof -
    obtain c where "rlCall s k = Some c" "call_id c = i" "\<not> over c"
      using relay_invD(1) [OF inv p] by (auto simp: active_def)
    then show ?thesis by (cases c) auto
  qed
  moreover have "bvID x = i" if "rlCall s k = Some (Over i (Answer x))" for k i x
    using relay_invD(4) [OF inv that] by simp
  ultimately show ?thesis by blast
qed

text \<open>
  C30: once the reader of the only connection has a response for a call that has ended and whose channel
  is full, it stays there: as long as no other connection is made, the bridge goes on to accept calls and
  answers none of them.
\<close>

theorem blocked_bridge_answers_nothing:
  assumes "blocked s c k" and "relay_steps s es t" and "\<forall>e \<in> set es. \<forall>c'. e \<noteq> Accept c'"
  shows "rlConn t = Some c \<and> (\<forall>k' a. rlCall s k' = None \<longrightarrow> rlCall t k' = Some a \<longrightarrow> answered a = None)"
proof -
  have b: "blocked t c k \<and> (\<forall>k'. k' \<noteq> k \<longrightarrow> unanswered s k' \<longrightarrow> unanswered t k')"
    by (rule blocked_steps [OF assms(2,1,3)])
  have "answered a = None" if "rlCall s k' = None" "rlCall t k' = Some a" for k' a
  proof -
    have "k' \<noteq> k" "unanswered s k'" using that(1) assms(1) by (auto simp: blocked_def unanswered_def)
    with b have "unanswered t k'" by blast
    then show ?thesis using that(2) by (simp add: unanswered_def)
  qed
  then show ?thesis using b by (auto simp: blocked_def)
qed

text \<open>The tool takes a response that says it failed for a success.\<close>

lemma failed_action_is_success:
  assumes "post args w = (Inr (200, body), w1)" and "length body \<le> 4194304"
    and "parse body = RawDoc (encode_response_doc \<lparr>bvID = i, bvOK = False, bvResult = JNull, bvError = e\<rparr>)"
  shows "\<exists>v. browserUse num parse post args w = (Inr (Plain v), w1)"
proof -
  obtain os where "any_members num (omit_str ''error'' e) = Some os" by (cases "e = []") (auto simp: omit_str_def)
  then show ?thesis using assms by (simp add: browserUse_def Let_def encode_response_doc_def)
qed

subsection \<open>Witnesses\<close>

text \<open>Two responses to one call that has run out of time, before its entry is deleted.\<close>

definition sample_response :: browse_response where
  "sample_response = \<lparr>bvID = ''t1'', bvOK = True, bvResult = JNull, bvError = []\<rparr>"

definition sample_events :: "relay_event list" where
  "sample_events =
     [Accept 0, Begin 1 ''t1'', Frame 0 sample_response, Deliver 0, Expire 1, Frame 0 sample_response, Cleanup 1]"

definition sample_blocked :: relay where
  "sample_blocked = the (relay_run relay_start sample_events)"

lemma sample_reached: "relay_run relay_start sample_events = Some sample_blocked" "blocked sample_blocked 0 1"
  by (simp_all add: sample_blocked_def sample_events_def sample_response_def relay_start_def blocked_def)

definition sample_answered :: "relay_event list" where
  "sample_answered = [Accept 0, Begin 1 ''t1'', Frame 0 sample_response, Deliver 0, Take 1, Cleanup 1]"

lemma sample_answered_run:
  "\<exists>s. relay_run relay_start sample_answered = Some s \<and> rlCall s 1 = Some (Over ''t1'' (Answer sample_response))"
  by (simp add: sample_answered_def sample_response_def relay_start_def)

theorem relay_answers_match_witness:
  "\<exists>s. relay_steps relay_start sample_answered s \<and>
     rlCall s 1 = Some (Over ''t1'' (Answer sample_response)) \<and> bvID sample_response = ''t1''"
proof -
  obtain s where run: "relay_run relay_start sample_answered = Some s"
    and over: "rlCall s 1 = Some (Over ''t1'' (Answer sample_response))" using sample_answered_run by blast
  note steps = relay_run_steps [OF run]
  from relay_answers_match [OF steps, THEN conjunct1] over have "bvID sample_response = ''t1''" by blast
  with steps over show ?thesis by blast
qed

theorem blocked_bridge_answers_nothing_witness:
  "rlConn (the (relay_run sample_blocked [Begin 2 ''t2'', Expire 2])) = Some 0"
proof -
  have "relay_run sample_blocked [Begin 2 ''t2'', Expire 2] = Some (the (relay_run sample_blocked [Begin 2 ''t2'', Expire 2]))"
    by (simp add: sample_blocked_def sample_events_def sample_response_def relay_start_def)
  from blocked_bridge_answers_nothing [OF sample_reached(2) relay_run_steps [OF this]] show ?thesis by simp
qed

end
