(* ===== verification/Termux.thy ===== *)
theory Termux
  imports Exec Policy StateStore
begin

section \<open>Android through Termux (internal/tools/termux_api.go, termux_assistant.go)\<close>

text \<open>
  On a phone the tools run the commands of the package \<open>termux-api\<close>, without a shell: any command of a
  list by its name, and a group of assistant tools each with its own command. Parameters: the kind of
  platform, \<open>tmLookPath\<close> as \<open>exec.LookPath\<close>, \<open>tmRun\<close> runs a command, \<open>tmErrText\<close> is the text of an error,
  \<open>tmParse\<close> reads a text as JSON and \<open>tmNum\<close> a number as a \<open>float64\<close>.
\<close>

record 'w termux_env =
  tmTermux :: bool
  tmAndroid :: bool
  tmEnviron :: "string list"
  tmLookPath :: "string \<Rightarrow> string res"
  tmRun :: "command \<Rightarrow> 'w \<Rightarrow> outcome \<times> 'w"
  tmErrText :: "goerr \<Rightarrow> string"
  tmParse :: "string \<Rightarrow> raw"
  tmNum :: "jnum \<Rightarrow> jnum option"

subsection \<open>The commands that may be called\<close>

definition termuxAPIAllowlist :: "(string \<times> string) list" where
  "termuxAPIAllowlist =
     [(''termux-api-start'', ''write''), (''termux-api-stop'', ''write''), (''termux-audio-info'', ''read''),
      (''termux-battery-status'', ''read''), (''termux-brightness'', ''write''), (''termux-call-log'', ''sensitive-read''),
      (''termux-camera-info'', ''read''), (''termux-camera-photo'', ''sensitive-write''),
      (''termux-clipboard-get'', ''sensitive-read''), (''termux-clipboard-set'', ''write''),
      (''termux-contact-list'', ''sensitive-read''), (''termux-dialog'', ''write''), (''termux-download'', ''write''),
      (''termux-fingerprint'', ''sensitive-read''), (''termux-infrared-frequencies'', ''read''),
      (''termux-infrared-transmit'', ''write''), (''termux-job-scheduler'', ''write''),
      (''termux-keystore'', ''sensitive-write''), (''termux-location'', ''sensitive-read''),
      (''termux-media-player'', ''write''), (''termux-media-scan'', ''write''),
      (''termux-microphone-record'', ''sensitive-write''), (''termux-nfc'', ''sensitive-write''),
      (''termux-notification'', ''write''), (''termux-notification-channel'', ''write''),
      (''termux-notification-list'', ''read''), (''termux-notification-remove'', ''write''),
      (''termux-saf-create'', ''write''), (''termux-saf-dirs'', ''read''), (''termux-saf-ls'', ''read''),
      (''termux-saf-managedir'', ''write''), (''termux-saf-mkdir'', ''write''), (''termux-saf-read'', ''sensitive-read''),
      (''termux-saf-rm'', ''write''), (''termux-saf-stat'', ''read''), (''termux-saf-write'', ''sensitive-write''),
      (''termux-sensor'', ''read''), (''termux-share'', ''write''), (''termux-sms-inbox'', ''sensitive-read''),
      (''termux-sms-list'', ''sensitive-read''), (''termux-sms-send'', ''sensitive-write''),
      (''termux-speech-to-text'', ''sensitive-write''), (''termux-storage-get'', ''sensitive-read''),
      (''termux-telephony-call'', ''sensitive-write''), (''termux-telephony-cellinfo'', ''sensitive-read''),
      (''termux-telephony-deviceinfo'', ''sensitive-read''), (''termux-toast'', ''write''), (''termux-torch'', ''write''),
      (''termux-tts-engines'', ''read''), (''termux-tts-speak'', ''write''), (''termux-usb'', ''sensitive-write''),
      (''termux-vibrate'', ''write''), (''termux-volume'', ''write''), (''termux-wallpaper'', ''write''),
      (''termux-wifi-connectioninfo'', ''sensitive-read''), (''termux-wifi-enable'', ''write''),
      (''termux-wifi-scaninfo'', ''sensitive-read'')]"

definition sensitive_risk :: "string \<Rightarrow> bool" where
  "sensitive_risk r = has_prefix r ''sensitive-''"

text \<open>\<open>android_api_list\<close>: each command with its risk and its path, when it is installed.\<close>

definition termuxAPIList :: "'w termux_env \<Rightarrow> (string \<times> string \<times> string option) list" where
  "termuxAPIList E =
     map (\<lambda>(n, r). (n, r, case tmLookPath E n of Inr p \<Rightarrow> Some p | Inl _ \<Rightarrow> None)) (sort_key fst termuxAPIAllowlist)"

record ran_command =
  rcCommand :: string
  rcExit :: int
  rcStdout :: string
  rcStderr :: string
  rcTimedOut :: bool
  rcTruncated :: bool
  rcDurationMS :: int

text \<open>
  Both files run a command in the same way: 2 MiB of each output, the code of its exit, or -1 when the
  time was up, or the error of running it. The limit is in seconds.
\<close>

definition termux_command :: "'w termux_env \<Rightarrow> string \<Rightarrow> string list \<Rightarrow> string \<Rightarrow> int \<Rightarrow> command" where
  "termux_command E bin args input secs =
     \<lparr>cmArgv = bin # args, cmDir = [], cmEnv = tmEnviron E, cmStdin = input, cmTimeout = seconds secs\<rparr>"

definition run_termux ::
  "'w termux_env \<Rightarrow> string \<Rightarrow> string \<Rightarrow> string list \<Rightarrow> string \<Rightarrow> int \<Rightarrow> 'w \<Rightarrow> ran_command res \<times> 'w" where
  "run_termux E name bin args input secs w =
     (case tmRun E (termux_command E bin args input secs) w of
        (NotStarted e, w1) \<Rightarrow> (Inl e, w1)
      | (Ended outs errs d timedOut st, w1) \<Rightarrow>
          let out = captured capWrite_tools 2097152 outs;
              err = captured capWrite_tools 2097152 errs;
              r = \<lparr>rcCommand = name, rcExit = 0, rcStdout = cbBuf out, rcStderr = cbBuf err, rcTimedOut = timedOut,
                   rcTruncated = (cbTruncated out \<or> cbTruncated err), rcDurationMS = d\<rparr>
          in ((case st of
                 None \<Rightarrow> Inr r
               | Some (Inr c) \<Rightarrow> Inr (r\<lparr>rcExit := c\<rparr>)
               | Some (Inl e) \<Rightarrow> if timedOut then Inr (r\<lparr>rcExit := -1\<rparr>) else Inl e), w1))"

definition api_timeout :: "int \<Rightarrow> int" where
  "api_timeout t = (if t \<le> 0 then 30 else if 300 < t then 300 else t)"

text \<open>\<open>android_api_call\<close>; \<open>pe\<close> is the configuration of the policy engine, when there is one.\<close>

definition termuxAPICall ::
  "'w termux_env \<Rightarrow> config option \<Rightarrow> raw \<Rightarrow> 'w \<Rightarrow> (ran_command \<times> string) res \<times> 'w" where
  "termuxAPICall E pe args w =
     (case decode_members [''command'', ''args'', ''stdin'', ''timeout_seconds''] args of
        Inl e \<Rightarrow> (Inl e, w)
      | Inr ms \<Rightarrow>
          let (name, e1) = dec_field set_str [] ''command'' ms;
              (argv, e2) = dec_field set_strs [] ''args'' ms;
              (input, e3) = dec_field set_str [] ''stdin'' ms;
              (secs, e4) = dec_field set_int 0 ''timeout_seconds'' ms
          in if e1 \<or> e2 \<or> e3 \<or> e4 then (Inl invalid_arguments, w)
             else if \<not> tmTermux E \<and> \<not> tmAndroid E
             then (Inl (err_new ''android_api_call is only available on Android/Termux''), w)
             else (case map_of termuxAPIAllowlist name of
                None \<Rightarrow> (Inl (Errorf ''Termux:API command %q is not allowlisted'' [FStr name]), w)
              | Some risk \<Rightarrow>
                  if sensitive_risk risk \<and> (case pe of Some c \<Rightarrow> \<not> cAllowSensitiveAndroid c | None \<Rightarrow> False)
                  then (Inl (Errorf ''policy denied sensitive Android API command %s; set allow_sensitive_android=true to opt in'' [FStr name]), w)
                  else (case tmLookPath E name of
                     Inl e \<Rightarrow> (Inl (Errorf ''%s is unavailable; install the termux-api package and matching Termux:API app: %w''
                                [FStr name, FErr e]), w)
                   | Inr bin \<Rightarrow>
                       (case run_termux E name bin argv input (api_timeout secs) w of
                          (Inl e, w1) \<Rightarrow> (Inl e, w1)
                        | (Inr r, w1) \<Rightarrow> (Inr (r, risk), w1)))))"

subsection \<open>The assistant\<close>

definition assistantRun ::
  "'w termux_env \<Rightarrow> string \<Rightarrow> string list \<Rightarrow> string \<Rightarrow> int \<Rightarrow> 'w \<Rightarrow> ran_command res \<times> 'w" where
  "assistantRun E name args input secs w =
     (case tmLookPath E name of
        Inl e \<Rightarrow> (Inl (Errorf ''%s is unavailable; install pkg termux-api and the matching Termux:API app: %w'' [FStr name, FErr e]), w)
      | Inr bin \<Rightarrow> run_termux E name bin args input (if secs \<le> 0 then 30 else secs) w)"

datatype assistant_reply =
    Ran ran_command
  | Parsed json ran_command
  | Clipboard string ran_command
  | Photo string int ran_command
  | DeviceStatus "(string \<times> (string + assistant_reply)) list"

definition parsedAssistantResult :: "'w termux_env \<Rightarrow> ran_command \<Rightarrow> assistant_reply" where
  "parsedAssistantResult E r =
     (if trim_space (rcStdout r) = [] then Ran r
      else (case tmParse E (rcStdout r) of
              RawDoc v \<Rightarrow> (case any_value (tmNum E) v of Some v' \<Rightarrow> Parsed v' r | None \<Rightarrow> Ran r)
            | _ \<Rightarrow> Ran r))"

text \<open>A reply from what a command gave.\<close>

definition replying :: "(ran_command \<Rightarrow> assistant_reply) \<Rightarrow> ran_command res \<times> 'w \<Rightarrow> assistant_reply res \<times> 'w" where
  "replying f r = ((case fst r of Inl e \<Rightarrow> Inl e | Inr x \<Rightarrow> Inr (f x)), snd r)"

fun device_status ::
  "'w termux_env \<Rightarrow> string list \<Rightarrow> 'w \<Rightarrow> (string \<times> (string + assistant_reply)) list \<times> 'w" where
  "device_status E [] w = ([], w)"
| "device_status E (c # cs) w =
     (case assistantRun E c [] [] 15 w of
        (r, w1) \<Rightarrow>
          (case device_status E cs w1 of
             (rest, w2) \<Rightarrow>
               ((trim_prefix c ''termux-'',
                 case r of Inl e \<Rightarrow> Inl (tmErrText E e) | Inr x \<Rightarrow> Inr (parsedAssistantResult E x)) # rest, w2)))"

definition assistantDeviceStatus :: "'w termux_env \<Rightarrow> raw \<Rightarrow> 'w \<Rightarrow> assistant_reply res \<times> 'w" where
  "assistantDeviceStatus E args w =
     (case device_status E [''termux-battery-status'', ''termux-wifi-connectioninfo'', ''termux-audio-info''] w of
        (l, w1) \<Rightarrow> (Inr (DeviceStatus l), w1))"

definition assistantListen :: "'w termux_env \<Rightarrow> raw \<Rightarrow> 'w \<Rightarrow> assistant_reply res \<times> 'w" where
  "assistantListen E args w =
     replying (parsedAssistantResult E) (assistantRun E ''termux-speech-to-text'' [] [] 90 w)"

text \<open>An option with its value, when there is one.\<close>

definition opt_arg :: "string \<Rightarrow> string \<Rightarrow> string list" where
  "opt_arg flag v = (if v = [] then [] else [flag, v])"

definition assistantSpeak :: "'w termux_env \<Rightarrow> raw \<Rightarrow> 'w \<Rightarrow> assistant_reply res \<times> 'w" where
  "assistantSpeak E args w =
     (case decode_members [''Text'', ''Language'', ''Rate'', ''Pitch''] args of
        Inl e \<Rightarrow> (Inl e, w)
      | Inr ms \<Rightarrow>
          let (t, e1) = dec_field set_str [] ''Text'' ms;
              (l, e2) = dec_field set_str [] ''Language'' ms;
              (r, e3) = dec_field set_str [] ''Rate'' ms;
              (p, e4) = dec_field set_str [] ''Pitch'' ms
          in if e1 \<or> e2 \<or> e3 \<or> e4 then (Inl invalid_arguments, w)
             else if trim_space t = [] then (Inl (err_new ''text is required''), w)
             else replying Ran (assistantRun E ''termux-tts-speak''
                    (opt_arg ''-l'' l @ opt_arg ''-r'' r @ opt_arg ''-p'' p @ [t]) [] 90 w))"

definition assistantNotify :: "'w termux_env \<Rightarrow> raw \<Rightarrow> 'w \<Rightarrow> assistant_reply res \<times> 'w" where
  "assistantNotify E args w =
     (case decode_members [''Title'', ''Content'', ''ID''] args of
        Inl e \<Rightarrow> (Inl e, w)
      | Inr ms \<Rightarrow>
          let (t, e1) = dec_field set_str [] ''Title'' ms;
              (c, e2) = dec_field set_str [] ''Content'' ms;
              (i, e3) = dec_field set_str [] ''ID'' ms
          in if e1 \<or> e2 \<or> e3 then (Inl invalid_arguments, w)
             else if trim_space c = [] then (Inl (err_new ''content is required''), w)
             else replying Ran (assistantRun E ''termux-notification''
                    ([''--content'', c] @ opt_arg ''--title'' t @ opt_arg ''--id'' i) [] 30 w))"

definition assistantLocation :: "'w termux_env \<Rightarrow> raw \<Rightarrow> 'w \<Rightarrow> assistant_reply res \<times> 'w" where
  "assistantLocation E args w =
     (case decode_members [''Provider'', ''Request''] args of
        Inl e \<Rightarrow> (Inl e, w)
      | Inr ms \<Rightarrow>
          let (p, e1) = dec_field set_str [] ''Provider'' ms;
              (r, e2) = dec_field set_str [] ''Request'' ms
          in if e1 \<or> e2 then (Inl invalid_arguments, w)
             else replying (parsedAssistantResult E) (assistantRun E ''termux-location''
                    [''-p'', if p = [] then ''gps'' else p, ''-r'', if r = [] then ''once'' else r] [] 90 w))"

definition assistantClipboardGet :: "'w termux_env \<Rightarrow> raw \<Rightarrow> 'w \<Rightarrow> assistant_reply res \<times> 'w" where
  "assistantClipboardGet E args w =
     replying (\<lambda>r. Clipboard (trim_suffix (rcStdout r) [CHR 0x0A]) r) (assistantRun E ''termux-clipboard-get'' [] [] 15 w)"

definition assistantClipboardSet :: "'w termux_env \<Rightarrow> raw \<Rightarrow> 'w \<Rightarrow> assistant_reply res \<times> 'w" where
  "assistantClipboardSet E args w =
     (case decode_members [''Text''] args of
        Inl e \<Rightarrow> (Inl e, w)
      | Inr ms \<Rightarrow>
          (case strict (dec_field set_str [] ''Text'' ms) of
             Inl e \<Rightarrow> (Inl e, w)
           | Inr t \<Rightarrow> replying Ran (assistantRun E ''termux-clipboard-set'' [] t 15 w)))"

text \<open>A number that is a default when it is not positive, and at most a limit.\<close>

definition clamped :: "int \<Rightarrow> int \<Rightarrow> int \<Rightarrow> int" where
  "clamped dflt limit n = (if n \<le> 0 then dflt else if limit < n then limit else n)"

definition assistantVibrate :: "'w termux_env \<Rightarrow> raw \<Rightarrow> 'w \<Rightarrow> assistant_reply res \<times> 'w" where
  "assistantVibrate E args w =
     (case decode_members [''duration_ms''] args of
        Inl e \<Rightarrow> (Inl e, w)
      | Inr ms \<Rightarrow>
          (case strict (dec_field set_int 0 ''duration_ms'' ms) of
             Inl e \<Rightarrow> (Inl e, w)
           | Inr n \<Rightarrow> replying Ran (assistantRun E ''termux-vibrate'' [''-d'', itoa (clamped 500 10000 n)] [] 15 w)))"

definition assistantTorch :: "'w termux_env \<Rightarrow> raw \<Rightarrow> 'w \<Rightarrow> assistant_reply res \<times> 'w" where
  "assistantTorch E args w =
     (case decode_members [''enabled''] args of
        Inl e \<Rightarrow> (Inl e, w)
      | Inr ms \<Rightarrow>
          (case strict (dec_field set_bool False ''enabled'' ms) of
             Inl e \<Rightarrow> (Inl e, w)
           | Inr b \<Rightarrow> replying Ran (assistantRun E ''termux-torch'' [if b then ''on'' else ''off''] [] 15 w)))"

definition assistantSMSSend :: "'w termux_env \<Rightarrow> raw \<Rightarrow> 'w \<Rightarrow> assistant_reply res \<times> 'w" where
  "assistantSMSSend E args w =
     (case decode_members [''numbers'', ''text'', ''sim_slot''] args of
        Inl e \<Rightarrow> (Inl e, w)
      | Inr ms \<Rightarrow>
          let (ns, e1) = dec_field set_strs [] ''numbers'' ms;
              (t, e2) = dec_field set_str [] ''text'' ms;
              (s, e3) = dec_field set_int 0 ''sim_slot'' ms
          in if e1 \<or> e2 \<or> e3 then (Inl invalid_arguments, w)
             else if ns = [] \<or> trim_space t = [] then (Inl (err_new ''numbers and text are required''), w)
             else replying Ran (assistantRun E ''termux-sms-send''
                    ([''-n'', GoStrings.join '','' ns] @ (if 0 < s then [''-s'', itoa s] else []) @ [t]) [] 30 w))"

definition assistantPhoneCall :: "'w termux_env \<Rightarrow> raw \<Rightarrow> 'w \<Rightarrow> assistant_reply res \<times> 'w" where
  "assistantPhoneCall E args w =
     (case decode_members [''number''] args of
        Inl e \<Rightarrow> (Inl e, w)
      | Inr ms \<Rightarrow>
          (case strict (dec_field set_str [] ''number'' ms) of
             Inl e \<Rightarrow> (Inl e, w)
           | Inr n \<Rightarrow>
               if trim_space n = [] then (Inl (err_new ''number is required''), w)
               else replying Ran (assistantRun E ''termux-telephony-call'' [n] [] 30 w)))"

definition assistantCameraPhoto :: "'w termux_env \<Rightarrow> raw \<Rightarrow> 'w \<Rightarrow> assistant_reply res \<times> 'w" where
  "assistantCameraPhoto E args w =
     (case decode_members [''path'', ''camera_id''] args of
        Inl e \<Rightarrow> (Inl e, w)
      | Inr ms \<Rightarrow>
          let (p, e1) = dec_field set_str [] ''path'' ms;
              (c, e2) = dec_field set_int 0 ''camera_id'' ms
          in if e1 \<or> e2 then (Inl invalid_arguments, w)
             else if trim_space p = [] then (Inl (err_new ''path is required''), w)
             else replying (Photo p c) (assistantRun E ''termux-camera-photo''
                    ((if c \<noteq> 0 then [''-c'', itoa c] else []) @ [p]) [] 60 w))"

definition record_args :: "string \<Rightarrow> string \<Rightarrow> int \<Rightarrow> string list option" where
  "record_args action path limit =
     (if action = ''start''
      then Some ((if path \<noteq> [] then [''-f'', path] else [''-d'']) @
                 (if 0 < limit then [''-l'', itoa (if 3600 < limit then 3600 else limit)] else []))
      else if action = ''stop'' then Some [''-q'']
      else if action = ''info'' then Some [''-i'']
      else None)"

definition assistantMicrophoneRecord :: "'w termux_env \<Rightarrow> raw \<Rightarrow> 'w \<Rightarrow> assistant_reply res \<times> 'w" where
  "assistantMicrophoneRecord E args w =
     (case decode_members [''Action'', ''Path'', ''limit_seconds''] args of
        Inl e \<Rightarrow> (Inl e, w)
      | Inr ms \<Rightarrow>
          let (a, e1) = dec_field set_str [] ''Action'' ms;
              (p, e2) = dec_field set_str [] ''Path'' ms;
              (l, e3) = dec_field set_int 0 ''limit_seconds'' ms
          in if e1 \<or> e2 \<or> e3 then (Inl invalid_arguments, w)
             else (case record_args a p l of
                     None \<Rightarrow> (Inl (err_new ''action must be start, stop, or info''), w)
                   | Some argv \<Rightarrow>
                       replying (parsedAssistantResult E) (assistantRun E ''termux-microphone-record'' argv [] 30 w)))"

definition assistantContacts :: "'w termux_env \<Rightarrow> raw \<Rightarrow> 'w \<Rightarrow> assistant_reply res \<times> 'w" where
  "assistantContacts E args w =
     replying (parsedAssistantResult E) (assistantRun E ''termux-contact-list'' [] [] 30 w)"

definition assistantSMSList :: "'w termux_env \<Rightarrow> raw \<Rightarrow> 'w \<Rightarrow> assistant_reply res \<times> 'w" where
  "assistantSMSList E args w =
     (case decode_members [''limit'', ''type''] args of
        Inl e \<Rightarrow> (Inl e, w)
      | Inr ms \<Rightarrow>
          let (n, e1) = dec_field set_int 0 ''limit'' ms;
              (t, e2) = dec_field set_str [] ''type'' ms
          in if e1 \<or> e2 then (Inl invalid_arguments, w)
             else replying (parsedAssistantResult E) (assistantRun E ''termux-sms-list''
                    [''-l'', itoa (clamped 10 100 n), ''-t'', if t = [] then ''inbox'' else t, ''-d'', ''-n''] [] 30 w))"

definition assistantCallLog :: "'w termux_env \<Rightarrow> raw \<Rightarrow> 'w \<Rightarrow> assistant_reply res \<times> 'w" where
  "assistantCallLog E args w =
     replying (parsedAssistantResult E) (assistantRun E ''termux-call-log'' [] [] 30 w)"

subsection \<open>Lemmas\<close>

lemma replaced_run_termux:
  assumes "run (termux_command E bin args input secs) w = tmRun E (termux_command E bin args input secs) w"
  shows "run_termux (E\<lparr>tmRun := run\<rparr>) name bin args input secs w = run_termux E name bin args input secs w"
  using assms by (simp add: run_termux_def termux_command_def)

lemma replaced_assistantRun:
  assumes "\<And>bin. tmLookPath E name = Inr bin \<Longrightarrow>
    run (termux_command E bin args input secs) w = tmRun E (termux_command E bin args input secs) w" and "0 < secs"
  shows "assistantRun (E\<lparr>tmRun := run\<rparr>) name args input secs w = assistantRun E name args input secs w"
  using assms replaced_run_termux [of run E _ args input secs w] by (simp add: assistantRun_def split: sum.split)

lemma replaced_parsed: "parsedAssistantResult (E\<lparr>tmRun := run\<rparr>) = parsedAssistantResult E"
proof -
  have sel: "tmParse (E\<lparr>tmRun := run\<rparr>) = tmParse E" "tmNum (E\<lparr>tmRun := run\<rparr>) = tmNum E" by simp_all
  show ?thesis unfolding fun_eq_iff parsedAssistantResult_def sel by blast
qed

lemma clamped_range: "1 \<le> dflt \<Longrightarrow> dflt \<le> limit \<Longrightarrow> 1 \<le> clamped dflt limit n \<and> clamped dflt limit n \<le> limit"
  by (simp add: clamped_def)

lemma api_timeout_range: "1 \<le> api_timeout t \<and> api_timeout t \<le> 300"
  by (simp add: api_timeout_def)

text \<open>The commands of the tools that take a number, with the number in its range.\<close>

inductive bounded_command :: "'w termux_env \<Rightarrow> command \<Rightarrow> bool" for E where
  vibrate: "tmLookPath E ''termux-vibrate'' = Inr bin \<Longrightarrow> 1 \<le> n \<Longrightarrow> n \<le> 10000 \<Longrightarrow>
    bounded_command E (termux_command E bin [''-d'', itoa n] [] 15)"
| messages: "tmLookPath E ''termux-sms-list'' = Inr bin \<Longrightarrow> 1 \<le> n \<Longrightarrow> n \<le> 100 \<Longrightarrow>
    bounded_command E (termux_command E bin [''-l'', itoa n, ''-t'', t, ''-d'', ''-n''] [] 30)"
| sound: "tmLookPath E ''termux-microphone-record'' = Inr bin \<Longrightarrow> 1 \<le> n \<Longrightarrow> n \<le> 3600 \<Longrightarrow>
    dest = [''-d''] \<or> dest = [''-f'', p] \<and> p \<noteq> [] \<Longrightarrow>
    bounded_command E (termux_command E bin (dest @ [''-l'', itoa n]) [] 30)"
| control: "tmLookPath E ''termux-microphone-record'' = Inr bin \<Longrightarrow>
    argv = [''-q''] \<or> argv = [''-i''] \<or> argv = [''-d''] \<or> argv = [''-f'', p] \<and> p \<noteq> [] \<Longrightarrow>
    bounded_command E (termux_command E bin argv [] 30)"

lemma record_bounded:
  assumes "record_args a p l = Some argv" and "tmLookPath E ''termux-microphone-record'' = Inr bin"
  shows "bounded_command E (termux_command E bin argv [] 30)"
proof (cases "a = ''start'' \<and> 0 < l")
  case True
  let ?d = "if p \<noteq> [] then [''-f'', p] else [''-d'']"
  have "argv = ?d @ [''-l'', itoa (if 3600 < l then 3600 else l)]" using assms(1) True by (simp add: record_args_def)
  moreover have "?d = [''-d''] \<or> ?d = [''-f'', p] \<and> p \<noteq> []" by simp
  ultimately show ?thesis using sound [OF assms(2)] True by auto
next
  case False
  then have "argv = [''-q''] \<or> argv = [''-i''] \<or> argv = [''-d''] \<or> argv = [''-f'', p] \<and> p \<noteq> []"
    using assms(1) by (auto simp: record_args_def split: if_splits)
  then show ?thesis by (rule control [OF assms(2)])
qed

subsection \<open>Properties\<close>

text \<open>
  C31: \<open>android_api_call\<close> runs nothing but a command of the list, by its own path and with a limit of 1 to
  300 seconds, and one with a sensitive risk only when the policy allows it: a machine that runs these
  commands as the real one does, and all others differently, makes no difference.
\<close>

theorem api_call_gated:
  assumes "\<And>name risk bin argv input secs w. map_of termuxAPIAllowlist name = Some risk \<Longrightarrow>
      sensitive_risk risk \<longrightarrow> (case pe of Some c \<Rightarrow> cAllowSensitiveAndroid c | None \<Rightarrow> True) \<Longrightarrow>
      tmLookPath E name = Inr bin \<Longrightarrow> 1 \<le> secs \<Longrightarrow> secs \<le> 300 \<Longrightarrow>
      run (termux_command E bin argv input secs) w = tmRun E (termux_command E bin argv input secs) w"
  shows "termuxAPICall (E\<lparr>tmRun := run\<rparr>) pe args w = termuxAPICall E pe args w"
proof -
  have "run_termux (E\<lparr>tmRun := run\<rparr>) name bin argv input (api_timeout secs) w =
      run_termux E name bin argv input (api_timeout secs) w"
    if "map_of termuxAPIAllowlist name = Some risk" "tmLookPath E name = Inr bin"
      "\<not> (sensitive_risk risk \<and> (case pe of Some c \<Rightarrow> \<not> cAllowSensitiveAndroid c | None \<Rightarrow> False))"
    for name risk bin argv input secs
    using that api_timeout_range [of secs]
    by (intro replaced_run_termux assms) (auto split: option.splits)
  then show ?thesis
    by (simp add: termuxAPICall_def Let_def del: decode_members.simps split: sum.split prod.split option.split)
qed

text \<open>
  C32: the numbers that the assistant passes on are in their ranges whatever the arguments are: 1 to
  10000 ms of vibration, 1 to 100 messages and a recording of 1 to 3600 s.
\<close>

theorem assistant_numbers_bounded:
  assumes "\<And>c w. bounded_command E c \<Longrightarrow> run c w = tmRun E c w"
  shows "assistantVibrate (E\<lparr>tmRun := run\<rparr>) args w = assistantVibrate E args w \<and>
    assistantSMSList (E\<lparr>tmRun := run\<rparr>) args w = assistantSMSList E args w \<and>
    assistantMicrophoneRecord (E\<lparr>tmRun := run\<rparr>) args w = assistantMicrophoneRecord E args w"
proof (intro conjI)
  have "assistantRun (E\<lparr>tmRun := run\<rparr>) ''termux-vibrate'' [''-d'', itoa (clamped 500 10000 n)] [] 15 w =
      assistantRun E ''termux-vibrate'' [''-d'', itoa (clamped 500 10000 n)] [] 15 w" for n
    using clamped_range [of 500 10000 n] by (intro replaced_assistantRun assms vibrate) simp_all
  then show "assistantVibrate (E\<lparr>tmRun := run\<rparr>) args w = assistantVibrate E args w"
    by (simp add: assistantVibrate_def del: decode_members.simps split: sum.split)
  have "assistantRun (E\<lparr>tmRun := run\<rparr>) ''termux-sms-list'' [''-l'', itoa (clamped 10 100 n), ''-t'', t, ''-d'', ''-n''] [] 30 w =
      assistantRun E ''termux-sms-list'' [''-l'', itoa (clamped 10 100 n), ''-t'', t, ''-d'', ''-n''] [] 30 w" for n t
    using clamped_range [of 10 100 n] by (intro replaced_assistantRun assms messages) simp_all
  then show "assistantSMSList (E\<lparr>tmRun := run\<rparr>) args w = assistantSMSList E args w"
    by (simp add: assistantSMSList_def Let_def replaced_parsed del: decode_members.simps split: sum.split prod.split)
  have "assistantRun (E\<lparr>tmRun := run\<rparr>) ''termux-microphone-record'' argv [] 30 w =
      assistantRun E ''termux-microphone-record'' argv [] 30 w" if "record_args a p l = Some argv" for a p l argv
    by (rule replaced_assistantRun) (simp_all add: assms record_bounded [OF that])
  then show "assistantMicrophoneRecord (E\<lparr>tmRun := run\<rparr>) args w = assistantMicrophoneRecord E args w"
    by (simp add: assistantMicrophoneRecord_def Let_def replaced_parsed del: decode_members.simps
        split: sum.split prod.split option.split)
qed

text \<open>
  What \<open>android_api_call\<close> refuses as sensitive, the assistant does without the opt-in: in every mode,
  \<open>readonly\<close> included, the policy lets \<open>assistant_location\<close> and \<open>assistant_clipboard_get\<close> through, which
  run the commands that the same policy refuses by name.
\<close>

theorem assistant_escapes_opt_in:
  assumes "\<not> cAllowSensitiveAndroid c" and "cDenyTools c = []" and "cAllowTools c = []"
    and "cMode c \<in> {''readonly'', ''safe'', ''full''}" and "tmTermux E"
    and "(tool, handler, name) \<in> {(''assistant_location'', assistantLocation E, ''termux-location''),
       (''assistant_clipboard_get'', assistantClipboardGet E, ''termux-clipboard-get'')}"
  shows "BeforeCall a c tool (RawDoc (JObj [(''reason'', JStr r)])) = None \<and>
    termuxAPICall E (Some c) (RawDoc (JObj [(''command'', JStr name)])) w =
      (Inl (Errorf ''policy denied sensitive Android API command %s; set allow_sensitive_android=true to opt in'' [FStr name]), w) \<and>
    (\<exists>argv secs f. handler RawEmpty w = replying f (assistantRun E name argv [] secs w))"
proof (intro conjI)
  have "list_all (\<lambda>t. \<not> isMutation t \<and> \<not> isHighImpact t \<and> \<not> isSensitiveAndroid t \<and> \<not> has_prefix t ''target_'')
      [''assistant_location'', ''assistant_clipboard_get'']" by code_simp
  then have "\<not> isMutation tool" "\<not> isHighImpact tool" "\<not> isSensitiveAndroid tool" "\<not> has_prefix tool ''target_''"
    using assms(6) by auto
  then show "BeforeCall a c tool (RawDoc (JObj [(''reason'', JStr r)])) = None"
    using assms(1-4,6)
    by (auto simp: BeforeCall_def check_args_def check_method_def policy_args_def map_at_def gm_get_of Let_def)
  have d: "decode_members [''command'', ''args'', ''stdin'', ''timeout_seconds''] (RawDoc (JObj [(''command'', JStr name)])) =
      Inr [(''command'', JStr name)]" by (simp add: known_field_def key_matches_def)
  have f: "field_values ''command'' [(''command'', JStr name)] = [JStr name]" "field_values ''args'' [(''command'', JStr name)] = []"
    "field_values ''stdin'' [(''command'', JStr name)] = []" "field_values ''timeout_seconds'' [(''command'', JStr name)] = []"
    by (simp_all add: field_values_Cons) (code_simp+)
  have "list_all (\<lambda>n. map_of termuxAPIAllowlist n = Some ''sensitive-read'') [''termux-location'', ''termux-clipboard-get'']"
    by code_simp
  then have risk: "map_of termuxAPIAllowlist name = Some ''sensitive-read''" using assms(6) by auto
  have "sensitive_risk ''sensitive-read''" by code_simp
  then show "termuxAPICall E (Some c) (RawDoc (JObj [(''command'', JStr name)])) w =
      (Inl (Errorf ''policy denied sensitive Android API command %s; set allow_sensitive_android=true to opt in'' [FStr name]), w)"
    using assms(1,5) by (simp add: termuxAPICall_def d dec_field_def f risk del: decode_members.simps)
  show "\<exists>argv secs f. handler RawEmpty w = replying f (assistantRun E name argv [] secs w)"
  proof -
    have ex: "\<exists>argv secs f. replying g (assistantRun E n l [] s w) = replying f (assistantRun E n argv [] secs w)" for g n l s
      by blast
    show ?thesis using assms(6) by (auto simp: assistantLocation_def assistantClipboardGet_def intro!: ex)
  qed
qed

text \<open>Texts and numbers of a phone are not separated from options: a text with a dash is one.\<close>

lemma spoken_text_as_option:
  "assistantSpeak E (RawDoc (JObj [(''text'', JStr ''-h'')])) w =
     replying Ran (assistantRun E ''termux-tts-speak'' [''-h''] [] 90 w)"
proof -
  have "decode_members [''Text'', ''Language'', ''Rate'', ''Pitch''] (RawDoc (JObj [(''text'', JStr ''-h'')])) =
      Inr [(''text'', JStr ''-h'')]" by code_simp
  moreover have "map (\<lambda>f. field_values f [(''text'', JStr ''-h'')]) [''Text'', ''Language'', ''Rate'', ''Pitch''] =
      [[JStr ''-h''], [], [], []]" by code_simp
  moreover have "trim_space ''-h'' = ''-h''" by code_simp
  ultimately show ?thesis by (simp add: assistantSpeak_def dec_field_def opt_arg_def)
qed

subsection \<open>Witnesses\<close>

definition sample_phone :: "nat termux_env" where
  "sample_phone =
     \<lparr>tmTermux = True, tmAndroid = False, tmEnviron = [], tmLookPath = (\<lambda>n. Inr n),
      tmRun = (\<lambda>c w. (Ended [] [] 1 False None, w + 1)), tmErrText = (\<lambda>e. []), tmParse = (\<lambda>s. RawEmpty), tmNum = Some\<rparr>"

definition sample_strict :: config where
  "sample_strict = Default\<lparr>cMode := ''readonly'', cAllowSensitiveAndroid := False\<rparr>"

definition sample_runner :: "command \<Rightarrow> nat \<Rightarrow> outcome \<times> nat" where
  "sample_runner c w =
     (if cmTimeout c \<le> seconds 300 then tmRun sample_phone c w else (NotStarted ErrNotExist, w))"

theorem api_call_gated_witness:
  "termuxAPICall (sample_phone\<lparr>tmRun := sample_runner\<rparr>) (Some sample_strict)
     (RawDoc (JObj [(''command'', JStr ''termux-toast''), (''timeout_seconds'', JNum (JInt 4000))])) 0 =
   termuxAPICall sample_phone (Some sample_strict)
     (RawDoc (JObj [(''command'', JStr ''termux-toast''), (''timeout_seconds'', JNum (JInt 4000))])) 0"
proof (rule api_call_gated)
  fix bin argv input w and secs :: int
  assume "1 \<le> secs" "secs \<le> 300"
  then show "sample_runner (termux_command sample_phone bin argv input secs) w =
      tmRun sample_phone (termux_command sample_phone bin argv input secs) w"
    by (simp add: sample_runner_def termux_command_def seconds_exact)
qed

theorem assistant_numbers_bounded_witness:
  "assistantVibrate (sample_phone\<lparr>tmRun := sample_runner\<rparr>) (RawDoc (JObj [(''duration_ms'', JNum (JInt 99999))])) 0 =
   assistantVibrate sample_phone (RawDoc (JObj [(''duration_ms'', JNum (JInt 99999))])) 0"
proof (rule assistant_numbers_bounded [THEN conjunct1])
  fix c w assume "bounded_command sample_phone c"
  then have "cmTimeout c \<le> seconds 300"
    by cases (simp_all add: termux_command_def seconds_exact)
  then show "sample_runner c w = tmRun sample_phone c w" by (simp add: sample_runner_def)
qed

theorem assistant_escapes_opt_in_witness:
  "BeforeCall AMD64 sample_strict ''assistant_location'' (RawDoc (JObj [(''reason'', JStr ''r'')])) = None"
  using assistant_escapes_opt_in [of sample_strict sample_phone "''assistant_location''" "assistantLocation sample_phone"
      "''termux-location''" AMD64 "''r''" 0]
  by (simp add: sample_strict_def Default_def sample_phone_def)

end
