(* ===== verification/Catalog.thy ===== *)
theory Catalog
  imports Runtime AnyApp
begin

section \<open>The tools of the program (internal/tools/register.go and the registrations beside the handlers)\<close>

text \<open>
  What \<open>tools.Register\<close> declares, in its order: the name, description, schema and hints of every
  tool. The components model the handlers, each over its own state; here a handler is \<open>h name\<close>, and
  nothing below depends on it. The list is what \<open>Runtime.Register\<close> adds to the registry one by one,
  under \<open>must\<close> except for the tools of the optional backend.

  A build for Android has the files for Linux: \<open>linux_build\<close>. The lemmas show that registering never
  panics, which tools a program of a platform has, and where the hints a client sees and the lists of
  the policy engine differ.
\<close>

subsection \<open>Declarations\<close>

abbreviation str_arg :: "string \<Rightarrow> gv" where "str_arg d \<equiv> GMap (String_schema d)"
abbreviation int_arg :: "string \<Rightarrow> gv" where "int_arg d \<equiv> GMap (Integer_schema d)"
abbreviation bool_arg :: "string \<Rightarrow> gv" where "bool_arg d \<equiv> GMap (Boolean_schema d)"
abbreviation strs_arg :: "string \<Rightarrow> gv" where "strs_arg d \<equiv> GMap (StringArray_schema d)"

abbreviation choice_arg :: "string list \<Rightarrow> gv" where
  "choice_arg cs \<equiv> GMap [(''type'', GStr ''string''), (''enum'', GStrs cs)]"

abbreviation env_arg :: gv where
  "env_arg \<equiv> GMap [(''type'', GStr ''object''), (''additionalProperties'', GMap [(''type'', GStr ''string'')])]"

definition read_only_hint :: schema where
  "read_only_hint = [(''readOnlyHint'', GBool True)]"

definition destructive_hint :: schema where
  "destructive_hint = [(''destructiveHint'', GBool True)]"

definition core_tool ::
  "(string \<Rightarrow> 'w handler) \<Rightarrow> string \<Rightarrow> string \<Rightarrow> schema \<Rightarrow> schema \<Rightarrow> bool \<times> 'w tool" where
  "core_tool h name description input annotations =
     (True, \<lparr>tName = name, tTitle = [], tDescription = description, tInputSchema = Some input,
             tOutputSchema = None, tAnnotations = annotations, tHandler = Some (h name), tSource = ''core''\<rparr>)"

definition linux_build :: "string \<Rightarrow> bool" where
  "linux_build goos \<longleftrightarrow> goos = ''linux'' \<or> goos = ''android''"

definition registerFilesystem :: "(string \<Rightarrow> 'w handler) \<Rightarrow> (bool \<times> 'w tool) list" where
  "registerFilesystem h =
    [core_tool h ''fs_list''
       ''List a local directory with metadata.''
       (ObjectSchema (Some
        [(''path'', str_arg ''directory to list; defaults to current directory''),
         (''hidden'', bool_arg ''include dotfiles'')]) []) [],
     core_tool h ''fs_read''
       ''Read a local file by byte range. Text is returned as UTF-8; binary data is returned as base64.''
       (ObjectSchema (Some
        [(''path'', str_arg ''file to read''),
         (''offset'', int_arg ''byte offset''),
         (''max_bytes'', int_arg ''maximum bytes to return, capped at 10 MiB'')]) [''path'']) read_only_hint,
     core_tool h ''fs_write''
       ''Create, replace, or append a local file. Content can be UTF-8 text or base64.''
       (ObjectSchema (Some
        [(''path'', str_arg ''file path''),
         (''content'', str_arg ''file content''),
         (''encoding'', GMap [(''type'', GStr ''string''), (''enum'', GStrs [''utf-8'', ''base64'']), (''description'', GStr ''content encoding; default utf-8'')]),
         (''append'', bool_arg ''append instead of replacing''),
         (''mode'', int_arg ''unix mode bits, e.g. 420 for 0644'')]) [''path'', ''content'']) [],
     core_tool h ''fs_patch''
       ''Atomically apply ordered exact-text replacements to a file.''
       (ObjectSchema (Some
        [(''path'', str_arg ''file path''),
         (''edits'', GMap [(''type'', GStr ''array''), (''minItems'', GNum 1), (''items'', GMap (ObjectSchema (Some [(''old'', str_arg ''exact text to find''), (''new'', str_arg ''replacement text''), (''count'', int_arg ''maximum replacements; 0 means all'')]) [''old'', ''new'']))])]) [''path'', ''edits'']) [],
     core_tool h ''fs_move''
       ''Move or rename a file or directory.''
       (ObjectSchema (Some
        [(''source'', str_arg ''source path''),
         (''dest'', str_arg ''destination path'')]) [''source'', ''dest'']) [],
     core_tool h ''fs_remove''
       ''Remove a file or directory.''
       (ObjectSchema (Some
        [(''path'', str_arg ''path to remove''),
         (''recursive'', bool_arg ''allow recursive directory removal'')]) [''path'']) destructive_hint,
     core_tool h ''fs_search''
       ''Recursively search text files with a regular expression.''
       (ObjectSchema (Some
        [(''root'', str_arg ''directory tree to search''),
         (''pattern'', str_arg ''regular expression matched against lines''),
         (''name'', str_arg ''optional substring required in filename''),
         (''max_results'', int_arg ''maximum result count''),
         (''max_file_bytes'', int_arg ''skip files larger than this; default 4 MiB'')]) [''root'', ''pattern'']) read_only_hint,
     core_tool h ''fs_stat''
       ''Inspect a path without changing it.''
       (ObjectSchema (Some [(''path'', str_arg ''path to inspect'')]) [''path'']) read_only_hint]"

definition executionContext :: gv where
  "executionContext = GMap [(''type'', GStr ''string''), (''enum'', GStrs [''auto'', ''service'', ''user'', ''desktop'', ''system'']), (''description'', GStr ''execution domain; auto conservatively routes recognized desktop/session commands through the active desktop bridge, service stays in the CyComAgent service, user/desktop use the active login-session bridge, and system requires privileged=true/root broker'')]"

definition props_members :: schema where
  "props_members =
    [(''command'', str_arg ''shell command to execute''),
     (''stdin'', str_arg ''optional UTF-8 stdin for the command''),
     (''cwd'', str_arg ''working directory''),
     (''env'', env_arg),
     (''timeout_seconds'', int_arg ''timeout; default 120 seconds''),
     (''shell'', str_arg ''shell executable; defaults to the platform shell''),
     (''max_output_bytes'', int_arg ''cap for stdout and stderr''),
     (''privileged'', bool_arg ''execute through the optional root broker''),
     (''execution_context'', executionContext)]"

definition registerProcess :: "(string \<Rightarrow> 'w handler) \<Rightarrow> (bool \<times> 'w tool) list" where
  "registerProcess h =
    [core_tool h ''process_exec''
       ''Execute a shell command synchronously. Use execution_context=desktop for GUI apps, Polkit-authorized desktop actions, notifications, keyrings, portals, clipboard/compositor commands, or anything that must belong to the active graphical login session.''
       (ObjectSchema (Some props_members) [''command'']) [],
     core_tool h ''process_spawn''
       ''Start a persistent background job. Use execution_context=desktop for GUI/session applications so they are born in the active graphical login session rather than the CyComAgent service cgroup.''
       (ObjectSchema (Some
        [(''command'', str_arg ''shell command to start''),
         (''cwd'', str_arg ''working directory''),
         (''env'', env_arg),
         (''shell'', str_arg ''shell executable; defaults to the platform shell''),
         (''execution_context'', executionContext)]) [''command'']) [],
     core_tool h ''process_inspect''
       ''Inspect an OS process by PID.''
       (ObjectSchema (Some [(''pid'', int_arg ''process id'')]) [''pid'']) read_only_hint,
     core_tool h ''process_signal''
       ''Send TERM, INT, HUP, KILL, USR1 or USR2 to a process.''
       (ObjectSchema (Some
        [(''pid'', int_arg ''process id''),
         (''signal'', str_arg ''signal name; default TERM'')]) [''pid'']) []]"

definition registerJobs :: "(string \<Rightarrow> 'w handler) \<Rightarrow> (bool \<times> 'w tool) list" where
  "registerJobs h =
    [core_tool h ''job_list''
       ''List persistent background jobs known to this machine runtime.''
       (ObjectSchema None []) read_only_hint,
     core_tool h ''job_get''
       ''Inspect one persistent background job.''
       (ObjectSchema (Some [(''id'', str_arg ''job id'')]) [''id'']) read_only_hint,
     core_tool h ''job_tail''
       ''Read the tail of a persistent job log.''
       (ObjectSchema (Some
        [(''id'', str_arg ''job id''),
         (''lines'', int_arg ''lines to return''),
         (''max_bytes'', int_arg ''maximum bytes to scan'')]) [''id'']) read_only_hint,
     core_tool h ''job_signal''
       ''Send a signal to an entire persistent job process group.''
       (ObjectSchema (Some
        [(''id'', str_arg ''job id''),
         (''signal'', str_arg ''signal name; default TERM'')]) [''id'']) [],
     core_tool h ''job_prune''
       ''Remove completed job metadata/logs older than a retention window.''
       (ObjectSchema (Some [(''older_than_hours'', int_arg ''retention window; default 168 hours'')]) []) []]"

definition registerSystem :: "(string \<Rightarrow> 'w handler) \<Rightarrow> (bool \<times> 'w tool) list" where
  "registerSystem h =
    [core_tool h ''system_info''
       ''Inspect the local machine, OS, runtime, user, uptime, common executables and privilege-broker availability.''
       (ObjectSchema None []) read_only_hint,
     core_tool h ''system_env''
       ''Read selected environment variables by name. Variables must be requested explicitly; the full environment is never dumped implicitly.''
       (ObjectSchema (Some [(''names'', strs_arg ''environment variable names'')]) [''names'']) read_only_hint,
     core_tool h ''service_control''
       ''Inspect or control the host service manager (systemd on Linux, runit/termux-services on Termux, launchd on macOS).''
       (ObjectSchema (Some
        [(''name'', str_arg ''service/unit name''),
         (''action'', choice_arg [''status'', ''start'', ''stop'', ''restart'', ''reload'', ''enable'', ''disable'', ''is-active'', ''is-enabled'']),
         (''user'', bool_arg ''operate on the user service manager (systemd; macOS launchd adapter is user-domain only)''),
         (''privileged'', bool_arg ''execute through the local privilege broker where supported; macOS and Termux adapters are non-privileged'')]) [''name'', ''action'']) [],
     core_tool h ''network_request''
       ''Make an HTTP/HTTPS request from this machine and return structured status, headers and body.''
       (ObjectSchema (Some
        [(''method'', str_arg ''HTTP method; default GET''),
         (''url'', str_arg ''absolute URL''),
         (''headers'', env_arg),
         (''body'', str_arg ''request body''),
         (''timeout_seconds'', int_arg ''timeout''),
         (''max_bytes'', int_arg ''response body cap'')]) [''url'']) [],
     core_tool h ''network_tcp''
       ''Probe a TCP host:port from this machine.''
       (ObjectSchema (Some
        [(''address'', str_arg ''host:port''),
         (''timeout_seconds'', int_arg ''timeout; default 5'')]) [''address'']) read_only_hint,
     core_tool h ''network_resolve''
       ''Resolve a hostname using the machine resolver.''
       (ObjectSchema (Some [(''host'', str_arg ''hostname'')]) [''host'']) read_only_hint,
     core_tool h ''capabilities_list''
       ''Describe the runtime's current generic capabilities, registered tools, detected binaries, external plugins and privilege broker.''
       (ObjectSchema None []) read_only_hint,
     core_tool h ''plugins_reload''
       ''Reload external tool manifests from the plugin directory without restarting the runtime.''
       (ObjectSchema None []) []]"

definition registerSessionControl :: "string \<Rightarrow> (string \<Rightarrow> 'w handler) \<Rightarrow> (bool \<times> 'w tool) list" where
  "registerSessionControl goos h =
    (if \<not> linux_build goos then []
     else [core_tool h ''machine_restart''
       ''Restart the Linux machine through the CyComAgent privilege broker; no sudo/password prompt is required.''
       (ObjectSchema None []) destructive_hint,
     core_tool h ''machine_poweroff''
       ''Power off the Linux machine through the CyComAgent privilege broker; no sudo/password prompt is required.''
       (ObjectSchema None []) destructive_hint,
     core_tool h ''session_logout''
       ''Terminate a login session. Defaults to the current graphical/login session; optionally accepts a logind session id.''
       (ObjectSchema (Some [(''session'', str_arg ''optional logind session id'')]) []) destructive_hint,
     core_tool h ''tty_control''
       ''Manage a Linux virtual terminal/getty. Actions: status, start, stop, restart, activate. Example tty=tty1.''
       (ObjectSchema (Some
        [(''tty'', str_arg ''virtual terminal such as tty1''),
         (''action'', choice_arg [''status'', ''start'', ''stop'', ''restart'', ''activate''])]) [''tty'', ''action'']) [],
     core_tool h ''display_outputs''
       ''List display outputs visible to the active graphical session, including physical and headless outputs when the compositor exposes them.''
       (ObjectSchema None []) read_only_hint,
     core_tool h ''display_output_control''
       ''Enable or disable one display output by exact name in the active graphical session (for example HEADLESS-1, eDP-1, HDMI-A-1). Uses available compositor-neutral command adapters and fails safely when none is available.''
       (ObjectSchema (Some
        [(''output'', str_arg ''exact output name''),
         (''enabled'', bool_arg ''true to enable, false to disable'')]) [''output'', ''enabled'']) []])"

definition registerTermuxAPI :: "string \<Rightarrow> (string \<Rightarrow> string) \<Rightarrow> (string \<Rightarrow> 'w handler) \<Rightarrow> (bool \<times> 'w tool) list" where
  "registerTermuxAPI goos getenv h =
    (if \<not> IsTermux getenv \<and> goos \<noteq> ''android'' then []
     else [core_tool h ''android_api_list''
       ''List supported non-root Termux:API adapters and whether each command is installed on this device. Rooted Android is not supported or planned.''
       (ObjectSchema None []) read_only_hint,
     core_tool h ''android_api_call''
       ''Call an allowlisted Termux:API command without a shell. Requires the Termux:API app/package and any Android permission needed by that API. This is non-root only.''
       (ObjectSchema (Some
        [(''command'', str_arg ''allowlisted Termux:API command, e.g. termux-battery-status''),
         (''args'', strs_arg ''arguments passed directly to the command''),
         (''stdin'', str_arg ''optional UTF-8 stdin''),
         (''timeout_seconds'', int_arg ''timeout; default 30, maximum 300'')]) [''command'']) []])"

definition registerTermuxAssistant :: "(string \<Rightarrow> string) \<Rightarrow> (string \<Rightarrow> 'w handler) \<Rightarrow> (bool \<times> 'w tool) list" where
  "registerTermuxAssistant getenv h =
    (if \<not> IsTermux getenv then []
     else [core_tool h ''assistant_device_status''
       ''Get an assistant-friendly snapshot of Android battery, Wi-Fi and audio state using non-root Termux:API adapters when available.''
       (ObjectSchema None []) read_only_hint,
     core_tool h ''assistant_listen''
       ''Listen once using Android speech-to-text and return recognized text. Requires microphone permission and Termux:API; no device root is used.''
       (ObjectSchema None []) [],
     core_tool h ''assistant_speak''
       ''Speak text using Android text-to-speech, similar to a voice assistant response.''
       (ObjectSchema (Some
        [(''text'', str_arg ''text to speak''),
         (''language'', str_arg ''optional language code''),
         (''rate'', str_arg ''optional speech rate accepted by Termux:API''),
         (''pitch'', str_arg ''optional pitch accepted by Termux:API'')]) [''text'']) [],
     core_tool h ''assistant_notify''
       ''Show an Android notification from the assistant.''
       (ObjectSchema (Some
        [(''title'', str_arg ''notification title''),
         (''content'', str_arg ''notification content''),
         (''id'', str_arg ''optional stable notification id'')]) [''content'']) [],
     core_tool h ''assistant_location''
       ''Get Android device location through Termux:API. Requires Android location permission.''
       (ObjectSchema (Some
        [(''provider'', choice_arg [''gps'', ''network'', ''passive'']),
         (''request'', choice_arg [''once'', ''last''])]) []) read_only_hint,
     core_tool h ''assistant_clipboard_get''
       ''Read Android clipboard text through Termux:API.''
       (ObjectSchema None []) read_only_hint,
     core_tool h ''assistant_clipboard_set''
       ''Set Android clipboard text through Termux:API.''
       (ObjectSchema (Some [(''text'', str_arg ''clipboard text'')]) [''text'']) [],
     core_tool h ''assistant_vibrate''
       ''Vibrate the Android device for a bounded duration.''
       (ObjectSchema (Some [(''duration_ms'', int_arg ''duration in milliseconds, 1-10000'')]) []) [],
     core_tool h ''assistant_torch''
       ''Turn the Android flashlight on or off.''
       (ObjectSchema (Some [(''enabled'', bool_arg ''true to turn torch on, false to turn it off'')]) [''enabled'']) [],
     core_tool h ''assistant_sms_send''
       ''Send an SMS through Android. Sensitive capability: requires policy opt-in and Android SMS permissions.''
       (ObjectSchema (Some
        [(''numbers'', strs_arg ''recipient phone numbers''),
         (''text'', str_arg ''message text''),
         (''sim_slot'', int_arg ''optional SIM slot'')]) [''numbers'', ''text'']) [],
     core_tool h ''assistant_phone_call''
       ''Place an Android phone call. Sensitive capability: requires policy opt-in and CALL_PHONE permission.''
       (ObjectSchema (Some [(''number'', str_arg ''phone number'')]) [''number'']) [],
     core_tool h ''assistant_camera_photo''
       ''Take a photo with an Android camera and save it to a requested path. Sensitive capability: requires policy opt-in and camera permission.''
       (ObjectSchema (Some
        [(''path'', str_arg ''output image path''),
         (''camera_id'', int_arg ''camera id, usually 0 rear or 1 front'')]) [''path'']) [],
     core_tool h ''assistant_microphone_record''
       ''Start or stop Android microphone recording. Sensitive capability: requires policy opt-in and microphone permission.''
       (ObjectSchema (Some
        [(''action'', choice_arg [''start'', ''stop'', ''info'']),
         (''path'', str_arg ''output file path for start''),
         (''limit_seconds'', int_arg ''recording limit in seconds; 0 means Termux:API default/unlimited behavior'')]) [''action'']) [],
     core_tool h ''assistant_contacts''
       ''List Android contacts. Sensitive capability: requires policy opt-in and contacts permission.''
       (ObjectSchema None []) read_only_hint,
     core_tool h ''assistant_sms_list''
       ''Read Android SMS messages. Sensitive capability: requires policy opt-in and SMS permissions.''
       (ObjectSchema (Some
        [(''limit'', int_arg ''maximum messages, default 10, max 100''),
         (''type'', choice_arg [''all'', ''inbox'', ''sent'', ''draft'', ''outbox''])]) []) read_only_hint,
     core_tool h ''assistant_call_log''
       ''Read Android call log. Sensitive capability: requires policy opt-in and phone permissions.''
       (ObjectSchema None []) read_only_hint])"

definition registerDesktop :: "(string \<Rightarrow> 'w handler) \<Rightarrow> (bool \<times> 'w tool) list" where
  "registerDesktop h =
    [core_tool h ''desktop_capture''
       ''Capture the current desktop using an available local screenshot adapter. Returns native MCP image content plus the saved local path.''
       (ObjectSchema (Some [(''output_path'', str_arg ''optional PNG output path; defaults under the runtime state directory'')]) []) read_only_hint,
     core_tool h ''desktop_input''
       ''Send generic desktop input using the best available adapter. Supports text, key, click and mouse_move actions.''
       (ObjectSchema (Some
        [(''action'', choice_arg [''text'', ''key'', ''click'', ''mouse_move'']),
         (''target'', GMap [(''type'', GStr ''string''), (''enum'', GStrs [''current'', ''headless'', ''auto'']), (''description'', GStr ''desktop target; default auto prefers the isolated CyCom AI compositor when available; current must be explicit to control the physical desktop'')]),
         (''text'', str_arg ''text to type''),
         (''key'', str_arg ''key or key chord, adapter-specific names accepted''),
         (''button'', int_arg ''mouse button; 1=left, 2=middle, 3=right''),
         (''x'', int_arg ''x coordinate''),
         (''y'', int_arg ''y coordinate'')]) [''action'']) []]"

definition browser_schema :: schema where
  "browser_schema =
     ObjectSchema (Some
        [(''action'', choice_arg [''tabs'', ''open'', ''navigate'', ''state'', ''click'', ''type'', ''scroll'']),
         (''tabId'', int_arg ''optional browser tab id''),
         (''url'', str_arg ''URL for open/navigate''),
         (''selector'', str_arg ''optional CSS selector''),
         (''text'', str_arg ''visible text for click or literal text for type''),
         (''index'', int_arg ''element index from state''),
         (''x'', int_arg ''horizontal scroll pixels''),
         (''y'', int_arg ''vertical scroll pixels'')]) [''action'']"

definition registerBrowser :: "(string \<Rightarrow> 'w handler) \<Rightarrow> (bool \<times> 'w tool) list" where
  "registerBrowser h =
    [core_tool h ''browser_use''
       ''Control a connected Chromium/Brave tab semantically through the CyCom Browser Bridge extension. Supports tab listing/navigation, DOM state, click, type and scroll.''
       browser_schema []]"

definition registerState :: "(string \<Rightarrow> 'w handler) \<Rightarrow> (bool \<times> 'w tool) list" where
  "registerState h =
    [core_tool h ''state_get''
       ''Read an explicit persistent runtime value. State is application-level and survives MCP/tunnel/runtime restarts.''
       (ObjectSchema (Some
        [(''namespace'', str_arg ''state namespace''),
         (''key'', str_arg ''state key'')]) [''namespace'', ''key'']) read_only_hint,
     core_tool h ''state_put''
       ''Persist an explicit JSON value under a namespace/key. Use this for durable handles or machine/workspace state, not hidden MCP session state.''
       (ObjectSchema (Some
        [(''namespace'', str_arg ''state namespace''),
         (''key'', str_arg ''state key''),
         (''value'', GMap [])]) [''namespace'', ''key'', ''value'']) [],
     core_tool h ''state_delete''
       ''Delete one explicit persistent runtime value.''
       (ObjectSchema (Some
        [(''namespace'', str_arg ''state namespace''),
         (''key'', str_arg ''state key'')]) [''namespace'', ''key'']) destructive_hint,
     core_tool h ''state_list''
       ''List keys in one persistent runtime namespace.''
       (ObjectSchema (Some [(''namespace'', str_arg ''state namespace'')]) [''namespace'']) read_only_hint]"

definition registerTargets :: "(string \<Rightarrow> 'w handler) \<Rightarrow> (bool \<times> 'w tool) list" where
  "registerTargets h =
    [core_tool h ''target_list''
       ''List configured machine targets. The implicit local target always exists; SSH targets are durable configuration, not live MCP sessions.''
       (ObjectSchema None []) read_only_hint,
     core_tool h ''target_get''
       ''Inspect one configured machine target by name.''
       (ObjectSchema (Some [(''name'', str_arg ''target name; local is implicit'')]) [''name'']) read_only_hint,
     core_tool h ''target_upsert''
       ''Create or update a durable SSH machine target. Authentication uses the system SSH agent/config or an identity file; passwords are intentionally not stored.''
       (ObjectSchema (Some
        [(''name'', str_arg ''stable target name''),
         (''transport'', choice_arg [''ssh'']),
         (''host'', str_arg ''SSH hostname/IP''),
         (''port'', int_arg ''SSH port; default 22''),
         (''user'', str_arg ''SSH username''),
         (''identity_file'', str_arg ''optional private key path''),
         (''work_dir'', str_arg ''default remote working directory''),
         (''env'', env_arg),
         (''ssh_options'', strs_arg ''additional OpenSSH -o options''),
         (''tags'', strs_arg ''arbitrary target tags''),
         (''enabled'', bool_arg ''enable target; defaults true'')]) [''name'', ''host'']) [],
     core_tool h ''target_remove''
       ''Remove a durable remote target definition. This does not alter the remote machine.''
       (ObjectSchema (Some [(''name'', str_arg ''target name'')]) [''name'']) destructive_hint,
     core_tool h ''target_probe''
       ''Probe whether a local/SSH target is reachable without creating persistent connection state.''
       (ObjectSchema (Some
        [(''name'', str_arg ''target name''),
         (''timeout_seconds'', int_arg ''probe timeout; default 8'')]) [''name'']) read_only_hint,
     core_tool h ''target_exec''
       ''Execute a command on the implicit local target or a durable SSH target. SSH is invoked per operation, so tunnel/MCP restarts cannot erase a required connection session.''
       (ObjectSchema (Some
        [(''name'', str_arg ''target name; local allowed''),
         (''command'', str_arg ''shell command''),
         (''cwd'', str_arg ''working directory override''),
         (''env'', env_arg),
         (''timeout_seconds'', int_arg ''execution timeout''),
         (''max_output_bytes'', int_arg ''stdout/stderr cap''),
         (''privileged'', bool_arg ''use sudo -n on the target'')]) [''name'', ''command'']) [],
     core_tool h ''target_copy''
       ''Copy a file/directory to or from an SSH target using the system scp implementation.''
       (ObjectSchema (Some
        [(''name'', str_arg ''SSH target name''),
         (''direction'', choice_arg [''push'', ''pull'']),
         (''source'', str_arg ''source path''),
         (''dest'', str_arg ''destination path''),
         (''recursive'', bool_arg ''copy directories recursively''),
         (''timeout_seconds'', int_arg ''timeout; default 300'')]) [''name'', ''direction'', ''source'', ''dest'']) []]"

definition registerGovernance :: "(string \<Rightarrow> 'w handler) \<Rightarrow> (bool \<times> 'w tool) list" where
  "registerGovernance h =
    [core_tool h ''audit_tail''
       ''Read recent structured tool-call audit events. Arguments are represented by SHA-256 rather than copied into logs to avoid silently persisting secrets.''
       (ObjectSchema (Some [(''limit'', int_arg ''event count; default 100, max 1000'')]) []) read_only_hint,
     core_tool h ''audit_prune''
       ''Prune old structured audit log files.''
       (ObjectSchema (Some [(''older_than_days'', int_arg ''retention; default 30 days'')]) []) [],
     core_tool h ''policy_get''
       ''Inspect the currently loaded runtime policy and policy-file path.''
       (ObjectSchema None []) read_only_hint,
     core_tool h ''policy_reload''
       ''Reload policy.json from disk without restarting the runtime.''
       (ObjectSchema None []) []]"

text \<open>
  \<open>Register\<close>. The backend's tools are those \<open>registerAnyApp\<close> adds; other systems have none.
\<close>

definition backend_tools :: "string \<Rightarrow> 'w tool list \<Rightarrow> (bool \<times> 'w tool) list" where
  "backend_tools goos backend = (if linux_build goos then map (Pair False) backend else [])"

definition early_tools :: "string \<Rightarrow> (string \<Rightarrow> string) \<Rightarrow> (string \<Rightarrow> 'w handler) \<Rightarrow> (bool \<times> 'w tool) list" where
  "early_tools goos getenv h =
     registerFilesystem h @ registerProcess h @ registerJobs h @ registerSystem h @
     registerSessionControl goos h @ registerTermuxAPI goos getenv h @ registerTermuxAssistant getenv h @
     registerDesktop h @ registerBrowser h"

definition late_tools :: "(string \<Rightarrow> 'w handler) \<Rightarrow> (bool \<times> 'w tool) list" where
  "late_tools h = registerState h @ registerTargets h @ registerGovernance h"

definition program_tools ::
  "string \<Rightarrow> (string \<Rightarrow> string) \<Rightarrow> (string \<Rightarrow> 'w handler) \<Rightarrow> 'w tool list \<Rightarrow> (bool \<times> 'w tool) list" where
  "program_tools goos getenv h backend =
     early_tools goos getenv h @ backend_tools goos backend @ late_tools h"

subsection \<open>Registering a list of tools\<close>

text \<open>The names that are added under \<open>must\<close>, and what a list of declarations leaves under a name.\<close>

definition mandatory :: "(bool \<times> 'w tool) list \<Rightarrow> string list" where
  "mandatory ts = map (\<lambda>x. tName (snd x)) (filter fst ts)"

fun normalised :: "(bool \<times> 'w tool) list \<Rightarrow> (string \<times> 'w tool) list" where
  "normalised [] = []"
| "normalised ((must, t) # ts) =
     (case normalize_tool t of Inl e \<Rightarrow> normalised ts | Inr t' \<Rightarrow> (tName t, t') # normalised ts)"

lemma normalize_tool_keeps: "normalize_tool t = Inr t' \<Longrightarrow> tName t' = tName t \<and> tHandler t' = tHandler t \<and> tSource t' = tSource t \<and> tAnnotations t' = tAnnotations t"
  by (auto simp: normalize_tool_def default_input_schema_def clone_output_schema_def Let_def split: if_splits sum.splits)

lemma Add_cases:
  "Add t r =
     (case normalize_tool t of
        Inl e \<Rightarrow> Inl e
      | Inr t' \<Rightarrow> if gm_get (rTools r) (tName t) \<noteq> None then Inl (Errorf ''tool %q already registered'' [FStr (tName t)])
                else Inr (r\<lparr>rTools := gm_put (tName t) t' (rTools r)\<rparr>))"
  by (auto simp: Add_def normalize_tool_keeps split: sum.splits)

lemma Register_lookup:
  assumes "Register ts r = Some r'"
  shows "gm_get (rTools r') n = (case gm_get (rTools r) n of Some t \<Rightarrow> Some t | None \<Rightarrow> map_of (normalised ts) n)"
  using assms
proof (induction ts r rule: Register.induct)
  case (1 r)
  then show ?case by (auto split: option.splits)
next
  case (2 must t ts r)
  show ?case
  proof (cases "Add t r")
    case (Inl e)
    then have "gm_get (rTools r') n = (case gm_get (rTools r) n of Some t \<Rightarrow> Some t | None \<Rightarrow> map_of (normalised ts) n)"
      using 2 by (auto split: if_splits)
    then show ?thesis using Inl by (auto simp: Add_cases split: sum.splits if_splits option.splits)
  next
    case (Inr r1)
    then have "gm_get (rTools r') n = (case gm_get (rTools r1) n of Some t \<Rightarrow> Some t | None \<Rightarrow> map_of (normalised ts) n)"
      using 2 by simp
    then show ?thesis using Inr by (auto simp: Add_cases split: sum.splits if_splits option.splits)
  qed
qed

lemma Register_returns:
  assumes "\<forall>(must, t) \<in> set ts. must \<longrightarrow> is_ok (normalize_tool t)" and "distinct (mandatory ts)"
    and "\<forall>n \<in> set (mandatory ts). gm_get (rTools r) n = None"
    and "\<forall>(must, t) \<in> set ts. \<not> must \<longrightarrow> tName t \<notin> set (mandatory ts)"
  shows "\<exists>r'. Register ts r = Some r'"
  using assms
proof (induction ts r rule: Register.induct)
  case (1 r)
  then show ?case by simp
next
  case (2 must t ts r)
  have "set (mandatory ts) \<subseteq> set (mandatory ((must, t) # ts))" by (auto simp: mandatory_def)
  then have rest: "\<forall>(must, t) \<in> set ts. must \<longrightarrow> is_ok (normalize_tool t)" "distinct (mandatory ts)"
    "\<forall>(must, t) \<in> set ts. \<not> must \<longrightarrow> tName t \<notin> set (mandatory ts)"
    using 2(3,4,6) by (auto simp: mandatory_def split: if_splits)
  show ?case
  proof (cases "Add t r")
    case (Inl e)
    have "\<not> must"
    proof
      assume must
      then have "gm_get (rTools r) (tName t) = None" "is_ok (normalize_tool t)"
        using 2(3,5) by (simp_all add: mandatory_def)
      then show False using Inl by (auto simp: Add_cases is_ok_iff)
    qed
    moreover have "\<forall>n \<in> set (mandatory ts). gm_get (rTools r) n = None" using 2(5) by (simp add: mandatory_def)
    ultimately show ?thesis using Inl 2(1) [OF Inl] rest by simp
  next
    case (Inr r1)
    then obtain t' where r1: "r1 = r\<lparr>rTools := gm_put (tName t) t' (rTools r)\<rparr>"
      by (auto simp: Add_cases split: sum.splits if_splits)
    have "tName t \<notin> set (mandatory ts)" using 2(4,6) by (cases must) (simp_all add: mandatory_def)
    moreover have "\<forall>n \<in> set (mandatory ts). gm_get (rTools r) n = None" using 2(5) by (simp add: mandatory_def)
    ultimately have "\<forall>n \<in> set (mandatory ts). gm_get (rTools r1) n = None" using r1 by auto
    then show ?thesis using Inr 2(2) [OF Inr rest(1,2) _ rest(3)] by simp
  qed
qed

lemma Register_interceptors: "Register ts r = Some r' \<Longrightarrow> rInterceptors r' = rInterceptors r"
  by (induction ts r rule: Register.induct) (auto simp: Add_cases split: sum.splits if_splits)

lemma normalised_Nil: "n \<notin> (\<lambda>x. tName (snd x)) ` set ts \<Longrightarrow> map_of (normalised ts) n = None"
  by (induction ts rule: normalised.induct) (auto split: sum.splits)

lemma normalised_append: "normalised (xs @ ys) = normalised xs @ normalised ys"
  by (induction xs rule: normalised.induct) (auto split: sum.splits)

lemma normalised_mem: "(n, t') \<in> set (normalised ts) \<Longrightarrow> \<exists>must t. (must, t) \<in> set ts \<and> tName t = n \<and> normalize_tool t = Inr t'"
  by (induction ts rule: normalised.induct) (auto split: sum.splits)

lemma normalised_has:
  "(must, t) \<in> set ts \<Longrightarrow> normalize_tool t = Inr t' \<Longrightarrow> (tName t, t') \<in> set (normalised ts)"
  by (induction ts rule: normalised.induct) (auto split: sum.splits)

text \<open>A declaration of the program is accepted when its required names are distinct.\<close>

lemma core_tool_fields [simp]:
  "fst (core_tool h n d s a) = True" "tName (snd (core_tool h n d s a)) = n"
  "tInputSchema (snd (core_tool h n d s a)) = Some s" "tAnnotations (snd (core_tool h n d s a)) = a"
  "tHandler (snd (core_tool h n d s a)) = Some (h n)" "tSource (snd (core_tool h n d s a)) = ''core''"
  "tOutputSchema (snd (core_tool h n d s a)) = None"
  by (simp_all add: core_tool_def)

lemma requireReason_ObjectSchema:
  assumes "distinct req"
  shows "is_ok (requireReasonSchema (Some (ObjectSchema p req)))"
proof -
  have base: "gm_get [(''type'', a), (''properties'', b), (''additionalProperties'', c)] ''required'' = None" for a b c :: gv
    by (simp add: gm_get_def)
  have "gm_get (with_reason_property (Some (ObjectSchema p req))) ''required'' =
      (if req = [] then None else Some (GStrs req))"
    using base by (simp add: with_reason_property_def Let_def cloneSchema_def clone_id ObjectSchema_def)
  then show ?thesis
    using assms by (auto simp: requireReasonSchema_def Let_def is_ok_iff check_unique_eq split: sum.splits)
qed

definition declared_well :: "(string \<Rightarrow> 'w handler) \<Rightarrow> bool \<times> 'w tool \<Rightarrow> bool" where
  "declared_well h x \<longleftrightarrow>
     fst x \<and> tName (snd x) \<noteq> [] \<and> tHandler (snd x) = Some (h (tName (snd x))) \<and> tSource (snd x) = ''core'' \<and>
     is_ok (requireReasonSchema (tInputSchema (snd x))) \<and> tInputSchema (snd x) \<noteq> None"

lemma declared_well_ok: "declared_well h x \<Longrightarrow> fst x \<and> is_ok (normalize_tool (snd x))"
  by (auto simp: declared_well_def normalize_tool_def default_input_schema_def Let_def is_ok_iff split: sum.splits)

lemma declared_well_core [simp]:
  "n \<noteq> [] \<Longrightarrow> distinct req \<Longrightarrow> declared_well h (core_tool h n d (ObjectSchema p req) a)"
  by (simp add: declared_well_def requireReason_ObjectSchema)

subsection \<open>The tools and their hints\<close>

definition hint_of :: "bool \<times> 'w tool \<Rightarrow> string \<times> schema" where
  "hint_of x = (tName (snd x), tAnnotations (snd x))"

lemma hint_of_core [simp]: "hint_of (core_tool h n d s a) = (n, a)"
  by (simp add: hint_of_def)

definition filesystem_hints :: "(string \<times> schema) list" where
  "filesystem_hints =
     [(''fs_list'', []),
      (''fs_read'', read_only_hint),
      (''fs_write'', []),
      (''fs_patch'', []),
      (''fs_move'', []),
      (''fs_remove'', destructive_hint),
      (''fs_search'', read_only_hint),
      (''fs_stat'', read_only_hint)]"

definition process_hints :: "(string \<times> schema) list" where
  "process_hints =
     [(''process_exec'', []),
      (''process_spawn'', []),
      (''process_inspect'', read_only_hint),
      (''process_signal'', [])]"

definition jobs_hints :: "(string \<times> schema) list" where
  "jobs_hints =
     [(''job_list'', read_only_hint),
      (''job_get'', read_only_hint),
      (''job_tail'', read_only_hint),
      (''job_signal'', []),
      (''job_prune'', [])]"

definition system_hints :: "(string \<times> schema) list" where
  "system_hints =
     [(''system_info'', read_only_hint),
      (''system_env'', read_only_hint),
      (''service_control'', []),
      (''network_request'', []),
      (''network_tcp'', read_only_hint),
      (''network_resolve'', read_only_hint),
      (''capabilities_list'', read_only_hint),
      (''plugins_reload'', [])]"

definition session_hints :: "(string \<times> schema) list" where
  "session_hints =
     [(''machine_restart'', destructive_hint),
      (''machine_poweroff'', destructive_hint),
      (''session_logout'', destructive_hint),
      (''tty_control'', []),
      (''display_outputs'', read_only_hint),
      (''display_output_control'', [])]"

definition android_hints :: "(string \<times> schema) list" where
  "android_hints =
     [(''android_api_list'', read_only_hint),
      (''android_api_call'', [])]"

definition assistant_hints :: "(string \<times> schema) list" where
  "assistant_hints =
     [(''assistant_device_status'', read_only_hint),
      (''assistant_listen'', []),
      (''assistant_speak'', []),
      (''assistant_notify'', []),
      (''assistant_location'', read_only_hint),
      (''assistant_clipboard_get'', read_only_hint),
      (''assistant_clipboard_set'', []),
      (''assistant_vibrate'', []),
      (''assistant_torch'', []),
      (''assistant_sms_send'', []),
      (''assistant_phone_call'', []),
      (''assistant_camera_photo'', []),
      (''assistant_microphone_record'', []),
      (''assistant_contacts'', read_only_hint),
      (''assistant_sms_list'', read_only_hint),
      (''assistant_call_log'', read_only_hint)]"

definition desktop_hints :: "(string \<times> schema) list" where
  "desktop_hints =
     [(''desktop_capture'', read_only_hint),
      (''desktop_input'', [])]"

definition browser_hints :: "(string \<times> schema) list" where
  "browser_hints =
     [(''browser_use'', [])]"

definition state_hints :: "(string \<times> schema) list" where
  "state_hints =
     [(''state_get'', read_only_hint),
      (''state_put'', []),
      (''state_delete'', destructive_hint),
      (''state_list'', read_only_hint)]"

definition targets_hints :: "(string \<times> schema) list" where
  "targets_hints =
     [(''target_list'', read_only_hint),
      (''target_get'', read_only_hint),
      (''target_upsert'', []),
      (''target_remove'', destructive_hint),
      (''target_probe'', read_only_hint),
      (''target_exec'', []),
      (''target_copy'', [])]"

definition governance_hints :: "(string \<times> schema) list" where
  "governance_hints =
     [(''audit_tail'', read_only_hint),
      (''audit_prune'', []),
      (''policy_get'', read_only_hint),
      (''policy_reload'', [])]"

lemma registerFilesystem_hints: "map hint_of (registerFilesystem h) = filesystem_hints"
  by (simp add: registerFilesystem_def filesystem_hints_def)

lemma registerProcess_hints: "map hint_of (registerProcess h) = process_hints"
  by (simp add: registerProcess_def process_hints_def)

lemma registerJobs_hints: "map hint_of (registerJobs h) = jobs_hints"
  by (simp add: registerJobs_def jobs_hints_def)

lemma registerSystem_hints: "map hint_of (registerSystem h) = system_hints"
  by (simp add: registerSystem_def system_hints_def)

lemma registerDesktop_hints: "map hint_of (registerDesktop h) = desktop_hints"
  by (simp add: registerDesktop_def desktop_hints_def)

lemma registerBrowser_hints: "map hint_of (registerBrowser h) = browser_hints"
  by (simp add: registerBrowser_def browser_hints_def)

lemma registerState_hints: "map hint_of (registerState h) = state_hints"
  by (simp add: registerState_def state_hints_def)

lemma registerTargets_hints: "map hint_of (registerTargets h) = targets_hints"
  by (simp add: registerTargets_def targets_hints_def)

lemma registerGovernance_hints: "map hint_of (registerGovernance h) = governance_hints"
  by (simp add: registerGovernance_def governance_hints_def)
definition all_hints :: "(string \<times> schema) list" where
  "all_hints =
     filesystem_hints @ process_hints @ jobs_hints @ system_hints @ session_hints @ android_hints @
     assistant_hints @ desktop_hints @ browser_hints @ state_hints @ targets_hints @ governance_hints"

text \<open>The tools a program has on a system, with their hints.\<close>

definition tool_table :: "string \<Rightarrow> (string \<Rightarrow> string) \<Rightarrow> (string \<times> schema) list" where
  "tool_table goos getenv =
     filesystem_hints @ process_hints @ jobs_hints @ system_hints @
     (if linux_build goos then session_hints else []) @
     (if IsTermux getenv \<or> goos = ''android'' then android_hints else []) @
     (if IsTermux getenv then assistant_hints else []) @
     desktop_hints @ browser_hints @ state_hints @ targets_hints @ governance_hints"

lemma registered_hints:
  "map hint_of (registerSessionControl goos h) = (if linux_build goos then session_hints else [])"
  "map hint_of (registerTermuxAPI goos getenv h) =
     (if IsTermux getenv \<or> goos = ''android'' then android_hints else [])"
  "map hint_of (registerTermuxAssistant getenv h) = (if IsTermux getenv then assistant_hints else [])"
  by (simp_all add: registerSessionControl_def session_hints_def registerTermuxAPI_def android_hints_def
      registerTermuxAssistant_def assistant_hints_def)

lemma program_tools_hints: "map hint_of (early_tools goos getenv h @ late_tools h) = tool_table goos getenv"
  by (simp add: early_tools_def late_tools_def tool_table_def registered_hints registerFilesystem_hints
      registerProcess_hints registerJobs_hints registerSystem_hints registerDesktop_hints registerBrowser_hints
      registerState_hints registerTargets_hints registerGovernance_hints)

lemma registrations_well:
  "list_all (declared_well h) (registerFilesystem h)" "list_all (declared_well h) (registerProcess h)"
  "list_all (declared_well h) (registerJobs h)" "list_all (declared_well h) (registerSystem h)"
  "list_all (declared_well h) (registerSessionControl goos h)" "list_all (declared_well h) (registerTermuxAPI goos getenv h)"
  "list_all (declared_well h) (registerTermuxAssistant getenv h)" "list_all (declared_well h) (registerDesktop h)"
  "list_all (declared_well h) (registerBrowser h)" "list_all (declared_well h) (registerState h)"
  "list_all (declared_well h) (registerTargets h)" "list_all (declared_well h) (registerGovernance h)"
  by (simp_all add: registerFilesystem_def registerProcess_def registerJobs_def registerSystem_def
      registerSessionControl_def registerTermuxAPI_def registerTermuxAssistant_def registerDesktop_def
      registerBrowser_def browser_schema_def registerState_def registerTargets_def registerGovernance_def)

lemma program_tools_well: "list_all (declared_well h) (early_tools goos getenv h @ late_tools h)"
  by (simp add: early_tools_def late_tools_def registrations_well)

lemma all_hints_distinct: "distinct (map fst all_hints)"
  by code_simp

lemma all_hints_no_backend: "list_all (\<lambda>(n, a). \<not> has_prefix n ''anyapp_'') all_hints"
  by code_simp

lemma tool_table_sub: "set (tool_table goos getenv) \<subseteq> set all_hints"
  by (auto simp: tool_table_def all_hints_def split: if_splits)

lemma distinct_optional:
  assumes "distinct (map f (as @ ss @ ts @ us @ bs))"
  shows "distinct (map f (as @ (if p then ss else []) @ (if q then ts else []) @ (if r then us else []) @ bs))"
  using assms by auto

lemma tool_table_distinct: "distinct (map fst (tool_table goos getenv))"
  using distinct_optional [of fst "filesystem_hints @ process_hints @ jobs_hints @ system_hints" session_hints
      android_hints assistant_hints] all_hints_distinct
  unfolding all_hints_def tool_table_def append_assoc .

lemma mandatory_program_tools: "mandatory (program_tools goos getenv h backend) = map fst (tool_table goos getenv)"
proof -
  have "filter fst (early_tools goos getenv h @ late_tools h) = early_tools goos getenv h @ late_tools h"
    using program_tools_well [of h goos getenv] by (auto simp: filter_id_conv list_all_iff declared_well_def)
  then have "filter fst (program_tools goos getenv h backend) = early_tools goos getenv h @ late_tools h"
    by (simp add: program_tools_def backend_tools_def)
  then have "mandatory (program_tools goos getenv h backend) =
      map (\<lambda>x. tName (snd x)) (early_tools goos getenv h @ late_tools h)"
    by (simp add: mandatory_def)
  also have "\<dots> = map fst (map hint_of (early_tools goos getenv h @ late_tools h))"
    unfolding map_map by (simp add: hint_of_def comp_def)
  finally show ?thesis by (simp only: program_tools_hints)
qed

lemma table_name_no_backend: "n \<in> fst ` set (tool_table goos getenv) \<Longrightarrow> \<not> has_prefix n ''anyapp_''"
  using all_hints_no_backend tool_table_sub [of goos getenv] by (auto simp: list_all_iff)

lemma program_tools_cases:
  assumes "x \<in> set (program_tools goos getenv h backend)"
  shows "(fst x \<and> hint_of x \<in> set (tool_table goos getenv) \<and> declared_well h x) \<or>
    (\<not> fst x \<and> linux_build goos \<and> snd x \<in> set backend)"
proof -
  have "x \<in> set (early_tools goos getenv h @ late_tools h) \<or> x \<in> set (backend_tools goos backend)"
    using assms by (auto simp: program_tools_def)
  then show ?thesis
  proof
    assume mem: "x \<in> set (early_tools goos getenv h @ late_tools h)"
    then have "hint_of x \<in> set (tool_table goos getenv)"
      unfolding program_tools_hints [symmetric, of goos getenv h] by auto
    with mem program_tools_well [of h goos getenv] show ?thesis by (auto simp: list_all_iff declared_well_def)
  qed (auto simp: backend_tools_def split: if_splits)
qed

lemma program_tools_return:
  assumes "\<forall>n \<in> fst ` set (tool_table goos getenv). gm_get (rTools r) n = None"
    and "\<And>t. t \<in> set backend \<Longrightarrow> has_prefix (tName t) ''anyapp_''"
  shows "\<exists>r'. Register (program_tools goos getenv h backend) r = Some r'"
proof (rule Register_returns)
  let ?ts = "program_tools goos getenv h backend"
  note table = mandatory_program_tools [of goos getenv h backend]
  show "\<forall>(must, t) \<in> set ?ts. must \<longrightarrow> is_ok (normalize_tool t)"
    using program_tools_cases [of _ goos getenv h backend] declared_well_ok by fastforce
  show "distinct (mandatory ?ts)" by (simp add: table tool_table_distinct)
  show "\<forall>n \<in> set (mandatory ?ts). gm_get (rTools r) n = None" using assms(1) by (simp add: table)
  show "\<forall>(must, t) \<in> set ?ts. \<not> must \<longrightarrow> tName t \<notin> set (mandatory ?ts)"
    using program_tools_cases [of _ goos getenv h backend] assms(2) table_name_no_backend [of _ goos getenv]
    by (fastforce simp: table)
qed

text \<open>Every tool of the registry comes from a declaration of its name.\<close>

lemma registered_from:
  assumes "Register ts r = Some r'" and "rTools r = []" and "gm_get (rTools r') n = Some t"
  shows "\<exists>x \<in> set ts. tName (snd x) = n \<and> normalize_tool (snd x) = Inr t"
proof -
  have "map_of (normalised ts) n = Some t" using Register_lookup [OF assms(1), of n] assms(2,3) by simp
  then obtain must u where "(must, u) \<in> set ts" "tName u = n" "normalize_tool u = Inr t"
    using normalised_mem [OF map_of_SomeD] by blast
  then show ?thesis by force
qed

lemma program_tool_lookup:
  assumes reg: "Register (program_tools goos getenv h backend) r = Some r'" and "rTools r = []"
    and "\<And>t. t \<in> set backend \<Longrightarrow> has_prefix (tName t) ''anyapp_''"
    and mem: "(n, a) \<in> set (tool_table goos getenv)"
  shows "\<exists>t. gm_get (rTools r') n = Some t \<and> tHandler t = Some (h n) \<and> tAnnotations t = a \<and> tSource t = ''core''"
proof -
  let ?ts = "program_tools goos getenv h backend"
  obtain y where y: "y \<in> set ?ts" "declared_well h y" "hint_of y = (n, a)"
    using mem program_tools_well [of h goos getenv] unfolding program_tools_hints [symmetric, of goos getenv h]
    by (fastforce simp: program_tools_def list_all_iff)
  obtain t' where "normalize_tool (snd y) = Inr t'" using declared_well_ok [OF y(2)] by (auto simp: is_ok_iff)
  then have "(n, t') \<in> set (normalised ?ts)" using normalised_has [of "fst y" "snd y" ?ts t'] y(1,3) by (simp add: hint_of_def)
  moreover have "gm_get (rTools r') n = map_of (normalised ?ts) n" using Register_lookup [OF reg, of n] assms(2) by simp
  ultimately obtain t where t: "gm_get (rTools r') n = Some t"
    by (cases "map_of (normalised ?ts) n") (force simp: map_of_eq_None_iff)+
  then obtain x where x: "x \<in> set ?ts" "tName (snd x) = n" "normalize_tool (snd x) = Inr t"
    using registered_from [OF reg assms(2)] by blast
  have "n \<in> fst ` set (tool_table goos getenv)" using mem by force
  then have "\<not> has_prefix n ''anyapp_''" by (rule table_name_no_backend)
  then have wx: "hint_of x \<in> set (tool_table goos getenv)" "declared_well h x"
    using program_tools_cases [OF x(1)] assms(3) x(2) by auto
  moreover have "hint_of x = (n, tAnnotations (snd x))" using x(2) by (simp add: hint_of_def)
  ultimately have "tAnnotations (snd x) = a" using mem eq_key_imp_eq_value [OF tool_table_distinct] by metis
  then show ?thesis using t wx(2) x(2) normalize_tool_keeps [OF x(3)] by (auto simp: declared_well_def)
qed

lemma program_tool_name:
  assumes "Register (program_tools goos getenv h backend) r = Some r'" and "rTools r = []"
    and "gm_get (rTools r') n = Some t"
  shows "n \<in> fst ` set (tool_table goos getenv) \<or> linux_build goos \<and> n \<in> tName ` set backend"
proof -
  obtain x where "x \<in> set (program_tools goos getenv h backend)" "tName (snd x) = n"
    using registered_from [OF assms] by blast
  then show ?thesis using program_tools_cases [of x goos getenv h backend] by (force simp: hint_of_def)
qed

subsection \<open>Properties\<close>

text \<open>
  C11: whatever the system, registering the tools of the program does not panic: each declaration is
  accepted under its name with its own handler and hints, and beside them the registry has only tools
  of the optional backend, which replace none of them.
\<close>

theorem program_tools_registered:
  assumes "rTools r = []" and "\<And>t. t \<in> set backend \<Longrightarrow> has_prefix (tName t) ''anyapp_''"
  shows "\<exists>r'. Register (program_tools goos getenv h backend) r = Some r' \<and>
    (\<forall>n a. (n, a) \<in> set (tool_table goos getenv) \<longrightarrow>
      (\<exists>t. gm_get (rTools r') n = Some t \<and> tHandler t = Some (h n) \<and> tAnnotations t = a \<and> tSource t = ''core'')) \<and>
    (\<forall>n. Exists r' n \<longrightarrow> n \<in> fst ` set (tool_table goos getenv) \<or> linux_build goos \<and> n \<in> tName ` set backend)"
proof -
  obtain r' where reg: "Register (program_tools goos getenv h backend) r = Some r'"
    using program_tools_return [of goos getenv r backend h] assms by auto
  have "Exists r' n \<Longrightarrow> n \<in> fst ` set (tool_table goos getenv) \<or> linux_build goos \<and> n \<in> tName ` set backend" for n
    using program_tool_name [OF reg assms(1)] by (cases "gm_get (rTools r') n") (simp_all add: Exists_def)
  then show ?thesis using reg program_tool_lookup [OF reg assms] by blast
qed

text \<open>
  The hints that clients are shown and the lists of the policy engine are kept apart, and differ:
  a tool has the read-only hint exactly when readonly mode accepts it, except four tools, and of the tools
  with the destructive hint only those that remove files and targets are of high impact for safe mode.
\<close>

theorem hints_and_policy:
  assumes "(n, a) \<in> set (tool_table goos getenv)"
  shows "((a = read_only_hint) = (\<not> isMutation n)) =
      (n \<notin> {''fs_list'', ''network_request'', ''display_outputs'', ''android_api_list''}) \<and>
    (a = destructive_hint \<longrightarrow> isHighImpact n = (n \<in> {''fs_remove'', ''target_remove''}))"
proof -
  have "list_all (\<lambda>(n, a). ((a = read_only_hint) = (\<not> isMutation n)) =
      (n \<notin> set [''fs_list'', ''network_request'', ''display_outputs'', ''android_api_list'']) \<and>
    (a = destructive_hint \<longrightarrow> isHighImpact n = (n \<in> set [''fs_remove'', ''target_remove'']))) all_hints"
    by code_simp
  moreover have "(n, a) \<in> set all_hints" using assms tool_table_sub by blast
  ultimately have "case (n, a) of (n, a) \<Rightarrow> ((a = read_only_hint) = (\<not> isMutation n)) =
      (n \<notin> set [''fs_list'', ''network_request'', ''display_outputs'', ''android_api_list'']) \<and>
    (a = destructive_hint \<longrightarrow> isHighImpact n = (n \<in> set [''fs_remove'', ''target_remove'']))"
    unfolding list_all_iff by (rule bspec)
  then show ?thesis unfolding prod.case list.set .
qed

text \<open>On a phone every name that the policy engine knows is the name of a tool.\<close>

lemma policy_names_registered:
  assumes "IsTermux getenv" and "linux_build goos"
  shows "set (high_impact @ sensitive_android @ readonly_tools) \<subseteq> fst ` set (tool_table goos getenv)"
proof -
  have "list_all (\<lambda>n. n \<in> set (map fst all_hints)) (high_impact @ sensitive_android @ readonly_tools)" by code_simp
  moreover have "tool_table goos getenv = all_hints" using assms by (simp add: tool_table_def all_hints_def)
  ultimately show ?thesis by (auto simp: list_all_iff)
qed

text \<open>The optional backend's tools, as \<open>registerAnyApp\<close> adds them, are such a list.\<close>

lemma add_specs_Register:
  "Register (map (\<lambda>s. (False, any_tool A s)) (filter (\<lambda>s. asName s \<noteq> []) ss)) r = Some (add_specs A ss r)"
  by (induction A ss r rule: add_specs.induct) (auto split: sum.splits)

lemma any_tool_prefix: "has_prefix (tName (any_tool A s)) ''anyapp_''"
  by (simp add: any_tool_def)

subsection \<open>Witnesses\<close>

definition sample_backend :: "nat tool" where
  "sample_backend =
     \<lparr>tName = ''anyapp_click'', tTitle = [], tDescription = [], tInputSchema = None, tOutputSchema = None,
      tAnnotations = [], tHandler = Some (\<lambda>a w. (Inr (Plain JNull), w)), tSource = ''core:anyapp''\<rparr>"

lemma sample_rows:
  "(''fs_read'', read_only_hint) \<in> set (tool_table goos getenv)"
  "(''machine_poweroff'', destructive_hint) \<in> set (tool_table ''linux'' getenv)"
  by (simp_all add: tool_table_def filesystem_hints_def session_hints_def linux_build_def)

theorem program_tools_registered_witness:
  "\<exists>r' t. Register (program_tools ''linux'' (\<lambda>_. []) (\<lambda>n a w. (Inr (Plain (JStr n)), w + 1)) [sample_backend])
      (New :: nat registry) = Some r' \<and> gm_get (rTools r') ''fs_read'' = Some t \<and> tAnnotations t = read_only_hint"
proof -
  have "rTools (New :: nat registry) = []" by (simp add: New_def)
  moreover have "\<And>t. t \<in> set [sample_backend] \<Longrightarrow> has_prefix (tName t) ''anyapp_''" by (simp add: sample_backend_def)
  ultimately show ?thesis
    using program_tools_registered [of "New :: nat registry" "[sample_backend]" "''linux''" "\<lambda>_. []"
        "\<lambda>n a w. (Inr (Plain (JStr n)), w + 1)"] sample_rows(1) by metis
qed

theorem hints_and_policy_witness:
  "isMutation ''machine_poweroff'' \<and> \<not> isHighImpact ''machine_poweroff'' \<and> \<not> isMutation ''fs_read''"
proof -
  have hints: "read_only_hint \<noteq> destructive_hint" by (simp add: read_only_hint_def destructive_hint_def)
  note power = hints_and_policy [OF sample_rows(2)] and read = hints_and_policy [OF sample_rows(1)]
  from power hints have "isMutation ''machine_poweroff''" by simp
  moreover from power have "\<not> isHighImpact ''machine_poweroff''" by simp
  moreover from read have "\<not> isMutation ''fs_read''" by simp
  ultimately show ?thesis by blast
qed


end
