(* ===== verification/Reports.thy ===== *)
theory Reports
  imports SystemTools SessionBridge AnyApp
begin

section \<open>The reports of the machine (system_info and capabilities_list in internal/tools/system.go)\<close>

text \<open>
  The two tools that print what the program found. \<open>report_env\<close> is the machine as they see it: the
  outcome of asking the desktop session bridge, the files of \<open>/etc\<close> and \<open>/proc\<close>, and the output of the
  programs that name a version. The environment is an argument of its own, as a lemma is about it.
\<close>

record report_env =
  rpGoos :: string
  rpGoarch :: string
  rpHostname :: string
  rpCwd :: string
  rpCpus :: int
  rpPid :: int
  rpVersion :: string
  rpStateDir :: string
  rpRootAvailable :: bool
  rpBridge :: "status \<times> goerr option"
  rpBridgeSocket :: string
  rpReadFile :: "string \<Rightarrow> string res"
  rpOutput :: "string list \<Rightarrow> string res"
  rpLookPath :: "string \<Rightarrow> string res"
  rpUnquote :: "string \<Rightarrow> string option"
  rpBackend :: "string option"

subsection \<open>The report of the machine\<close>

definition desktopSessionBridgeSnapshot :: "report_env \<Rightarrow> json gomap" where
  "desktopSessionBridgeSnapshot E =
     (case snd (rpBridge E) of
        Some _ \<Rightarrow> [(''available'', JBool False), (''socket'', JStr (rpBridgeSocket E))]
      | None \<Rightarrow> gm_of (encode_status (fst (rpBridge E))))"

definition put_text :: "string \<Rightarrow> string res \<Rightarrow> json gomap \<Rightarrow> json gomap" where
  "put_text k r m = (case r of Inl _ \<Rightarrow> m | Inr s \<Rightarrow> gm_put k (JStr (trim_space s)) m)"

definition info_binaries :: "string list" where
  "info_binaries = [''sh'', ''bash'', ''fish'', ''git'', ''systemctl'', ''launchctl'', ''screencapture'', ''osascript'', ''cliclick'',
     ''sv'', ''sv-enable'', ''sv-disable'', ''docker'', ''podman'', ''python3'', ''node'', ''java'', ''cargo'', ''go'', ''ffmpeg'', ''curl'',
     ''wget'', ''ssh'', ''scp'', ''rsync'', ''nvidia-smi'', ''termux-battery-status'', ''termux-clipboard-get'',
     ''termux-notification'', ''termux-camera-photo'']"

definition found_paths :: "report_env \<Rightarrow> json gomap" where
  "found_paths E =
     fold (\<lambda>b m. case rpLookPath E b of Inl _ \<Rightarrow> m | Inr p \<Rightarrow> gm_put b (JStr p) m) info_binaries []"

definition string_map :: "string gomap \<Rightarrow> json" where
  "string_map m = JObj (map (\<lambda>(k, v). (k, JStr v)) (gm_sorted m))"

definition phone_entries :: "(string \<Rightarrow> string) \<Rightarrow> (string \<times> json) list" where
  "phone_entries getenv =
     (if IsTermux getenv
      then [(''runtime_profile'', JStr ''mobile_assistant''), (''android_device_root_support'', JStr ''not_supported''),
            (''android_device_root_planned'', JBool False), (''termux_prefix'', JStr (getenv ''PREFIX'')),
            (''termux_version'', JStr (getenv ''TERMUX_VERSION''))]
      else [])"

definition systemInfo :: "(string \<Rightarrow> string) \<Rightarrow> report_env \<Rightarrow> json gomap" where
  "systemInfo getenv E =
     (let out0 = gm_of ([(''hostname'', JStr (rpHostname E)), (''user'', JStr (getenv ''USER'')), (''cwd'', JStr (rpCwd E)),
            (''goos'', JStr (rpGoos E)), (''goarch'', JStr (rpGoarch E)), (''cpus'', JNum (JInt (rpCpus E))),
            (''pid'', JNum (JInt (rpPid E))), (''version'', JStr (rpVersion E)), (''state_dir'', JStr (rpStateDir E)),
            (''root_broker'', JBool (rpRootAvailable E)), (''termux'', JBool (IsTermux getenv)),
            (''desktop_session_bridge'', JObj (gm_sorted (desktopSessionBridgeSnapshot E)))] @ phone_entries getenv);
          out1 = (case rpReadFile E ''/etc/os-release'' of
                    Inl _ \<Rightarrow> out0
                  | Inr d \<Rightarrow> gm_put ''os_release'' (string_map (parseKeyValue (rpUnquote E) d)) out0);
          out2 = put_text ''proc_uptime'' (rpReadFile E ''/proc/uptime'') out1;
          out3 = (if rpGoos E = ''darwin''
                  then put_text ''kern_boottime'' (rpOutput E [''sysctl'', ''-n'', ''kern.boottime''])
                         (put_text ''macos_build'' (rpOutput E [''sw_vers'', ''-buildVersion''])
                            (put_text ''macos_version'' (rpOutput E [''sw_vers'', ''-productVersion''])
                               (gm_put ''local_privilege_support'' (JStr ''not_supported'')
                                  (gm_put ''macos_runtime_tested'' (JBool False)
                                     (gm_put ''runtime_profile'' (JStr ''macos_experimental'') out2)))))
                  else out2)
      in gm_put ''binaries'' (JObj (gm_sorted (found_paths E))) out3)"

text \<open>
  The report shows nothing of the environment but the name of the user and the two variables of Termux:
  processes with the same three print the same, whatever else their environments hold.
\<close>

lemma info_reads_three_variables:
  assumes "\<And>n. n \<in> set [''USER'', ''PREFIX'', ''TERMUX_VERSION''] \<Longrightarrow> g n = getenv n"
  shows "systemInfo g E = systemInfo getenv E"
proof -
  have "IsTermux g = IsTermux getenv" using assms by (simp add: IsTermux_def)
  then show ?thesis using assms by (simp add: systemInfo_def phone_entries_def)
qed

subsection \<open>The report of the capabilities\<close>

definition capability_binaries :: "string list" where
  "capability_binaries = [''git'', ''systemctl'', ''launchctl'', ''sv'', ''sv-enable'', ''sv-disable'', ''docker'', ''podman'',
     ''python3'', ''node'', ''java'', ''cargo'', ''go'', ''ssh'', ''scp'', ''rsync'', ''nvidia-smi'', ''grim'', ''spectacle'',
     ''screencapture'', ''osascript'', ''cliclick'', ''xdotool'', ''ydotool'', ''wtype'', ''termux-battery-status'',
     ''termux-clipboard-get'', ''termux-notification'', ''termux-camera-photo'']"

text \<open>The map of the programs found; a name that is not in it reads as \<open>false\<close>.\<close>

definition found_map :: "report_env \<Rightarrow> bool gomap" where
  "found_map E = fold (\<lambda>b. gm_put b (is_ok (rpLookPath E b))) capability_binaries []"

definition found_in :: "bool gomap \<Rightarrow> string \<Rightarrow> bool" where
  "found_in m b = (case gm_get m b of Some ok \<Rightarrow> ok | None \<Rightarrow> False)"

definition session_flag :: "json gomap \<Rightarrow> bool" where
  "session_flag m = (gm_get m ''available'' = Some (JBool True))"

definition encode_entry :: "capability_entry \<Rightarrow> (string \<times> json) list" where
  "encode_entry e =
     (case e of (cap, adapter, score, ok) \<Rightarrow>
        [(''adapter'', JStr adapter), (''available'', JBool ok), (''capability'', JStr cap), (''score'', JNum (JInt score))])"

text \<open>The entries of the session bridge and of the desktop backend say more.\<close>

definition entry_details :: "report_env \<Rightarrow> 'w registry \<Rightarrow> string \<Rightarrow> (string \<times> json) list" where
  "entry_details E r cap =
     (if cap = ''session.exec'' then [(''status'', JObj (gm_sorted (desktopSessionBridgeSnapshot E)))]
      else if cap = ''desktop.semantic''
      then [(''path'', JStr (case rpBackend E of None \<Rightarrow> [] | Some p \<Rightarrow> anyAppBackendBase p)),
            (''tools'', JNum (JInt (int (if rpGoos E = ''linux'' then anyAppToolPrefixCount r else 0))))]
      else [])"

fun capability_name :: "capability \<Rightarrow> string" where
  "capability_name Capture = ''desktop.capture''"
| "capability_name Input = ''desktop.input''"
| "capability_name Semantic = ''desktop.semantic''"
| "capability_name Window = ''desktop.window''"
| "capability_name IsolatedDesktop = ''desktop.isolated''"

definition encode_adapter :: "adapter \<Rightarrow> json" where
  "encode_adapter a =
     JObj ([(''name'', JStr (adName a)), (''family'', JStr (adFamily a)),
            (''capabilities'', JArr (map (\<lambda>c. JStr (capability_name c)) (adCapabilities a))),
            (''score'', JNum (JInt (adScore a))), (''available'', JBool (adAvailable a)), (''isolated'', JBool (adIsolated a))] @
           omit_str ''reason'' (adReason a))"

definition encode_snapshot :: "snapshot \<Rightarrow> json" where
  "encode_snapshot s =
     JObj ([(''platform'', JStr (snPlatform s))] @ omit_str ''session_type'' (snSessionType s) @
           omit_str ''desktop'' (snDesktop s) @ omit_str ''wayland_display'' (snWaylandDisplay s) @
           omit_str ''display'' (snDisplay s) @
           [(''adapters'', if snAdapters s = [] then JNull else JArr (map encode_adapter (snAdapters s)))])"

definition omit_strs :: "string \<Rightarrow> string list \<Rightarrow> (string \<times> json) list" where
  "omit_strs name vs = (if vs = [] then [] else [(name, JArr (map (\<lambda>v. JStr (json_text v)) vs))])"

definition encode_target :: "target \<Rightarrow> json" where
  "encode_target t =
     JObj ([(''name'', JStr (json_text (tgName t))), (''transport'', JStr (json_text (tgTransport t)))] @ omit_str ''host'' (tgHost t) @
           omit_int ''port'' (tgPort t) @ omit_str ''user'' (tgUser t) @ omit_str ''identity_file'' (tgIdentityFile t) @
           omit_str ''work_dir'' (tgWorkDir t) @ omit_map ''env'' (tgEnv t) @
           omit_strs ''ssh_options'' (tgSSHOptions t) @ omit_strs ''tags'' (tgTags t) @ [(''enabled'', JBool (tgEnabled t))])"

definition report_adapters :: "(string \<Rightarrow> string) \<Rightarrow> report_env \<Rightarrow> capability_entry list" where
  "report_adapters getenv E =
     capability_adapters (rpGoos E) (IsTermux getenv) (found_in (found_map E))
       (session_flag (desktopSessionBridgeSnapshot E)) (\<not> is_nil (rpBackend E)) (rpRootAvailable E)"

definition capabilities ::
  "(string \<Rightarrow> string) \<Rightarrow> report_env \<Rightarrow> 'w registry \<Rightarrow> string list \<Rightarrow> target list \<Rightarrow> config \<Rightarrow> json gomap" where
  "capabilities getenv E r plugins targets cfg =
     [(''tools'', JArr (map JStr (capability_tools r))),
      (''binaries'', JObj (map (\<lambda>(b, ok). (b, JBool ok)) (gm_sorted (found_map E)))),
      (''adapters'', JArr (map (\<lambda>e. JObj (encode_entry e @ entry_details E r (fst e))) (report_adapters getenv E))),
      (''desktop_runtime'', encode_snapshot (Detect (rpGoos E) (rpGoarch E) getenv (\<lambda>b. is_ok (rpLookPath E b)))),
      (''plugins'', JArr (map JStr plugins)), (''targets'', JArr (map encode_target targets)),
      (''root_broker'', JBool (rpRootAvailable E)),
      (''desktop_session_bridge'', JObj (gm_sorted (desktopSessionBridgeSnapshot E))),
      (''local_privilege_supported'', JBool (SupportsLocalPrivilege (rpGoos E) getenv)),
      (''android_device_root_support'',
         JStr (if rpGoos E = ''android'' \<or> IsTermux getenv then ''not_supported'' else ''n/a'')),
      (''android_device_root_planned'', JBool False),
      (''runtime_profile'', JStr (if IsTermux getenv then ''mobile_assistant'' else ''computer_runtime'')),
      (''policy'', encode_config cfg), (''platform'', JStr (rpGoos E @ ''/'' @ rpGoarch E))]"

text \<open>
  Every program whose presence decides about an adapter is in the map of programs: what the report says
  of the adapters is what looking for the programs gives.
\<close>

lemma fold_found:
  "gm_get (fold (\<lambda>b. gm_put b (f b)) bs m) b = (if b \<in> set bs then Some (f b) else gm_get m b)"
  by (induction bs arbitrary: m) auto

lemma found_in_map: "found_in (found_map E) b \<longleftrightarrow> b \<in> set capability_binaries \<and> is_ok (rpLookPath E b)"
  by (simp add: found_in_def found_map_def fold_found)

lemma adapter_programs_listed:
  "list_all (\<lambda>b. b \<in> set capability_binaries)
     [''ssh'', ''scp'', ''sv'', ''launchctl'', ''systemctl'', ''docker'', ''podman'', ''grim'', ''spectacle'', ''screencapture'',
      ''osascript'', ''cliclick'', ''ydotool'', ''wtype'', ''xdotool'', ''termux-battery-status'']"
  by code_simp

lemma report_adapters_looked_up:
  "report_adapters getenv E =
     capability_adapters (rpGoos E) (IsTermux getenv) (\<lambda>b. is_ok (rpLookPath E b))
       (session_flag (desktopSessionBridgeSnapshot E)) (\<not> is_nil (rpBackend E)) (rpRootAvailable E)"
  using adapter_programs_listed
  by (simp add: report_adapters_def capability_adapters_def service_entry_def found_in_map Let_def del: set_simps)

text \<open>An entry of the session bridge is available exactly when the bridge answered that it is.\<close>

lemma list_all_omit:
  "list_all P (omit_str n s) \<longleftrightarrow> s = [] \<or> P (n, JStr (json_text s))"
  "list_all P (omit_int n i) \<longleftrightarrow> i = 0 \<or> P (n, JNum (JInt i))"
  "list_all P (omit_map n m) \<longleftrightarrow> m = [] \<or> P (n, strmap_json m)"
  by (simp_all add: omit_str_def omit_int_def omit_map_def)

lemma first_member:
  assumes "list_all (\<lambda>(k', v). k' \<noteq> k) ms"
  shows "gm_get (gm_of ((k, v) # ms)) k = Some v"
proof -
  have "map_of (rev ms) k = None" using assms by (auto simp: map_of_eq_None_iff list_all_iff)
  then show ?thesis by (simp add: gm_get_of map_add_def)
qed

lemma session_entry:
  "session_flag (desktopSessionBridgeSnapshot E) \<longleftrightarrow> snd (rpBridge E) = None \<and> stAvailable (fst (rpBridge E))"
proof (cases "snd (rpBridge E)")
  case None
  obtain ms where ms: "encode_status (fst (rpBridge E)) = (''available'', JBool (stAvailable (fst (rpBridge E)))) # ms"
    and rest: "list_all (\<lambda>(k, v). k \<noteq> ''available'') ms"
    by (simp add: encode_status_def list_all_omit)
  then show ?thesis
    using None first_member [OF rest] by (simp add: session_flag_def desktopSessionBridgeSnapshot_def)
next
  case (Some e)
  then show ?thesis by (simp add: session_flag_def desktopSessionBridgeSnapshot_def gm_get_def)
qed

end
