(* ===== verification/Program.thy ===== *)
theory Program
  imports Catalog StateStore Files ProcessTools SystemTools Reports Termux
begin

section \<open>The program as a whole: its tools over the state of a started runtime\<close>

text \<open>
  The registry of a started runtime with the handlers of its tools, each lifted to the parts of the
  runtime: \<open>state_*\<close>, \<open>policy_*\<close>, \<open>desktop_capture\<close> and every other tool that readonly mode accepts. The
  handlers of the tools that remain, all of which readonly mode refuses, are \<open>h\<close>; the theorems hold whatever
  they do.

  \<open>readers\<close> is what the tools that read call: the files as the kernel shows them (\<open>rdFiles\<close>, \<open>rdEnt\<close>), regular
  expressions, \<open>ps\<close>, the network, ssh, the Termux commands, and the environment; the registry that the
  handler of \<open>capabilities_list\<close> refers to; and \<open>rdDocument\<close>, the JSON document of an answer. A request over
  the network is one to another machine: it does not come back to the program.

  A call passes the policy and the audit log on its way; \<open>run_calls\<close> is a sequence of calls.
\<close>

subsection \<open>The handlers\<close>

definition on_files :: "(raw \<Rightarrow> files \<Rightarrow> tool_value res \<times> files) \<Rightarrow> parts handler" where
  "on_files f args w = (case f args (pFiles w) of (v, fs) \<Rightarrow> (v, w\<lparr>pFiles := fs\<rparr>))"

definition on_engine :: "(raw \<Rightarrow> engine \<Rightarrow> tool_value res \<times> engine) \<Rightarrow> parts handler" where
  "on_engine f args w = (case f args (pEngine w) of (v, e) \<Rightarrow> (v, w\<lparr>pEngine := e\<rparr>))"

text \<open>The answer of \<open>desktop_capture\<close>; a slice that was never appended to is null.\<close>

definition capture_value :: "capture \<Rightarrow> tool_value" where
  "capture_value c =
     Rich \<lparr>rrStructured =
             JObj [(''adapter'', JStr (caAdapter c)),
                   (''bytes'', JNum (JInt (case b64_decode (caData c) of Some d \<Rightarrow> int (length d) | None \<Rightarrow> 0))),
                   (''fallback_failures'', if caFailures c = [] then JNull else JArr (map JStr (caFailures c))),
                   (''mime_type'', JStr ''image/png''), (''path'', JStr (caPath c))],
           rrContent =
             [JObj [(''text'', JStr (''Desktop capture via '' @ caAdapter c @ '' ('' @ caPath c @ '')'')), (''type'', JStr ''text'')],
              JObj [(''data'', JStr (caData c)), (''mimeType'', JStr ''image/png''), (''type'', JStr ''image'')]],
           rrIsError = False, rrContentPresent = True, rrStructuredPresent = True, rrExtra = []\<rparr>"

definition capture_handler :: "parts dk_env \<Rightarrow> parts handler" where
  "capture_handler E args w =
     (case desktopCapture E args w of
        (Inl e, w1) \<Rightarrow> (Inl e, w1)
      | (Inr c, w1) \<Rightarrow> (Inr (capture_value c), w1))"

datatype tool_answer =
    FilesListed "string \<times> (string \<times> string \<times> string \<times> nat) list"
  | FileRead read_output
  | FileMatches "match list \<times> bool"
  | FileStat "string \<times> (string \<times> nat) option"
  | EnvironmentRead "(bool \<times> string) gomap"
  | Inspected "int \<times> string option"
  | JobsListed "job list"
  | JobRead job
  | JobLog "string \<times> string \<times> bool"
  | EventsRead "event list"
  | TargetsListed "target list"
  | TargetRead target
  | Probed "string \<times> string \<times> bool \<times> string"
  | Fetched http_answer
  | Dialled "string \<times> goerr option"
  | ResolvedTo "string \<times> string list"
  | Assisted assistant_reply

record readers =
  rdFiles :: "parts \<Rightarrow> fsys"
  rdEnt :: "string \<Rightarrow> string"
  rdCompile :: "string \<Rightarrow> (string \<Rightarrow> bool) res"
  rdPs :: "int \<Rightarrow> string option res"
  rdSys :: "parts sys_env"
  rdFetch :: "http_call \<Rightarrow> parts \<Rightarrow> (int \<times> string list gomap \<times> string) res \<times> parts"
  rdDial :: "int \<Rightarrow> string \<Rightarrow> goerr option"
  rdResolve :: "string \<Rightarrow> string list res"
  rdEnviron :: "string list"
  rdProbe :: "command \<Rightarrow> bool \<times> string"
  rdTermux :: "parts termux_env"
  rdGetenv :: "string \<Rightarrow> string"
  rdReport :: report_env
  rdRegistry :: "parts registry"
  rdPlugins :: "string list"
  rdDocument :: "tool_answer \<Rightarrow> tool_value"

text \<open>A handler that only looks at the parts, and one that runs something outside.\<close>

definition looking :: "readers \<Rightarrow> ('a \<Rightarrow> tool_answer) \<Rightarrow> (raw \<Rightarrow> parts \<Rightarrow> 'a res) \<Rightarrow> parts handler" where
  "looking R c f args w = (case f args w of Inl e \<Rightarrow> (Inl e, w) | Inr x \<Rightarrow> (Inr (rdDocument R (c x)), w))"

definition running :: "readers \<Rightarrow> ('a \<Rightarrow> tool_answer) \<Rightarrow> (raw \<Rightarrow> parts \<Rightarrow> 'a res \<times> parts) \<Rightarrow> parts handler" where
  "running R c f args w = (case f args w of (Inl e, w1) \<Rightarrow> (Inl e, w1) | (Inr x, w1) \<Rightarrow> (Inr (rdDocument R (c x)), w1))"

definition report :: "(parts \<Rightarrow> json gomap) \<Rightarrow> parts handler" where
  "report f args w = (Inr (Plain (JObj (gm_sorted (f w)))), w)"

definition reading_handlers :: "readers \<Rightarrow> (string \<times> parts handler) list" where
  "reading_handlers R =
     [(''fs_list'', looking R FilesListed (\<lambda>args w. fsList (rdEnt R) args (rdFiles R w))),
      (''fs_read'', looking R FileRead (\<lambda>args w. fsRead (rdEnt R) args (rdFiles R w))),
      (''fs_search'', looking R FileMatches (\<lambda>args w. fsSearch (rdEnt R) (rdCompile R) args (rdFiles R w))),
      (''fs_stat'', looking R FileStat (\<lambda>args w. fsStat (rdEnt R) args (rdFiles R w))),
      (''process_inspect'', looking R Inspected (\<lambda>args w. processInspect (rdPs R) args)),
      (''job_list'', looking R JobsListed (\<lambda>args w. Inr (List_jobs (pJobs w)))),
      (''job_get'', looking R JobRead (\<lambda>args w. job_get_tool args (pJobs w))),
      (''job_tail'', looking R JobLog (\<lambda>args w. job_tail_tool args (pJobs w))),
      (''system_info'', report (\<lambda>w. systemInfo (rdGetenv R) (rdReport R))),
      (''system_env'', looking R EnvironmentRead (\<lambda>args w. system_env (rdSys R) args)),
      (''capabilities_list'', report (\<lambda>w. capabilities (rdGetenv R) (rdReport R) (rdRegistry R) (rdPlugins R)
         (target_list (pTargets w)) (Snapshot (pEngine w)))),
      (''network_request'', running R Fetched (networkRequest (rdFetch R))),
      (''network_tcp'', looking R Dialled (\<lambda>args w. networkTCP (rdDial R) args)),
      (''network_resolve'', looking R ResolvedTo (\<lambda>args w. networkResolve (rdResolve R) args)),
      (''target_list'', looking R TargetsListed (\<lambda>args w. Inr (target_list_tool args (pTargets w)))),
      (''target_get'', looking R TargetRead (\<lambda>args w. target_get_tool args (pTargets w))),
      (''target_probe'', looking R Probed (\<lambda>args w. target_probe_tool (rdEnviron R) (rdProbe R) args (pTargets w))),
      (''audit_tail'', looking R EventsRead (\<lambda>args w. audit_tail_tool args (pLogger w))),
      (''assistant_device_status'', running R Assisted (assistantDeviceStatus (rdTermux R))),
      (''assistant_location'', running R Assisted (assistantLocation (rdTermux R))),
      (''assistant_clipboard_get'', running R Assisted (assistantClipboardGet (rdTermux R))),
      (''assistant_contacts'', running R Assisted (assistantContacts (rdTermux R))),
      (''assistant_sms_list'', running R Assisted (assistantSMSList (rdTermux R))),
      (''assistant_call_log'', running R Assisted (assistantCallLog (rdTermux R)))]"

definition program_handler ::
  "(jnum \<Rightarrow> jnum option) \<Rightarrow> goerr option \<Rightarrow> string \<Rightarrow> parts dk_env \<Rightarrow> readers \<Rightarrow> (string \<Rightarrow> parts handler) \<Rightarrow> string \<Rightarrow> parts handler" where
  "program_handler num fail dir E R h name =
     (if name = ''state_get'' then on_files (state_get_tool num dir)
      else if name = ''state_put'' then on_files (state_put_tool num fail dir)
      else if name = ''state_delete'' then on_files (state_delete_tool dir)
      else if name = ''state_list'' then on_files (state_list_tool dir)
      else if name = ''policy_get'' then on_engine (\<lambda>args e. (policy_get_tool args e, e))
      else if name = ''policy_reload'' then (\<lambda>args w. on_engine (policy_reload_tool (pFiles w)) args w)
      else if name = ''desktop_capture'' then capture_handler E
      else (case map_of (reading_handlers R) name of Some f \<Rightarrow> f | None \<Rightarrow> h name))"

text \<open>The start of the program, with its own tools.\<close>

definition program_boot ::
  "boot \<Rightarrow> (jnum \<Rightarrow> jnum option) \<Rightarrow> goerr option \<Rightarrow> string \<Rightarrow> parts dk_env \<Rightarrow> readers \<Rightarrow> (string \<Rightarrow> parts handler) \<Rightarrow>
   parts tool list \<Rightarrow> boot" where
  "program_boot B num fail dir E R h backend =
     B\<lparr>boTools := program_tools (boGoos B) (boGetenv B) (program_handler num fail dir E R h) backend\<rparr>"

definition run_calls :: "'w registry \<Rightarrow> (string \<times> raw \<times> int) list \<Rightarrow> 'w \<Rightarrow> 'w" where
  "run_calls r cs w = fold (\<lambda>(name, args, d) w. snd (call r name args d w)) cs w"

subsection \<open>Lemmas\<close>

text \<open>What a call does behind the policy and the audit log.\<close>

abbreviation logged :: "parts \<Rightarrow> logger \<Rightarrow> parts" where
  "logged w l \<equiv> w\<lparr>pLogger := l\<rparr>"

definition guarded :: "arch \<Rightarrow> log_env \<Rightarrow> (parts \<Rightarrow> int) \<Rightarrow> parts registry \<Rightarrow> bool" where
  "guarded a v now r \<longleftrightarrow>
     rInterceptors r = [policy_interceptor a pEngine, audit_interceptor v now pLogger (\<lambda>l w. logged w l)]"

lemma run_after_guarded:
  assumes "guarded a v now r"
  shows "\<exists>l. run_after (rInterceptors r) name args d e w = logged w l"
  using assms by (auto simp: guarded_def policy_interceptor_def audit_interceptor_def)

lemma call_runs:
  assumes "guarded a v now r" and "gm_get (rTools r) name = Some t" and "tHandler t = Some hf"
    and "validateReason (call_args args) = None" and "BeforeCall a (eCfg (pEngine w)) name (call_args args) = None"
  shows "\<exists>l l'. call r name args d w =
    (fst (hf (stripReason (call_args args)) (logged w l)), logged (snd (hf (stripReason (call_args args)) (logged w l))) l')"
proof -
  have "\<exists>l. run_before (rInterceptors r) name (call_args args) w = (None, logged w l)"
    using assms(1,5) by (auto simp: guarded_def policy_interceptor_def audit_interceptor_def audit_before_def Snapshot_def Let_def)
  then obtain l where l: "run_before (rInterceptors r) name (call_args args) w = (None, logged w l)" by blast
  obtain x w2 where x: "hf (stripReason (call_args args)) (logged w l) = (x, w2)" by fastforce
  obtain l' where "run_after (rInterceptors r) name (call_args args) d (err_of x) w2 = logged w2 l'"
    using run_after_guarded [OF assms(1)] by blast
  then have "call r name args d w = (x, logged w2 l')" using assms(2-4) l x by (simp add: call_def Let_def)
  then show ?thesis using x by (intro exI [of _ l] exI [of _ l']) simp
qed

lemma call_effect:
  assumes "guarded a v now r"
  shows "(\<exists>l. snd (call r name args d w) = logged w l) \<or>
    (\<exists>t hf l l'. gm_get (rTools r) name = Some t \<and> tHandler t = Some hf \<and>
      BeforeCall a (eCfg (pEngine w)) name (call_args args) = None \<and>
      snd (call r name args d w) = logged (snd (hf (stripReason (call_args args)) (logged w l))) l')"
proof -
  have self: "\<exists>l. w = logged w l" by (rule exI [of _ "pLogger w"]) simp
  show ?thesis
  proof (cases "gm_get (rTools r) name")
    case None
    with self show ?thesis by (simp add: call_def)
  next
    case t: (Some t)
    show ?thesis
    proof (cases "validateReason (call_args args)")
      case (Some e)
      with t self show ?thesis by (simp add: call_def)
    next
      case v: None
      show ?thesis
      proof (cases "BeforeCall a (eCfg (pEngine w)) name (call_args args)")
        case (Some e)
        then have "run_before (rInterceptors r) name (call_args args) w = (Some e, w)"
          using assms by (simp add: guarded_def policy_interceptor_def Snapshot_def)
        moreover obtain l where "run_after (rInterceptors r) name (call_args args) 0 (Some e) w = logged w l"
          using run_after_guarded [OF assms] by blast
        ultimately have "snd (call r name args d w) = logged w l" using t v by (simp add: call_def Let_def)
        then show ?thesis by blast
      next
        case acc: None
        show ?thesis
        proof (cases "tHandler t")
          case None
          have "\<exists>l. run_before (rInterceptors r) name (call_args args) w = (None, logged w l)"
            using assms acc by (auto simp: guarded_def policy_interceptor_def audit_interceptor_def audit_before_def Snapshot_def Let_def)
          then show ?thesis using t v None by (auto simp: call_def Let_def)
        next
          case (Some hf)
          from call_runs [OF assms t this v acc, of d] show ?thesis using t Some acc by fastforce
        qed
      qed
    qed
  qed
qed

text \<open>The registry of a started program.\<close>

lemma started_program:
  assumes "runtime_new (program_boot B num fail dir E R h backend) c0 = Some (Inr (rt, w))"
  shows "\<exists>r. Register (program_tools (boGoos B) (boGetenv B) (program_handler num fail dir E R h) backend)
      (guards (program_boot B num fail dir E R h backend)) = Some r \<and>
    guarded (boArch B) (boLogEnv B) (boClock B) (rtRegistry rt) \<and>
    (\<exists>new. rTools (rtRegistry rt) = rTools r @ new) \<and>
    (\<not> cAllowExternalPlugins (eCfg (pEngine w)) \<longrightarrow> rtRegistry rt = r) \<and>
    eFile (pEngine w) = rcStateDir c0 @ ''/policy.json''"
proof -
  let ?B = "program_boot B num fail dir E R h backend"
  obtain w0 r loaded where parts: "rt_parts ?B (complete_config ?B c0) = Inr w0"
    and reg: "Register (boTools ?B) (guards ?B) = Some r" and "\<exists>fs. w = w0\<lparr>pFiles := fs\<rparr>"
    and load: "if cAllowExternalPlugins (eCfg (pEngine w0))
      then LoadInto (boLoader ?B (rcPluginDir (complete_config ?B c0))) r [] = (Inr loaded, rtRegistry rt, rtManifests rt)
      else rtRegistry rt = r \<and> rtManifests rt = []"
    using runtime_new_cases [OF assms] by blast
  then have eng: "pEngine w = pEngine w0" by auto
  have r: "registry_ok r" "rInterceptors r = rInterceptors (guards ?B)"
    using Register_keeps [OF reg guards_ok] by simp_all
  have "rInterceptors (rtRegistry rt) = rInterceptors (guards ?B)"
    using load LoadInto_keeps [OF _ r(1)] r(2) by (simp split: if_splits)
  then have "guarded (boArch B) (boLogEnv B) (boClock B) (rtRegistry rt)"
    by (simp add: guards_interceptors guarded_def program_boot_def)
  moreover have "\<exists>new. rTools (rtRegistry rt) = rTools r @ new"
  proof (cases "cAllowExternalPlugins (eCfg (pEngine w0))")
    case True
    let ?L = "boLoader ?B (rcPluginDir (complete_config ?B c0))"
    have "LoadInto ?L r [] = (Inr loaded, rtRegistry rt, rtManifests rt)" using load True by simp
    from LoadInto_cases [OF this] show ?thesis
      using load_entries_appends [of ?L "ldEntries ?L" "[]" r "[]"] by blast
  qed (use load in simp)
  moreover have "eFile (pEngine w0) = rcStateDir c0 @ ''/policy.json''"
    using parts by (auto simp: rt_parts_def store_new_def policy_new_def Reload_def Let_def complete_config_def
        split: sum.splits option.splits prod.splits if_splits)
  ultimately show ?thesis using reg load eng by (auto simp: program_boot_def)
qed

lemma guards_empty [simp]: "rTools (guards B) = []"
  by (simp add: guards_def runtime_interceptors_def AddInterceptor_def New_def)

lemma program_has:
  assumes "runtime_new (program_boot B num fail dir E R h backend) c0 = Some (Inr (rt, w))"
    and "\<And>t. t \<in> set backend \<Longrightarrow> has_prefix (tName t) ''anyapp_''"
    and "(n, a) \<in> set (tool_table (boGoos B) (boGetenv B))"
  shows "\<exists>t. gm_get (rTools (rtRegistry rt)) n = Some t \<and> tHandler t = Some (program_handler num fail dir E R h n)"
proof -
  obtain r new where reg: "Register (program_tools (boGoos B) (boGetenv B) (program_handler num fail dir E R h) backend)
      (guards (program_boot B num fail dir E R h backend)) = Some r" and new: "rTools (rtRegistry rt) = rTools r @ new"
    using started_program [OF assms(1)] by blast
  obtain t where "gm_get (rTools r) n = Some t" "tHandler t = Some (program_handler num fail dir E R h n)"
    using program_tool_lookup [OF reg guards_empty assms(2,3)] by blast
  then show ?thesis unfolding new by (simp add: gm_get_def map_add_def)
qed

text \<open>An accepted call of one of the program's tools runs that tool's handler, between two entries of the log.\<close>

lemma program_call:
  assumes "runtime_new (program_boot B num fail dir E R h backend) c0 = Some (Inr (rt, w0))"
    and "\<And>t. t \<in> set backend \<Longrightarrow> has_prefix (tName t) ''anyapp_''"
    and "(n, a) \<in> set (tool_table (boGoos B) (boGetenv B))" and "args = RawDoc (JObj (m # ms))"
    and "validateReason args = None" and "BeforeCall (boArch B) (eCfg (pEngine w)) n args = None"
  shows "\<exists>l l'. call (rtRegistry rt) n args d w =
    (fst (program_handler num fail dir E R h n (stripReason args) (logged w l)),
     logged (snd (program_handler num fail dir E R h n (stripReason args) (logged w l))) l')"
proof -
  have g: "guarded (boArch B) (boLogEnv B) (boClock B) (rtRegistry rt)" using started_program [OF assms(1)] by blast
  have same: "call_args args = args" by (simp add: call_args_def assms(4))
  obtain t where "gm_get (rTools (rtRegistry rt)) n = Some t" "tHandler t = Some (program_handler num fail dir E R h n)"
    using program_has [OF assms(1-3)] by blast
  from call_runs [OF g this, of args w d] show ?thesis using assms(5,6) by (simp add: same)
qed

lemma program_boot_fields:
  "boGoos (program_boot B num fail dir E R h backend) = boGoos B" "boGetenv (program_boot B num fail dir E R h backend) = boGetenv B"
  "boInstructions (program_boot B num fail dir E R h backend) = boInstructions B"
  "boStateFails (program_boot B num fail dir E R h backend) = boStateFails B"
  "boJobsFails (program_boot B num fail dir E R h backend) = boJobsFails B"
  "boPolicyFails (program_boot B num fail dir E R h backend) = boPolicyFails B"
  "boAuditFails (program_boot B num fail dir E R h backend) = boAuditFails B"
  "boPersistFails (program_boot B num fail dir E R h backend) = boPersistFails B"
  "boAlive (program_boot B num fail dir E R h backend) = boAlive B" "boNow (program_boot B num fail dir E R h backend) = boNow B"
  "boJobFiles (program_boot B num fail dir E R h backend) = boJobFiles B"
  "boJobLogs (program_boot B num fail dir E R h backend) = boJobLogs B"
  "boTargets (program_boot B num fail dir E R h backend) = boTargets B"
  "boFiles (program_boot B num fail dir E R h backend) = boFiles B"
  "boAuditFiles (program_boot B num fail dir E R h backend) = boAuditFiles B"
  by (simp_all add: program_boot_def)

text \<open>A program whose parts are there and that loads no plugins does start.\<close>

lemma program_starts:
  assumes "rt_parts B (complete_config B c0) = Inr w" and "\<not> cAllowExternalPlugins (eCfg (pEngine w))"
    and "rcStateDir c0 \<noteq> []" and "\<And>t. t \<in> set backend \<Longrightarrow> has_prefix (tName t) ''anyapp_''"
  shows "\<exists>rt w0. runtime_new (program_boot B num fail dir E R h backend) c0 = Some (Inr (rt, w0)) \<and> pEngine w0 = pEngine w"
proof -
  let ?B = "program_boot B num fail dir E R h backend"
  have same: "complete_config ?B c0 = complete_config B c0" "rt_parts ?B c = rt_parts B c" for c
    unfolding complete_config_def rt_parts_def program_boot_fields by (rule refl)+
  obtain r where "Register (boTools ?B) (guards ?B) = Some r"
    using program_tools_return [of "boGoos B" "boGetenv B" "guards ?B" backend "program_handler num fail dir E R h"] assms(4)
    by (auto simp: program_boot_def)
  moreover have "rcStateDir (complete_config B c0) = rcStateDir c0" by (simp add: complete_config_def)
  ultimately show ?thesis using assms(1-3) by (simp add: runtime_new_def same Let_def Snapshot_def)
qed

text \<open>What the policy accepts in readonly mode, whatever the message.\<close>

lemma readonly_accepts: "BeforeCall a cfg n args = None \<Longrightarrow> cMode cfg = ''readonly'' \<Longrightarrow> n \<in> set readonly_tools"
  by (auto simp: BeforeCall_def isMutation_iff split: if_splits)

lemma readonly_no_backend: "n \<in> set readonly_tools \<Longrightarrow> \<not> has_prefix n ''anyapp_''"
proof -
  have "list_all (\<lambda>n. \<not> has_prefix n ''anyapp_'') readonly_tools" by code_simp
  then show "n \<in> set readonly_tools \<Longrightarrow> \<not> has_prefix n ''anyapp_''" by (auto simp: list_all_iff)
qed

lemma mutating_tools: "\<not> list_ex (\<lambda>n. n \<in> set readonly_tools) [''state_put'', ''state_delete'', ''policy_reload'']"
  by code_simp

text \<open>
  What is run outside for the tools that read leaves the parts of the runtime alone: requests over the
  network, and the Termux commands that print something.
\<close>

definition reading_commands :: "string list" where
  "reading_commands =
     [''termux-battery-status'', ''termux-wifi-connectioninfo'', ''termux-audio-info'', ''termux-location'',
      ''termux-clipboard-get'', ''termux-contact-list'', ''termux-sms-list'', ''termux-call-log'']"

definition quiet :: "readers \<Rightarrow> bool" where
  "quiet R \<longleftrightarrow>
     (\<forall>c w. snd (rdFetch R c w) = w) \<and>
     (\<forall>name bin args secs w. name \<in> set reading_commands \<longrightarrow> tmLookPath (rdTermux R) name = Inr bin \<longrightarrow>
        snd (tmRun (rdTermux R) (termux_command (rdTermux R) bin args [] secs) w) = w)"

lemma looking_keeps: "snd (looking R c f args w) = w"
  by (simp add: looking_def split: sum.split)

lemma running_keeps: "snd (f args w) = w \<Longrightarrow> snd (running R c f args w) = w"
  by (cases "f args w") (auto simp: running_def split: sum.split)

lemma request_keeps:
  assumes "quiet R"
  shows "snd (networkRequest (rdFetch R) args w) = w"
proof (cases "decode_members [''method'', ''url'', ''headers'', ''body'', ''timeout_seconds'', ''max_bytes''] args")
  case (Inl e)
  then show ?thesis by (simp add: networkRequest_def del: decode_members.simps)
next
  case (Inr ms)
  obtain m e1 where m: "dec_field set_str [] ''method'' ms = (m, e1)" by (rule prod.exhaust)
  obtain u e2 where u: "dec_field set_str [] ''url'' ms = (u, e2)" by (rule prod.exhaust)
  obtain h e3 where h: "dec_field set_strmap [] ''headers'' ms = (h, e3)" by (rule prod.exhaust)
  obtain b e4 where b: "dec_field set_str [] ''body'' ms = (b, e4)" by (rule prod.exhaust)
  obtain t e5 where t: "dec_field set_int 0 ''timeout_seconds'' ms = (t, e5)" by (rule prod.exhaust)
  obtain x e6 where x: "dec_field set_int 0 ''max_bytes'' ms = (x, e6)" by (rule prod.exhaust)
  let ?c = "\<lparr>hcMethod = (if to_upper m = [] then ''GET'' else to_upper m), hcURL = u, hcHeaders = h, hcBody = b, hcTimeout = timeout_or 30 t\<rparr>"
  obtain a w1 where a: "rdFetch R ?c w = (a, w1)" by (rule prod.exhaust)
  then have w1: "w1 = w" using assms unfolding quiet_def by (metis snd_conv)
  show ?thesis
    unfolding networkRequest_def Inr sum.case Let_def m u h b t x prod.case a w1
    by (cases a) (simp_all split: prod.split)
qed

lemma run_keeps:
  assumes "quiet R" and "name \<in> set reading_commands"
  shows "snd (assistantRun (rdTermux R) name args [] secs w) = w"
proof (cases "tmLookPath (rdTermux R) name")
  case (Inr bin)
  let ?s = "if secs \<le> 0 then 30 else secs"
  obtain o1 w1 where o1: "tmRun (rdTermux R) (termux_command (rdTermux R) bin args [] ?s) w = (o1, w1)" by (rule prod.exhaust)
  then have "w1 = w" using assms Inr unfolding quiet_def by (metis snd_conv)
  then show ?thesis using o1 Inr by (cases o1) (simp_all add: assistantRun_def run_termux_def Let_def)
qed (simp add: assistantRun_def)

lemma device_status_keeps: "quiet R \<Longrightarrow> set cs \<subseteq> set reading_commands \<Longrightarrow> snd (device_status (rdTermux R) cs w) = w"
proof (induction cs arbitrary: w)
  case (Cons c cs)
  obtain r w1 where r: "assistantRun (rdTermux R) c [] [] 15 w = (r, w1)" by (rule prod.exhaust)
  then have "w1 = w" using run_keeps [of R c "[]" 15 w] Cons.prems by simp
  with r Cons show ?case by (simp split: prod.split) (metis snd_conv)
qed simp

lemma assistants_keep:
  assumes "quiet R"
  shows "snd (assistantDeviceStatus (rdTermux R) args w) = w" "snd (assistantLocation (rdTermux R) args w) = w"
    "snd (assistantClipboardGet (rdTermux R) args w) = w" "snd (assistantContacts (rdTermux R) args w) = w"
    "snd (assistantSMSList (rdTermux R) args w) = w" "snd (assistantCallLog (rdTermux R) args w) = w"
proof -
  have d: "snd (device_status (rdTermux R) [''termux-battery-status'', ''termux-wifi-connectioninfo'', ''termux-audio-info''] w) = w"
    by (rule device_status_keeps [OF assms]) (simp add: reading_commands_def)
  have r: "snd (replying f (assistantRun (rdTermux R) name as [] secs w)) = w" if "name \<in> set reading_commands" for f name as secs
    using run_keeps [OF assms that] by (simp add: replying_def)
  show "snd (assistantDeviceStatus (rdTermux R) args w) = w"
    using d by (simp add: assistantDeviceStatus_def split: prod.split del: device_status.simps) (metis snd_conv)
  show "snd (assistantClipboardGet (rdTermux R) args w) = w" "snd (assistantContacts (rdTermux R) args w) = w"
    "snd (assistantCallLog (rdTermux R) args w) = w"
    by (simp_all add: assistantClipboardGet_def assistantContacts_def assistantCallLog_def r reading_commands_def)
  have names: "''termux-location'' \<in> set reading_commands" "''termux-sms-list'' \<in> set reading_commands"
    by (simp_all add: reading_commands_def)
  show "snd (assistantLocation (rdTermux R) args w) = w"
    by (cases "decode_members [''Provider'', ''Request''] args")
      (simp_all add: assistantLocation_def r [OF names(1)] del: decode_members.simps split: prod.split)
  show "snd (assistantSMSList (rdTermux R) args w) = w"
    by (cases "decode_members [''limit'', ''type''] args")
      (simp_all add: assistantSMSList_def r [OF names(2)] del: decode_members.simps split: prod.split)
qed

lemma reading_handlers_keep:
  assumes "quiet R" and "(n, f) \<in> set (reading_handlers R)"
  shows "snd (f args w) = w"
proof -
  have "list_all (\<lambda>(n, f). snd (f args w) = w) (reading_handlers R)"
    unfolding reading_handlers_def
    by (simp add: looking_keeps report_def running_keeps request_keeps [OF assms(1)] assistants_keep [OF assms(1)])
  then show ?thesis using assms(2) by (auto simp: list_all_iff)
qed

lemma reading_names:
  "map fst (reading_handlers R) =
     [''fs_list'', ''fs_read'', ''fs_search'', ''fs_stat'', ''process_inspect'', ''job_list'', ''job_get'', ''job_tail'', ''system_info'',
      ''system_env'', ''capabilities_list'', ''network_request'', ''network_tcp'', ''network_resolve'', ''target_list'', ''target_get'',
      ''target_probe'', ''audit_tail'', ''assistant_device_status'', ''assistant_location'', ''assistant_clipboard_get'',
      ''assistant_contacts'', ''assistant_sms_list'', ''assistant_call_log'']"
  by (simp add: reading_handlers_def)

lemma readonly_tools_handled:
  assumes "n \<in> set readonly_tools"
  shows "n \<in> set ([''state_get'', ''state_list'', ''policy_get'', ''desktop_capture''] @ map fst (reading_handlers R))"
proof -
  have "list_all (\<lambda>n. n \<in> set ([''state_get'', ''state_list'', ''policy_get'', ''desktop_capture''] @
     [''fs_list'', ''fs_read'', ''fs_search'', ''fs_stat'', ''process_inspect'', ''job_list'', ''job_get'', ''job_tail'', ''system_info'',
      ''system_env'', ''capabilities_list'', ''network_request'', ''network_tcp'', ''network_resolve'', ''target_list'', ''target_get'',
      ''target_probe'', ''audit_tail'', ''assistant_device_status'', ''assistant_location'', ''assistant_clipboard_get'',
      ''assistant_contacts'', ''assistant_sms_list'', ''assistant_call_log''])) readonly_tools" by code_simp
  then show ?thesis using assms unfolding reading_names list_all_iff by blast
qed

lemma state_reads_keep:
  "snd (on_files (state_get_tool num dir) args w) = w" "snd (on_files (state_list_tool dir) args w) = w"
  by (auto simp: on_files_def state_get_tool_def state_list_tool_def split: sum.splits prod.splits)

lemma readonly_handlers_keep:
  assumes "n \<in> set readonly_tools" and "n \<noteq> ''desktop_capture''" and "quiet R"
  shows "snd (program_handler num fail dir E R h n args w) = w"
proof -
  have not: "n \<noteq> ''state_put''" "n \<noteq> ''state_delete''" "n \<noteq> ''policy_reload''"
    using mutating_tools assms(1) by auto
  show ?thesis
  proof (cases "n \<in> set [''state_get'', ''state_list'', ''policy_get'']")
    case True
    then show ?thesis by (auto simp: program_handler_def state_reads_keep on_engine_def)
  next
    case False
    then have "n \<in> fst ` set (reading_handlers R)" using readonly_tools_handled [OF assms(1), of R] assms(2) by auto
    then obtain f where f: "map_of (reading_handlers R) n = Some f" by (metis map_of_eq_None_iff option.exhaust)
    then have "snd (f args w) = w" using reading_handlers_keep [OF assms(3)] map_of_SomeD by fast
    then show ?thesis using False not assms(2) f by (simp add: program_handler_def)
  qed
qed

lemma readonly_call_keeps:
  assumes "runtime_new (program_boot B num fail dir E R h backend) c0 = Some (Inr (rt, w0))"
    and "\<And>t. t \<in> set backend \<Longrightarrow> has_prefix (tName t) ''anyapp_''"
    and "cMode (eCfg (pEngine w0)) = ''readonly''" and "\<not> cAllowExternalPlugins (eCfg (pEngine w0))"
    and "quiet R" and "name \<noteq> ''desktop_capture''" and "pEngine w = pEngine w0"
  shows "\<exists>l. snd (call (rtRegistry rt) name args d w) = logged w l"
proof -
  let ?h = "program_handler num fail dir E R h"
  obtain r where reg: "Register (program_tools (boGoos B) (boGetenv B) ?h backend)
      (guards (program_boot B num fail dir E R h backend)) = Some r"
    and g: "guarded (boArch B) (boLogEnv B) (boClock B) (rtRegistry rt)" and r: "rtRegistry rt = r"
    using started_program [OF assms(1)] assms(4) by blast
  from call_effect [OF g, of name args d w] show ?thesis
  proof (elim disjE exE conjE)
    fix t hf l l'
    assume t: "gm_get (rTools (rtRegistry rt)) name = Some t" and hf: "tHandler t = Some hf"
      and acc: "BeforeCall (boArch B) (eCfg (pEngine w)) name (call_args args) = None"
      and eff: "snd (call (rtRegistry rt) name args d w) = logged (snd (hf (stripReason (call_args args)) (logged w l))) l'"
    have mem: "name \<in> set readonly_tools" using readonly_accepts [OF acc] assms(3,7) by simp
    then have "name \<notin> tName ` set backend" using readonly_no_backend assms(2) by blast
    then obtain a where "(name, a) \<in> set (tool_table (boGoos B) (boGetenv B))"
      using program_tool_name [OF reg guards_empty] t r by fastforce
    then have "hf = ?h name" using program_tool_lookup [OF reg guards_empty assms(2)] t hf r by fastforce
    then show ?thesis
      using readonly_handlers_keep [of name R num fail dir E h, OF mem assms(6,5)] by (intro exI [of _ l']) (simp add: eff)
  qed blast
qed

text \<open>Captures that all fail still remove the file.\<close>

lemma failed_captures_remove:
  assumes "\<And>w. pFiles (dkRemove E p w) = gm_del p (pFiles w)"
    and "\<And>argv env w. pFiles (snd (dkRun E argv env w)) = pFiles w \<and> fst (snd (fst (dkRun E argv env w))) \<noteq> None"
  shows "(\<exists>e. fst (capture_loop E p cs fl w) = Inl e) \<and>
    pFiles (snd (capture_loop E p cs fl w)) = (if cs = [] then pFiles w else gm_del p (pFiles w))"
proof (induction cs arbitrary: fl w)
  case Nil
  then show ?case by simp
next
  case (Cons c cs)
  let ?w1 = "dkRemove E p w"
  obtain out err late w2 where run: "dkRun E (snd c) (desktopEnvironment E ?w1) ?w1 = ((out, err, late), w2)"
    by (metis prod.exhaust)
  have w2: "pFiles w2 = gm_del p (pFiles w)" "err \<noteq> None"
    using assms(1) [of w] assms(2) [of "snd c" "desktopEnvironment E ?w1" ?w1] by (simp_all add: run)
  then obtain t where att: "capture_attempt E p c w = (Inl t, w2)" by (auto simp: capture_attempt_def Let_def run)
  have "gm_del p (gm_del p (pFiles w)) = gm_del p (pFiles w)" by (simp add: gm_del_def delete_idem)
  then show ?case using Cons.IH [of "fl @ [t]" w2] w2(1) by (simp add: att)
qed

lemma policy_new_missing:
  assumes "gm_get fs (dir @ ''/policy.json'') = None"
  shows "fst (policy_new None dir fs) = Inr \<lparr>eFile = dir @ ''/policy.json'', eCfg = Default\<rparr>"
proof -
  have "load_config (RawDoc (encode_config Default)) = Inr Default"
    by (rule load_encode) (simp_all add: Default_def config_ok_def policy_modes_def)
  then show ?thesis using assms by (simp add: policy_new_def save_def Reload_def read_file_def Let_def)
qed

text \<open>Messages of the calls below without their reason, and what the policy says of them.\<close>

lemma stripped_overwrite:
  "stripReason (RawDoc (JObj ((''reason'', JStr why) # overwrite_policy))) = RawDoc (JObj overwrite_policy)"
  by (simp add: stripReason_def overwrite_policy_def gm_of_def gm_put_def gm_del_def marshal_map_def gm_sorted_def)

lemma stripped_capture:
  "stripReason (RawDoc (JObj [(''reason'', JStr why), (''output_path'', JStr p)])) = RawDoc (JObj [(''output_path'', JStr p)])"
  by (simp add: stripReason_def gm_of_def gm_put_def gm_del_def marshal_map_def gm_sorted_def)

lemma capture_accepted:
  assumes "cMode c = ''readonly''" and "cDenyTools c = []" and "cAllowTools c = []"
  shows "BeforeCall a c ''desktop_capture'' (RawDoc (JObj [(''reason'', JStr why), (''output_path'', JStr p)])) = None"
proof -
  have "\<not> isMutation ''desktop_capture''" "\<not> isSensitiveAndroid ''desktop_capture''"
    "\<not> has_prefix ''desktop_capture'' ''target_''" by code_simp+
  then show ?thesis
    using assms by (auto simp: BeforeCall_def check_args_def check_method_def policy_args_def map_at_def gm_get_of Let_def)
qed

subsection \<open>Properties\<close>

text \<open>
  C6: in the program that started in safe mode, without patterns, two ordinary calls, each of which
  succeeds, turn safe mode into full mode with privileged execution: \<open>state_put\<close> in the namespace
  \<open>..\<close> replaces the policy file and \<open>policy_reload\<close> loads it.
\<close>

theorem safe_mode_left:
  assumes "runtime_new (program_boot B num None (rcStateDir c0) E R h backend) c0 = Some (Inr (rt, w0))"
    and "\<And>t. t \<in> set backend \<Longrightarrow> has_prefix (tName t) ''anyapp_''"
    and "cMode (eCfg (pEngine w0)) = ''safe''" and "cDenyTools (eCfg (pEngine w0)) = []"
    and "cAllowTools (eCfg (pEngine w0)) = []" and "trim_space why \<noteq> []"
  shows "\<exists>v1 w1 v2 w2.
    call (rtRegistry rt) ''state_put'' (RawDoc (JObj ((''reason'', JStr why) # overwrite_policy))) d w0 = (Inr v1, w1) \<and>
    call (rtRegistry rt) ''policy_reload'' (RawDoc (JObj [(''reason'', JStr why)])) d w1 = (Inr v2, w2) \<and>
    cMode (eCfg (pEngine w2)) = ''full'' \<and> cAllowPrivileged (eCfg (pEngine w2))"
proof -
  let ?a1 = "RawDoc (JObj ((''reason'', JStr why) # overwrite_policy))" and ?a2 = "RawDoc (JObj [(''reason'', JStr why)])"
  let ?dir = "rcStateDir c0"
  let ?h = "program_handler num None ?dir E R h"
  have at: "eFile (pEngine w0) = ?dir @ ''/policy.json''" using started_program [OF assms(1)] by blast
  have rows: "(''state_put'', []) \<in> set (tool_table (boGoos B) (boGetenv B))"
    "(''policy_reload'', []) \<in> set (tool_table (boGoos B) (boGetenv B))"
    by (simp_all add: tool_table_def state_hints_def governance_hints_def)
  have valid: "validateReason ?a1 = None" "validateReason ?a2 = None"
    using assms(6) by (simp_all add: overwrite_policy_def)
  note strip = stripped_overwrite [of why]
  note esc = safe_mode_escalation [OF assms(3-5) at, of "boArch B" why num]
  then have acc: "BeforeCall (boArch B) (eCfg (pEngine w0)) ''state_put'' ?a1 = None"
    "BeforeCall (boArch B) (eCfg (pEngine w0)) ''policy_reload'' ?a2 = None" by blast+
  obtain l l' where c1: "call (rtRegistry rt) ''state_put'' ?a1 d w0 =
      (fst (?h ''state_put'' (stripReason ?a1) (logged w0 l)), logged (snd (?h ''state_put'' (stripReason ?a1) (logged w0 l))) l')"
    using program_call [OF assms(1,2) rows(1) refl valid(1) acc(1), of d] by auto
  define w1 where "w1 = logged (snd (?h ''state_put'' (stripReason ?a1) (logged w0 l))) l'"
  let ?put = "state_put_tool num None ?dir (RawDoc (JObj overwrite_policy)) (pFiles w0)"
  have w1: "pEngine w1 = pEngine w0" "pFiles w1 = snd ?put"
    by (simp_all add: w1_def program_handler_def on_files_def strip split: prod.split)
  have v1: "fst (?h ''state_put'' (stripReason ?a1) (logged w0 l)) = fst ?put"
    by (simp add: program_handler_def on_files_def strip split: prod.split)
  obtain v1 where ok: "fst ?put = Inr v1" using esc [of "pFiles w0"] by (auto simp: is_ok_iff)
  obtain k k' where c2: "call (rtRegistry rt) ''policy_reload'' ?a2 d w1 =
      (fst (?h ''policy_reload'' (stripReason ?a2) (logged w1 k)), logged (snd (?h ''policy_reload'' (stripReason ?a2) (logged w1 k))) k')"
    using program_call [OF assms(1,2) rows(2) refl valid(2), of w1 d] acc(2) w1(1) by auto
  obtain err e1 where re: "Reload (snd ?put) (pEngine w0) = (err, e1)" by fastforce
  then have full: "cMode (eCfg e1) = ''full'' \<and> cAllowPrivileged (eCfg e1)" using esc [of "pFiles w0"] by (simp add: Let_def)
  then have "err = None" using re assms(3) by (auto simp: Reload_def split: sum.splits)
  then have "fst (?h ''policy_reload'' (stripReason ?a2) (logged w1 k)) =
      Inr (Plain (JObj [(''file'', JStr (eFile e1)), (''policy'', encode_config (Snapshot e1)), (''reloaded'', JBool True)]))"
    "pEngine (snd (?h ''policy_reload'' (stripReason ?a2) (logged w1 k))) = e1"
    using re by (simp_all add: program_handler_def on_engine_def policy_reload_tool_def w1)
  then show ?thesis using c1 c2 v1 ok full by (fastforce simp: w1_def)
qed

text \<open>
  C7: in the program that started in readonly mode, without plugins, no sequence of calls other than
  \<open>desktop_capture\<close> changes anything but the audit log: the stored values, the policy file and the policy in
  force, the table of jobs and the table of targets are what they were. The requests over the network and
  the Termux commands that print something are assumed not to change them.
\<close>

theorem readonly_mode_kept:
  assumes "runtime_new (program_boot B num fail dir E R h backend) c0 = Some (Inr (rt, w0))"
    and "\<And>t. t \<in> set backend \<Longrightarrow> has_prefix (tName t) ''anyapp_''"
    and "cMode (eCfg (pEngine w0)) = ''readonly''" and "\<not> cAllowExternalPlugins (eCfg (pEngine w0))"
    and "quiet R" and "\<forall>(name, args, d) \<in> set cs. name \<noteq> ''desktop_capture''"
  shows "\<exists>l. run_calls (rtRegistry rt) cs w0 = w0\<lparr>pLogger := l\<rparr>"
proof -
  note keeps = readonly_call_keeps [OF assms(1-5)]
  have "\<exists>l. run_calls (rtRegistry rt) cs w = logged w l" if "pEngine w = pEngine w0" for w
    using assms(6) that
  proof (induction cs arbitrary: w)
    case Nil
    show ?case by (intro exI [of _ "pLogger w"]) (simp add: run_calls_def)
  next
    case (Cons x cs)
    obtain name args d where x: "x = (name, args, d)" by (metis prod.exhaust)
    obtain l where l: "snd (call (rtRegistry rt) name args d w) = logged w l"
      using keeps [of name w args d] Cons.prems by (auto simp: x)
    obtain l' where "run_calls (rtRegistry rt) cs (logged w l) = logged (logged w l) l'"
      using Cons.IH [of "logged w l"] Cons.prems by auto
    then show ?case using l by (intro exI [of _ l']) (simp add: run_calls_def x)
  qed
  then show ?thesis by simp
qed

text \<open>
  C8: and with \<open>desktop_capture\<close> readonly mode ends at the next start: one accepted call, which fails as
  no screenshot program can reach a display, removes the policy file, and the engine of the next start
  finds none and puts the default policy in force: full mode with privileged execution.
\<close>

theorem readonly_mode_lost:
  assumes "runtime_new (program_boot B num fail dir E R h backend) c0 = Some (Inr (rt, w0))"
    and "\<And>t. t \<in> set backend \<Longrightarrow> has_prefix (tName t) ''anyapp_''"
    and "cMode (eCfg (pEngine w0)) = ''readonly''" and "cDenyTools (eCfg (pEngine w0)) = []"
    and "cAllowTools (eCfg (pEngine w0)) = []" and "trim_space why \<noteq> []"
    and "p = rcStateDir c0 @ ''/policy.json''" and "screenshotCandidates E p \<noteq> []"
    and "\<And>w. pFiles (dkRemove E p w) = gm_del p (pFiles w)"
    and "\<And>argv env w. pFiles (snd (dkRun E argv env w)) = pFiles w \<and> fst (snd (fst (dkRun E argv env w))) \<noteq> None"
  shows "\<exists>e w1 en. call (rtRegistry rt) ''desktop_capture''
      (RawDoc (JObj [(''reason'', JStr why), (''output_path'', JStr p)])) d w0 = (Inl e, w1) \<and>
    fst (policy_new None (rcStateDir c0) (pFiles w1)) = Inr en \<and> cMode (eCfg en) = ''full'' \<and> cAllowPrivileged (eCfg en)"
proof -
  let ?a = "RawDoc (JObj [(''reason'', JStr why), (''output_path'', JStr p)])"
  have row: "(''desktop_capture'', read_only_hint) \<in> set (tool_table (boGoos B) (boGetenv B))"
    by (simp add: tool_table_def desktop_hints_def)
  have valid: "validateReason ?a = None" using assms(6) by simp
  have acc: "BeforeCall (boArch B) (eCfg (pEngine w0)) ''desktop_capture'' ?a = None"
    by (rule capture_accepted) (use assms(3-5) in simp_all)
  have "program_handler num fail dir E R h ''desktop_capture'' = capture_handler E" by (simp add: program_handler_def)
  then obtain l l' where c: "call (rtRegistry rt) ''desktop_capture'' ?a d w0 =
      (fst (capture_handler E (stripReason ?a) (logged w0 l)), logged (snd (capture_handler E (stripReason ?a) (logged w0 l))) l')"
    using program_call [OF assms(1,2) row refl valid acc, of d] by auto
  have p: "p \<noteq> []" by (simp add: assms(7))
  have strip: "stripReason ?a = RawDoc (JObj [(''output_path'', JStr p)])" by (rule stripped_capture)
  obtain e w2 where cap: "captureDesktopAdaptive E p (logged w0 l) = (Inl e, w2)" and w2: "pFiles w2 = gm_del p (pFiles w0)"
    using failed_captures_remove [OF assms(9,10), of "screenshotCandidates E p" "[]" "logged w0 l"] assms(8)
    by (cases "capture_loop E p (screenshotCandidates E p) [] (logged w0 l)") (auto simp: captureDesktopAdaptive_def)
  have "desktopCapture E (RawDoc (JObj [(''output_path'', JStr p)])) (logged w0 l) = (Inl e, w2)"
    using p by (simp add: desktopCapture_def known_field_def key_matches_def strict_def dec_field_def field_values_Cons
        take_capture_def cap)
  then have "call (rtRegistry rt) ''desktop_capture'' ?a d w0 = (Inl e, logged w2 l')"
    using c by (simp add: capture_handler_def strip)
  moreover have "gm_get (pFiles (logged w2 l')) (rcStateDir c0 @ ''/policy.json'') = None" using w2 by (simp add: assms(7))
  then have "fst (policy_new None (rcStateDir c0) (pFiles (logged w2 l'))) =
      Inr \<lparr>eFile = rcStateDir c0 @ ''/policy.json'', eCfg = Default\<rparr>" by (rule policy_new_missing)
  moreover have "cMode Default = ''full'' \<and> cAllowPrivileged Default" by (simp add: Default_def)
  ultimately show ?thesis
    by (intro exI [of _ e] exI [of _ "logged w2 l'"] exI [of _ "\<lparr>eFile = rcStateDir c0 @ ''/policy.json'', eCfg = Default\<rparr>"]) simp
qed

subsection \<open>Witnesses\<close>

text \<open>A machine with one screenshot program, which fails; the program starts in the mode of its policy file.\<close>

definition sample_capture :: "parts dk_env" where
  "sample_capture =
     \<lparr>dkGoos = ''linux'', dkEnviron = [], dkGetenv = (\<lambda>n. []), dkUid = 1000, dkHome = Inr ''/h'', dkStateDir = ''s'',
      dkMillis = 0, dkErrText = (\<lambda>e. ''e''), dkLookPath = (\<lambda>b. if b = ''grim'' then Inr ''/usr/bin/grim'' else Inl (ErrOS ''none'')),
      dkStat = (\<lambda>w p. Inl ErrNotExist), dkRead = (\<lambda>w p. Inl ErrNotExist), dkProcs = (\<lambda>w. []), dkGlob = (\<lambda>w p. []),
      dkRemove = (\<lambda>p w. w\<lparr>pFiles := gm_del p (pFiles w)\<rparr>), dkMkdirAll = (\<lambda>p w. (None, w)),
      dkRun = (\<lambda>argv env w. ((''no display'', Some (ErrOS ''exit''), False), w))\<rparr>"

definition sample_report :: report_env where
  "sample_report =
     \<lparr>rpGoos = ''linux'', rpGoarch = ''amd64'', rpHostname = [], rpCwd = [], rpCpus = 1, rpPid = 1, rpVersion = ''1'', rpStateDir = ''s'',
      rpRootAvailable = False, rpBridge = (zero_status, Some ErrNotExist), rpBridgeSocket = [], rpReadFile = (\<lambda>p. Inl ErrNotExist),
      rpOutput = (\<lambda>c. Inl ErrNotExist), rpLookPath = (\<lambda>b. Inl ErrNotExist), rpUnquote = (\<lambda>s. None), rpBackend = None\<rparr>"

text \<open>A machine without files, whose network answers and whose commands all print nothing.\<close>

definition sample_readers :: readers where
  "sample_readers =
     \<lparr>rdFiles = (\<lambda>w. []), rdEnt = id, rdCompile = (\<lambda>p. Inr (\<lambda>l. False)), rdPs = (\<lambda>p. Inr None),
      rdSys = \<lparr>syGoos = ''linux'', syGetenv = (\<lambda>n. []), syLookupEnv = (\<lambda>n. None), syUid = 1000, syHome = ''/h'',
        syStat = (\<lambda>p. Inl ErrNotExist), syLookPath = (\<lambda>p. Inl ErrNotExist), syDesktopEnv = (\<lambda>w. []),
        syRun = (\<lambda>argv env w. (([], None), w)), syRoot = (\<lambda>r w. (Inl ErrNotExist, w)), syRootAvailable = False\<rparr>,
      rdFetch = (\<lambda>c w. (Inr (200, [], []), w)), rdDial = (\<lambda>t a. None), rdResolve = (\<lambda>n. Inr []), rdEnviron = [],
      rdProbe = (\<lambda>c. (True, [])),
      rdTermux = \<lparr>tmTermux = False, tmAndroid = False, tmEnviron = [], tmLookPath = (\<lambda>n. Inr n),
        tmRun = (\<lambda>c w. (Ended [] [] 0 False None, w)), tmErrText = (\<lambda>e. []), tmParse = (\<lambda>s. RawEmpty), tmNum = Some\<rparr>,
      rdGetenv = (\<lambda>n. []), rdReport = sample_report, rdRegistry = New, rdPlugins = [], rdDocument = (\<lambda>a. Plain JNull)\<rparr>"

definition sample_mode :: "string \<Rightarrow> boot" where
  "sample_mode m = sample_boot\<lparr>boFiles := [(''s/policy.json'', RawDoc (JObj [(''mode'', JStr m)]))]\<rparr>"

definition sample_rt_config :: rt_config where
  "sample_rt_config = flag_config ''1'' [] sample_flags"

definition sample_program :: "string \<Rightarrow> boot" where
  "sample_program m =
     program_boot (sample_mode m) Some None ''s'' sample_capture sample_readers (\<lambda>n args w. (Inr (Plain JNull), w)) []"

definition engine_of :: "parts res \<Rightarrow> engine option" where
  "engine_of x = (case x of Inl e \<Rightarrow> None | Inr w \<Rightarrow> Some (pEngine w))"

lemma sample_engine:
  "\<forall>m \<in> set [''safe'', ''readonly'']. engine_of (rt_parts (sample_mode m) (complete_config (sample_mode m) sample_rt_config)) =
     Some \<lparr>eFile = ''s/policy.json'', eCfg = zero_config\<lparr>cMode := m, cMaxExecTimeoutSeconds := 3600\<rparr>\<rparr>"
  by code_simp

lemma sample_dir: "rcStateDir sample_rt_config = ''s''"
  by (simp add: sample_rt_config_def flag_config_def sample_flags_def)

lemma sample_starts:
  assumes "m \<in> set [''safe'', ''readonly'']"
  shows "\<exists>rt w. runtime_new (sample_program m) sample_rt_config = Some (Inr (rt, w)) \<and>
    eCfg (pEngine w) = zero_config\<lparr>cMode := m, cMaxExecTimeoutSeconds := 3600\<rparr>"
proof -
  from bspec [OF sample_engine assms] obtain w where w: "rt_parts (sample_mode m) (complete_config (sample_mode m) sample_rt_config) = Inr w"
    "eCfg (pEngine w) = zero_config\<lparr>cMode := m, cMaxExecTimeoutSeconds := 3600\<rparr>"
    by (auto simp: engine_of_def split: sum.splits)
  from program_starts [OF w(1), of "[]" Some None "''s''" sample_capture sample_readers "\<lambda>n args w. (Inr (Plain JNull), w)"] w(2)
  show ?thesis by (auto simp: sample_program_def sample_dir zero_config_def)
qed

theorem safe_mode_left_witness:
  "\<exists>rt w0 v1 w1 v2 w2. runtime_new (sample_program ''safe'') sample_rt_config = Some (Inr (rt, w0)) \<and>
    call (rtRegistry rt) ''state_put'' (RawDoc (JObj ((''reason'', JStr ''tidy'') # overwrite_policy))) 1 w0 = (Inr v1, w1) \<and>
    call (rtRegistry rt) ''policy_reload'' (RawDoc (JObj [(''reason'', JStr ''tidy'')])) 1 w1 = (Inr v2, w2) \<and>
    cMode (eCfg (pEngine w0)) = ''safe'' \<and> cMode (eCfg (pEngine w2)) = ''full''"
proof -
  obtain rt w0 where st: "runtime_new (sample_program ''safe'') sample_rt_config = Some (Inr (rt, w0))"
    and cfg: "eCfg (pEngine w0) = zero_config\<lparr>cMode := ''safe'', cMaxExecTimeoutSeconds := 3600\<rparr>"
    using sample_starts [of "''safe''"] by auto
  have why: "trim_space ''tidy'' \<noteq> []" by code_simp
  have "runtime_new (program_boot (sample_mode ''safe'') Some None (rcStateDir sample_rt_config) sample_capture
      sample_readers (\<lambda>n args w. (Inr (Plain JNull), w)) []) sample_rt_config = Some (Inr (rt, w0))"
    using st by (simp add: sample_program_def sample_dir)
  from safe_mode_left [OF this _ _ _ _ why, of 1] st show ?thesis by (simp add: cfg zero_config_def) blast
qed

theorem readonly_mode_kept_witness:
  "\<exists>rt w0 l. runtime_new (sample_program ''readonly'') sample_rt_config = Some (Inr (rt, w0)) \<and>
    run_calls (rtRegistry rt)
      [(''fs_write'', RawDoc (JObj [(''reason'', JStr ''r'')]), 1), (''state_get'', RawEmpty, 1),
       (''network_request'', RawDoc (JObj [(''reason'', JStr ''r''), (''url'', JStr ''http://x'')]), 1)] w0 = w0\<lparr>pLogger := l\<rparr>"
proof -
  obtain rt w0 where st: "runtime_new (sample_program ''readonly'') sample_rt_config = Some (Inr (rt, w0))"
    and cfg: "eCfg (pEngine w0) = zero_config\<lparr>cMode := ''readonly'', cMaxExecTimeoutSeconds := 3600\<rparr>"
    using sample_starts [of "''readonly''"] by auto
  have "quiet sample_readers" by (simp add: quiet_def sample_readers_def)
  from readonly_mode_kept [OF st [unfolded sample_program_def] _ _ _ this,
      of "[(''fs_write'', RawDoc (JObj [(''reason'', JStr ''r'')]), 1), (''state_get'', RawEmpty, 1),
           (''network_request'', RawDoc (JObj [(''reason'', JStr ''r''), (''url'', JStr ''http://x'')]), 1)]"] st
  show ?thesis by (simp add: cfg zero_config_def)
qed

theorem readonly_mode_lost_witness:
  "\<exists>rt w0 e w1 en. runtime_new (sample_program ''readonly'') sample_rt_config = Some (Inr (rt, w0)) \<and>
    call (rtRegistry rt) ''desktop_capture''
      (RawDoc (JObj [(''reason'', JStr ''look''), (''output_path'', JStr ''s/policy.json'')])) 1 w0 = (Inl e, w1) \<and>
    fst (policy_new None ''s'' (pFiles w1)) = Inr en \<and> cMode (eCfg en) = ''full''"
proof -
  obtain rt w0 where st: "runtime_new (sample_program ''readonly'') sample_rt_config = Some (Inr (rt, w0))"
    and cfg: "eCfg (pEngine w0) = zero_config\<lparr>cMode := ''readonly'', cMaxExecTimeoutSeconds := 3600\<rparr>"
    using sample_starts [of "''readonly''"] by auto
  have why: "trim_space ''look'' \<noteq> []" by code_simp
  have p: "''s/policy.json'' = rcStateDir sample_rt_config @ ''/policy.json''" by (simp add: sample_dir)
  have cands: "screenshotCandidates sample_capture ''s/policy.json'' \<noteq> []"
    by (simp add: screenshotCandidates_def found_def sample_capture_def)
  from readonly_mode_lost [OF st [unfolded sample_program_def] _ _ _ _ why p cands, of 1] st
  show ?thesis by (simp add: cfg zero_config_def sample_dir sample_capture_def) blast
qed

end
