(* ===== verification/ToolArguments.thy ===== *)
theory ToolArguments
  imports Catalog StateStore ProcessTools Files SystemTools Termux BrowserRelay
begin

section \<open>Declared and decoded arguments\<close>

text \<open>
  Every schema of the program says \<open>additionalProperties: false\<close>. Nothing checks arguments against the
  schemas: a handler decodes its arguments strictly into a structure of its own. Here the two meet: the
  names each tool declares, read off the registrations of \<open>Catalog\<close>, are exactly those its handler
  decodes. Tools without arguments, and \<open>browser_use\<close>, which passes its message on, decode nothing.
\<close>

subsection \<open>The declared names\<close>

definition arguments_of :: "bool \<times> 'w tool \<Rightarrow> string \<times> string list" where
  "arguments_of x =
     (tName (snd x), map fst (case tInputSchema (snd x) of None \<Rightarrow> [] | Some s \<Rightarrow> schema_props s))"

lemma schema_props_ObjectSchema [simp]:
  "schema_props (ObjectSchema None req) = []" "schema_props (ObjectSchema (Some p) req) = p"
proof -
  have base: "gm_get [(''type'', a), (''properties'', b), (''additionalProperties'', c)] ''properties'' = Some b" for a b c :: gv
    by (simp add: gm_get_def)
  show "schema_props (ObjectSchema None req) = []" "schema_props (ObjectSchema (Some p) req) = p"
    by (simp_all add: schema_props_def ObjectSchema_def Let_def base)
qed

lemma arguments_of_core [simp]: "arguments_of (core_tool h n d s a) = (n, map fst (schema_props s))"
  by (simp add: arguments_of_def)

definition filesystem_arguments :: "(string \<times> string list) list" where
  "filesystem_arguments =
     [(''fs_list'', [''path'', ''hidden'']),
      (''fs_read'', [''path'', ''offset'', ''max_bytes'']),
      (''fs_write'', [''path'', ''content'', ''encoding'', ''append'', ''mode'']),
      (''fs_patch'', [''path'', ''edits'']),
      (''fs_move'', [''source'', ''dest'']),
      (''fs_remove'', [''path'', ''recursive'']),
      (''fs_search'', [''root'', ''pattern'', ''name'', ''max_results'', ''max_file_bytes'']),
      (''fs_stat'', [''path''])]"

definition process_arguments :: "(string \<times> string list) list" where
  "process_arguments =
     [(''process_exec'', [''command'', ''stdin'', ''cwd'', ''env'', ''timeout_seconds'', ''shell'', ''max_output_bytes'', ''privileged'', ''execution_context'']),
      (''process_spawn'', [''command'', ''cwd'', ''env'', ''shell'', ''execution_context'']),
      (''process_inspect'', [''pid'']),
      (''process_signal'', [''pid'', ''signal''])]"

definition jobs_arguments :: "(string \<times> string list) list" where
  "jobs_arguments =
     [(''job_list'', []),
      (''job_get'', [''id'']),
      (''job_tail'', [''id'', ''lines'', ''max_bytes'']),
      (''job_signal'', [''id'', ''signal'']),
      (''job_prune'', [''older_than_hours''])]"

definition system_arguments :: "(string \<times> string list) list" where
  "system_arguments =
     [(''system_info'', []),
      (''system_env'', [''names'']),
      (''service_control'', [''name'', ''action'', ''user'', ''privileged'']),
      (''network_request'', [''method'', ''url'', ''headers'', ''body'', ''timeout_seconds'', ''max_bytes'']),
      (''network_tcp'', [''address'', ''timeout_seconds'']),
      (''network_resolve'', [''host'']),
      (''capabilities_list'', []),
      (''plugins_reload'', [])]"

definition session_arguments :: "(string \<times> string list) list" where
  "session_arguments =
     [(''machine_restart'', []),
      (''machine_poweroff'', []),
      (''session_logout'', [''session'']),
      (''tty_control'', [''tty'', ''action'']),
      (''display_outputs'', []),
      (''display_output_control'', [''output'', ''enabled''])]"

definition android_arguments :: "(string \<times> string list) list" where
  "android_arguments =
     [(''android_api_list'', []),
      (''android_api_call'', [''command'', ''args'', ''stdin'', ''timeout_seconds''])]"

definition assistant_arguments :: "(string \<times> string list) list" where
  "assistant_arguments =
     [(''assistant_device_status'', []),
      (''assistant_listen'', []),
      (''assistant_speak'', [''text'', ''language'', ''rate'', ''pitch'']),
      (''assistant_notify'', [''title'', ''content'', ''id'']),
      (''assistant_location'', [''provider'', ''request'']),
      (''assistant_clipboard_get'', []),
      (''assistant_clipboard_set'', [''text'']),
      (''assistant_vibrate'', [''duration_ms'']),
      (''assistant_torch'', [''enabled'']),
      (''assistant_sms_send'', [''numbers'', ''text'', ''sim_slot'']),
      (''assistant_phone_call'', [''number'']),
      (''assistant_camera_photo'', [''path'', ''camera_id'']),
      (''assistant_microphone_record'', [''action'', ''path'', ''limit_seconds'']),
      (''assistant_contacts'', []),
      (''assistant_sms_list'', [''limit'', ''type'']),
      (''assistant_call_log'', [])]"

definition desktop_arguments :: "(string \<times> string list) list" where
  "desktop_arguments =
     [(''desktop_capture'', [''output_path'']),
      (''desktop_input'', [''action'', ''target'', ''text'', ''key'', ''button'', ''x'', ''y''])]"

definition browser_arguments :: "(string \<times> string list) list" where
  "browser_arguments =
     [(''browser_use'', [''action'', ''tabId'', ''url'', ''selector'', ''text'', ''index'', ''x'', ''y''])]"

definition state_arguments :: "(string \<times> string list) list" where
  "state_arguments =
     [(''state_get'', [''namespace'', ''key'']),
      (''state_put'', [''namespace'', ''key'', ''value'']),
      (''state_delete'', [''namespace'', ''key'']),
      (''state_list'', [''namespace''])]"

definition targets_arguments :: "(string \<times> string list) list" where
  "targets_arguments =
     [(''target_list'', []),
      (''target_get'', [''name'']),
      (''target_upsert'', [''name'', ''transport'', ''host'', ''port'', ''user'', ''identity_file'', ''work_dir'', ''env'', ''ssh_options'', ''tags'', ''enabled'']),
      (''target_remove'', [''name'']),
      (''target_probe'', [''name'', ''timeout_seconds'']),
      (''target_exec'', [''name'', ''command'', ''cwd'', ''env'', ''timeout_seconds'', ''max_output_bytes'', ''privileged'']),
      (''target_copy'', [''name'', ''direction'', ''source'', ''dest'', ''recursive'', ''timeout_seconds''])]"

definition governance_arguments :: "(string \<times> string list) list" where
  "governance_arguments =
     [(''audit_tail'', [''limit'']),
      (''audit_prune'', [''older_than_days'']),
      (''policy_get'', []),
      (''policy_reload'', [])]"

definition all_arguments :: "(string \<times> string list) list" where
  "all_arguments =
     filesystem_arguments @ process_arguments @ jobs_arguments @ system_arguments @ session_arguments @
     android_arguments @ assistant_arguments @ desktop_arguments @ browser_arguments @ state_arguments @
     targets_arguments @ governance_arguments"

definition declared :: "string \<Rightarrow> string list" where
  "declared n = (case map_of all_arguments n of Some l \<Rightarrow> l | None \<Rightarrow> [])"


text \<open>A message with all declared members, which are null.\<close>

definition nulls :: "string \<Rightarrow> (string \<times> json) list" where
  "nulls n = map (\<lambda>k. (k, JNull)) (declared n)"

abbreviation null_message :: "string \<Rightarrow> raw" where
  "null_message n \<equiv> RawDoc (JObj (nulls n))"

definition agree :: "string \<Rightarrow> string list \<Rightarrow> bool" where
  "agree n fs \<longleftrightarrow> list_all (known_field (declared n)) fs \<and> list_all (known_field fs) (declared n)"

subsection \<open>Lemmas\<close>

lemma registerFilesystem_arguments: "map arguments_of (registerFilesystem h) = filesystem_arguments"
  by (simp add: registerFilesystem_def filesystem_arguments_def)

lemma registerProcess_arguments: "map arguments_of (registerProcess h) = process_arguments"
  by (simp add: registerProcess_def executionContext_def props_members_def process_arguments_def)

lemma registerJobs_arguments: "map arguments_of (registerJobs h) = jobs_arguments"
  by (simp add: registerJobs_def jobs_arguments_def)

lemma registerSystem_arguments: "map arguments_of (registerSystem h) = system_arguments"
  by (simp add: registerSystem_def system_arguments_def)

lemma registerSessionControl_arguments: "map arguments_of (registerSessionControl goos h) = (if linux_build goos then session_arguments else [])"
  by (simp add: registerSessionControl_def session_arguments_def)

lemma registerTermuxAPI_arguments: "map arguments_of (registerTermuxAPI goos getenv h) = (if IsTermux getenv \<or> goos = ''android'' then android_arguments else [])"
  by (simp add: registerTermuxAPI_def android_arguments_def)

lemma registerTermuxAssistant_arguments: "map arguments_of (registerTermuxAssistant getenv h) = (if IsTermux getenv then assistant_arguments else [])"
  by (simp add: registerTermuxAssistant_def assistant_arguments_def)

lemma registerDesktop_arguments: "map arguments_of (registerDesktop h) = desktop_arguments"
  by (simp add: registerDesktop_def desktop_arguments_def)

lemma registerBrowser_arguments: "map arguments_of (registerBrowser h) = browser_arguments"
  by (simp add: registerBrowser_def browser_schema_def browser_arguments_def)

lemma registerState_arguments: "map arguments_of (registerState h) = state_arguments"
  by (simp add: registerState_def state_arguments_def)

lemma registerTargets_arguments: "map arguments_of (registerTargets h) = targets_arguments"
  by (simp add: registerTargets_def targets_arguments_def)

lemma registerGovernance_arguments: "map arguments_of (registerGovernance h) = governance_arguments"
  by (simp add: registerGovernance_def governance_arguments_def)

lemma all_arguments_distinct: "distinct (map fst all_arguments)"
  by code_simp

lemma declared_of: "(n, names) \<in> set all_arguments \<Longrightarrow> declared n = names"
  using map_of_is_SomeI [OF all_arguments_distinct] by (simp add: declared_def)

lemma program_tools_arguments:
  assumes "x \<in> set (program_tools goos getenv h [])"
  shows "declared (tName (snd x)) = snd (arguments_of x)"
proof -
  have "map arguments_of (program_tools goos getenv h []) =
      filesystem_arguments @ process_arguments @ jobs_arguments @ system_arguments @
      (if linux_build goos then session_arguments else []) @
      (if IsTermux getenv \<or> goos = ''android'' then android_arguments else []) @
      (if IsTermux getenv then assistant_arguments else []) @
      desktop_arguments @ browser_arguments @ state_arguments @ targets_arguments @ governance_arguments"
    by (simp add: program_tools_def early_tools_def late_tools_def backend_tools_def registerFilesystem_arguments
        registerProcess_arguments registerJobs_arguments registerSystem_arguments registerSessionControl_arguments
        registerTermuxAPI_arguments registerTermuxAssistant_arguments registerDesktop_arguments
        registerBrowser_arguments registerState_arguments registerTargets_arguments registerGovernance_arguments)
  then have "set (map arguments_of (program_tools goos getenv h [])) \<subseteq> set all_arguments"
    by (auto simp: all_arguments_def split: if_splits)
  then have "arguments_of x \<in> set all_arguments" using assms by auto
  then show ?thesis using declared_of [of "tName (snd x)" "snd (arguments_of x)"] by (simp add: arguments_of_def)
qed

text \<open>The fields of the handlers.\<close>

lemma fields_agree:
  "agree ''fs_list'' [''path'', ''hidden'']"
  "agree ''fs_read'' [''path'', ''offset'', ''max_bytes'']"
  "agree ''fs_write'' write_fields"
  "agree ''fs_patch'' [''path'', ''edits'']"
  "agree ''fs_move'' [''source'', ''dest'']"
  "agree ''fs_remove'' [''path'', ''recursive'']"
  "agree ''fs_search'' [''root'', ''pattern'', ''name'', ''max_results'', ''max_file_bytes'']"
  "agree ''fs_stat'' [''path'']"
  "agree ''process_exec'' exec_input_fields"
  "agree ''process_spawn'' spawn_input_fields"
  "agree ''process_inspect'' [''pid'']"
  "agree ''process_signal'' [''pid'', ''signal'']"
  "agree ''job_get'' [''id'']"
  "agree ''job_tail'' [''id'', ''lines'', ''max_bytes'']"
  "agree ''job_signal'' [''id'', ''signal'']"
  "agree ''job_prune'' [''older_than_hours'']"
  "agree ''system_env'' [''names'']"
  "agree ''service_control'' [''name'', ''action'', ''user'', ''privileged'']"
  "agree ''network_request'' [''method'', ''url'', ''headers'', ''body'', ''timeout_seconds'', ''max_bytes'']"
  "agree ''network_tcp'' [''address'', ''timeout_seconds'']"
  "agree ''network_resolve'' [''host'']"
  "agree ''session_logout'' [''session'']"
  "agree ''tty_control'' [''TTY'', ''Action'']"
  "agree ''display_output_control'' [''output'', ''enabled'']"
  "agree ''android_api_call'' [''command'', ''args'', ''stdin'', ''timeout_seconds'']"
  "agree ''assistant_speak'' [''Text'', ''Language'', ''Rate'', ''Pitch'']"
  "agree ''assistant_notify'' [''Title'', ''Content'', ''ID'']"
  "agree ''assistant_location'' [''Provider'', ''Request'']"
  "agree ''assistant_clipboard_set'' [''Text'']"
  "agree ''assistant_vibrate'' [''duration_ms'']"
  "agree ''assistant_torch'' [''enabled'']"
  "agree ''assistant_sms_send'' [''numbers'', ''text'', ''sim_slot'']"
  "agree ''assistant_phone_call'' [''number'']"
  "agree ''assistant_camera_photo'' [''path'', ''camera_id'']"
  "agree ''assistant_microphone_record'' [''Action'', ''Path'', ''limit_seconds'']"
  "agree ''assistant_sms_list'' [''limit'', ''type'']"
  "agree ''desktop_capture'' [''output_path'']"
  "agree ''desktop_input'' input_fields"
  "agree ''state_get'' [''namespace'', ''key'']"
  "agree ''state_put'' [''namespace'', ''key'', ''value'']"
  "agree ''state_delete'' [''namespace'', ''key'']"
  "agree ''state_list'' [''namespace'']"
  "agree ''target_get'' [''name'']"
  "agree ''target_upsert'' upsert_fields"
  "agree ''target_remove'' [''name'']"
  "agree ''target_probe'' [''name'', ''timeout_seconds'']"
  "agree ''target_exec'' target_exec_fields"
  "agree ''target_copy'' target_copy_fields"
  "agree ''audit_tail'' [''limit'']"
  "agree ''audit_prune'' [''older_than_days'']"
  by code_simp+



lemma decode_null: "agree n fs \<Longrightarrow> decode_members fs (null_message n) = Inr (nulls n)"
  by (auto simp: agree_def nulls_def list_all_iff)

lemma decode_empty: "decode_members fs (RawDoc (JObj [])) = Inr []"
  by simp

lemma dec_steps_nulls:
  assumes "set_v JNull z = Some z" and "\<forall>v \<in> set vs. v = JNull"
  shows "dec_steps set_v (z, False) vs = (z, False)"
  using assms(2) by (induction vs) (auto simp: assms(1))

lemma dec_field_nulls:
  assumes "set_v JNull z = Some z"
  shows "dec_field set_v z f (nulls n) = (z, False)"
proof -
  have "\<forall>v \<in> set (field_values f (nulls n)). v = JNull" by (auto simp: field_values_def nulls_def)
  then show ?thesis using dec_steps_nulls [of set_v z, OF assms] by (simp add: dec_field_def)
qed

lemma dec_nulls:
  "dec_field set_str s f (nulls n) = (s, False)" "dec_field set_bool b f (nulls n) = (b, False)"
  "dec_field set_int i f (nulls n) = (i, False)" "dec_field set_strs [] f (nulls n) = ([], False)"
  "dec_field set_strmap [] f (nulls n) = ([], False)" "dec_field set_bool_ptr None f (nulls n) = (None, False)"
  "dec_field set_uint32 u f (nulls n) = (u, False)" "dec_field set_edits [] f (nulls n) = ([], False)"
  by (simp_all add: dec_field_nulls)


lemma files_null:
  "fsList ent (null_message ''fs_list'') fs = fsList ent (RawDoc (JObj [])) fs"
  "fsRead ent (null_message ''fs_read'') fs = fsRead ent (RawDoc (JObj [])) fs"
  "fsWrite ent mkdirs perm wfail short (null_message ''fs_write'') fs = fsWrite ent mkdirs perm wfail short (RawDoc (JObj [])) fs"
  "fsPatch ent wfail tmp (null_message ''fs_patch'') fs = fsPatch ent wfail tmp (RawDoc (JObj [])) fs"
  "fsMove ent (null_message ''fs_move'') fs = fsMove ent (RawDoc (JObj [])) fs"
  "fsRemove ent (null_message ''fs_remove'') fs = fsRemove ent (RawDoc (JObj [])) fs"
  "fsSearch ent compile (null_message ''fs_search'') fs = fsSearch ent compile (RawDoc (JObj [])) fs"
  "fsStat ent (null_message ''fs_stat'') fs = fsStat ent (RawDoc (JObj [])) fs"
  by (simp_all add: fsList_def fsRead_def fsWrite_def fsPatch_def fsMove_def fsRemove_def fsSearch_def fsStat_def decode_null decode_empty dec_nulls fields_agree Let_def
      del: decode_members.simps)


lemma process_null:
  "processExec X (null_message ''process_exec'') w = processExec X (RawDoc (JObj [])) w"
  "process_spawn_tool X S (null_message ''process_spawn'') mw = process_spawn_tool X S (RawDoc (JObj [])) mw"
  "processInspect ps (null_message ''process_inspect'') = processInspect ps (RawDoc (JObj []))"
  "processSignal kill (null_message ''process_signal'') w = processSignal kill (RawDoc (JObj [])) w"
  by (simp_all add: processExec_def decode_exec_input_def process_spawn_tool_def decode_spawn_input_def processInspect_def decode_pid_def processSignal_def decode_null decode_empty dec_nulls fields_agree Let_def
      del: decode_members.simps)


lemma jobs_null:
  "job_get_tool (null_message ''job_get'') m = job_get_tool (RawDoc (JObj [])) m"
  "job_tail_tool (null_message ''job_tail'') m = job_tail_tool (RawDoc (JObj [])) m"
  "job_signal_tool pf now jkill (null_message ''job_signal'') m = job_signal_tool pf now jkill (RawDoc (JObj [])) m"
  "job_prune_tool now (null_message ''job_prune'') m = job_prune_tool now (RawDoc (JObj [])) m"
  by (simp_all add: job_get_tool_def job_tail_tool_def job_signal_tool_def job_prune_tool_def decode_null decode_empty dec_nulls fields_agree Let_def
      del: decode_members.simps)


lemma system_null:
  "system_env Y (null_message ''system_env'') = system_env Y (RawDoc (JObj []))"
  "serviceControl Y (null_message ''service_control'') w = serviceControl Y (RawDoc (JObj [])) w"
  "networkRequest fetch (null_message ''network_request'') w = networkRequest fetch (RawDoc (JObj [])) w"
  "networkTCP dial (null_message ''network_tcp'') = networkTCP dial (RawDoc (JObj []))"
  "networkResolve resolve (null_message ''network_resolve'') = networkResolve resolve (RawDoc (JObj []))"
  "logoutSession Y sessions (null_message ''session_logout'') w = logoutSession Y sessions (RawDoc (JObj [])) w"
  "ttyControl Y (null_message ''tty_control'') w = ttyControl Y (RawDoc (JObj [])) w"
  "displayOutputControl Y (null_message ''display_output_control'') w = displayOutputControl Y (RawDoc (JObj [])) w"
  by (simp_all add: system_env_def serviceControl_def networkRequest_def networkTCP_def networkResolve_def logoutSession_def ttyControl_def displayOutputControl_def decode_null decode_empty dec_nulls fields_agree Let_def
      del: decode_members.simps)


lemma assistant_null:
  "termuxAPICall T pe (null_message ''android_api_call'') w = termuxAPICall T pe (RawDoc (JObj [])) w"
  "assistantSpeak T (null_message ''assistant_speak'') w = assistantSpeak T (RawDoc (JObj [])) w"
  "assistantNotify T (null_message ''assistant_notify'') w = assistantNotify T (RawDoc (JObj [])) w"
  "assistantLocation T (null_message ''assistant_location'') w = assistantLocation T (RawDoc (JObj [])) w"
  "assistantClipboardSet T (null_message ''assistant_clipboard_set'') w = assistantClipboardSet T (RawDoc (JObj [])) w"
  "assistantVibrate T (null_message ''assistant_vibrate'') w = assistantVibrate T (RawDoc (JObj [])) w"
  "assistantTorch T (null_message ''assistant_torch'') w = assistantTorch T (RawDoc (JObj [])) w"
  "assistantSMSSend T (null_message ''assistant_sms_send'') w = assistantSMSSend T (RawDoc (JObj [])) w"
  "assistantPhoneCall T (null_message ''assistant_phone_call'') w = assistantPhoneCall T (RawDoc (JObj [])) w"
  "assistantCameraPhoto T (null_message ''assistant_camera_photo'') w = assistantCameraPhoto T (RawDoc (JObj [])) w"
  "assistantMicrophoneRecord T (null_message ''assistant_microphone_record'') w = assistantMicrophoneRecord T (RawDoc (JObj [])) w"
  "assistantSMSList T (null_message ''assistant_sms_list'') w = assistantSMSList T (RawDoc (JObj [])) w"
  by (simp_all add: termuxAPICall_def assistantSpeak_def assistantNotify_def assistantLocation_def assistantClipboardSet_def assistantVibrate_def assistantTorch_def assistantSMSSend_def assistantPhoneCall_def assistantCameraPhoto_def assistantMicrophoneRecord_def assistantSMSList_def decode_null decode_empty dec_nulls fields_agree Let_def
      del: decode_members.simps)


lemma desktop_null:
  "desktopCapture D (null_message ''desktop_capture'') w = desktopCapture D (RawDoc (JObj [])) w"
  "desktopInput D (null_message ''desktop_input'') w = desktopInput D (RawDoc (JObj [])) w"
  by (simp_all add: desktopCapture_def desktopInput_def decode_input_def decode_null decode_empty dec_nulls fields_agree Let_def
      del: decode_members.simps)


lemma state_null:
  "state_get_tool num dir (null_message ''state_get'') files = state_get_tool num dir (RawDoc (JObj [])) files"
  "state_delete_tool dir (null_message ''state_delete'') files = state_delete_tool dir (RawDoc (JObj [])) files"
  "state_list_tool dir (null_message ''state_list'') files = state_list_tool dir (RawDoc (JObj [])) files"
  by (simp_all add: state_get_tool_def decode_ns_key_def state_put_tool_def state_delete_tool_def state_list_tool_def decode_null decode_empty dec_nulls fields_agree Let_def
      del: decode_members.simps)


lemma targets_null:
  "target_get_tool (null_message ''target_get'') tm = target_get_tool (RawDoc (JObj [])) tm"
  "target_upsert_tool sfail (null_message ''target_upsert'') tm = target_upsert_tool sfail (RawDoc (JObj [])) tm"
  "target_remove_tool sfail (null_message ''target_remove'') tm = target_remove_tool sfail (RawDoc (JObj [])) tm"
  "target_probe_tool environ prun (null_message ''target_probe'') tm = target_probe_tool environ prun (RawDoc (JObj [])) tm"
  "target_exec_tool priv rexec sh environ trun (null_message ''target_exec'') tm = target_exec_tool priv rexec sh environ trun (RawDoc (JObj [])) tm"
  "target_copy_tool environ crun (null_message ''target_copy'') tm = target_copy_tool environ crun (RawDoc (JObj [])) tm"
  by (simp_all add: target_get_tool_def decode_target_name_def target_upsert_tool_def target_remove_tool_def target_probe_tool_def target_exec_tool_def target_copy_tool_def decode_null decode_empty dec_nulls fields_agree Let_def
      del: decode_members.simps)


lemma audit_null:
  "audit_tail_tool (null_message ''audit_tail'') lg = audit_tail_tool (RawDoc (JObj [])) lg"
  "audit_prune_tool rm now (null_message ''audit_prune'') lg = audit_prune_tool rm now (RawDoc (JObj [])) lg"
  by (simp_all add: audit_tail_tool_def audit_prune_tool_def decode_null decode_empty dec_nulls fields_agree Let_def
      del: decode_members.simps)




subsection \<open>Properties\<close>


text \<open>
  And what a tool declares its handler takes: a message with all its declared members, null, is
  treated as the message without members. \<open>state_put\<close>, whose value may be null, is the exception.
\<close>

theorem declared_arguments_decoded:
  assumes "x \<in> set (program_tools goos getenv h [])" and "n = tName (snd x)"
    and "msg = RawDoc (JObj (map (\<lambda>k. (k, JNull)) (snd (arguments_of x))))"
  shows "(n = ''fs_list'' \<longrightarrow> fsList ent msg fs = fsList ent (RawDoc (JObj [])) fs) \<and>
    (n = ''fs_read'' \<longrightarrow> fsRead ent msg fs = fsRead ent (RawDoc (JObj [])) fs) \<and>
    (n = ''fs_write'' \<longrightarrow> fsWrite ent mkdirs perm wfail short msg fs = fsWrite ent mkdirs perm wfail short (RawDoc (JObj [])) fs) \<and>
    (n = ''fs_patch'' \<longrightarrow> fsPatch ent wfail tmp msg fs = fsPatch ent wfail tmp (RawDoc (JObj [])) fs) \<and>
    (n = ''fs_move'' \<longrightarrow> fsMove ent msg fs = fsMove ent (RawDoc (JObj [])) fs) \<and>
    (n = ''fs_remove'' \<longrightarrow> fsRemove ent msg fs = fsRemove ent (RawDoc (JObj [])) fs) \<and>
    (n = ''fs_search'' \<longrightarrow> fsSearch ent compile msg fs = fsSearch ent compile (RawDoc (JObj [])) fs) \<and>
    (n = ''fs_stat'' \<longrightarrow> fsStat ent msg fs = fsStat ent (RawDoc (JObj [])) fs) \<and>
    (n = ''process_exec'' \<longrightarrow> processExec X msg w = processExec X (RawDoc (JObj [])) w) \<and>
    (n = ''process_spawn'' \<longrightarrow> process_spawn_tool X S msg mw = process_spawn_tool X S (RawDoc (JObj [])) mw) \<and>
    (n = ''process_inspect'' \<longrightarrow> processInspect ps msg = processInspect ps (RawDoc (JObj []))) \<and>
    (n = ''process_signal'' \<longrightarrow> processSignal kill msg w = processSignal kill (RawDoc (JObj [])) w) \<and>
    (n = ''job_get'' \<longrightarrow> job_get_tool msg m = job_get_tool (RawDoc (JObj [])) m) \<and>
    (n = ''job_tail'' \<longrightarrow> job_tail_tool msg m = job_tail_tool (RawDoc (JObj [])) m) \<and>
    (n = ''job_signal'' \<longrightarrow> job_signal_tool pf now jkill msg m = job_signal_tool pf now jkill (RawDoc (JObj [])) m) \<and>
    (n = ''job_prune'' \<longrightarrow> job_prune_tool now msg m = job_prune_tool now (RawDoc (JObj [])) m) \<and>
    (n = ''system_env'' \<longrightarrow> system_env Y msg = system_env Y (RawDoc (JObj []))) \<and>
    (n = ''service_control'' \<longrightarrow> serviceControl Y msg w = serviceControl Y (RawDoc (JObj [])) w) \<and>
    (n = ''network_request'' \<longrightarrow> networkRequest fetch msg w = networkRequest fetch (RawDoc (JObj [])) w) \<and>
    (n = ''network_tcp'' \<longrightarrow> networkTCP dial msg = networkTCP dial (RawDoc (JObj []))) \<and>
    (n = ''network_resolve'' \<longrightarrow> networkResolve resolve msg = networkResolve resolve (RawDoc (JObj []))) \<and>
    (n = ''session_logout'' \<longrightarrow> logoutSession Y sessions msg w = logoutSession Y sessions (RawDoc (JObj [])) w) \<and>
    (n = ''tty_control'' \<longrightarrow> ttyControl Y msg w = ttyControl Y (RawDoc (JObj [])) w) \<and>
    (n = ''display_output_control'' \<longrightarrow> displayOutputControl Y msg w = displayOutputControl Y (RawDoc (JObj [])) w) \<and>
    (n = ''android_api_call'' \<longrightarrow> termuxAPICall T pe msg w = termuxAPICall T pe (RawDoc (JObj [])) w) \<and>
    (n = ''assistant_speak'' \<longrightarrow> assistantSpeak T msg w = assistantSpeak T (RawDoc (JObj [])) w) \<and>
    (n = ''assistant_notify'' \<longrightarrow> assistantNotify T msg w = assistantNotify T (RawDoc (JObj [])) w) \<and>
    (n = ''assistant_location'' \<longrightarrow> assistantLocation T msg w = assistantLocation T (RawDoc (JObj [])) w) \<and>
    (n = ''assistant_clipboard_set'' \<longrightarrow> assistantClipboardSet T msg w = assistantClipboardSet T (RawDoc (JObj [])) w) \<and>
    (n = ''assistant_vibrate'' \<longrightarrow> assistantVibrate T msg w = assistantVibrate T (RawDoc (JObj [])) w) \<and>
    (n = ''assistant_torch'' \<longrightarrow> assistantTorch T msg w = assistantTorch T (RawDoc (JObj [])) w) \<and>
    (n = ''assistant_sms_send'' \<longrightarrow> assistantSMSSend T msg w = assistantSMSSend T (RawDoc (JObj [])) w) \<and>
    (n = ''assistant_phone_call'' \<longrightarrow> assistantPhoneCall T msg w = assistantPhoneCall T (RawDoc (JObj [])) w) \<and>
    (n = ''assistant_camera_photo'' \<longrightarrow> assistantCameraPhoto T msg w = assistantCameraPhoto T (RawDoc (JObj [])) w) \<and>
    (n = ''assistant_microphone_record'' \<longrightarrow> assistantMicrophoneRecord T msg w = assistantMicrophoneRecord T (RawDoc (JObj [])) w) \<and>
    (n = ''assistant_sms_list'' \<longrightarrow> assistantSMSList T msg w = assistantSMSList T (RawDoc (JObj [])) w) \<and>
    (n = ''desktop_capture'' \<longrightarrow> desktopCapture D msg w = desktopCapture D (RawDoc (JObj [])) w) \<and>
    (n = ''desktop_input'' \<longrightarrow> desktopInput D msg w = desktopInput D (RawDoc (JObj [])) w) \<and>
    (n = ''state_get'' \<longrightarrow> state_get_tool num dir msg files = state_get_tool num dir (RawDoc (JObj [])) files) \<and>
    (n = ''state_delete'' \<longrightarrow> state_delete_tool dir msg files = state_delete_tool dir (RawDoc (JObj [])) files) \<and>
    (n = ''state_list'' \<longrightarrow> state_list_tool dir msg files = state_list_tool dir (RawDoc (JObj [])) files) \<and>
    (n = ''target_get'' \<longrightarrow> target_get_tool msg tm = target_get_tool (RawDoc (JObj [])) tm) \<and>
    (n = ''target_upsert'' \<longrightarrow> target_upsert_tool sfail msg tm = target_upsert_tool sfail (RawDoc (JObj [])) tm) \<and>
    (n = ''target_remove'' \<longrightarrow> target_remove_tool sfail msg tm = target_remove_tool sfail (RawDoc (JObj [])) tm) \<and>
    (n = ''target_probe'' \<longrightarrow> target_probe_tool environ prun msg tm = target_probe_tool environ prun (RawDoc (JObj [])) tm) \<and>
    (n = ''target_exec'' \<longrightarrow> target_exec_tool priv rexec sh environ trun msg tm = target_exec_tool priv rexec sh environ trun (RawDoc (JObj [])) tm) \<and>
    (n = ''target_copy'' \<longrightarrow> target_copy_tool environ crun msg tm = target_copy_tool environ crun (RawDoc (JObj [])) tm) \<and>
    (n = ''audit_tail'' \<longrightarrow> audit_tail_tool msg lg = audit_tail_tool (RawDoc (JObj [])) lg) \<and>
    (n = ''audit_prune'' \<longrightarrow> audit_prune_tool rm now msg lg = audit_prune_tool rm now (RawDoc (JObj [])) lg)"
proof -
  have "msg = null_message n" using program_tools_arguments [OF assms(1)] assms(2,3) by (simp add: nulls_def)
  then show ?thesis
    by (intro conjI impI) (simp_all add: files_null process_null jobs_null system_null assistant_null desktop_null state_null targets_null audit_null)
qed

subsection \<open>Witnesses\<close>

lemma sample_declaration:
  "\<exists>x \<in> set (program_tools ''linux'' (\<lambda>_. []) (\<lambda>n a (w :: nat). (Inr (Plain JNull), w)) []).
     tName (snd x) = ''fs_stat'' \<and> snd (arguments_of x) = [''path'']"
proof -
  let ?h = "\<lambda>n a (w :: nat). (Inr (Plain JNull) :: tool_value res, w)"
  have "(''fs_stat'', [''path'']) \<in> set (map arguments_of (registerFilesystem ?h))"
    unfolding registerFilesystem_arguments by (simp add: filesystem_arguments_def)
  then obtain x where "x \<in> set (registerFilesystem ?h)" "arguments_of x = (''fs_stat'', [''path''])" by auto
  then show ?thesis by (intro bexI [of _ x]) (auto simp: program_tools_def early_tools_def arguments_of_def)
qed


theorem declared_arguments_decoded_witness:
  "fsStat id (RawDoc (JObj [(''path'', JNull)])) [] = fsStat id (RawDoc (JObj [])) []"
proof -
  obtain x where x: "x \<in> set (program_tools ''linux'' (\<lambda>_. []) (\<lambda>n a (w :: nat). (Inr (Plain JNull), w)) [])"
    "tName (snd x) = ''fs_stat''" "snd (arguments_of x) = [''path'']" using sample_declaration by blast
  then show ?thesis
    using declared_arguments_decoded [where ent = id and fs = "[]", OF x(1) refl refl] by simp
qed

end
