(* ===== verification/Spec2Isabelle.thy ===== *)
theory Spec2Isabelle
  imports StateStore AuditLog CapBuffer Jobs Targets Mcp RootBroker SessionBridge ProcessTools Files Watch Runtime SystemTools Desktop AnyApp BrowserRelay
    Termux Catalog Program ToolArguments Reports
begin

text \<open>
  A model of CyComAgent-MCP, a server that lets a language model work on the machine it runs on. The
  program is written in Go; the paths below are under \<open>src/\<close>.

  \<^bold>\<open>The program.\<close> A client speaks JSON-RPC over HTTP or over the standard streams
  (\<open>internal/mcp\<close>). A request to call a tool goes to the registry (\<open>internal/registry\<close>), which demands
  a reason, asks the interceptors, and runs the tool's handler. Two interceptors stand in front of every
  tool: the policy engine (\<open>internal/policy\<close>), which may refuse the call, and the audit log
  (\<open>internal/audit\<close>), which records it. The handlers (\<open>internal/tools\<close>) reach a store of values
  (\<open>internal/state\<close>), background jobs (\<open>internal/jobs\<close>), machines reached by ssh
  (\<open>internal/targets\<close>), external tools (\<open>internal/plugins\<close>), a process that runs commands as root
  (\<open>cmd/cycomagent-root\<close>, client \<open>internal/broker\<close>), a process inside the desktop session
  (\<open>internal/sessionbridge\<close>), the files, the screen and the input of the machine, a browser extension
  (\<open>cmd/cycom-browser-bridge\<close>), a backend for desktop applications, and the Termux commands of a phone.
  \<open>internal/runtime\<close> puts the parts together and \<open>cmd/cycomagent\<close> starts them.

  \<^bold>\<open>How the model is built.\<close> Go strings are byte strings; integers are \<open>int\<close>, with the wrap of 64-bit
  arithmetic written out where it can occur (\<open>Prelude.wrap64\<close>) and counters as 64-bit words; a Go map
  is an association list with distinct keys (\<open>gomap\<close>); an error is the call that built it; a fallible
  function returns \<open>goerr + 'a\<close>. A component's state is a record that its operations take and return; a
  panic is \<open>None\<close>. Components with goroutines are step relations, with executable runs beside them.
  What the code calls outside the repository is an argument of the definitions: the environment of a
  tool is a record of functions (\<open>host\<close>, \<open>exec_env\<close>, \<open>sys_env\<close>, \<open>dk_env\<close>, \<open>any_env\<close>, \<open>termux_env\<close>,
  \<open>report_env\<close>), over a state \<open>'w\<close> that stands for the rest of the machine, so that the order of effects
  shows.

  \<^bold>\<open>The theories.\<close>
  \<^item> \<open>Prelude\<close>, \<open>GoStrings\<close>, \<open>Json\<close>, \<open>Glob\<close>, \<open>Texts\<close>: errors, maps, 64-bit arithmetic, adapters that are
    tried in turn (locales \<open>table\<close> and \<open>adapter_loop\<close>); the packages \<open>strings\<close>, \<open>strconv\<close>, \<open>path\<close>;
    messages and their decoding; \<open>path.Match\<close>; base64, UTF-8 and text replacement.
  \<^item> \<open>Registry\<close>: \<open>internal/registry/registry.go\<close>. Schemas, \<open>Add\<close>, \<open>Upsert\<close>, the removals and \<open>call\<close>; the
    invariant \<open>registry_ok\<close> of every reachable registry; what a successful call must have carried.
  \<^item> \<open>Policy\<close>: \<open>internal/policy/policy.go\<close> and two tools of \<open>internal/tools/governance.go\<close>.
    \<open>BeforeCall\<close> with every branch, \<open>accepted_iff\<close> as its specification, loading and saving of the file;
    what each mode accepts, and where the check looks at other names than the handlers (\<open>spelled\<close>;
    \<open>privileged_case_bypass\<close>, \<open>SystemTools.readonly_requests\<close>).
  \<^item> \<open>AuditLog\<close>: \<open>internal/audit/logger.go\<close> and its tools. What a call leaves in the log, reading it back.
  \<^item> \<open>StateStore\<close>: \<open>internal/state/store.go\<close>, \<open>internal/tools/state.go\<close>. Paths, the four operations.
  \<^item> \<open>CapBuffer\<close>: the five writers with a limit, one locale \<open>capped_writer\<close> interpreted on each.
  \<^item> \<open>Exec\<close>: commands, environments (locale \<open>env_merger\<close>, interpreted on the four merges of the program),
    requests to run commands and their JSON.
  \<^item> \<open>Jobs\<close>, \<open>Watch\<close>: \<open>internal/jobs/manager.go\<close>, \<open>internal/tools/jobs.go\<close>. The table of jobs, every
    operation, recovery at a start; the goroutines that watch processes as steps, and that the end of a
    process is recorded.
  \<^item> \<open>Targets\<close>: \<open>internal/targets/manager.go\<close>, \<open>internal/tools/targets.go\<close>. The table, the command line for
    ssh and a grammar of the POSIX shell that reads it back, the tools.
  \<^item> \<open>Plugins\<close>: \<open>internal/plugins/loader.go\<close>. Manifests, loading into a registry, running an external tool.
  \<^item> \<open>Mcp\<close>: \<open>internal/mcp/server.go\<close>. Protocol versions, dispatch, HTTP with its checks, standard streams.
  \<^item> \<open>RootBroker\<close>, \<open>SessionBridge\<close>: both ends of the two helper processes, with who is served and the
    theorem that the client gets what the execution gave.
  \<^item> \<open>ProcessTools\<close>, \<open>Files\<close>, \<open>SystemTools\<close>, \<open>Reports\<close>, \<open>Desktop\<close>, \<open>Termux\<close>: the handlers of
    \<open>process.go\<close>, \<open>filesystem.go\<close>, \<open>system.go\<close> with \<open>session_control_linux.go\<close>, \<open>desktop.go\<close>,
    \<open>termux_api.go\<close> and \<open>termux_assistant.go\<close> in \<open>internal/tools\<close>. \<open>Host\<close> has \<open>internal/platform\<close> and
    \<open>internal/desktopruntime\<close>.
  \<^item> \<open>StdioMcp\<close>, \<open>AnyApp\<close>: \<open>stdio_mcp_linux.go\<close>, \<open>anyapp_linux.go\<close>: the client of a backend process and
    the desktop backend that uses it.
  \<^item> \<open>BrowserRelay\<close>: \<open>cmd/cycom-browser-bridge/main.go\<close> as a step relation of calls, readers and channels,
    and \<open>internal/tools/browser.go\<close>.
  \<^item> \<open>Runtime\<close>: \<open>internal/runtime/runtime.go\<close>, \<open>cmd/cycomagent/main.go\<close>. Settings, the start, the routes.
  \<^item> \<open>Catalog\<close>: what \<open>tools.Register\<close> declares on every platform, that it never panics, and the hints
    against the policy. \<open>ToolArguments\<close>: the declared arguments against the decoded ones.
  \<^item> \<open>Program\<close>: the registry of a started runtime with the tools that reach the state directory and all
    that readonly mode accepts (\<open>program_handler\<close>, \<open>reading_handlers\<close>), and what sequences of calls can do to
    its state. The handlers of the tools that readonly mode refuses are an argument there: the theorems hold
    whatever they do. They are modelled in the theories above.

  \<^bold>\<open>What the theorems show.\<close> In front of the tools: no call succeeds or changes anything without a reason;
  a call that is refused never runs its handler; an accepted call meets the configuration; every call is
  recorded once; over HTTP nothing runs without the checks. Across processes: who is served, that results
  arrive as they were, that a command runs in the domain that was asked for. In the components: invariants
  of the tables and of the clients, exact command lines, patches that fail without a trace, bounds, the
  end of every watched process. Over the whole program: in readonly mode no sequence of calls without
  \<open>desktop_capture\<close> and plugins changes anything but the audit log (\<open>readonly_mode_kept\<close>), and two ways in which modes are left: \<open>state_put\<close> can replace
  the policy file (\<open>safe_mode_left\<close>), and a failing screenshot can delete it (\<open>readonly_mode_lost\<close>).

  \<^bold>\<open>Bounds and fuel.\<close> Limits are those of the code: 2 MiB to 24 MiB for outputs and messages, 300 s and
  3600 s for times, 1 to 1000 events. \<open>Files.follow_links\<close> follows 40 links, the limit of the kernel, then
  fails with ELOOP as the kernel does; other loops are structural or have a measure.

  \<^bold>\<open>Parameters.\<close> SHA-256, the clock, the text of errors, the printing of a \<open>float64\<close>, regular expressions
  (\<open>compile\<close>), the parsing of URLs and addresses (\<open>origin\<close>, \<open>loopback\<close>), the resolution of a path by the
  kernel (\<open>ent\<close>), what a program that is run prints and how it ends, the failures of the system calls, and in \<open>Program\<close> the
  JSON documents of the answers of the tools that read (\<open>rdDocument\<close>). The
  hypotheses about them in the theorems are documented behaviour, such as that a removed file is gone, or that a request over the network or a Termux
  command that prints something leaves the state of the program alone (\<open>quiet\<close>).

  \<^bold>\<open>Not modelled.\<close> Listening, accepting and the upgrade to a web socket; signals, the log of the process and
  the security headers of the HTTP server; the page of the inspector; the texts of JSON (the model has parsed
  documents) beyond sizes and string literals; letters outside ASCII whose lower case is not ASCII; the stubs of
  other platforms, other than that they register nothing; \<open>plugins_reload\<close> in a running server, whose handler
  is modelled over a registry but not run inside \<open>call\<close>; interleavings other than those of the step
  relations, as every other operation holds a lock; tests, installers and the browser extension.
\<close>

end
